(* ===== verification/Go_Base.thy ===== *)
theory Go_Base
  imports Main "HOL-Library.AList" "HOL-Library.Word" "HOL-Library.Char_ord"
    "HOL-Library.List_Lexorder" "HOL-Library.Multiset"
begin

text \<open>
  The part of the Go language and of its standard library that the operator's sources use:
  strings as byte lists (packages \<open>strings\<close>, \<open>strconv\<close> and \<open>fmt\<close>), maps with their nil value,
  results with run-time panics and errors, and \<open>sort.Strings\<close>.  All functions on strings are
  written for ASCII bytes; a byte above 127 is left as it is by the case functions.
  The theory also holds the collections of rewrite rules (\<open>named_theorems\<close>) that the other
  theories add to, and the lemmas on lists and maps they share.
\<close>

named_theorems gomap_simps \<open>evaluation of Go maps\<close>
named_theorems gostr_simps \<open>evaluation of Go strings\<close>

section \<open>Results: panics and errors as values\<close>

datatype goerr =
    NilMapWrite            \<comment> \<open>panic: assignment to entry in nil map\<close>
  | IndexOutOfRange        \<comment> \<open>panic: index out of range\<close>
  | TypeAssertion          \<comment> \<open>panic: interface conversion\<close>
  | NilDereference         \<comment> \<open>panic: nil pointer dereference\<close>
  | Panic string           \<comment> \<open>a call of \<open>panic\<close> in a library\<close>
  | Failed string          \<comment> \<open>a returned \<open>error\<close> value, by its text\<close>
  | NotFound               \<comment> \<open>an API error that \<open>errors.IsNotFound\<close> recognises\<close>
  | AlreadyExists          \<comment> \<open>an API error that \<open>errors.IsAlreadyExists\<close> recognises\<close>

type_synonym 'a res = "goerr + 'a"

fun res_bind :: "'a res \<Rightarrow> ('a \<Rightarrow> 'b res) \<Rightarrow> 'b res" where
  "res_bind (Inl e) f = Inl e"
| "res_bind (Inr x) f = f x"

fun is_ok :: "'a res \<Rightarrow> bool" where
  "is_ok (Inl e) = False"
| "is_ok (Inr x) = True"

fun is_panic :: "'a res \<Rightarrow> bool" where
  "is_panic (Inl NilMapWrite) = True"
| "is_panic (Inl IndexOutOfRange) = True"
| "is_panic (Inl TypeAssertion) = True"
| "is_panic (Inl NilDereference) = True"
| "is_panic (Inl (Panic s)) = True"
| "is_panic _ = False"

lemma res_bind_Inr_iff [simp]:
  "res_bind m f = Inr y \<longleftrightarrow> (\<exists>x. m = Inr x \<and> f x = Inr y)"
  by (cases m) auto

lemma res_bind_assoc: "res_bind (res_bind m f) g = res_bind m (\<lambda>x. res_bind (f x) g)"
  by (cases m) auto

section \<open>Maps\<close>

text \<open>
  A Go map is either nil or a finite table.  The order of the entries stands for the order in
  which a \<open>range\<close> loop visits them, which Go leaves open: a statement about every entry list
  covers every iteration order.
\<close>

type_synonym 'v amap = "(string \<times> 'v) list"
type_synonym 'v gomap = "'v amap option"

definition entries :: "'v gomap \<Rightarrow> 'v amap" where
  "entries m = (case m of None \<Rightarrow> [] | Some al \<Rightarrow> al)"

definition mget :: "'v gomap \<Rightarrow> string \<Rightarrow> 'v option" where
  "mget m k = map_of (entries m) k"

text \<open>Reading a missing key of a \<open>map[string]string\<close> gives the zero value.\<close>

definition mstr :: "string gomap \<Rightarrow> string \<Rightarrow> string" where
  "mstr m k = (case mget m k of None \<Rightarrow> [] | Some v \<Rightarrow> v)"

definition mput :: "string \<Rightarrow> 'v \<Rightarrow> 'v gomap \<Rightarrow> 'v gomap res" where
  "mput k v m = (case m of None \<Rightarrow> Inl NilMapWrite | Some al \<Rightarrow> Inr (Some (AList.update k v al)))"

definition mdel :: "string \<Rightarrow> 'v gomap \<Rightarrow> 'v gomap" where
  "mdel k m = map_option (AList.delete k) m"

text \<open>\<open>m[k] = v\<close> for every entry of the second map, in its order, on a map known not to be nil.\<close>

definition put_all :: "'v amap \<Rightarrow> 'v amap \<Rightarrow> 'v amap" where
  "put_all new al = fold (\<lambda>(k, v). AList.update k v) new al"

text \<open>The loops that copy an entry only when the key is not in the target yet.\<close>

definition put_missing :: "'v amap \<Rightarrow> 'v amap \<Rightarrow> 'v amap" where
  "put_missing new al =
     fold (\<lambda>(k, v) acc. case map_of acc k of None \<Rightarrow> AList.update k v acc | Some _ \<Rightarrow> acc) new al"

abbreviation wf_amap :: "'v amap \<Rightarrow> bool" where
  "wf_amap al \<equiv> distinct (map fst al)"

definition wf_gomap :: "'v gomap \<Rightarrow> bool" where
  "wf_gomap m \<longleftrightarrow> wf_amap (entries m)"

lemma entries_simps [simp, gomap_simps]: "entries None = []" "entries (Some al) = al"
  by (simp_all add: entries_def)

lemma mget_None [simp, gomap_simps]: "mget None k = None"
  by (simp add: mget_def)

lemma mget_Some [simp]: "mget (Some al) k = map_of al k"
  by (simp add: mget_def)

lemma mput_None [simp]: "mput k v None = Inl NilMapWrite"
  by (simp add: mput_def)

lemma mput_Some [simp]: "mput k v (Some al) = Inr (Some (AList.update k v al))"
  by (simp add: mput_def)

lemma mdel_simps [simp]: "mdel k None = None" "mdel k (Some al) = Some (AList.delete k al)"
  by (simp_all add: mdel_def)

lemma mget_mdel: "mget (mdel k m) x = (if x = k then None else mget m x)"
  by (cases m) (auto simp: delete_conv')

lemma put_all_Nil [simp]: "put_all [] al = al"
  by (simp add: put_all_def)

lemma put_all_Cons [simp]: "put_all ((k, v) # new) al = put_all new (AList.update k v al)"
  by (simp add: put_all_def)

lemma wf_amap_put_all [simp]: "wf_amap al \<Longrightarrow> wf_amap (put_all new al)"
  by (induction new arbitrary: al) (auto simp: distinct_update)

lemma map_of_put_all:
  "wf_amap new \<Longrightarrow> map_of (put_all new al) k = (case map_of new k of None \<Rightarrow> map_of al k | Some v \<Rightarrow> Some v)"
proof (induction new arbitrary: al)
  case (Cons x new)
  obtain a b where x: "x = (a, b)" by (cases x)
  from Cons.prems x have "map_of new a = None" by (auto simp: map_of_eq_None_iff)
  with Cons x show ?case by (auto simp: update_conv' split: option.splits)
qed simp

lemma keys_put_all: "fst ` set (put_all new al) = fst ` set al \<union> fst ` set new"
proof (induction new arbitrary: al)
  case (Cons x new)
  obtain a b where x: "x = (a, b)" by (cases x)
  show ?case by (simp only: x put_all_Cons Cons.IH dom_update) auto
qed simp

lemma put_missing_Nil [simp]: "put_missing [] al = al"
  by (simp add: put_missing_def)

lemma put_missing_Cons [simp]:
  "put_missing ((k, v) # new) al =
     put_missing new (case map_of al k of None \<Rightarrow> AList.update k v al | Some _ \<Rightarrow> al)"
  by (simp add: put_missing_def)

lemma map_of_put_missing:
  "map_of (put_missing new al) k = (case map_of al k of None \<Rightarrow> map_of new k | Some v \<Rightarrow> Some v)"
proof (induction new arbitrary: al)
  case Nil
  then show ?case by (simp split: option.split)
next
  case (Cons x new)
  obtain a b where x: "x = (a, b)" by (cases x)
  show ?case
    by (cases "map_of al a") (auto simp: x Cons.IH update_conv' split: option.splits)
qed

lemma wf_amap_put_missing [simp]: "wf_amap al \<Longrightarrow> wf_amap (put_missing new al)"
  by (induction new arbitrary: al) (auto simp: distinct_update split: option.splits)

lemma wf_amap_delete [simp]: "wf_amap al \<Longrightarrow> wf_amap (AList.delete k al)"
  by (rule distinct_delete)

lemma find_SomeD: "find P xs = Some x \<Longrightarrow> P x \<and> x \<in> set xs"
  by (induction xs) (auto split: if_splits)

section \<open>Strings\<close>

fun HasPrefix :: "string \<Rightarrow> string \<Rightarrow> bool" where
  "HasPrefix s [] = True"
| "HasPrefix [] (p # ps) = False"
| "HasPrefix (c # cs) (p # ps) = (c = p \<and> HasPrefix cs ps)"

fun Contains :: "string \<Rightarrow> string \<Rightarrow> bool" where
  "Contains [] sub = (sub = [])"
| "Contains (c # cs) sub = (HasPrefix (c # cs) sub \<or> Contains cs sub)"

text \<open>\<open>strings.Index\<close> of a one-byte string: the text after the first occurrence, if any.\<close>

fun after_byte :: "char \<Rightarrow> string \<Rightarrow> string option" where
  "after_byte b [] = None"
| "after_byte b (c # cs) = (if c = b then Some cs else after_byte b cs)"

fun Split :: "char \<Rightarrow> string \<Rightarrow> string list" where
  "Split b [] = [[]]"
| "Split b (c # cs) =
     (if c = b then [] # Split b cs
      else (case Split b cs of [] \<Rightarrow> [[c]] | w # ws \<Rightarrow> (c # w) # ws))"

text \<open>\<open>strings.SplitN(s, b, 2)\<close>: the whole string when the separator does not occur.\<close>

fun SplitN2 :: "char \<Rightarrow> string \<Rightarrow> string list" where
  "SplitN2 b [] = [[]]"
| "SplitN2 b (c # cs) =
     (if c = b then [[], cs]
      else (case SplitN2 b cs of [] \<Rightarrow> [[c]] | w # ws \<Rightarrow> (c # w) # ws))"

fun Join :: "string \<Rightarrow> string list \<Rightarrow> string" where
  "Join sep [] = []"
| "Join sep [w] = w"
| "Join sep (w # ws) = w @ sep @ Join sep ws"

definition upper_char :: "char \<Rightarrow> bool" where
  "upper_char c \<longleftrightarrow> 65 \<le> (of_char c :: nat) \<and> (of_char c :: nat) \<le> 90"

definition lower_char :: "char \<Rightarrow> bool" where
  "lower_char c \<longleftrightarrow> 97 \<le> (of_char c :: nat) \<and> (of_char c :: nat) \<le> 122"

definition digit_char :: "char \<Rightarrow> bool" where
  "digit_char c \<longleftrightarrow> 48 \<le> (of_char c :: nat) \<and> (of_char c :: nat) \<le> 57"

definition alnum_char :: "char \<Rightarrow> bool" where
  "alnum_char c \<longleftrightarrow> upper_char c \<or> lower_char c \<or> digit_char c"

definition lower_byte :: "char \<Rightarrow> char" where
  "lower_byte c = (if upper_char c then char_of ((of_char c :: nat) + 32) else c)"

definition ToLower :: "string \<Rightarrow> string" where
  "ToLower s = map lower_byte s"

definition EqualFold :: "string \<Rightarrow> string \<Rightarrow> bool" where
  "EqualFold s t \<longleftrightarrow> ToLower s = ToLower t"

definition space_char :: "char \<Rightarrow> bool" where
  "space_char c \<longleftrightarrow> (of_char c :: nat) \<in> {9, 10, 11, 12, 13, 32}"

definition TrimSpace :: "string \<Rightarrow> string" where
  "TrimSpace s = rev (dropWhile space_char (rev (dropWhile space_char s)))"

definition SortStrings :: "string list \<Rightarrow> string list" where
  "SortStrings xs = sort xs"

lemma HasPrefix_iff: "HasPrefix s p \<longleftrightarrow> take (length p) s = p"
  by (induction s p rule: HasPrefix.induct) auto

lemma HasPrefix_append [simp]: "HasPrefix (p @ s) p"
  by (simp add: HasPrefix_iff)

lemma HasPrefix_trans: "HasPrefix s p \<Longrightarrow> HasPrefix p q \<Longrightarrow> HasPrefix s q"
  by (metis HasPrefix_iff append_take_drop_id length_take min_def take_append take_all_iff
      diff_is_0_eq' nat_le_linear take_0 append_Nil2)

lemma Split_not_Nil [simp]: "Split b s \<noteq> []"
  by (cases s) (auto split: list.splits)

lemma Join_Split: "Join [b] (Split b s) = s"
proof (induction b s rule: Split.induct)
  case (2 b c cs)
  obtain w ws where "Split b cs = w # ws" by (cases "Split b cs") auto
  with 2 show ?case by (cases ws) auto
qed simp

lemma Split_no_sep: "w \<in> set (Split b s) \<Longrightarrow> b \<notin> set w"
proof (induction b s arbitrary: w rule: Split.induct)
  case (2 b c cs)
  obtain v ws where "Split b cs = v # ws" by (cases "Split b cs") auto
  with 2 show ?case by (auto split: if_splits)
qed simp

lemma Split_single: "b \<notin> set w \<Longrightarrow> Split b w = [w]"
  by (induction w) auto

lemma Split_append_sep: "b \<notin> set w \<Longrightarrow> Split b (w @ b # s) = w # Split b s"
  by (induction w) auto

lemma Split_Join: "ws \<noteq> [] \<Longrightarrow> \<forall>w \<in> set ws. b \<notin> set w \<Longrightarrow> Split b (Join [b] ws) = ws"
  by (induction "[b]" ws rule: Join.induct) (auto simp: Split_single Split_append_sep)

lemma SplitN2_append_sep: "b \<notin> set w \<Longrightarrow> SplitN2 b (w @ b # s) = [w, s]"
  by (induction w) auto

lemma SortStrings_cong: "mset xs = mset ys \<Longrightarrow> SortStrings xs = SortStrings ys"
  by (simp add: SortStrings_def properties_for_sort)

lemma set_SortStrings [simp]: "set (SortStrings xs) = set xs"
  by (simp add: SortStrings_def)

lemma mset_SortStrings [simp]: "mset (SortStrings xs) = mset xs"
  by (simp add: SortStrings_def)

lemma ToLower_append [simp]: "ToLower (s @ t) = ToLower s @ ToLower t"
  by (simp add: ToLower_def)

lemma EqualFold_refl [simp]: "EqualFold s s"
  by (simp add: EqualFold_def)

lemma EqualFold_sym: "EqualFold s t \<Longrightarrow> EqualFold t s"
  by (simp add: EqualFold_def)

lemma EqualFold_trans: "EqualFold s t \<Longrightarrow> EqualFold t u \<Longrightarrow> EqualFold s u"
  by (simp add: EqualFold_def)

lemma EqualFold_Nil [simp]: "EqualFold s [] \<longleftrightarrow> s = []" "EqualFold [] s \<longleftrightarrow> s = []"
  by (auto simp: EqualFold_def ToLower_def)

end
