(* ===== verification/Go_Strconv.thy ===== *)
theory Go_Strconv
  imports Go_Base
begin

text \<open>
  Package \<open>strconv\<close> (decimal integers at a bit width, booleans) and the part of \<open>fmt.Sprintf\<close>
  that the operator uses: string operands, \<open>%%\<close>, missing and surplus operands.  Flags, widths
  and explicit argument indexes of a format are not modelled.
\<close>

section \<open>Decimal numbers\<close>

definition digit_of :: "nat \<Rightarrow> char" where
  "digit_of d = char_of (48 + d)"

fun nat_digits :: "nat \<Rightarrow> string" where
  "nat_digits n = (if n < 10 then [digit_of n] else nat_digits (n div 10) @ [digit_of (n mod 10)])"

declare nat_digits.simps [simp del]

lemma digit_of_literals [simp]:
  "digit_of 0 = CHR ''0''" "digit_of (Suc 0) = CHR ''1''" "digit_of 1 = CHR ''1''" "digit_of 2 = CHR ''2''"
  "digit_of 3 = CHR ''3''" "digit_of 4 = CHR ''4''" "digit_of 5 = CHR ''5''" "digit_of 6 = CHR ''6''"
  "digit_of 7 = CHR ''7''" "digit_of 8 = CHR ''8''" "digit_of 9 = CHR ''9''"
  by code_simp+

definition Itoa :: "int \<Rightarrow> string" where
  "Itoa i = (if i < 0 then CHR ''-'' # nat_digits (nat (- i)) else nat_digits (nat i))"

text \<open>The digit loop of \<open>ParseUint\<close> in base ten: \<open>None\<close> is a syntax error.\<close>

fun digits_val :: "nat \<Rightarrow> string \<Rightarrow> nat option" where
  "digits_val acc [] = Some acc"
| "digits_val acc (c # cs) =
     (if digit_char c then digits_val (10 * acc + ((of_char c :: nat) - 48)) cs else None)"

text \<open>\<open>strconv.ParseInt(s, 10, bits)\<close>; \<open>None\<close> is a syntax or a range error.\<close>

definition ParseInt :: "nat \<Rightarrow> string \<Rightarrow> int option" where
  "ParseInt bits s =
     (let (neg, ds) = (case s of
            [] \<Rightarrow> (False, [])
          | c # cs \<Rightarrow> if c = CHR ''-'' then (True, cs)
                      else if c = CHR ''+'' then (False, cs) else (False, s))
      in if ds = [] then None
         else case digits_val 0 ds of
             None \<Rightarrow> None
           | Some u \<Rightarrow>
               if neg then (if u \<le> 2 ^ (bits - 1) then Some (- int u) else None)
               else (if u < 2 ^ (bits - 1) then Some (int u) else None))"

definition Atoi :: "string \<Rightarrow> int option" where
  "Atoi s = ParseInt 64 s"

lemma digit_char_digit_of: "d < 10 \<Longrightarrow> digit_char (digit_of d)"
  by (simp add: digit_char_def digit_of_def)

lemma of_char_digit_of: "d < 10 \<Longrightarrow> (of_char (digit_of d) :: nat) = 48 + d"
  by (simp add: digit_of_def)

lemma digits_val_append:
  "digits_val acc (s @ t) = (case digits_val acc s of None \<Rightarrow> None | Some a \<Rightarrow> digits_val a t)"
  by (induction acc s rule: digits_val.induct) auto

lemma digits_val_nat_digits: "digits_val 0 (nat_digits n) = Some n"
proof (induction n rule: nat_digits.induct)
  case (1 n)
  show ?case
  proof (cases "n < 10")
    case True
    then show ?thesis
      by (simp add: nat_digits.simps [of n] digit_char_digit_of of_char_digit_of)
  next
    case False
    with "1.IH" show ?thesis
      by (simp add: nat_digits.simps [of n] digits_val_append digit_char_digit_of of_char_digit_of)
  qed
qed

lemma nat_digits_digits: "\<forall>c \<in> set (nat_digits n). digit_char c"
proof (induction n rule: nat_digits.induct)
  case (1 n)
  then show ?case
    by (subst nat_digits.simps) (auto simp: digit_char_digit_of)
qed

lemma nat_digits_not_Nil [simp]: "nat_digits n \<noteq> []"
  by (subst nat_digits.simps) simp

lemma nat_digits_hd: "\<exists>c cs. nat_digits n = c # cs \<and> digit_char c"
  using nat_digits_digits [of n] by (cases "nat_digits n") auto

lemma sign_not_digit [simp]: "\<not> digit_char (CHR ''-'')" "\<not> digit_char (CHR ''+'')"
  by (simp_all add: digit_char_def)

lemma ParseInt_Itoa:
  assumes "- (2 ^ (bits - 1)) \<le> i" "i < 2 ^ (bits - 1)"
  shows "ParseInt bits (Itoa i) = Some i"
proof (cases "i < 0")
  case True
  then have "nat (- i) \<le> 2 ^ (bits - 1)"
    using assms by (simp add: nat_le_iff)
  with True show ?thesis
    by (simp add: ParseInt_def Itoa_def digits_val_nat_digits)
next
  case False
  obtain c cs where d: "nat_digits (nat i) = c # cs" "digit_char c"
    using nat_digits_hd by blast
  then have "c \<noteq> CHR ''-''" "c \<noteq> CHR ''+''" by auto
  moreover have "digits_val 0 (c # cs) = Some (nat i)"
    using digits_val_nat_digits [of "nat i"] d by simp
  moreover have "nat i < 2 ^ (bits - 1)"
    using assms False by (simp add: nat_less_iff)
  ultimately show ?thesis
    using False d by (simp add: ParseInt_def Itoa_def)
qed

lemma nat_bound_int: "u < 2 ^ k \<Longrightarrow> int u < 2 ^ k" "u \<le> 2 ^ k \<Longrightarrow> int u \<le> 2 ^ k"
  by (metis of_nat_less_iff of_nat_numeral of_nat_power)
    (metis of_nat_le_iff of_nat_numeral of_nat_power)

lemma ParseInt_cases:
  assumes "ParseInt bits s = Some i"
  obtains (neg) u where "i = - int u" "u \<le> 2 ^ (bits - 1)"
    | (pos) u where "i = int u" "u < 2 ^ (bits - 1)"
  using assms unfolding ParseInt_def Let_def
  by (simp split: prod.splits list.splits if_splits option.splits) blast+

lemma ParseInt_range:
  assumes "ParseInt bits s = Some i"
  shows "- (2 ^ (bits - 1)) \<le> i \<and> i < 2 ^ (bits - 1)"
  using assms
proof (cases rule: ParseInt_cases)
  case (neg u)
  then have "int u \<le> 2 ^ (bits - 1)" by (blast intro: nat_bound_int)
  with neg show ?thesis by (simp add: order.strict_trans1 [of "- int u" 0])
next
  case (pos u)
  then have "int u < 2 ^ (bits - 1)" by (blast intro: nat_bound_int)
  moreover have "- (2 ^ (bits - 1)) \<le> (0::int)" by simp
  ultimately show ?thesis using pos by linarith
qed

section \<open>Booleans\<close>

definition FormatBool :: "bool \<Rightarrow> string" where
  "FormatBool b = (if b then ''true'' else ''false'')"

definition ParseBool :: "string \<Rightarrow> bool option" where
  "ParseBool s =
     (if s \<in> set [''1'', ''t'', ''T'', ''TRUE'', ''true'', ''True''] then Some True
      else if s \<in> set [''0'', ''f'', ''F'', ''FALSE'', ''false'', ''False''] then Some False
      else None)"

lemma ParseBool_FormatBool: "ParseBool (FormatBool b) = Some b"
  by (simp add: ParseBool_def FormatBool_def)

section \<open>Formatting\<close>

fun extra_operands :: "string list \<Rightarrow> string" where
  "extra_operands [] = []"
| "extra_operands (a # as) =
     ''%!(EXTRA '' @ Join '', '' (map (\<lambda>x. ''string='' @ x) (a # as)) @ '')''"

fun Sprintf :: "string \<Rightarrow> string list \<Rightarrow> string" where
  "Sprintf [] as = extra_operands as"
| "Sprintf (c # f) as =
     (if c \<noteq> CHR ''%'' then c # Sprintf f as
      else case f of
          [] \<Rightarrow> ''%!(NOVERB)'' @ extra_operands as
        | v # f' \<Rightarrow>
            if v = CHR ''%'' then CHR ''%'' # Sprintf f' as
            else case as of
                [] \<Rightarrow> ''%!'' @ v # ''(MISSING)'' @ Sprintf f' []
              | a # as' \<Rightarrow>
                  (if v = CHR ''s'' \<or> v = CHR ''v'' then a
                   else ''%!'' @ v # ''(string='' @ a @ '')'') @ Sprintf f' as')"

text \<open>A format without \<open>%\<close> is printed as it is.\<close>

lemma Sprintf_plain: "CHR ''%'' \<notin> set f \<Longrightarrow> Sprintf f [] = f"
  by (induction f) auto

lemma Sprintf_s: "CHR ''%'' \<notin> set f \<Longrightarrow> Sprintf (''%s'' @ f) [a] = a @ f"
  by (simp add: Sprintf_plain)

end
