(* ===== verification/Go_Json.thy ===== *)
theory Go_Json
  imports Go_Strconv
begin

text \<open>
  Dynamically typed Go values (\<open>interface{}\<close>) and package \<open>encoding/json\<close> on them: \<open>Marshal\<close>
  of a tree of maps, slices, strings, numbers, booleans and nil, and \<open>Unmarshal\<close> of a JSON text.
  A number is kept as its JSON text, so the rounding of a number to \<open>float64\<close> is not modelled.
\<close>

datatype iface =
    INil
  | IBool bool
  | INum string             \<comment> \<open>a number, by its decimal text\<close>
  | IStr string
  | IStrs "string list"     \<comment> \<open>a \<open>[]string\<close>\<close>
  | IArr "iface list"       \<comment> \<open>a \<open>[]interface{}\<close>\<close>
  | IObj "(string \<times> iface) list"   \<comment> \<open>a \<open>map[string]interface{}\<close>\<close>

section \<open>Marshal\<close>

definition hex_digit :: "nat \<Rightarrow> char" where
  "hex_digit d = (if d < 10 then char_of (48 + d) else char_of (87 + d))"

definition u_escape :: "nat \<Rightarrow> string" where
  "u_escape n = CHR 0x5C # ''u00'' @ [hex_digit (n div 16), hex_digit (n mod 16)]"

definition escape_byte :: "char \<Rightarrow> string" where
  "escape_byte c =
     (let n = (of_char c :: nat) in
      if n = 34 \<or> n = 92 then [CHR 0x5C, c]
      else if n = 8 then [CHR 0x5C, CHR ''b''] else if n = 12 then [CHR 0x5C, CHR ''f'']
      else if n = 10 then [CHR 0x5C, CHR ''n''] else if n = 13 then [CHR 0x5C, CHR ''r''] else if n = 9 then [CHR 0x5C, CHR ''t'']
      else if n < 32 \<or> n = 60 \<or> n = 62 \<or> n = 38 then u_escape n
      else [c])"

definition quote_json :: "string \<Rightarrow> string" where
  "quote_json s = CHR 0x22 # concat (map escape_byte s) @ [CHR 0x22]"

definition sort_entries :: "(string \<times> 'v) list \<Rightarrow> (string \<times> 'v) list" where
  "sort_entries al = sort_key fst al"

fun Marshal :: "iface \<Rightarrow> string" where
  "Marshal INil = ''null''"
| "Marshal (IBool b) = FormatBool b"
| "Marshal (INum t) = t"
| "Marshal (IStr s) = quote_json s"
| "Marshal (IStrs ss) = CHR ''['' # Join '','' (map quote_json ss) @ '']''"
| "Marshal (IArr vs) = CHR ''['' # Join '','' (map Marshal vs) @ '']''"
| "Marshal (IObj al) =
     CHR ''{'' # Join '','' (map snd (sort_entries
        (map (\<lambda>(k, v). (k, quote_json k @ '':'' @ Marshal v)) al))) @ ''}''"

section \<open>Unmarshal\<close>

definition json_space :: "char \<Rightarrow> bool" where
  "json_space c \<longleftrightarrow> (of_char c :: nat) \<in> {9, 10, 13, 32}"

definition jskip :: "string \<Rightarrow> string" where
  "jskip s = dropWhile json_space s"

definition hex_val :: "char \<Rightarrow> nat option" where
  "hex_val c = (let n = (of_char c :: nat) in
     if 48 \<le> n \<and> n \<le> 57 then Some (n - 48)
     else if 97 \<le> n \<and> n \<le> 102 then Some (n - 87)
     else if 65 \<le> n \<and> n \<le> 70 then Some (n - 55)
     else None)"

definition hex4 :: "char \<Rightarrow> char \<Rightarrow> char \<Rightarrow> char \<Rightarrow> nat option" where
  "hex4 a b c d =
     (case (hex_val a, hex_val b, hex_val c, hex_val d) of
        (Some w, Some x, Some y, Some z) \<Rightarrow> Some (((w * 16 + x) * 16 + y) * 16 + z)
      | _ \<Rightarrow> None)"

definition utf8 :: "nat \<Rightarrow> string" where
  "utf8 n =
     (if n < 128 then [char_of n]
      else if n < 2048 then map char_of [192 + n div 64, 128 + n mod 64]
      else if n < 65536 then map char_of [224 + n div 4096, 128 + n div 64 mod 64, 128 + n mod 64]
      else map char_of [240 + n div 262144, 128 + n div 4096 mod 64, 128 + n div 64 mod 64,
                        128 + n mod 64])"

text \<open>A lone surrogate is replaced by U+FFFD; a pair of surrogates is one code point.\<close>

definition rune_of :: "nat \<Rightarrow> nat" where
  "rune_of n = (if 55296 \<le> n \<and> n < 57344 then 65533 else n)"

definition surrogates :: "nat \<Rightarrow> nat \<Rightarrow> nat option" where
  "surrogates h l =
     (if 55296 \<le> h \<and> h < 56320 \<and> 56320 \<le> l \<and> l < 57344
      then Some (65536 + (h - 55296) * 1024 + (l - 56320)) else None)"

fun short_escape :: "char \<Rightarrow> char option" where
  "short_escape e =
     (if e \<in> set [CHR 0x22, CHR 0x5C, CHR ''/''] then Some e
      else if e = CHR ''b'' then Some (char_of (8::nat))
      else if e = CHR ''f'' then Some (char_of (12::nat))
      else if e = CHR ''n'' then Some (char_of (10::nat))
      else if e = CHR ''r'' then Some (char_of (13::nat))
      else if e = CHR ''t'' then Some (char_of (9::nat))
      else None)"

definition push_str :: "string \<Rightarrow> (string \<times> string) option \<Rightarrow> (string \<times> string) option" where
  "push_str p r = map_option (\<lambda>(s, t). (p @ s, t)) r"

text \<open>The body of a string literal, after its opening quote: the decoded text and the rest.\<close>

function jstr :: "string \<Rightarrow> (string \<times> string) option" where
  "jstr s = (case s of
     [] \<Rightarrow> None
   | c # cs \<Rightarrow>
      if c = CHR 0x22 then Some ([], cs)
      else if (of_char c :: nat) < 32 then None
      else if c \<noteq> CHR 0x5C then push_str [c] (jstr cs)
      else (case cs of
          [] \<Rightarrow> None
        | e # r \<Rightarrow>
            if e = CHR ''u'' then
              (case r of
                 a # b # x # y # r' \<Rightarrow>
                   (case hex4 a b x y of
                      None \<Rightarrow> None
                    | Some n \<Rightarrow>
                        (case r' of
                           bs # u # a2 # b2 # x2 # y2 # r'' \<Rightarrow>
                             (case (if bs = CHR 0x5C \<and> u = CHR ''u''
                                    then Option.bind (hex4 a2 b2 x2 y2) (surrogates n) else None) of
                                Some p \<Rightarrow> push_str (utf8 p) (jstr r'')
                              | None \<Rightarrow> push_str (utf8 (rune_of n)) (jstr r'))
                         | _ \<Rightarrow> push_str (utf8 (rune_of n)) (jstr r')))
               | _ \<Rightarrow> None)
            else (case short_escape e of
                None \<Rightarrow> None
              | Some x \<Rightarrow> push_str [x] (jstr r))))"
  by pat_completeness auto
termination
  by (relation "measure length") auto

declare jstr.simps [simp del]

definition jdigits :: "string \<Rightarrow> (string \<times> string) option" where
  "jdigits s = (case takeWhile digit_char s of [] \<Rightarrow> None | ds \<Rightarrow> Some (ds, dropWhile digit_char s))"

definition jint :: "string \<Rightarrow> (string \<times> string) option" where
  "jint s = (case s of
     [] \<Rightarrow> None
   | c # cs \<Rightarrow> if c = CHR ''0'' then Some ([c], cs) else jdigits s)"

definition jfrac :: "string \<Rightarrow> (string \<times> string) option" where
  "jfrac s = (case s of
     [] \<Rightarrow> Some ([], s)
   | c # cs \<Rightarrow> if c = CHR ''.'' then push_str [c] (jdigits cs) else Some ([], s))"

definition jexp :: "string \<Rightarrow> (string \<times> string) option" where
  "jexp s = (case s of
     [] \<Rightarrow> Some ([], s)
   | c # cs \<Rightarrow>
       if c = CHR ''e'' \<or> c = CHR ''E'' then
         (case cs of
            [] \<Rightarrow> None
          | g # r \<Rightarrow> if g = CHR ''+'' \<or> g = CHR ''-'' then push_str [c, g] (jdigits r)
                     else push_str [c] (jdigits cs))
       else Some ([], s))"

definition jnum :: "string \<Rightarrow> (string \<times> string) option" where
  "jnum s =
     (let (sg, r) = (case s of c # cs \<Rightarrow> if c = CHR ''-'' then ([c], cs) else ([], s) | [] \<Rightarrow> ([], s))
      in case jint r of None \<Rightarrow> None
       | Some (i, r1) \<Rightarrow>
         (case jfrac r1 of None \<Rightarrow> None
          | Some (f, r2) \<Rightarrow> (case jexp r2 of None \<Rightarrow> None
             | Some (e, r3) \<Rightarrow> Some (sg @ i @ f @ e, r3))))"

definition jlit :: "string \<Rightarrow> iface \<Rightarrow> string \<Rightarrow> (iface \<times> string) option" where
  "jlit w v s = (if HasPrefix s w then Some (v, drop (length w) s) else None)"

text \<open>
  The recursive descent.  Every call spends one unit of fuel; \<open>Unmarshal\<close> starts it with two units
  per byte, and every level of the recursion consumes at least a byte.
\<close>

fun jval :: "nat \<Rightarrow> string \<Rightarrow> (iface \<times> string) option"
  and jarr :: "nat \<Rightarrow> string \<Rightarrow> (iface list \<times> string) option"
  and jobj :: "nat \<Rightarrow> string \<Rightarrow> ((string \<times> iface) list \<times> string) option" where
  "jval 0 s = None"
| "jval (Suc n) s = (case jskip s of
     [] \<Rightarrow> None
   | c # cs \<Rightarrow>
      if c = CHR ''{'' then
        (case jskip cs of
           [] \<Rightarrow> None
         | d # ds \<Rightarrow> if d = CHR ''}'' then Some (IObj [], ds)
                     else map_option (\<lambda>(al, r). (IObj (put_all al []), r)) (jobj n cs))
      else if c = CHR ''['' then
        (case jskip cs of
           [] \<Rightarrow> None
         | d # ds \<Rightarrow> if d = CHR '']'' then Some (IArr [], ds)
                     else map_option (\<lambda>(vs, r). (IArr vs, r)) (jarr n cs))
      else if c = CHR 0x22 then map_option (\<lambda>(t, r). (IStr t, r)) (jstr cs)
      else if c = CHR ''t'' then jlit ''true'' (IBool True) (c # cs)
      else if c = CHR ''f'' then jlit ''false'' (IBool False) (c # cs)
      else if c = CHR ''n'' then jlit ''null'' INil (c # cs)
      else map_option (\<lambda>(t, r). (INum t, r)) (jnum (c # cs)))"
| "jarr 0 s = None"
| "jarr (Suc n) s = (case jval n s of
     None \<Rightarrow> None
   | Some (v, r) \<Rightarrow>
      (case jskip r of
         [] \<Rightarrow> None
       | d # ds \<Rightarrow>
          if d = CHR '']'' then Some ([v], ds)
          else if d = CHR '','' then map_option (\<lambda>(vs, t). (v # vs, t)) (jarr n ds)
          else None))"
| "jobj 0 s = None"
| "jobj (Suc n) s = (case jskip s of
     [] \<Rightarrow> None
   | q # qs \<Rightarrow>
      if q \<noteq> CHR 0x22 then None
      else (case jstr qs of
          None \<Rightarrow> None
        | Some (k, r) \<Rightarrow>
           (case jskip r of
              [] \<Rightarrow> None
            | d # ds \<Rightarrow>
               if d \<noteq> CHR '':'' then None
               else (case jval n ds of
                   None \<Rightarrow> None
                 | Some (v, r2) \<Rightarrow>
                    (case jskip r2 of
                       [] \<Rightarrow> None
                     | e # es \<Rightarrow>
                        if e = CHR ''}'' then Some ([(k, v)], es)
                        else if e = CHR '','' then map_option (\<lambda>(al, t). ((k, v) # al, t)) (jobj n es)
                        else None)))))"

definition Unmarshal :: "string \<Rightarrow> iface option" where
  "Unmarshal s = (case jval (2 * length s + 1) s of
     None \<Rightarrow> None
   | Some (v, r) \<Rightarrow> if jskip r = [] then Some v else None)"

end
