(* ===== verification/Jaeger_Options.thy ===== *)
theory Jaeger_Options
  imports Go_Json
begin

text \<open>
  Package \<open>apis/v1\<close>: the \<open>Options\<close> type (a flattened map of command line flags) and the \<open>FreeForm\<close>
  type (a JSON document kept as it is), from \<open>options.go\<close> and \<open>freeform.go\<close>.  The lemmas relate
  the recursive flattening to the list of dotted leaves of a tree, show which round trips hold,
  and that the generated arguments do not depend on the iteration order of Go maps once sorted.
\<close>

section \<open>Options: definitions\<close>

text \<open>\<open>Values\<close> holds a string or a slice of strings for each key.\<close>

datatype optval = OStr string | OList "string list"

record Options =
  opts :: "optval gomap"
  json :: "string option"

definition Options0 :: Options where
  "Options0 = \<lparr>opts = None, json = None\<rparr>"

fun Values_DeepCopy :: "optval amap \<Rightarrow> optval amap" where
  "Values_DeepCopy [] = []"
| "Values_DeepCopy ((key, OStr val) # al) = (key, OStr val) # Values_DeepCopy al"
| "Values_DeepCopy ((key, OList val) # al) = (key, OList ([] @ val)) # Values_DeepCopy al"

text \<open>\<open>fmt.Sprintf("%v", value)\<close> of a value that is neither a map nor a \<open>[]interface{}\<close>.\<close>

fun sprint_v :: "iface \<Rightarrow> string" where
  "sprint_v (IBool b) = FormatBool b"
| "sprint_v (INum t) = t"
| "sprint_v (IStr s) = s"
| "sprint_v (IStrs ss) = ''['' @ Join '' '' ss @ '']''"
| "sprint_v _ = ''<nil>''"

fun string_values :: "iface list \<Rightarrow> string list option" where
  "string_values [] = Some []"
| "string_values (IStr s # vs) = map_option (\<lambda>ss. s # ss) (string_values vs)"
| "string_values (_ # vs) = None"

fun entry :: "optval amap \<Rightarrow> string \<Rightarrow> iface \<Rightarrow> optval amap res"
  and entry_map :: "optval amap \<Rightarrow> string \<Rightarrow> (string \<times> iface) list \<Rightarrow> optval amap res" where
  "entry es key (IObj val) = entry_map es key val"
| "entry es key (IArr val) =
     (case string_values val of
        None \<Rightarrow> Inl (Failed ''invalid option type'')
      | Some values \<Rightarrow> Inr (AList.update key (OList values) es))"
| "entry es key INil = Inr es"
| "entry es key value = Inr (AList.update key (OStr (sprint_v value)) es)"
| "entry_map es key [] = Inr es"
| "entry_map es key ((k, v) # al) =
     res_bind (entry es (key @ ''.'' @ k) v) (\<lambda>es'. entry_map es' key al)"

fun parse_entries :: "optval amap \<Rightarrow> (string \<times> iface) list \<Rightarrow> optval amap res" where
  "parse_entries es [] = Inr es"
| "parse_entries es ((k, v) # al) = res_bind (entry es k v) (\<lambda>es'. parse_entries es' al)"

text \<open>\<open>parse\<close> leaves a nil map behind when an entry is refused.\<close>

definition parse :: "iface gomap \<Rightarrow> goerr option \<times> Options" where
  "parse m = (case parse_entries [] (entries m) of
     Inl e \<Rightarrow> (Some e, \<lparr>opts = None, json = None\<rparr>)
   | Inr es \<Rightarrow> (None, \<lparr>opts = Some es, json = None\<rparr>))"

definition NewOptions :: "iface gomap \<Rightarrow> Options" where
  "NewOptions o' = snd (parse o')"

definition Filter :: "Options \<Rightarrow> string \<Rightarrow> Options" where
  "Filter o' prefix =
     (let archivePrefix = prefix @ ''-archive.''; p = prefix @ ''.''
      in \<lparr>opts = Some (filter (\<lambda>(k, v). HasPrefix k p \<or> HasPrefix k archivePrefix) (entries (opts o'))),
          json = None\<rparr>)"

text \<open>
  \<open>json.Decoder.Decode\<close> into a map reads the first JSON value of the text; \<open>null\<close> gives a nil map.
\<close>

definition Decode_map :: "string \<Rightarrow> iface gomap res" where
  "Decode_map b = (case jval (2 * length b + 1) b of
     Some (IObj al, _) \<Rightarrow> Inr (Some al)
   | Some (INil, _) \<Rightarrow> Inr None
   | _ \<Rightarrow> Inl (Failed ''json''))"

definition UnmarshalJSON :: "string \<Rightarrow> Options \<Rightarrow> goerr option \<times> Options" where
  "UnmarshalJSON b o' = (case Decode_map b of
     Inl e \<Rightarrow> (Some e, o')
   | Inr m \<Rightarrow> (case parse m of
        (Some e, o'') \<Rightarrow> (Some e, o'')
      | (None, o'') \<Rightarrow> (None, o''\<lparr>json := Some b\<rparr>)))"

fun iface_of :: "optval \<Rightarrow> iface" where
  "iface_of (OStr s) = IStr s"
| "iface_of (OList ss) = IStrs ss"

definition MarshalJSON :: "Options \<Rightarrow> string" where
  "MarshalJSON o' = (case json o' of
     Some j \<Rightarrow> j
   | None \<Rightarrow> if entries (opts o') = [] then ''{}''
             else Marshal (IObj (map (\<lambda>(k, v). (k, iface_of v)) (entries (opts o')))))"

fun arg_of :: "string \<times> optval \<Rightarrow> string list" where
  "arg_of (k, OStr v) = [''--'' @ k @ ''='' @ v]"
| "arg_of (k, OList vs) = map (\<lambda>vv. ''--'' @ k @ ''='' @ vv) vs"

definition ToArgs :: "Options \<Rightarrow> string list" where
  "ToArgs o' = concat (map arg_of (entries (opts o')))"

definition Map_opts :: "Options \<Rightarrow> optval gomap" where
  "Map_opts o' = opts o'"

definition StringMap :: "Options \<Rightarrow> string amap" where
  "StringMap o' =
     List.map_filter (\<lambda>(k, v). case v of OStr s \<Rightarrow> Some (k, s) | OList _ \<Rightarrow> None) (entries (opts o'))"

definition GenericMap :: "Options \<Rightarrow> iface amap" where
  "GenericMap o' = map (\<lambda>(k, v). (k, iface_of v)) (entries (opts o'))"

section \<open>FreeForm: definitions\<close>

record FreeForm =
  ff_json :: "string option"

definition FreeForm0 :: FreeForm where
  "FreeForm0 = \<lparr>ff_json = None\<rparr>"

definition NewFreeForm :: "iface gomap \<Rightarrow> FreeForm" where
  "NewFreeForm o' = (case o' of
     None \<Rightarrow> \<lparr>ff_json = None\<rparr>
   | Some al \<Rightarrow> \<lparr>ff_json = Some (Marshal (IObj al))\<rparr>)"

definition FreeForm_UnmarshalJSON :: "string \<Rightarrow> FreeForm" where
  "FreeForm_UnmarshalJSON b = \<lparr>ff_json = Some b\<rparr>"

definition FreeForm_MarshalJSON :: "FreeForm \<Rightarrow> string" where
  "FreeForm_MarshalJSON f = (case ff_json f of
     None \<Rightarrow> ''{}'' | Some j \<Rightarrow> if length j = 0 then ''{}'' else j)"

definition IsEmpty :: "FreeForm \<Rightarrow> bool" where
  "IsEmpty f = (case ff_json f of None \<Rightarrow> True | Some j \<Rightarrow> length j = 0 \<or> j = ''{}'')"

definition GetMap :: "FreeForm \<Rightarrow> iface gomap res" where
  "GetMap f = (case ff_json f of
     None \<Rightarrow> Inr (Some [])
   | Some j \<Rightarrow> (case Unmarshal j of
        Some (IObj al) \<Rightarrow> Inr (Some al)
      | Some INil \<Rightarrow> Inr None
      | _ \<Rightarrow> Inl (Failed ''json'')))"

section \<open>Flattening: the recursive parser and the list of dotted leaves\<close>

text \<open>The leaves of a tree, each under its dotted key, in the order the parser meets them.\<close>

fun flat :: "string \<Rightarrow> iface \<Rightarrow> (string \<times> iface) list" where
  "flat key (IObj al) = concat (map (\<lambda>(k, v). flat (key @ ''.'' @ k) v) al)"
| "flat key INil = []"
| "flat key v = [(key, v)]"

fun leaf_val :: "iface \<Rightarrow> optval option" where
  "leaf_val (IArr vs) = map_option OList (string_values vs)"
| "leaf_val v = Some (OStr (sprint_v v))"

definition leaves :: "(string \<times> iface) list \<Rightarrow> (string \<times> optval) list option" where
  "leaves ls = those (map (\<lambda>(k, l). map_option (Pair k) (leaf_val l)) ls)"

definition add_leaves :: "(string \<times> iface) list \<Rightarrow> optval amap \<Rightarrow> optval amap res" where
  "add_leaves ls es = (case leaves ls of
     None \<Rightarrow> Inl (Failed ''invalid option type'') | Some kvs \<Rightarrow> Inr (put_all kvs es))"

lemma those_append:
  "those (xs @ ys) = (case those xs of None \<Rightarrow> None
     | Some a \<Rightarrow> (case those ys of None \<Rightarrow> None | Some b \<Rightarrow> Some (a @ b)))"
  by (induction xs) (auto split: option.splits)

lemma leaves_Nil [simp]: "leaves [] = Some []"
  by (simp add: leaves_def)

lemma leaves_append:
  "leaves (xs @ ys) = (case leaves xs of None \<Rightarrow> None
     | Some a \<Rightarrow> (case leaves ys of None \<Rightarrow> None | Some b \<Rightarrow> Some (a @ b)))"
  by (simp add: leaves_def those_append split: option.splits)

lemma put_all_append: "put_all (a @ b) es = put_all b (put_all a es)"
  by (simp add: put_all_def)

lemma add_leaves_Nil [simp]: "add_leaves [] es = Inr es"
  by (simp add: add_leaves_def)

lemma add_leaves_append:
  "add_leaves (xs @ ys) es = res_bind (add_leaves xs es) (add_leaves ys)"
  by (auto simp: add_leaves_def leaves_append put_all_append split: option.splits)

lemma entry_flat:
  "entry es key v = add_leaves (flat key v) es"
  "entry_map es key al = add_leaves (concat (map (\<lambda>(k, v). flat (key @ ''.'' @ k) v) al)) es"
proof (induction es key v and es key al rule: entry_entry_map.induct)
  case (6 es key k v al)
  show ?case
  proof (cases "entry es (key @ ''.'' @ k) v")
    case (Inl e)
    with "6.IH"(1) show ?thesis by (simp add: add_leaves_append)
  next
    case (Inr es')
    with 6 show ?thesis by (simp add: add_leaves_append)
  qed
qed (auto simp: add_leaves_def leaves_def put_all_def split: option.splits)

lemma parse_entries_flat:
  "parse_entries es al = add_leaves (concat (map (\<lambda>(k, v). flat k v) al)) es"
proof (induction es al rule: parse_entries.induct)
  case (2 es k v al)
  then show ?case
    by (cases "entry es k v") (auto simp: add_leaves_append entry_flat)
qed simp

lemma wf_put_all_Nil [simp]: "wf_amap (put_all kvs [])"
  by simp

lemma update_fresh: "k \<notin> fst ` set al \<Longrightarrow> AList.update k v al = al @ [(k, v)]"
  by (induction al) auto

lemma put_all_fresh:
  "wf_amap kvs \<Longrightarrow> fst ` set kvs \<inter> fst ` set al = {} \<Longrightarrow> put_all kvs al = al @ kvs"
proof (induction kvs arbitrary: al)
  case (Cons x kvs)
  obtain k v where x: "x = (k, v)" by (cases x)
  have "AList.update k v al = al @ [(k, v)]"
    using Cons.prems x by (auto intro: update_fresh)
  then show ?case using Cons x by (auto simp: image_iff)
qed simp

section \<open>Properties of Options\<close>

lemma parse_is_flattening_aux:
  "parse m = (case leaves (concat (map (\<lambda>(k, v). flat k v) (entries m))) of
     None \<Rightarrow> (Some (Failed ''invalid option type''), \<lparr>opts = None, json = None\<rparr>)
   | Some kvs \<Rightarrow> (None, \<lparr>opts = Some (put_all kvs []), json = None\<rparr>))"
  by (simp add: parse_def parse_entries_flat add_leaves_def split: option.split)

text \<open>C18: \<open>parse\<close> (and so \<open>NewOptions\<close> and \<open>UnmarshalJSON\<close>) flattens a tree of any depth exactly
  as its list of dotted leaves says: every leaf is stored under its full dotted key, a later leaf
  wins over an earlier one with the same key, null entries are dropped, and one list entry that is
  not a string refuses the whole tree and leaves a nil map behind.\<close>

theorem parse_is_flattening:
  "parse m = (case leaves (concat (map (\<lambda>(k, v). flat k v) (entries m))) of
     None \<Rightarrow> (Some (Failed ''invalid option type''), \<lparr>opts = None, json = None\<rparr>)
   | Some kvs \<Rightarrow> (None, \<lparr>opts = Some (put_all kvs []), json = None\<rparr>))"
  by (rule parse_is_flattening_aux)

lemma NewOptions_opts:
  "opts (NewOptions m) = map_option (\<lambda>kvs. put_all kvs [])
     (leaves (concat (map (\<lambda>(k, v). flat k v) (entries m))))"
  by (simp add: NewOptions_def parse_is_flattening_aux split: option.split)

text \<open>The value that a stored option has after a trip through \<open>GenericMap\<close> and \<open>NewOptions\<close>.\<close>

fun reparsed :: "optval \<Rightarrow> optval" where
  "reparsed (OStr s) = OStr s"
| "reparsed (OList ss) = OStr (''['' @ Join '' '' ss @ '']'')"

lemma flat_GenericMap:
  "concat (map (\<lambda>(k, v). flat k v) (map (\<lambda>(k, v). (k, iface_of v)) al))
     = map (\<lambda>(k, v). (k, iface_of v)) al"
proof (induction al)
  case (Cons x al)
  obtain k v where "x = (k, v)" by (cases x)
  with Cons show ?case by (cases v) auto
qed simp

lemma leaves_GenericMap:
  "leaves (map (\<lambda>(k, v). (k, iface_of v)) al) = Some (map (\<lambda>(k, v). (k, reparsed v)) al)"
proof (induction al)
  case (Cons x al)
  obtain k v where "x = (k, v)" by (cases x)
  with Cons show ?case by (cases v) (auto simp: leaves_def)
qed simp

lemma wf_map_snd: "wf_amap (map (\<lambda>(k, v). (k, f v)) al) = wf_amap al"
proof -
  have "map fst (map (\<lambda>(k, v). (k, f v)) al) = map fst al" by (induction al) auto
  then show ?thesis by (rule arg_cong)
qed

lemma NewOptions_GenericMap:
  assumes "wf_gomap (opts o')"
  shows "NewOptions (Some (GenericMap o'))
     = \<lparr>opts = Some (map (\<lambda>(k, v). (k, reparsed v)) (entries (opts o'))), json = None\<rparr>"
proof -
  have "put_all (map (\<lambda>(k, v). (k, reparsed v)) (entries (opts o'))) []
      = map (\<lambda>(k, v). (k, reparsed v)) (entries (opts o'))"
    by (subst put_all_fresh) (use assms in \<open>simp_all only: wf_map_snd wf_gomap_def, simp_all\<close>)
  then show ?thesis
    by (simp add: NewOptions_def parse_is_flattening_aux GenericMap_def flat_GenericMap
        leaves_GenericMap del: map_map)
qed

text \<open>C19: the round trip \<open>NewOptions(o.GenericMap())\<close>, which every option migration and the Kafka
  provisioning use, returns the same flags exactly when no option is a list; a list option is
  turned into one string in brackets.\<close>

theorem GenericMap_roundtrip_iff:
  assumes "wf_gomap (opts o')"
  shows "Map_opts (NewOptions (Some (GenericMap o'))) = Some (entries (opts o'))
     \<longleftrightarrow> (\<forall>(k, v) \<in> set (entries (opts o')). \<exists>s. v = OStr s)"
proof -
  have "reparsed v = v \<longleftrightarrow> (\<exists>s. v = OStr s)" for v by (cases v) auto
  then have "map (\<lambda>(k, v). (k, reparsed v)) al = al
      \<longleftrightarrow> (\<forall>(k, v) \<in> set al. \<exists>s. v = OStr s)" for al :: "optval amap"
    by (induction al) (auto split: prod.splits)
  then show ?thesis using assms by (simp add: Map_opts_def NewOptions_GenericMap)
qed

theorem GenericMap_roundtrip_iff_witness:
  "wf_gomap (opts \<lparr>opts = Some [(''log-level'', OStr ''debug'')], json = None\<rparr>) \<and>
   Map_opts (NewOptions (Some (GenericMap \<lparr>opts = Some [(''log-level'', OStr ''debug'')], json = None\<rparr>)))
     = Some [(''log-level'', OStr ''debug'')]"
  using GenericMap_roundtrip_iff [of "\<lparr>opts = Some [(''log-level'', OStr ''debug'')], json = None\<rparr>"]
  by (simp add: wf_gomap_def)

text \<open>C20: parsing a CR field and printing it back gives the user's own bytes, whatever the flattening
  made of them.\<close>

theorem Unmarshal_Marshal_Options:
  assumes "UnmarshalJSON b o' = (None, o'')"
  shows "MarshalJSON o'' = b"
  using assms
  by (auto simp: UnmarshalJSON_def MarshalJSON_def split: sum.splits prod.splits option.splits)

lemma Decode_empty_object: "Decode_map ''{}'' = Inr (Some [])"
  by (simp add: Decode_map_def numeral_eq_Suc jskip_def json_space_def)

theorem Unmarshal_Marshal_Options_witness:
  "UnmarshalJSON ''{}'' Options0 = (None, \<lparr>opts = Some [], json = Some ''{}''\<rparr>) \<and>
   MarshalJSON \<lparr>opts = Some [], json = Some ''{}''\<rparr> = ''{}''"
proof -
  have h: "UnmarshalJSON ''{}'' Options0 = (None, \<lparr>opts = Some [], json = Some ''{}''\<rparr>)"
    by (simp add: UnmarshalJSON_def Decode_empty_object parse_def)
  show ?thesis using h Unmarshal_Marshal_Options [OF h] by simp
qed

text \<open>The arguments that reach a container do not depend on the order in which Go iterates over
  the option map, once \<open>sort.Strings\<close> has run.\<close>

theorem sorted_args_order_independent:
  assumes "mset (entries (opts a)) = mset (entries (opts b))"
  shows "SortStrings (ToArgs a) = SortStrings (ToArgs b)"
proof (rule SortStrings_cong)
  have "mset (concat (map arg_of xs)) = (\<Sum>x \<in># mset xs. mset (arg_of x))" for xs
    by (induction xs) auto
  then show "mset (ToArgs a) = mset (ToArgs b)"
    using assms by (simp add: ToArgs_def)
qed

theorem sorted_args_order_independent_witness:
  "SortStrings (ToArgs \<lparr>opts = Some [(''b'', OStr ''1''), (''a'', OList [''2'', ''3''])], json = None\<rparr>)
   = SortStrings (ToArgs \<lparr>opts = Some [(''a'', OList [''2'', ''3'']), (''b'', OStr ''1'')], json = None\<rparr>)"
  by (rule sorted_args_order_independent) simp

lemma Values_DeepCopy_id: "Values_DeepCopy al = al"
  by (induction al rule: Values_DeepCopy.induct) auto

lemma map_of_Filter:
  "mget (opts (Filter o' p)) k =
     (if HasPrefix k (p @ ''.'') \<or> HasPrefix k (p @ ''-archive.'') then mget (opts o') k else None)"
proof -
  have "map_of (filter (\<lambda>(k, v). Q k) al) k = (if Q k then map_of al k else None)" for Q and al :: "optval amap"
    by (induction al) auto
  from this [of "\<lambda>k. HasPrefix k (p @ ''.'') \<or> HasPrefix k (p @ ''-archive.'')" "entries (opts o')"]
  show ?thesis by (simp add: Filter_def mget_def Let_def)
qed

lemma StringMap_Nil [simp]: "StringMap \<lparr>opts = Some [], json = j\<rparr> = []"
  by (simp add: StringMap_def)

lemma map_of_StringMap_OStr:
  "wf_gomap (opts o') \<Longrightarrow>
   map_of (StringMap o') k = (case mget (opts o') k of Some (OStr s) \<Rightarrow> Some s | _ \<Rightarrow> None)"
proof -
  have "wf_amap al \<Longrightarrow>
    map_of (List.map_filter (\<lambda>(k, v). case v of OStr s \<Rightarrow> Some (k, s) | OList _ \<Rightarrow> None) al) k
      = (case map_of al k of Some (OStr s) \<Rightarrow> Some s | _ \<Rightarrow> None)" for al
  proof (induction al)
    case (Cons x al)
    obtain a v where x: "x = (a, v)" by (cases x)
    from Cons.prems x have "map_of al a = None" by (auto simp: map_of_eq_None_iff)
    with Cons x show ?case by (cases v) (auto simp: List.map_filter_simps split: option.splits)
  qed (simp add: List.map_filter_simps)
  then show "wf_gomap (opts o') \<Longrightarrow> ?thesis"
    by (simp add: StringMap_def mget_def wf_gomap_def)
qed

end
