(* ===== verification/K8s_Types.thy ===== *)
theory K8s_Types
  imports Go_Base
begin

text \<open>
  The Kubernetes, OpenShift and Strimzi object types, as records of the fields that the operator
  reads or writes.  The fields it never looks at are kept together in one opaque field
  (\<open>\<dots>_rest\<close>), so that a deep copy of an object keeps them.  Each type has its Go zero value
  (\<open>\<dots>0\<close>); an object literal of the source is an update of the zero value.
\<close>

type_synonym opaque = string
type_synonym int32 = "32 word"
type_synonym int64 = "64 word"

section \<open>Metadata\<close>

record OwnerReference =
  or_APIVersion :: string
  or_Kind :: string
  or_Name :: string
  or_UID :: string
  or_Controller :: "bool option"

record TypeMeta =
  tm_APIVersion :: string
  tm_Kind :: string

definition TypeMeta0 :: TypeMeta where
  "TypeMeta0 = \<lparr>tm_APIVersion = [], tm_Kind = []\<rparr>"

record ObjectMeta =
  om_Name :: string
  om_Namespace :: string
  om_UID :: string
  om_Labels :: "string gomap"
  om_Annotations :: "string gomap"
  om_OwnerReferences :: "OwnerReference list"
  om_DeletionTimestamp :: "string option"
  om_rest :: opaque

definition ObjectMeta0 :: ObjectMeta where
  "ObjectMeta0 = \<lparr>om_Name = [], om_Namespace = [], om_UID = [], om_Labels = None,
     om_Annotations = None, om_OwnerReferences = [], om_DeletionTimestamp = None, om_rest = []\<rparr>"

section \<open>Pods\<close>

record EnvVar =
  ev_Name :: string
  ev_Value :: string
  ev_ValueFrom :: "string option"      \<comment> \<open>a field path, or the text of another source\<close>

record EnvFromSource =
  ef_SecretRef :: "string option"
  ef_ConfigMapRef :: "string option"

record ContainerPort =
  cp_ContainerPort :: int32
  cp_HostPort :: int32
  cp_Name :: string
  cp_Protocol :: string

record VolumeMount =
  vm_Name :: string
  vm_MountPath :: string
  vm_ReadOnly :: bool
  vm_rest :: opaque

datatype VolumeSource =
    VSConfigMap string "(string \<times> string) list"    \<comment> \<open>name, items as (key, path)\<close>
  | VSSecret string
  | VSEmptyDir
  | VSOther opaque

record Volume =
  vol_Name :: string
  vol_Source :: VolumeSource

record ResourceRequirements =
  rr_Limits :: "string gomap"
  rr_Requests :: "string gomap"

definition ResourceRequirements0 :: ResourceRequirements where
  "ResourceRequirements0 = \<lparr>rr_Limits = None, rr_Requests = None\<rparr>"

record Probe =
  pb_HTTPGet :: "(string \<times> int) option"      \<comment> \<open>path and port\<close>
  pb_InitialDelaySeconds :: int32
  pb_PeriodSeconds :: int32
  pb_FailureThreshold :: int32
  pb_rest :: opaque

record Container =
  c_Name :: string
  c_Image :: string
  c_Args :: "string list"
  c_Env :: "EnvVar list"
  c_EnvFrom :: "EnvFromSource list"
  c_Ports :: "ContainerPort list"
  c_VolumeMounts :: "VolumeMount list"
  c_Resources :: ResourceRequirements
  c_LivenessProbe :: "Probe option"
  c_ReadinessProbe :: "Probe option"
  c_Lifecycle :: "opaque option"
  c_ImagePullPolicy :: string
  c_SecurityContext :: "opaque option"
  c_rest :: opaque

definition Container0 :: Container where
  "Container0 = \<lparr>c_Name = [], c_Image = [], c_Args = [], c_Env = [], c_EnvFrom = [], c_Ports = [],
     c_VolumeMounts = [], c_Resources = ResourceRequirements0, c_LivenessProbe = None,
     c_ReadinessProbe = None, c_Lifecycle = None, c_ImagePullPolicy = [], c_SecurityContext = None,
     c_rest = []\<rparr>"

record PodSpec =
  ps_Containers :: "Container list"
  ps_InitContainers :: "Container list"
  ps_Volumes :: "Volume list"
  ps_ServiceAccountName :: string
  ps_ImagePullSecrets :: "string list"
  ps_Affinity :: "opaque option"
  ps_Tolerations :: "opaque list"
  ps_SecurityContext :: "opaque option"
  ps_PriorityClassName :: string
  ps_DNSPolicy :: string
  ps_HostNetwork :: bool
  ps_EnableServiceLinks :: "bool option"
  ps_NodeSelector :: "string gomap"
  ps_TerminationGracePeriodSeconds :: "int64 option"
  ps_RestartPolicy :: string
  ps_ActiveDeadlineSeconds :: "int64 option"
  ps_rest :: opaque

definition PodSpec0 :: PodSpec where
  "PodSpec0 = \<lparr>ps_Containers = [], ps_InitContainers = [], ps_Volumes = [],
     ps_ServiceAccountName = [], ps_ImagePullSecrets = [], ps_Affinity = None, ps_Tolerations = [],
     ps_SecurityContext = None, ps_PriorityClassName = [], ps_DNSPolicy = [], ps_HostNetwork = False,
     ps_EnableServiceLinks = None, ps_NodeSelector = None, ps_TerminationGracePeriodSeconds = None,
     ps_RestartPolicy = [], ps_ActiveDeadlineSeconds = None, ps_rest = []\<rparr>"

record PodTemplateSpec =
  pt_Meta :: ObjectMeta
  pt_Spec :: PodSpec

section \<open>Workloads\<close>

record DeploymentSpec =
  ds_Replicas :: "int32 option"
  ds_Selector :: "string gomap option"      \<comment> \<open>the \<open>MatchLabels\<close> of the label selector\<close>
  ds_Strategy :: opaque
  ds_Template :: PodTemplateSpec

record DeploymentStatus =
  dst_Replicas :: int32
  dst_ReadyReplicas :: int32
  dst_AvailableReplicas :: int32

record Deployment =
  dep_TypeMeta :: TypeMeta
  dep_Meta :: ObjectMeta
  dep_Spec :: DeploymentSpec
  dep_Status :: DeploymentStatus

record DaemonSet =
  dae_TypeMeta :: TypeMeta
  dae_Meta :: ObjectMeta
  dae_Selector :: "string gomap option"
  dae_Template :: PodTemplateSpec
  dae_rest :: opaque

record JobSpec =
  js_ActiveDeadlineSeconds :: "int64 option"
  js_TTLSecondsAfterFinished :: "int32 option"
  js_BackoffLimit :: "int32 option"
  js_Parallelism :: "int32 option"
  js_Template :: PodTemplateSpec

record Job =
  job_TypeMeta :: TypeMeta
  job_Meta :: ObjectMeta
  job_Spec :: JobSpec
  job_Succeeded :: int32

text \<open>The two API versions of a CronJob share the fields; the version is part of the object.\<close>

datatype cronjob_version = BatchV1 | BatchV1Beta1

record CronJobSpec =
  cj_Schedule :: string
  cj_ConcurrencyPolicy :: string
  cj_SuccessfulJobsHistoryLimit :: "int32 option"
  cj_Job :: JobSpec

record CronJob =
  cj_Version :: cronjob_version
  cj_TypeMeta :: TypeMeta
  cj_Meta :: ObjectMeta
  cj_Spec :: CronJobSpec
  cj_rest :: opaque

text \<open>The two API versions of a HorizontalPodAutoscaler.\<close>

datatype hpa_version = AutoscalingV2 | AutoscalingV2Beta2

record MetricSpec =
  ms_Name :: string
  ms_AverageUtilization :: int32

record HPASpec =
  hs_TargetAPIVersion :: string
  hs_TargetKind :: string
  hs_TargetName :: string
  hs_MinReplicas :: "int32 option"
  hs_MaxReplicas :: int32
  hs_Metrics :: "MetricSpec list"

record HPA =
  hpa_Version :: hpa_version
  hpa_TypeMeta :: TypeMeta
  hpa_Meta :: ObjectMeta
  hpa_Spec :: HPASpec
  hpa_rest :: opaque

section \<open>Accounts, configuration and networking\<close>

record ServiceAccount =
  sa_TypeMeta :: TypeMeta
  sa_Meta :: ObjectMeta
  sa_rest :: opaque

record Subject =
  sub_Kind :: string
  sub_Name :: string
  sub_Namespace :: string

record RoleRef =
  rref_Kind :: string
  rref_Name :: string

record ClusterRoleBinding =
  crb_Meta :: ObjectMeta
  crb_Subjects :: "Subject list"
  crb_RoleRef :: RoleRef

record ConfigMap =
  cm_TypeMeta :: TypeMeta
  cm_Meta :: ObjectMeta
  cm_Data :: "string gomap"
  cm_BinaryData :: "string gomap"

record Secret =
  sec_Meta :: ObjectMeta
  sec_Type :: string
  sec_Data :: "string gomap"
  sec_StringData :: "string gomap"

record ServicePort =
  sp_Name :: string
  sp_Port :: int32
  sp_TargetPort :: "int option"
  sp_NodePort :: int32
  sp_Protocol :: string

definition ServicePort0 :: ServicePort where
  "ServicePort0 = \<lparr>sp_Name = [], sp_Port = 0, sp_TargetPort = None, sp_NodePort = 0, sp_Protocol = []\<rparr>"

record ServiceSpec =
  ss_Selector :: "string gomap"
  ss_ClusterIP :: string
  ss_Type :: string
  ss_Ports :: "ServicePort list"

record Service =
  svc_TypeMeta :: TypeMeta
  svc_Meta :: ObjectMeta
  svc_Spec :: ServiceSpec
  svc_rest :: opaque

record IngressRule =
  ir_Host :: string
  ir_Path :: string
  ir_PathType :: string
  ir_Backend :: "string \<times> int32"      \<comment> \<open>service name and port number\<close>

record IngressTLS =
  it_Hosts :: "string list"
  it_SecretName :: string

record IngressSpec =
  is_Rules :: "IngressRule list"
  is_DefaultBackend :: "(string \<times> int32) option"
  is_TLS :: "IngressTLS list"
  is_IngressClassName :: "string option"

record Ingress =
  ing_TypeMeta :: TypeMeta
  ing_Meta :: ObjectMeta
  ing_Spec :: IngressSpec
  ing_rest :: opaque

record RouteSpec =
  rs_Host :: string
  rs_To :: "string \<times> string"          \<comment> \<open>kind and name of the target\<close>
  rs_Termination :: string
  rs_Port :: "string option"
  rs_rest :: opaque

record Route =
  rt_TypeMeta :: TypeMeta
  rt_Meta :: ObjectMeta
  rt_Spec :: RouteSpec
  rt_rest :: opaque

record ConsoleLinkSpec =
  cls_Location :: string
  cls_Text :: string
  cls_Href :: string
  cls_Namespaces :: "string list"

record ConsoleLink =
  cl_Meta :: ObjectMeta
  cl_Spec :: ConsoleLinkSpec
  cl_rest :: opaque

record Namespace =
  ns_Meta :: ObjectMeta

section \<open>Elasticsearch and Kafka custom resources\<close>

record ElasticsearchNode =
  en_NodeCount :: int32
  en_Storage :: opaque
  en_NodeSelector :: "string gomap"
  en_Roles :: "string list"
  en_GenUUID :: "string option"
  en_ProxyResources :: ResourceRequirements

record ESSpec =
  es_ManagementState :: string
  es_RedundancyPolicy :: string
  es_Image :: string
  es_Resources :: ResourceRequirements
  es_Tolerations :: "opaque list"
  es_Nodes :: "ElasticsearchNode list"

record Elasticsearch =
  es_TypeMeta :: TypeMeta
  es_Meta :: ObjectMeta
  es_Spec :: ESSpec
  es_rest :: opaque

record KafkaCondition =
  kc_Type :: string
  kc_Status :: string

record Kafka =
  kf_Meta :: ObjectMeta
  kf_Spec :: "string option"          \<comment> \<open>a free-form JSON document\<close>
  kf_Conditions :: "KafkaCondition list"

record KafkaUser =
  ku_Meta :: ObjectMeta
  ku_Spec :: "string option"
  ku_Conditions :: "KafkaCondition list"

section \<open>Objects of any kind\<close>

text \<open>
  What \<open>client.Object\<close> stands for in the operator's sources: an object of one of the kinds it
  manages, with its metadata.  The Jaeger resource itself has its own operations.
\<close>

datatype kobj =
    OAccount ServiceAccount | OClusterRoleBinding ClusterRoleBinding | OConfigMap ConfigMap
  | OConsoleLink ConsoleLink | OCronJob CronJob | ODaemonSet DaemonSet | ODeployment Deployment
  | OElasticsearch Elasticsearch | OHPA HPA | OIngress Ingress | OJob Job | OKafka Kafka
  | OKafkaUser KafkaUser | ORoute Route | OSecret Secret | OService Service

datatype kind =
    KAccount | KClusterRoleBinding | KConfigMap | KConsoleLink | KCronJob cronjob_version | KDaemonSet
  | KDeployment | KElasticsearch | KHPA hpa_version | KIngress | KJob | KKafka | KKafkaUser | KRoute
  | KSecret | KService

fun kind_of :: "kobj \<Rightarrow> kind" where
  "kind_of (OAccount x) = KAccount"
| "kind_of (OClusterRoleBinding x) = KClusterRoleBinding"
| "kind_of (OConfigMap x) = KConfigMap"
| "kind_of (OConsoleLink x) = KConsoleLink"
| "kind_of (OCronJob x) = KCronJob (cj_Version x)"
| "kind_of (ODaemonSet x) = KDaemonSet"
| "kind_of (ODeployment x) = KDeployment"
| "kind_of (OElasticsearch x) = KElasticsearch"
| "kind_of (OHPA x) = KHPA (hpa_Version x)"
| "kind_of (OIngress x) = KIngress"
| "kind_of (OJob x) = KJob"
| "kind_of (OKafka x) = KKafka"
| "kind_of (OKafkaUser x) = KKafkaUser"
| "kind_of (ORoute x) = KRoute"
| "kind_of (OSecret x) = KSecret"
| "kind_of (OService x) = KService"

fun meta_of :: "kobj \<Rightarrow> ObjectMeta" where
  "meta_of (OAccount x) = sa_Meta x"
| "meta_of (OClusterRoleBinding x) = crb_Meta x"
| "meta_of (OConfigMap x) = cm_Meta x"
| "meta_of (OConsoleLink x) = cl_Meta x"
| "meta_of (OCronJob x) = cj_Meta x"
| "meta_of (ODaemonSet x) = dae_Meta x"
| "meta_of (ODeployment x) = dep_Meta x"
| "meta_of (OElasticsearch x) = es_Meta x"
| "meta_of (OHPA x) = hpa_Meta x"
| "meta_of (OIngress x) = ing_Meta x"
| "meta_of (OJob x) = job_Meta x"
| "meta_of (OKafka x) = kf_Meta x"
| "meta_of (OKafkaUser x) = ku_Meta x"
| "meta_of (ORoute x) = rt_Meta x"
| "meta_of (OSecret x) = sec_Meta x"
| "meta_of (OService x) = svc_Meta x"

end
