(* ===== verification/Jaeger_Types.thy ===== *)
theory Jaeger_Types
  imports Jaeger_Options K8s_Types
begin

text \<open>
  Package \<open>apis/v1\<close>: the Jaeger custom resource (\<open>jaeger_types.go\<close>, \<open>const.go\<close>,
  \<open>deployment_strategy.go\<close>).  Every struct is a record with the source's fields, in the
  source's order, under a prefix; an embedded struct is a field of its own
  (\<open>\<dots>_Common\<close>, \<open>\<dots>_AutoScale\<close>); a pointer is an option.
\<close>

section \<open>Constants\<close>

abbreviation (input) "FlagCronJobsVersion \<equiv> ''cronjobs-version''"
abbreviation (input) "FlagCronJobsVersionBatchV1Beta1 \<equiv> ''batch/v1beta1''"
abbreviation (input) "FlagAutoscalingVersion \<equiv> ''autoscaling-version''"
abbreviation (input) "FlagAutoscalingVersionV2Beta2 \<equiv> ''autoscaling/v2beta2''"
abbreviation (input) "FlagPlatform \<equiv> ''platform''"
abbreviation (input) "FlagESProvision \<equiv> ''es-provision''"
abbreviation (input) "FlagKafkaProvision \<equiv> ''kafka-provision''"
abbreviation (input) "FlagAuthDelegatorAvailability \<equiv> ''auth-delegator-available''"
abbreviation (input) "FlagOpenShiftOauthProxyImage \<equiv> ''openshift-oauth-proxy-image''"
abbreviation (input) "FlagDefaultIngressClass \<equiv> ''default-ingressclass''"
abbreviation (input) "IngressSecurityNone \<equiv> ([] :: string)"
abbreviation (input) "IngressSecurityNoneExplicit \<equiv> ''none''"
abbreviation (input) "IngressSecurityOAuthProxy \<equiv> ''oauth-proxy''"
abbreviation (input) "AnnotationProvisionedKafkaKey \<equiv> ''jaegertracing.io/kafka-provisioned''"
abbreviation (input) "AnnotationProvisionedKafkaValue \<equiv> ''true''"
abbreviation (input) "JaegerPhaseFailed \<equiv> ''Failed''"
abbreviation (input) "JaegerPhaseRunning \<equiv> ''Running''"
abbreviation (input) "JaegerMemoryStorage \<equiv> ''memory''"
abbreviation (input) "JaegerCassandraStorage \<equiv> ''cassandra''"
abbreviation (input) "JaegerESStorage \<equiv> ''elasticsearch''"
abbreviation (input) "JaegerKafkaStorage \<equiv> ''kafka''"
abbreviation (input) "JaegerBadgerStorage \<equiv> ''badger''"
abbreviation (input) "JaegerGRPCPluginStorage \<equiv> ''grpc-plugin''"
abbreviation (input) "LabelOperatedBy \<equiv> ''jaegertracing.io/operated-by''"
abbreviation (input) "ConfigIdentity \<equiv> ''identity''"
abbreviation (input) "ConfigWatchNamespace \<equiv> ''watch-namespace''"
abbreviation (input) "ConfigOperatorScope \<equiv> ''operator-scope''"
abbreviation (input) "WatchAllNamespaces \<equiv> ([] :: string)"
abbreviation (input) "OperatorScopeCluster \<equiv> ''cluster''"
abbreviation (input) "OperatorScopeNamespace \<equiv> ''namespace''"
abbreviation (input) "DeploymentStrategyDeprecatedAllInOne \<equiv> ''all-in-one''"
abbreviation (input) "DeploymentStrategyAllInOne \<equiv> ''allinone''"
abbreviation (input) "DeploymentStrategyStreaming \<equiv> ''streaming''"
abbreviation (input) "DeploymentStrategyProduction \<equiv> ''production''"

definition ValidStorageTypes :: "string list" where
  "ValidStorageTypes = [JaegerMemoryStorage, JaegerCassandraStorage, JaegerESStorage,
     JaegerKafkaStorage, JaegerBadgerStorage, JaegerGRPCPluginStorage]"

definition OptionsPrefix :: "string \<Rightarrow> string" where
  "OptionsPrefix storageType =
     (if storageType = JaegerESStorage then ''es''
      else if storageType = JaegerGRPCPluginStorage then ''grpc-storage-plugin''
      else storageType)"

text \<open>\<open>DeploymentStrategy.UnmarshalText\<close>: the receiver is an addressable field, never nil.\<close>

definition UnmarshalText :: "string \<Rightarrow> string" where
  "UnmarshalText text =
     (let t = ToLower text
      in if t = DeploymentStrategyDeprecatedAllInOne then DeploymentStrategyDeprecatedAllInOne
         else if t = DeploymentStrategyStreaming then DeploymentStrategyStreaming
         else if t = DeploymentStrategyProduction then DeploymentStrategyProduction
         else DeploymentStrategyAllInOne)"

section \<open>The specification\<close>

record JaegerCommonSpec =
  jc_Volumes :: "Volume list"
  jc_VolumeMounts :: "VolumeMount list"
  jc_Annotations :: "string gomap"
  jc_Labels :: "string gomap"
  jc_Resources :: ResourceRequirements
  jc_Affinity :: "opaque option"
  jc_Tolerations :: "opaque list"
  jc_SecurityContext :: "opaque option"
  jc_ContainerSecurityContext :: "opaque option"
  jc_ServiceAccount :: string
  jc_LivenessProbe :: "Probe option"
  jc_ImagePullSecrets :: "string list"
  jc_ImagePullPolicy :: string

definition JaegerCommonSpec0 :: JaegerCommonSpec where
  "JaegerCommonSpec0 = \<lparr>jc_Volumes = [], jc_VolumeMounts = [], jc_Annotations = None,
     jc_Labels = None, jc_Resources = ResourceRequirements0, jc_Affinity = None,
     jc_Tolerations = [], jc_SecurityContext = None, jc_ContainerSecurityContext = None,
     jc_ServiceAccount = [], jc_LivenessProbe = None, jc_ImagePullSecrets = [],
     jc_ImagePullPolicy = []\<rparr>"

record JaegerMetricsStorageSpec =
  mst_Type :: string
  mst_ServerUrl :: string

record AutoScaleSpec =
  as_Autoscale :: "bool option"
  as_MinReplicas :: "int32 option"
  as_MaxReplicas :: "int32 option"

record JaegerQuerySpec =
  q_Replicas :: "int32 option"
  q_Image :: string
  q_Options :: Options
  q_MetricsStorage :: JaegerMetricsStorageSpec
  q_Common :: JaegerCommonSpec
  q_ServiceType :: string
  q_NodePort :: int32
  q_GRPCNodePort :: int32
  q_TracingEnabled :: "bool option"
  q_PriorityClassName :: string
  q_Strategy :: "opaque option"
  q_NodeSelector :: "string gomap"

record JaegerIngressTLSSpec =
  itls_Hosts :: "string list"
  itls_SecretName :: string

record JaegerIngressOpenShiftSpec =
  os_SAR :: "string option"
  os_DelegateUrls :: string
  os_HtpasswdFile :: string
  os_SkipLogout :: "bool option"
  os_Timeout :: "string option"        \<comment> \<open>a duration, by its printed text\<close>

record JaegerIngressSpec =
  ji_Enabled :: "bool option"
  ji_Security :: string
  ji_Openshift :: JaegerIngressOpenShiftSpec
  ji_Hosts :: "string list"
  ji_PathType :: string
  ji_TLS :: "JaegerIngressTLSSpec list"
  ji_SecretName :: string
  ji_Common :: JaegerCommonSpec
  ji_Options :: Options
  ji_IngressClassName :: "string option"

record JaegerAllInOneSpec =
  aio_Image :: string
  aio_Options :: Options
  aio_Config :: FreeForm
  aio_MetricsStorage :: JaegerMetricsStorageSpec
  aio_Common :: JaegerCommonSpec
  aio_TracingEnabled :: "bool option"
  aio_Strategy :: "opaque option"
  aio_PriorityClassName :: string

record JaegerCollectorSpec =
  col_AutoScale :: AutoScaleSpec
  col_Replicas :: "int32 option"
  col_Image :: string
  col_Options :: Options
  col_Common :: JaegerCommonSpec
  col_Config :: FreeForm
  col_ServiceType :: string
  col_PriorityClassName :: string
  col_Strategy :: "opaque option"
  col_KafkaSecretName :: string
  col_NodeSelector :: "string gomap"
  col_Lifecycle :: "opaque option"
  col_TerminationGracePeriodSeconds :: "int64 option"

record JaegerIngesterSpec =
  igr_AutoScale :: AutoScaleSpec
  igr_Replicas :: "int32 option"
  igr_Image :: string
  igr_Options :: Options
  igr_Common :: JaegerCommonSpec
  igr_Config :: FreeForm
  igr_Strategy :: "opaque option"
  igr_KafkaSecretName :: string
  igr_NodeSelector :: "string gomap"

record JaegerAgentSpec =
  ag_Strategy :: string
  ag_Image :: string
  ag_Options :: Options
  ag_Common :: JaegerCommonSpec
  ag_Config :: FreeForm
  ag_SidecarSecurityContext :: "opaque option"
  ag_HostNetwork :: "bool option"
  ag_DNSPolicy :: string
  ag_PriorityClassName :: string

record ElasticsearchSpec =
  ess_Name :: string
  ess_DoNotProvision :: bool
  ess_UseCertManagement :: "bool option"
  ess_Image :: string
  ess_Resources :: "ResourceRequirements option"
  ess_NodeCount :: int32
  ess_NodeSelector :: "string gomap"
  ess_Storage :: opaque
  ess_RedundancyPolicy :: string
  ess_Tolerations :: "opaque list"
  ess_ProxyResources :: "ResourceRequirements option"

record JaegerCassandraCreateSchemaSpec =
  ccs_Enabled :: "bool option"
  ccs_Image :: string
  ccs_Datacenter :: string
  ccs_Mode :: string
  ccs_TraceTTL :: string
  ccs_Timeout :: string
  ccs_Affinity :: "opaque option"
  ccs_TTLSecondsAfterFinished :: "int32 option"

record JaegerDependenciesSpec =
  jd_Enabled :: "bool option"
  jd_SparkMaster :: string
  jd_Schedule :: string
  jd_SuccessfulJobsHistoryLimit :: "int32 option"
  jd_Image :: string
  jd_JavaOpts :: string
  jd_CassandraClientAuthEnabled :: bool
  jd_ElasticsearchClientNodeOnly :: "bool option"
  jd_ElasticsearchNodesWanOnly :: "bool option"
  jd_ElasticsearchTimeRange :: string
  jd_TTLSecondsAfterFinished :: "int32 option"
  jd_BackoffLimit :: "int32 option"
  jd_Common :: JaegerCommonSpec

record JaegerEsIndexCleanerSpec =
  ic_Enabled :: "bool option"
  ic_NumberOfDays :: "int64 option"
  ic_Schedule :: string
  ic_SuccessfulJobsHistoryLimit :: "int32 option"
  ic_Image :: string
  ic_TTLSecondsAfterFinished :: "int32 option"
  ic_BackoffLimit :: "int32 option"
  ic_Common :: JaegerCommonSpec
  ic_PriorityClassName :: string

record JaegerEsRolloverSpec =
  ro_Image :: string
  ro_Schedule :: string
  ro_SuccessfulJobsHistoryLimit :: "int32 option"
  ro_Conditions :: string
  ro_TTLSecondsAfterFinished :: "int32 option"
  ro_BackoffLimit :: "int32 option"
  ro_ReadTTL :: string
  ro_Common :: JaegerCommonSpec

record JaegerStorageSpec =
  st_Type :: string
  st_SecretName :: string
  st_Options :: Options
  st_CassandraCreateSchema :: JaegerCassandraCreateSchemaSpec
  st_Dependencies :: JaegerDependenciesSpec
  st_EsIndexCleaner :: JaegerEsIndexCleanerSpec
  st_EsRollover :: JaegerEsRolloverSpec
  st_Elasticsearch :: ElasticsearchSpec
  st_GRPCPluginImage :: string

record JaegerSpec =
  js_Strategy :: string
  js_AllInOne :: JaegerAllInOneSpec
  js_Query :: JaegerQuerySpec
  js_Collector :: JaegerCollectorSpec
  js_Ingester :: JaegerIngesterSpec
  js_Agent :: JaegerAgentSpec
  js_UIOptions :: FreeForm
  js_SamplingOptions :: FreeForm
  js_Storage :: JaegerStorageSpec
  js_Ingress :: JaegerIngressSpec
  js_Common :: JaegerCommonSpec

record Jaeger =
  j_TypeMeta :: TypeMeta
  j_Meta :: ObjectMeta
  j_Spec :: JaegerSpec
  j_Version :: string                   \<comment> \<open>\<open>Status.Version\<close>\<close>
  j_Phase :: string                     \<comment> \<open>\<open>Status.Phase\<close>\<close>

abbreviation (input) "j_Name j \<equiv> om_Name (j_Meta j)"
abbreviation (input) "j_Namespace j \<equiv> om_Namespace (j_Meta j)"
abbreviation (input) "j_Storage j \<equiv> js_Storage (j_Spec j)"
abbreviation (input) "j_Annotations j \<equiv> om_Annotations (j_Meta j)"
abbreviation (input) "upd_Storage f j \<equiv> j_Spec_update (js_Storage_update f) j"

section \<open>The zero value\<close>

definition JaegerSpec0 :: JaegerSpec where
  "JaegerSpec0 = \<lparr>js_Strategy = [],
     js_AllInOne = \<lparr>aio_Image = [], aio_Options = Options0, aio_Config = FreeForm0,
       aio_MetricsStorage = \<lparr>mst_Type = [], mst_ServerUrl = []\<rparr>, aio_Common = JaegerCommonSpec0,
       aio_TracingEnabled = None, aio_Strategy = None, aio_PriorityClassName = []\<rparr>,
     js_Query = \<lparr>q_Replicas = None, q_Image = [], q_Options = Options0,
       q_MetricsStorage = \<lparr>mst_Type = [], mst_ServerUrl = []\<rparr>, q_Common = JaegerCommonSpec0,
       q_ServiceType = [], q_NodePort = 0, q_GRPCNodePort = 0, q_TracingEnabled = None,
       q_PriorityClassName = [], q_Strategy = None, q_NodeSelector = None\<rparr>,
     js_Collector = \<lparr>col_AutoScale = \<lparr>as_Autoscale = None, as_MinReplicas = None, as_MaxReplicas = None\<rparr>,
       col_Replicas = None, col_Image = [], col_Options = Options0, col_Common = JaegerCommonSpec0,
       col_Config = FreeForm0, col_ServiceType = [], col_PriorityClassName = [], col_Strategy = None,
       col_KafkaSecretName = [], col_NodeSelector = None, col_Lifecycle = None,
       col_TerminationGracePeriodSeconds = None\<rparr>,
     js_Ingester = \<lparr>igr_AutoScale = \<lparr>as_Autoscale = None, as_MinReplicas = None, as_MaxReplicas = None\<rparr>,
       igr_Replicas = None, igr_Image = [], igr_Options = Options0, igr_Common = JaegerCommonSpec0,
       igr_Config = FreeForm0, igr_Strategy = None, igr_KafkaSecretName = [], igr_NodeSelector = None\<rparr>,
     js_Agent = \<lparr>ag_Strategy = [], ag_Image = [], ag_Options = Options0, ag_Common = JaegerCommonSpec0,
       ag_Config = FreeForm0, ag_SidecarSecurityContext = None, ag_HostNetwork = None,
       ag_DNSPolicy = [], ag_PriorityClassName = []\<rparr>,
     js_UIOptions = FreeForm0, js_SamplingOptions = FreeForm0,
     js_Storage = \<lparr>st_Type = [], st_SecretName = [], st_Options = Options0,
       st_CassandraCreateSchema = \<lparr>ccs_Enabled = None, ccs_Image = [], ccs_Datacenter = [],
         ccs_Mode = [], ccs_TraceTTL = [], ccs_Timeout = [], ccs_Affinity = None,
         ccs_TTLSecondsAfterFinished = None\<rparr>,
       st_Dependencies = \<lparr>jd_Enabled = None, jd_SparkMaster = [], jd_Schedule = [],
         jd_SuccessfulJobsHistoryLimit = None, jd_Image = [], jd_JavaOpts = [],
         jd_CassandraClientAuthEnabled = False, jd_ElasticsearchClientNodeOnly = None,
         jd_ElasticsearchNodesWanOnly = None, jd_ElasticsearchTimeRange = [],
         jd_TTLSecondsAfterFinished = None, jd_BackoffLimit = None, jd_Common = JaegerCommonSpec0\<rparr>,
       st_EsIndexCleaner = \<lparr>ic_Enabled = None, ic_NumberOfDays = None, ic_Schedule = [],
         ic_SuccessfulJobsHistoryLimit = None, ic_Image = [], ic_TTLSecondsAfterFinished = None,
         ic_BackoffLimit = None, ic_Common = JaegerCommonSpec0, ic_PriorityClassName = []\<rparr>,
       st_EsRollover = \<lparr>ro_Image = [], ro_Schedule = [], ro_SuccessfulJobsHistoryLimit = None,
         ro_Conditions = [], ro_TTLSecondsAfterFinished = None, ro_BackoffLimit = None,
         ro_ReadTTL = [], ro_Common = JaegerCommonSpec0\<rparr>,
       st_Elasticsearch = \<lparr>ess_Name = [], ess_DoNotProvision = False, ess_UseCertManagement = None,
         ess_Image = [], ess_Resources = None, ess_NodeCount = 0, ess_NodeSelector = None,
         ess_Storage = [], ess_RedundancyPolicy = [], ess_Tolerations = [], ess_ProxyResources = None\<rparr>,
       st_GRPCPluginImage = []\<rparr>,
     js_Ingress = \<lparr>ji_Enabled = None, ji_Security = [],
       ji_Openshift = \<lparr>os_SAR = None, os_DelegateUrls = [], os_HtpasswdFile = [], os_SkipLogout = None,
         os_Timeout = None\<rparr>,
       ji_Hosts = [], ji_PathType = [], ji_TLS = [], ji_SecretName = [], ji_Common = JaegerCommonSpec0,
       ji_Options = Options0, ji_IngressClassName = None\<rparr>,
     js_Common = JaegerCommonSpec0\<rparr>"

text \<open>\<open>NewJaeger\<close> labels the instance with the identity of the running operator.\<close>

definition NewJaeger :: "string \<Rightarrow> string \<Rightarrow> string \<Rightarrow> Jaeger" where
  "NewJaeger identity namespace name =
     \<lparr>j_TypeMeta = TypeMeta0,
      j_Meta = ObjectMeta0\<lparr>om_Name := name, om_Namespace := namespace,
                           om_Labels := Some [(LabelOperatedBy, identity)]\<rparr>,
      j_Spec = JaegerSpec0, j_Version = [], j_Phase = []\<rparr>"

end
