(* ===== verification/Operator_Config.thy ===== *)
theory Operator_Config
  imports Jaeger_Types
begin

text \<open>
  What the operator reads from its surroundings: the configuration store (package \<open>viper\<close>, a
  library, here the functions of the record), the version strings set at build time
  (\<open>pkg/version\<close>), the proxy variables of the process, and the typed view of the configuration
  kept by \<open>pkg/autodetect/operatorconfig.go\<close>.
\<close>

section \<open>Configuration and versions\<close>

record Env =
  viper_GetString :: "string \<Rightarrow> string"
  viper_GetBool :: "string \<Rightarrow> bool"
  viper_IsSet :: "string \<Rightarrow> bool"
  ldflag_version :: string
  ldflag_defaultJaeger :: string
  ldflag_defaultAgent :: string
  ProxyVars :: "EnvVar list"            \<comment> \<open>\<open>proxy.ReadProxyVarsFromEnv()\<close>\<close>

definition DefaultJaeger :: "Env \<Rightarrow> string" where
  "DefaultJaeger e =
     (if length (ldflag_defaultJaeger e) > 0 then ldflag_defaultJaeger e else ''0.0.0'')"

definition DefaultAgent :: "Env \<Rightarrow> string" where
  "DefaultAgent e =
     (if length (ldflag_defaultAgent e) > 0 then ldflag_defaultAgent e else ''0.0.0'')"

text \<open>The text before the last dot; a slice bound of -1 is a run-time panic.\<close>

fun before_last_byte :: "char \<Rightarrow> string \<Rightarrow> string option" where
  "before_last_byte b [] = None"
| "before_last_byte b (c # cs) =
     (case before_last_byte b cs of
        Some w \<Rightarrow> Some (c # w)
      | None \<Rightarrow> if c = b then Some [] else None)"

definition DefaultJaegerMajorMinor :: "Env \<Rightarrow> string res" where
  "DefaultJaegerMajorMinor e =
     (case before_last_byte (CHR ''.'') (DefaultJaeger e) of
        None \<Rightarrow> Inl IndexOutOfRange | Some w \<Rightarrow> Inr w)"

lemma before_last_byte_append:
  "b \<notin> set t \<Longrightarrow> before_last_byte b (s @ b # t) = Some s"
proof -
  assume "b \<notin> set t"
  then have "before_last_byte b t = None" by (induction t) auto
  then show ?thesis by (induction s) auto
qed

section \<open>The typed configuration\<close>

datatype Platform = KubernetesPlatform | OpenShiftPlatform
datatype ESOperatorIntegration = ESOperatorIntegrationYes | ESOperatorIntegrationNo
datatype KafkaOperatorIntegration = KafkaOperatorIntegrationYes | KafkaOperatorIntegrationNo
datatype AuthDelegatorAvailability =
  AuthDelegatorAvailabilityYes | AuthDelegatorAvailabilityNo | AuthDelegatorAvailabilityUnknown

fun Platform_String :: "Platform \<Rightarrow> string" where
  "Platform_String KubernetesPlatform = ''Kubernetes''"
| "Platform_String OpenShiftPlatform = ''OpenShift''"

fun ESOperatorIntegration_String :: "ESOperatorIntegration \<Rightarrow> string" where
  "ESOperatorIntegration_String ESOperatorIntegrationYes = ''Yes''"
| "ESOperatorIntegration_String ESOperatorIntegrationNo = ''No''"

fun KafkaOperatorIntegration_String :: "KafkaOperatorIntegration \<Rightarrow> string" where
  "KafkaOperatorIntegration_String KafkaOperatorIntegrationYes = ''Yes''"
| "KafkaOperatorIntegration_String KafkaOperatorIntegrationNo = ''No''"

fun AuthDelegatorAvailability_String :: "AuthDelegatorAvailability \<Rightarrow> string" where
  "AuthDelegatorAvailability_String AuthDelegatorAvailabilityYes = ''Yes''"
| "AuthDelegatorAvailability_String AuthDelegatorAvailabilityNo = ''No''"
| "AuthDelegatorAvailability_String AuthDelegatorAvailabilityUnknown = ''Unknown''"

text \<open>
  The setters take an \<open>interface{}\<close>: a string, a value of the setting's own type, or anything else.
  \<open>viper.Set\<close> overrides the value that \<open>GetString\<close> returns for the key from then on.
\<close>

datatype 'a setting = SString string | STyped 'a | SOther

definition viper_Set :: "string \<Rightarrow> string \<Rightarrow> Env \<Rightarrow> Env" where
  "viper_Set k v e = e\<lparr>viper_GetString := (viper_GetString e)(k := v),
                       viper_IsSet := (viper_IsSet e)(k := True)\<rparr>"

fun setting_text :: "('a \<Rightarrow> string) \<Rightarrow> 'a \<Rightarrow> 'a setting \<Rightarrow> string" where
  "setting_text str dflt (SString s) = s"
| "setting_text str dflt (STyped v) = str v"
| "setting_text str dflt SOther = str dflt"

definition SetPlatform :: "Platform setting \<Rightarrow> Env \<Rightarrow> Env" where
  "SetPlatform p = viper_Set FlagPlatform (setting_text Platform_String KubernetesPlatform p)"

definition GetPlatform :: "Env \<Rightarrow> Platform" where
  "GetPlatform e =
     (if ToLower (viper_GetString e FlagPlatform) = ''openshift'' then OpenShiftPlatform
      else KubernetesPlatform)"

definition IsPlatformAutodetectionEnabled :: "Env \<Rightarrow> bool" where
  "IsPlatformAutodetectionEnabled e = EqualFold (viper_GetString e FlagPlatform) ''auto-detect''"

definition SetESIngration :: "ESOperatorIntegration setting \<Rightarrow> Env \<Rightarrow> Env" where
  "SetESIngration i =
     viper_Set FlagESProvision (setting_text ESOperatorIntegration_String ESOperatorIntegrationNo i)"

definition GetESPIntegration :: "Env \<Rightarrow> ESOperatorIntegration" where
  "GetESPIntegration e =
     (if ToLower (viper_GetString e FlagESProvision) = ''yes'' then ESOperatorIntegrationYes
      else ESOperatorIntegrationNo)"

definition IsESOperatorIntegrationEnabled :: "Env \<Rightarrow> bool" where
  "IsESOperatorIntegrationEnabled e \<longleftrightarrow> GetESPIntegration e = ESOperatorIntegrationYes"

definition SetKafkaIntegration :: "KafkaOperatorIntegration setting \<Rightarrow> Env \<Rightarrow> Env" where
  "SetKafkaIntegration i =
     viper_Set FlagKafkaProvision
       (setting_text KafkaOperatorIntegration_String KafkaOperatorIntegrationNo i)"

definition GetKafkaIntegration :: "Env \<Rightarrow> KafkaOperatorIntegration" where
  "GetKafkaIntegration e =
     (if ToLower (viper_GetString e FlagKafkaProvision) = ''yes'' then KafkaOperatorIntegrationYes
      else KafkaOperatorIntegrationNo)"

definition IsKafkaOperatorIntegrationEnabled :: "Env \<Rightarrow> bool" where
  "IsKafkaOperatorIntegrationEnabled e \<longleftrightarrow> GetKafkaIntegration e = KafkaOperatorIntegrationYes"

definition SetAuthDelegatorAvailability :: "AuthDelegatorAvailability setting \<Rightarrow> Env \<Rightarrow> Env" where
  "SetAuthDelegatorAvailability i =
     viper_Set FlagAuthDelegatorAvailability
       (setting_text AuthDelegatorAvailability_String AuthDelegatorAvailabilityUnknown i)"

definition GetAuthDelegator :: "Env \<Rightarrow> AuthDelegatorAvailability" where
  "GetAuthDelegator e =
     (let v = ToLower (viper_GetString e FlagAuthDelegatorAvailability)
      in if v = ''yes'' then AuthDelegatorAvailabilityYes
         else if v = ''no'' then AuthDelegatorAvailabilityNo
         else AuthDelegatorAvailabilityUnknown)"

definition IsAuthDelegatorAvailable :: "Env \<Rightarrow> bool" where
  "IsAuthDelegatorAvailable e \<longleftrightarrow> GetAuthDelegator e = AuthDelegatorAvailabilityYes"

definition IsAuthDelegatorSet :: "Env \<Rightarrow> bool" where
  "IsAuthDelegatorSet e \<longleftrightarrow> GetAuthDelegator e \<noteq> AuthDelegatorAvailabilityUnknown"

definition SetOautProxyImage :: "string \<Rightarrow> Env \<Rightarrow> Env" where
  "SetOautProxyImage img = viper_Set FlagOpenShiftOauthProxyImage img"

definition GetOautProxyImage :: "Env \<Rightarrow> string" where
  "GetOautProxyImage e = viper_GetString e FlagOpenShiftOauthProxyImage"

section \<open>A setting is read back as it was stored\<close>

text \<open>
  The contract that the four typed settings share: what a typed value stores is what the getter
  returns, and storing a value under one key leaves the settings of the other keys as they were.
\<close>

locale typed_setting =
  fixes key :: string and str :: "'a \<Rightarrow> string" and dflt :: 'a
    and set :: "'a setting \<Rightarrow> Env \<Rightarrow> Env" and get :: "Env \<Rightarrow> 'a"
  assumes set_eq: "set i e = viper_Set key (setting_text str dflt i) e"
    and get_key: "viper_GetString e key = viper_GetString e' key \<Longrightarrow> get e = get e'"
    and get_str: "viper_GetString e key = str v \<Longrightarrow> get e = v"
begin

lemma get_set_typed: "get (set (STyped v) e) = v"
  by (rule get_str) (simp add: set_eq viper_Set_def)

lemma get_set_other: "get (set SOther e) = dflt"
  by (rule get_str) (simp add: set_eq viper_Set_def)

lemma get_other_key: "k \<noteq> key \<Longrightarrow> get (viper_Set k x e) = get e"
  by (rule get_key) (simp add: viper_Set_def)

end

lemma ToLower_lits [simp, gostr_simps]:
  "ToLower ''Kubernetes'' = ''kubernetes''" "ToLower ''OpenShift'' = ''openshift''"
  "ToLower ''Yes'' = ''yes''" "ToLower ''No'' = ''no''" "ToLower ''Unknown'' = ''unknown''"
  by code_simp+

interpretation platform: typed_setting FlagPlatform Platform_String KubernetesPlatform SetPlatform GetPlatform
proof
  fix e :: Env and v :: Platform
  assume "viper_GetString e FlagPlatform = Platform_String v"
  then show "GetPlatform e = v" by (cases v) (simp_all add: GetPlatform_def)
qed (simp_all add: SetPlatform_def GetPlatform_def)

interpretation es_integration: typed_setting FlagESProvision ESOperatorIntegration_String
  ESOperatorIntegrationNo SetESIngration GetESPIntegration
proof
  fix e :: Env and v :: ESOperatorIntegration
  assume "viper_GetString e FlagESProvision = ESOperatorIntegration_String v"
  then show "GetESPIntegration e = v" by (cases v) (simp_all add: GetESPIntegration_def)
qed (simp_all add: SetESIngration_def GetESPIntegration_def)

interpretation kafka_integration: typed_setting FlagKafkaProvision KafkaOperatorIntegration_String
  KafkaOperatorIntegrationNo SetKafkaIntegration GetKafkaIntegration
proof
  fix e :: Env and v :: KafkaOperatorIntegration
  assume "viper_GetString e FlagKafkaProvision = KafkaOperatorIntegration_String v"
  then show "GetKafkaIntegration e = v" by (cases v) (simp_all add: GetKafkaIntegration_def)
qed (simp_all add: SetKafkaIntegration_def GetKafkaIntegration_def)

interpretation auth_delegator: typed_setting FlagAuthDelegatorAvailability AuthDelegatorAvailability_String
  AuthDelegatorAvailabilityUnknown SetAuthDelegatorAvailability GetAuthDelegator
proof
  fix e :: Env and v :: AuthDelegatorAvailability
  assume "viper_GetString e FlagAuthDelegatorAvailability = AuthDelegatorAvailability_String v"
  then show "GetAuthDelegator e = v" by (cases v) (simp_all add: GetAuthDelegator_def)
qed (simp_all add: SetAuthDelegatorAvailability_def GetAuthDelegator_def)

end
