(* ===== verification/Util.thy ===== *)
theory Util
  imports Operator_Config
begin

text \<open>
  Package \<open>pkg/util\<close>: the merge of the common blocks of a specification, the recommended labels,
  the search for flags and ports in an argument list, image names, truncated names and DNS names.
\<close>

section \<open>Lists without duplicates\<close>

text \<open>The loop that the three \<open>RemoveDuplicated\<dots>\<close> functions share, with the names met so far.\<close>

fun first_of_each :: "('a \<Rightarrow> string) \<Rightarrow> string list \<Rightarrow> 'a list \<Rightarrow> 'a list" where
  "first_of_each name existing [] = []"
| "first_of_each name existing (x # xs) =
     (if name x \<in> set existing then first_of_each name existing xs
      else x # first_of_each name (name x # existing) xs)"

definition RemoveDuplicatedVolumes :: "Volume list \<Rightarrow> Volume list" where
  "RemoveDuplicatedVolumes volumes = first_of_each vol_Name [] volumes"

definition RemoveDuplicatedVolumeMounts :: "VolumeMount list \<Rightarrow> VolumeMount list" where
  "RemoveDuplicatedVolumeMounts volumeMounts = first_of_each vm_Name [] volumeMounts"

definition RemoveDuplicatedImagePullSecrets :: "string list \<Rightarrow> string list" where
  "RemoveDuplicatedImagePullSecrets secrets = first_of_each (\<lambda>s. s) [] secrets"

section \<open>Merging common specifications\<close>

text \<open>One of the two loops of \<open>MergeResources\<close>: the map is made when the first entry needs it.\<close>

definition merge_resource_list :: "string gomap \<Rightarrow> string gomap \<Rightarrow> string gomap" where
  "merge_resource_list new old =
     fold (\<lambda>(k, v) m. case mget m k of None \<Rightarrow> Some (AList.update k v (entries m)) | Some _ \<Rightarrow> m)
       (entries new) old"

definition MergeResources :: "ResourceRequirements \<Rightarrow> ResourceRequirements \<Rightarrow> ResourceRequirements" where
  "MergeResources resources res =
     \<lparr>rr_Limits = merge_resource_list (rr_Limits res) (rr_Limits resources),
      rr_Requests = merge_resource_list (rr_Requests res) (rr_Requests resources)\<rparr>"

definition merge_step :: "JaegerCommonSpec \<Rightarrow> JaegerCommonSpec \<Rightarrow> JaegerCommonSpec" where
  "merge_step commonSpec acc =
     acc\<lparr>jc_Annotations := Some (put_missing (entries (jc_Annotations commonSpec)) (entries (jc_Annotations acc))),
         jc_Labels := Some (put_missing (entries (jc_Labels commonSpec)) (entries (jc_Labels acc))),
         jc_VolumeMounts := jc_VolumeMounts acc @ jc_VolumeMounts commonSpec,
         jc_Volumes := jc_Volumes acc @ jc_Volumes commonSpec,
         jc_Resources := MergeResources (jc_Resources acc) (jc_Resources commonSpec),
         jc_Affinity := (case jc_Affinity acc of None \<Rightarrow> jc_Affinity commonSpec | Some a \<Rightarrow> Some a),
         jc_Tolerations := jc_Tolerations acc @ jc_Tolerations commonSpec,
         jc_SecurityContext := (case jc_SecurityContext acc of None \<Rightarrow> jc_SecurityContext commonSpec | Some a \<Rightarrow> Some a),
         jc_ContainerSecurityContext := (case jc_ContainerSecurityContext acc of
             None \<Rightarrow> jc_ContainerSecurityContext commonSpec | Some a \<Rightarrow> Some a),
         jc_ServiceAccount := (if jc_ServiceAccount acc = [] then jc_ServiceAccount commonSpec else jc_ServiceAccount acc),
         jc_ImagePullSecrets := jc_ImagePullSecrets acc @ jc_ImagePullSecrets commonSpec,
         jc_ImagePullPolicy := (if jc_ImagePullPolicy acc = [] then jc_ImagePullPolicy commonSpec else jc_ImagePullPolicy acc)\<rparr>"

definition Merge :: "JaegerCommonSpec list \<Rightarrow> JaegerCommonSpec" where
  "Merge commonSpecs =
     (let m = fold merge_step commonSpecs (JaegerCommonSpec0\<lparr>jc_Annotations := Some [], jc_Labels := Some []\<rparr>)
      in m\<lparr>jc_VolumeMounts := RemoveDuplicatedVolumeMounts (jc_VolumeMounts m),
           jc_Volumes := RemoveDuplicatedVolumes (jc_Volumes m),
           jc_ImagePullSecrets := RemoveDuplicatedImagePullSecrets (jc_ImagePullSecrets m)\<rparr>)"

section \<open>Names: Truncate and DNSName\<close>

definition trimNonAlphaNumeric :: "string \<Rightarrow> string" where
  "trimNonAlphaNumeric text =
     (let newText = rev (dropWhile (\<lambda>c. \<not> alnum_char c) (rev text))
      in dropWhile (\<lambda>c. \<not> alnum_char c) newText)"

text \<open>The loop that shortens the values from the left until the excess is used up.\<close>

fun truncate_values :: "nat \<Rightarrow> string list \<Rightarrow> string list" where
  "truncate_values excess [] = []"
| "truncate_values excess (s # values) =
     (if excess = 0 then s # truncate_values excess values
      else if length s > excess then take (length s - excess) s # truncate_values 0 values
      else [] # truncate_values (excess - length s) values)"

definition Truncate :: "string \<Rightarrow> nat \<Rightarrow> string list \<Rightarrow> string" where
  "Truncate format mx values =
     (let first = Sprintf format values;
          result = (if length first > mx
                    then Sprintf format (truncate_values (length first - mx) values) else first)
      in if length result > mx then take mx result else trimNonAlphaNumeric result)"

text \<open>\<open>DNSName\<close> on a name of ASCII characters, whose byte and rune positions agree.\<close>

definition DNSName :: "string \<Rightarrow> string" where
  "DNSName name =
     map (\<lambda>(i, x). if lower_char x \<or> digit_char x then x
                   else if i = 0 \<or> i = length name - 1 then CHR ''a'' else CHR ''-'')
       (enumerate 0 (ToLower name))"

section \<open>Labels, owners and metadata\<close>

definition AsOwner :: "Jaeger \<Rightarrow> OwnerReference" where
  "AsOwner jaeger = \<lparr>or_APIVersion = tm_APIVersion (j_TypeMeta jaeger), or_Kind = tm_Kind (j_TypeMeta jaeger),
     or_Name = j_Name jaeger, or_UID = om_UID (j_Meta jaeger), or_Controller = Some True\<rparr>"

definition Labels :: "string \<Rightarrow> string \<Rightarrow> Jaeger \<Rightarrow> string gomap" where
  "Labels name component jaeger = Some
     [(''app'', ''jaeger''),
      (''app.kubernetes.io/name'', Truncate name 63 []),
      (''app.kubernetes.io/instance'', Truncate (j_Name jaeger) 63 []),
      (''app.kubernetes.io/component'', Truncate component 63 []),
      (''app.kubernetes.io/part-of'', ''jaeger''),
      (''app.kubernetes.io/managed-by'', ''jaeger-operator'')]"

definition InitObjectMeta :: "ObjectMeta \<Rightarrow> ObjectMeta" where
  "InitObjectMeta obj =
     (let obj1 = (if om_Labels obj = None then obj\<lparr>om_Labels := Some []\<rparr> else obj)
      in if om_Annotations obj1 = None then obj1\<lparr>om_Annotations := Some []\<rparr> else obj1)"

section \<open>Flags, ports and images\<close>

definition GetEsHostname :: "optval gomap \<Rightarrow> string" where
  "GetEsHostname opts' = (case mget opts' ''es.server-urls'' of
     Some (OStr urls) \<Rightarrow> hd (Split (CHR '','') urls)
   | _ \<Rightarrow> [])"

fun FindItem :: "string \<Rightarrow> string list \<Rightarrow> string" where
  "FindItem prefix [] = []"
| "FindItem prefix (v # args) = (if HasPrefix v prefix then v else FindItem prefix args)"

text \<open>\<open>ReplaceArgument\<close> writes into the slice; the model returns the slice with the count.\<close>

definition ReplaceArgument :: "string \<Rightarrow> string \<Rightarrow> string list \<Rightarrow> nat \<times> string list" where
  "ReplaceArgument prefix newValue args =
     (length (filter (\<lambda>arg. HasPrefix arg prefix) args),
      map (\<lambda>arg. if HasPrefix arg prefix then newValue else arg) args)"

definition GetPort :: "string \<Rightarrow> string list \<Rightarrow> int32 \<Rightarrow> int32" where
  "GetPort arg args port =
     (let portArg = FindItem arg args
      in if length portArg > 0
         then (case after_byte (CHR '':'') portArg of
                 None \<Rightarrow> port
               | Some text \<Rightarrow> (case ParseInt 32 text of None \<Rightarrow> port | Some newPort \<Rightarrow> word_of_int newPort))
         else port)"

definition GetAdminPort :: "string list \<Rightarrow> int32 \<Rightarrow> int32" where
  "GetAdminPort args port =
     (if length (FindItem ''--admin.http.host-port='' args) > 0
      then GetPort ''--admin.http.host-port='' args port
      else GetPort ''--admin-http-port='' args port)"

definition ImageName :: "Env \<Rightarrow> string \<Rightarrow> string \<Rightarrow> string" where
  "ImageName e img param =
     (if img = [] then
        (let p = viper_GetString e param
         in if CHR '':'' \<notin> set p then p @ '':'' @ DefaultJaeger e else p)
      else img)"

definition AgentImageName :: "Env \<Rightarrow> string \<Rightarrow> string \<Rightarrow> string" where
  "AgentImageName e img param =
     (if img = [] then
        (let p = viper_GetString e param
         in if CHR '':'' \<notin> set p then p @ '':'' @ DefaultAgent e else p)
      else img)"

definition RemoveEmptyVars :: "EnvVar list \<Rightarrow> EnvVar list" where
  "RemoveEmptyVars envVars = filter (\<lambda>v. ev_Value v \<noteq> [] \<or> ev_ValueFrom v \<noteq> None) envVars"

definition CreateEnvsFromSecret :: "string \<Rightarrow> EnvFromSource list" where
  "CreateEnvsFromSecret secretName =
     (if length secretName > 0 then [\<lparr>ef_SecretRef = Some secretName, ef_ConfigMapRef = None\<rparr>] else [])"

definition FindEnvVar :: "EnvVar list \<Rightarrow> string \<Rightarrow> EnvVar option" where
  "FindEnvVar envs name = find (\<lambda>v. ev_Name v = name) envs"

definition IsOTLPExplcitSet :: "string list \<Rightarrow> bool" where
  "IsOTLPExplcitSet options \<longleftrightarrow> length (FindItem ''--collector.otlp.enabled='' options) \<noteq> 0"

definition IsOTLPEnable :: "string list \<Rightarrow> bool" where
  "IsOTLPEnable options =
     (if IsOTLPExplcitSet options
      then length (FindItem ''--collector.otlp.enabled=true'' options) \<noteq> 0 else True)"

definition AllArgs :: "Options list \<Rightarrow> string list" where
  "AllArgs optionsList = concat (map ToArgs optionsList)"

text \<open>
  The source of random numbers is a parameter: \<open>Intn i\<close> is the result of the \<open>i\<close>-th call of
  \<open>seededRand.Intn(len(charset))\<close>, which is below the length of the character set.
\<close>

definition charset :: string where
  "charset = ''abcdefghijklmnopqrstuvwxyzABCDEFGHIJKLMNOPQRSTUVWXYZ0123456789''"

definition GenerateProxySecret :: "(nat \<Rightarrow> nat) \<Rightarrow> string" where
  "GenerateProxySecret Intn = map (\<lambda>i. charset ! Intn i) [0..<22]"

section \<open>Lists without duplicates: lemmas\<close>

text \<open>The contract of the three functions: one item for each name, the first of the input.\<close>

locale dedup =
  fixes name :: "'a \<Rightarrow> string" and dedup_items :: "'a list \<Rightarrow> 'a list"
  assumes dedup_items_eq: "dedup_items xs = first_of_each name [] xs"
begin

lemma find_first_of_each:
  "find (\<lambda>x. name x = n) (first_of_each name ex xs)
     = (if n \<in> set ex then None else find (\<lambda>x. name x = n) xs)"
  by (induction name ex xs rule: first_of_each.induct) (auto split: if_splits)

lemma names_first_of_each: "name ` set (first_of_each name ex xs) = name ` set xs - set ex"
  by (induction name ex xs rule: first_of_each.induct) auto

lemma distinct_first_of_each: "distinct (map name (first_of_each name ex xs))"
proof (induction xs arbitrary: ex)
  case (Cons x xs)
  have "name x \<notin> name ` set (first_of_each name (name x # ex) xs)"
    by (simp add: names_first_of_each)
  with Cons show ?case by auto
qed simp

lemma dedup_distinct: "distinct (map name (dedup_items xs))"
  by (simp add: dedup_items_eq distinct_first_of_each)

lemma dedup_keeps_first: "find (\<lambda>x. name x = n) (dedup_items xs) = find (\<lambda>x. name x = n) xs"
  by (simp add: dedup_items_eq find_first_of_each)

lemma dedup_subset: "set (dedup_items xs) \<subseteq> set xs"
proof -
  have "set (first_of_each name ex xs) \<subseteq> set xs" for ex
    by (induction xs arbitrary: ex) (simp_all, blast)
  then show ?thesis by (simp add: dedup_items_eq)
qed

lemma dedup_idem_if_distinct: "distinct (map name xs) \<Longrightarrow> dedup_items xs = xs"
proof -
  have "distinct (map name xs) \<Longrightarrow> name ` set xs \<inter> set ex = {} \<Longrightarrow> first_of_each name ex xs = xs" for ex
  proof (induction xs arbitrary: ex)
    case (Cons x xs)
    have "first_of_each name (name x # ex) xs = xs"
      using Cons.prems by (intro Cons.IH) auto
    then show ?case using Cons.prems by auto
  qed simp
  then show "distinct (map name xs) \<Longrightarrow> dedup_items xs = xs" by (simp add: dedup_items_eq)
qed

end

interpretation volumes: dedup vol_Name RemoveDuplicatedVolumes
  by unfold_locales (simp add: RemoveDuplicatedVolumes_def)

interpretation volume_mounts: dedup vm_Name RemoveDuplicatedVolumeMounts
  by unfold_locales (simp add: RemoveDuplicatedVolumeMounts_def)

interpretation pull_secrets: dedup "\<lambda>s. s" RemoveDuplicatedImagePullSecrets
  by unfold_locales (simp add: RemoveDuplicatedImagePullSecrets_def)

section \<open>Merge: the most specific block wins\<close>

fun first_some :: "('a \<Rightarrow> 'b option) \<Rightarrow> 'a list \<Rightarrow> 'b option" where
  "first_some f [] = None"
| "first_some f (x # xs) = (case f x of None \<Rightarrow> first_some f xs | Some y \<Rightarrow> Some y)"

definition nonempty :: "string \<Rightarrow> string option" where
  "nonempty s = (if s = [] then None else Some s)"

definition or_else :: "'a option \<Rightarrow> 'a option \<Rightarrow> 'a option" where
  "or_else a b = (case a of None \<Rightarrow> b | Some x \<Rightarrow> Some x)"

lemma or_else_simps [simp]: "or_else None b = b" "or_else (Some x) b = Some x"
  by (simp_all add: or_else_def)

lemma first_some_Cons: "first_some f (x # xs) = or_else (f x) (first_some f xs)"
  by (simp add: or_else_def)

lemma or_else_assoc: "or_else (or_else a b) c = or_else a (or_else b c)"
  by (cases a) simp_all

lemma mget_merge_resource_list: "mget (merge_resource_list new old) k = or_else (mget old k) (mget new k)"
proof -
  have "mget (fold (\<lambda>(k, v) m. case mget m k of None \<Rightarrow> Some (AList.update k v (entries m)) | Some _ \<Rightarrow> m) al old) k
      = or_else (mget old k) (map_of al k)" for al
  proof (induction al arbitrary: old)
    case Nil
    then show ?case by (simp add: or_else_def split: option.split)
  next
    case (Cons x al)
    obtain a b where x: "x = (a, b)" by (cases x)
    show ?case
      by (cases "mget old a") (auto simp: x Cons.IH update_conv' or_else_def mget_def [symmetric] split: option.splits)
  qed
  then show ?thesis by (simp add: merge_resource_list_def mget_def)
qed

lemma merge_step_fields:
  "mget (jc_Annotations (merge_step c acc)) k = or_else (mget (jc_Annotations acc) k) (mget (jc_Annotations c) k)"
  "mget (jc_Labels (merge_step c acc)) k = or_else (mget (jc_Labels acc) k) (mget (jc_Labels c) k)"
  "mget (rr_Limits (jc_Resources (merge_step c acc))) k
     = or_else (mget (rr_Limits (jc_Resources acc)) k) (mget (rr_Limits (jc_Resources c)) k)"
  "mget (rr_Requests (jc_Resources (merge_step c acc))) k
     = or_else (mget (rr_Requests (jc_Resources acc)) k) (mget (rr_Requests (jc_Resources c)) k)"
  "jc_Affinity (merge_step c acc) = or_else (jc_Affinity acc) (jc_Affinity c)"
  "jc_SecurityContext (merge_step c acc) = or_else (jc_SecurityContext acc) (jc_SecurityContext c)"
  "jc_ContainerSecurityContext (merge_step c acc)
     = or_else (jc_ContainerSecurityContext acc) (jc_ContainerSecurityContext c)"
  "nonempty (jc_ServiceAccount (merge_step c acc))
     = or_else (nonempty (jc_ServiceAccount acc)) (nonempty (jc_ServiceAccount c))"
  "nonempty (jc_ImagePullPolicy (merge_step c acc))
     = or_else (nonempty (jc_ImagePullPolicy acc)) (nonempty (jc_ImagePullPolicy c))"
  by (simp_all add: merge_step_def mget_def map_of_put_missing MergeResources_def or_else_def nonempty_def
      mget_merge_resource_list [unfolded mget_def or_else_def] split: option.splits)

lemma fold_merge_field:
  assumes "\<And>c acc. f (merge_step c acc) = or_else (f acc) (f c)"
  shows "f (fold merge_step cs acc) = or_else (f acc) (first_some f cs)"
proof (induction cs arbitrary: acc)
  case Nil
  then show ?case by (cases "f acc") simp_all
next
  case (Cons c cs)
  show ?case by (simp add: Cons.IH assms or_else_assoc or_else_def [of "f c"])
qed

lemmas merged_field = merge_step_fields [THEN fold_merge_field]

lemma fold_merge_lists:
  "jc_Volumes (fold merge_step cs acc) = jc_Volumes acc @ concat (map jc_Volumes cs)"
  "jc_VolumeMounts (fold merge_step cs acc) = jc_VolumeMounts acc @ concat (map jc_VolumeMounts cs)"
  "jc_Tolerations (fold merge_step cs acc) = jc_Tolerations acc @ concat (map jc_Tolerations cs)"
  "jc_ImagePullSecrets (fold merge_step cs acc) = jc_ImagePullSecrets acc @ concat (map jc_ImagePullSecrets cs)"
  by (induction cs arbitrary: acc) (simp_all add: merge_step_def)

lemma find_append: "find P (xs @ ys) = or_else (find P xs) (find P ys)"
  by (induction xs) auto

lemma find_concat: "find P (concat (map f cs)) = first_some (\<lambda>c. find P (f c)) cs"
  by (induction cs) (simp_all add: find_append or_else_def)

lemma Merge_fields:
  "mget (jc_Annotations (Merge cs)) k = first_some (\<lambda>c. mget (jc_Annotations c) k) cs"
  "mget (jc_Labels (Merge cs)) k = first_some (\<lambda>c. mget (jc_Labels c) k) cs"
  "mget (rr_Limits (jc_Resources (Merge cs))) k = first_some (\<lambda>c. mget (rr_Limits (jc_Resources c)) k) cs"
  "mget (rr_Requests (jc_Resources (Merge cs))) k = first_some (\<lambda>c. mget (rr_Requests (jc_Resources c)) k) cs"
  "jc_Affinity (Merge cs) = first_some jc_Affinity cs"
  "jc_SecurityContext (Merge cs) = first_some jc_SecurityContext cs"
  "jc_ContainerSecurityContext (Merge cs) = first_some jc_ContainerSecurityContext cs"
  "nonempty (jc_ServiceAccount (Merge cs)) = first_some (\<lambda>c. nonempty (jc_ServiceAccount c)) cs"
  "nonempty (jc_ImagePullPolicy (Merge cs)) = first_some (\<lambda>c. nonempty (jc_ImagePullPolicy c)) cs"
  "find (\<lambda>v. vol_Name v = n) (jc_Volumes (Merge cs)) = first_some (\<lambda>c. find (\<lambda>v. vol_Name v = n) (jc_Volumes c)) cs"
  "find (\<lambda>m. vm_Name m = n) (jc_VolumeMounts (Merge cs)) = first_some (\<lambda>c. find (\<lambda>m. vm_Name m = n) (jc_VolumeMounts c)) cs"
  "distinct (map vol_Name (jc_Volumes (Merge cs)))"
  "distinct (map vm_Name (jc_VolumeMounts (Merge cs)))"
  "jc_Tolerations (Merge cs) = concat (map jc_Tolerations cs)"
  "jc_LivenessProbe (Merge cs) = None"
proof -
  have "jc_LivenessProbe (fold merge_step cs acc) = jc_LivenessProbe acc" for acc
    by (induction cs arbitrary: acc) (simp_all add: merge_step_def)
  then show "jc_LivenessProbe (Merge cs) = None"
    by (simp add: Merge_def JaegerCommonSpec0_def Let_def)
qed (simp_all add: Merge_def Let_def merged_field JaegerCommonSpec0_def ResourceRequirements0_def
    fold_merge_lists volumes.dedup_keeps_first volume_mounts.dedup_keeps_first find_concat
    volumes.dedup_distinct volume_mounts.dedup_distinct nonempty_def [of "[]"])


section \<open>Truncate and DNSName: lemmas\<close>

text \<open>Every operand is printed once, by a verb or in the list of surplus operands.\<close>

abbreviation total :: "string list \<Rightarrow> nat" where
  "total vs \<equiv> sum_list (map length vs)"

definition fixed_part :: "string \<Rightarrow> nat \<Rightarrow> string" where
  "fixed_part format n = Sprintf format (replicate n [])"

lemma length_Join: "length (Join sep ws) = sum_list (map length ws) + (length ws - 1) * length sep"
  by (induction sep ws rule: Join.induct) auto

lemma length_extra_operands:
  "length (extra_operands as) = length (extra_operands (replicate (length as) [])) + total as"
proof (cases as)
  case (Cons a as')
  have "sum_list (map (\<lambda>x. length (''string='' @ x)) xs) = 7 * length xs + total xs" for xs :: "string list"
    by (induction xs) auto
  moreover have "total (replicate n []) = 0" for n by (induction n) auto
  ultimately show ?thesis
    by (simp add: Cons length_Join comp_def sum_list_replicate)
qed simp

lemma length_Sprintf: "length (Sprintf f as) = length (fixed_part f (length as)) + total as"
proof (induction f as rule: Sprintf.induct)
  case (1 as)
  show ?case by (simp add: fixed_part_def length_extra_operands [of as])
next
  case (2 c f as)
  show ?case
  proof (cases "c = CHR ''%''")
    case False
    with 2(1) show ?thesis by (simp add: fixed_part_def)
  next
    case True
    then show ?thesis
    proof (cases f)
      case Nil
      with True show ?thesis by (simp add: fixed_part_def length_extra_operands [of as])
    next
      case (Cons v f')
      with True 2 show ?thesis by (cases as) (auto simp: fixed_part_def)
    qed
  qed
qed

lemma length_truncate_values [simp]: "length (truncate_values n vs) = length vs"
  by (induction n vs rule: truncate_values.induct) auto

lemma total_truncate_values: "total (truncate_values n vs) = total vs - n"
proof -
  have z: "truncate_values 0 vs = vs" for vs by (induction vs) auto
  show ?thesis by (induction n vs rule: truncate_values.induct) (auto simp: z)
qed

lemma truncate_values_all: "total vs < n \<Longrightarrow> truncate_values n vs = replicate (length vs) []"
  by (induction n vs rule: truncate_values.induct) auto

lemma trim_alnum_ends:
  "trimNonAlphaNumeric t = [] \<or>
   alnum_char (hd (trimNonAlphaNumeric t)) \<and> alnum_char (last (trimNonAlphaNumeric t))"
proof -
  let ?u = "rev (dropWhile (\<lambda>c. \<not> alnum_char c) (rev t))"
  have "u = [] \<or> last (dropWhile P u) = last u \<or> dropWhile P u = []" for P and u :: string
    by (metis append_Nil2 last_append takeWhile_dropWhile_id)
  then have "dropWhile P ?u = [] \<or> last (dropWhile P ?u) = last ?u" for P
    by (metis dropWhile.simps(1))
  moreover have "?u = [] \<or> alnum_char (last ?u)"
    by (metis hd_dropWhile last_rev rev_is_Nil_conv)
  ultimately show ?thesis
    unfolding trimNonAlphaNumeric_def Let_def
    by (metis dropWhile.simps(1) hd_dropWhile)
qed

lemma length_trim: "length (trimNonAlphaNumeric t) \<le> length t"
  unfolding trimNonAlphaNumeric_def Let_def
  by (metis length_dropWhile_le length_rev order_trans)

lemma Truncate_bound_and_ends_aux:
  "length (Truncate f m vs) \<le> m \<and>
   (if length (fixed_part f (length vs)) \<le> m
    then Truncate f m vs = [] \<or> alnum_char (hd (Truncate f m vs)) \<and> alnum_char (last (Truncate f m vs))
    else Truncate f m vs = take m (fixed_part f (length vs)))"
proof (cases "length (fixed_part f (length vs)) \<le> m")
  case True
  define r where "r = (if length (Sprintf f vs) > m
    then Sprintf f (truncate_values (length (Sprintf f vs) - m) vs) else Sprintf f vs)"
  have "length r \<le> m"
    using True by (simp add: r_def length_Sprintf total_truncate_values)
  then have "Truncate f m vs = trimNonAlphaNumeric r"
    by (simp only: Truncate_def Let_def r_def [symmetric]) simp
  with \<open>length r \<le> m\<close> True trim_alnum_ends [of r] length_trim [of r] show ?thesis by auto
next
  case False
  then have "truncate_values (length (Sprintf f vs) - m) vs = replicate (length vs) []"
    by (intro truncate_values_all) (simp add: length_Sprintf)
  with False have "Truncate f m vs = take m (fixed_part f (length vs))"
    by (simp add: Truncate_def Let_def length_Sprintf fixed_part_def [symmetric])
  with False show ?thesis by simp
qed

text \<open>C22: a truncated name never exceeds the bound.  As long as the fixed part of the format fits,
  the result is empty or starts and ends with an alphanumeric character, as label values and DNS
  names require; when the fixed part alone is longer than the bound, the result is cut at the
  bound with every value dropped, and may end anywhere.\<close>

theorem Truncate_bound_and_ends:
  "length (Truncate f m vs) \<le> m \<and>
   (if length (fixed_part f (length vs)) \<le> m
    then Truncate f m vs = [] \<or> alnum_char (hd (Truncate f m vs)) \<and> alnum_char (last (Truncate f m vs))
    else Truncate f m vs = take m (fixed_part f (length vs)))"
  by (rule Truncate_bound_and_ends_aux)

text \<open>A name that fits and has alphanumeric ends is not changed by \<open>Truncate\<close>, so the labels of
  short names are the names themselves.\<close>

lemma Truncate_short:
  assumes "length n \<le> m" "n \<noteq> []" "alnum_char (hd n)" "alnum_char (last n)" "CHR ''%'' \<notin> set n"
  shows "Truncate n m [] = n"
proof -
  have "rev (dropWhile (\<lambda>c. \<not> alnum_char c) (rev n)) = n"
    using assms by (cases n rule: rev_cases) auto
  moreover have "dropWhile (\<lambda>c. \<not> alnum_char c) n = n" using assms by (cases n) auto
  ultimately show ?thesis
    using assms by (simp add: Truncate_def Sprintf_plain trimNonAlphaNumeric_def)
qed

lemma lower_or_digit_a [simp]: "lower_char (CHR ''a'')"
  by (simp add: lower_char_def)

text \<open>\<open>DNSName\<close> keeps the length of the name, produces only lower case letters, digits and
  dashes, and never puts a dash at either end.\<close>

theorem DNSName_is_dns_label:
  "length (DNSName n) = length n \<and>
   list_all (\<lambda>c. lower_char c \<or> digit_char c \<or> c = CHR ''-'') (DNSName n) \<and>
   (n = [] \<or> (lower_char (hd (DNSName n)) \<or> digit_char (hd (DNSName n)))
           \<and> (lower_char (last (DNSName n)) \<or> digit_char (last (DNSName n))))"
proof -
  have len: "length (DNSName n) = length n" by (simp add: DNSName_def ToLower_def)
  have nth: "DNSName n ! i = (let x = ToLower n ! i in if lower_char x \<or> digit_char x then x
      else if i = 0 \<or> i = length n - 1 then CHR ''a'' else CHR ''-'')" if "i < length n" for i
    using that by (simp add: DNSName_def ToLower_def nth_enumerate_eq)
  have "list_all (\<lambda>c. lower_char c \<or> digit_char c \<or> c = CHR ''-'') (DNSName n)"
    by (auto simp: list_all_iff in_set_conv_nth len nth Let_def split: if_splits)
  moreover have "lower_char (DNSName n ! i) \<or> digit_char (DNSName n ! i)"
    if "n \<noteq> []" "i = 0 \<or> i = length n - 1" for i
    using that by (subst (1 2) nth) (auto simp: Let_def)
  ultimately show ?thesis
    by (metis len hd_conv_nth last_conv_nth length_0_conv)
qed

section \<open>Ports\<close>

lemma FindItem_prefix: "FindItem p args = [] \<or> (FindItem p args \<in> set args \<and> HasPrefix (FindItem p args) p)"
  by (induction p args rule: FindItem.induct) auto

lemma after_byte_append: "b \<notin> set s \<Longrightarrow> after_byte b (s @ b # t) = Some t"
  by (induction s) auto

lemma sint_word_range:
  "- (2 ^ (32 - 1)) \<le> sint (p :: 32 word)" "sint (p :: 32 word) < 2 ^ (32 - 1)"
  using sint_range_size [of p] by (simp_all add: word_size)

text \<open>The port that a flag carries is the port that the operator exposes: when the first
  argument with the prefix is \<open>prefix host:port\<close>, \<open>GetPort\<close> returns exactly that 32-bit number, and
  the default is used when no argument has the prefix.\<close>

theorem GetPort_roundtrip:
  assumes "FindItem prefix args = prefix @ host @ '':'' @ Itoa (sint p)"
    and "CHR '':'' \<notin> set (prefix @ host)"
  shows "GetPort prefix args dflt = p"
proof -
  have "after_byte (CHR '':'') ((prefix @ host) @ CHR '':'' # Itoa (sint p)) = Some (Itoa (sint p))"
    using assms(2) by (rule after_byte_append)
  moreover have "ParseInt 32 (Itoa (sint p)) = Some (sint p)"
    by (rule ParseInt_Itoa) (rule sint_word_range)+
  ultimately show ?thesis
    by (simp add: GetPort_def assms(1))
qed

theorem GetPort_roundtrip_witness:
  "GetPort ''--http='' [''--x=1'', ''--http=h:8080''] 16686 = (8080 :: int32)"
proof (rule GetPort_roundtrip [where host = "''h''"])
  show "FindItem ''--http='' [''--x=1'', ''--http=h:8080''] = ''--http='' @ ''h'' @ '':'' @ Itoa (sint (8080 :: int32))"
    by (simp add: Itoa_def nat_digits.simps)
qed simp

end
