(* ===== verification/Inventory.thy ===== *)
theory Inventory
  imports Util
begin

text \<open>
  Package \<open>pkg/inventory\<close>: for every kind of object, the comparison of the existing and the desired
  objects of an instance that yields what to create, update and delete, with the rules by which an
  existing object takes over the desired one.  The fifteen builders of the source repeat the same
  loop; here the loop is one function, each builder is an instance of it with its own key and its
  own update rule, and the laws are proved once in the locale \<open>inventory_kind\<close> and interpreted for
  every builder.
\<close>

section \<open>The loop of a builder\<close>

record 'a Inventory =
  inv_Create :: "'a list"
  inv_Update :: "'a list"
  inv_Delete :: "'a list"

text \<open>\<open>fmt.Sprintf("%s.%s", d.Namespace, d.Name)\<close>\<close>

definition objkey :: "ObjectMeta \<Rightarrow> string" where
  "objkey m = om_Namespace m @ ''.'' @ om_Name m"

text \<open>The \<open>\<dots>Map\<close> functions: a later object replaces an earlier one with the same key.\<close>

definition object_map :: "('a \<Rightarrow> string) \<Rightarrow> 'a list \<Rightarrow> 'a amap" where
  "object_map key deps = put_all (map (\<lambda>d. (key d, d)) deps) []"

text \<open>
  The loop ranges over the map of desired objects and deletes the matched keys from both maps while
  it runs; \<open>todo\<close> is the rest of the range, in any order.
\<close>

fun inventory_loop :: "('a \<Rightarrow> 'a \<Rightarrow> 'a) \<Rightarrow> 'a amap \<Rightarrow> 'a amap \<Rightarrow> 'a amap \<Rightarrow> 'a list \<Rightarrow> 'a Inventory" where
  "inventory_loop upd [] mcreate mdelete update =
     \<lparr>inv_Create = map snd mcreate, inv_Update = update, inv_Delete = map snd mdelete\<rparr>"
| "inventory_loop upd ((k, v) # todo) mcreate mdelete update =
     (case map_of mdelete k of
        Some t \<Rightarrow> inventory_loop upd todo (AList.delete k mcreate) (AList.delete k mdelete) (update @ [upd t v])
      | None \<Rightarrow> inventory_loop upd todo mcreate mdelete update)"

definition build_inventory :: "('a \<Rightarrow> string) \<Rightarrow> ('a \<Rightarrow> 'a \<Rightarrow> 'a) \<Rightarrow> 'a list \<Rightarrow> 'a list \<Rightarrow> 'a Inventory" where
  "build_inventory key upd existing desired =
     (let mcreate = object_map key desired; mdelete = object_map key existing
      in inventory_loop upd mcreate mcreate mdelete [])"

text \<open>What every update takes from the desired metadata \<open>v\<close>; the rest of \<open>t\<close> stays.\<close>

definition merge_meta :: "ObjectMeta \<Rightarrow> ObjectMeta \<Rightarrow> ObjectMeta" where
  "merge_meta t v =
     (let tp = InitObjectMeta t
      in tp\<lparr>om_OwnerReferences := om_OwnerReferences v,
            om_Annotations := Some (put_all (entries (om_Annotations v)) (entries (om_Annotations tp))),
            om_Labels := Some (put_all (entries (om_Labels v)) (entries (om_Labels tp)))\<rparr>)"

lemma InitObjectMeta_fields [simp]:
  "entries (om_Labels (InitObjectMeta t)) = entries (om_Labels t)"
  "entries (om_Annotations (InitObjectMeta t)) = entries (om_Annotations t)"
  by (simp_all add: InitObjectMeta_def Let_def)

lemma merge_meta_fields [simp]:
  "om_Name (merge_meta t v) = om_Name t" "om_Namespace (merge_meta t v) = om_Namespace t"
  "om_UID (merge_meta t v) = om_UID t" "om_rest (merge_meta t v) = om_rest t"
  "om_OwnerReferences (merge_meta t v) = om_OwnerReferences v"
  "objkey (merge_meta t v) = objkey t"
  by (simp_all add: merge_meta_def InitObjectMeta_def Let_def objkey_def)

lemma mget_merge_meta:
  "wf_gomap (om_Labels v) \<Longrightarrow>
     mget (om_Labels (merge_meta t v)) k = or_else (mget (om_Labels v) k) (mget (om_Labels t) k)"
  "wf_gomap (om_Annotations v) \<Longrightarrow>
     mget (om_Annotations (merge_meta t v)) k = or_else (mget (om_Annotations v) k) (mget (om_Annotations t) k)"
  by (simp_all add: merge_meta_def Let_def mget_def or_else_def map_of_put_all wf_gomap_def)

section \<open>The builders\<close>

definition update_ServiceAccount :: "ServiceAccount \<Rightarrow> ServiceAccount \<Rightarrow> ServiceAccount" where
  "update_ServiceAccount t v = t\<lparr>sa_Meta := merge_meta (sa_Meta t) (sa_Meta v)\<rparr>"

definition ForAccounts :: "ServiceAccount list \<Rightarrow> ServiceAccount list \<Rightarrow> ServiceAccount Inventory" where
  "ForAccounts existing desired = build_inventory (\<lambda>d. objkey (sa_Meta d)) update_ServiceAccount existing desired"

definition update_ClusterRoleBinding :: "ClusterRoleBinding \<Rightarrow> ClusterRoleBinding \<Rightarrow> ClusterRoleBinding" where
  "update_ClusterRoleBinding t v = t\<lparr>crb_Subjects := crb_Subjects v, crb_RoleRef := crb_RoleRef v, crb_Meta := merge_meta (crb_Meta t) (crb_Meta v)\<rparr>"

definition ForClusterRoleBindings :: "ClusterRoleBinding list \<Rightarrow> ClusterRoleBinding list \<Rightarrow> ClusterRoleBinding Inventory" where
  "ForClusterRoleBindings existing desired = build_inventory (\<lambda>d. objkey (crb_Meta d)) update_ClusterRoleBinding existing desired"

definition update_ConfigMap :: "ConfigMap \<Rightarrow> ConfigMap \<Rightarrow> ConfigMap" where
  "update_ConfigMap t v = t\<lparr>cm_Data := cm_Data v, cm_BinaryData := cm_BinaryData v, cm_Meta := merge_meta (cm_Meta t) (cm_Meta v)\<rparr>"

definition ForConfigMaps :: "ConfigMap list \<Rightarrow> ConfigMap list \<Rightarrow> ConfigMap Inventory" where
  "ForConfigMaps existing desired = build_inventory (\<lambda>d. objkey (cm_Meta d)) update_ConfigMap existing desired"

definition update_ConsoleLink :: "ConsoleLink \<Rightarrow> ConsoleLink \<Rightarrow> ConsoleLink" where
  "update_ConsoleLink t v = t\<lparr>cl_Spec := cl_Spec v, cl_Meta := merge_meta (cl_Meta t) (cl_Meta v)\<rparr>"

definition ForConsoleLinks :: "ConsoleLink list \<Rightarrow> ConsoleLink list \<Rightarrow> ConsoleLink Inventory" where
  "ForConsoleLinks existing desired = build_inventory (\<lambda>d. om_Name (cl_Meta d)) update_ConsoleLink existing desired"

definition update_DaemonSet :: "DaemonSet \<Rightarrow> DaemonSet \<Rightarrow> DaemonSet" where
  "update_DaemonSet t v = t\<lparr>dae_Selector := dae_Selector v, dae_Template := dae_Template v, dae_Meta := merge_meta (dae_Meta t) (dae_Meta v)\<rparr>"

definition ForDaemonSets :: "DaemonSet list \<Rightarrow> DaemonSet list \<Rightarrow> DaemonSet Inventory" where
  "ForDaemonSets existing desired = build_inventory (\<lambda>d. objkey (dae_Meta d)) update_DaemonSet existing desired"

definition update_Elasticsearch :: "Elasticsearch \<Rightarrow> Elasticsearch \<Rightarrow> Elasticsearch" where
  "update_Elasticsearch t v = t\<lparr>es_Spec := es_Spec v, es_Meta := merge_meta (es_Meta t) (es_Meta v)\<rparr>"

definition ForElasticsearches :: "Elasticsearch list \<Rightarrow> Elasticsearch list \<Rightarrow> Elasticsearch Inventory" where
  "ForElasticsearches existing desired = build_inventory (\<lambda>d. objkey (es_Meta d)) update_Elasticsearch existing desired"

definition update_Ingress :: "Ingress \<Rightarrow> Ingress \<Rightarrow> Ingress" where
  "update_Ingress t v = t\<lparr>ing_Spec := ing_Spec v, ing_Meta := merge_meta (ing_Meta t) (ing_Meta v)\<rparr>"

definition ForIngresses :: "Ingress list \<Rightarrow> Ingress list \<Rightarrow> Ingress Inventory" where
  "ForIngresses existing desired = build_inventory (\<lambda>d. objkey (ing_Meta d)) update_Ingress existing desired"

definition update_Kafka :: "Kafka \<Rightarrow> Kafka \<Rightarrow> Kafka" where
  "update_Kafka t v = t\<lparr>kf_Spec := kf_Spec v, kf_Meta := merge_meta (kf_Meta t) (kf_Meta v)\<rparr>"

definition ForKafkas :: "Kafka list \<Rightarrow> Kafka list \<Rightarrow> Kafka Inventory" where
  "ForKafkas existing desired = build_inventory (\<lambda>d. objkey (kf_Meta d)) update_Kafka existing desired"

definition update_KafkaUser :: "KafkaUser \<Rightarrow> KafkaUser \<Rightarrow> KafkaUser" where
  "update_KafkaUser t v = t\<lparr>ku_Spec := ku_Spec v, ku_Meta := merge_meta (ku_Meta t) (ku_Meta v)\<rparr>"

definition ForKafkaUsers :: "KafkaUser list \<Rightarrow> KafkaUser list \<Rightarrow> KafkaUser Inventory" where
  "ForKafkaUsers existing desired = build_inventory (\<lambda>d. objkey (ku_Meta d)) update_KafkaUser existing desired"

definition update_Route :: "Route \<Rightarrow> Route \<Rightarrow> Route" where
  "update_Route t v = t\<lparr>rt_Spec := rt_Spec v, rt_Meta := merge_meta (rt_Meta t) (rt_Meta v)\<rparr>"

definition ForRoutes :: "Route list \<Rightarrow> Route list \<Rightarrow> Route Inventory" where
  "ForRoutes existing desired = build_inventory (\<lambda>d. objkey (rt_Meta d)) update_Route existing desired"

definition update_Secret :: "Secret \<Rightarrow> Secret \<Rightarrow> Secret" where
  "update_Secret t v = t\<lparr>sec_Data := sec_Data v, sec_StringData := sec_StringData v, sec_Meta := merge_meta (sec_Meta t) (sec_Meta v)\<rparr>"

definition ForSecrets :: "Secret list \<Rightarrow> Secret list \<Rightarrow> Secret Inventory" where
  "ForSecrets existing desired = build_inventory (\<lambda>d. objkey (sec_Meta d)) update_Secret existing desired"

text \<open>Services keep the cluster address that the cluster assigned.\<close>

definition update_Service :: "Service \<Rightarrow> Service \<Rightarrow> Service" where
  "update_Service t v =
     (let spec = (if ss_ClusterIP (svc_Spec v) = [] \<and> length (ss_ClusterIP (svc_Spec t)) > 0
                  then (svc_Spec v)\<lparr>ss_ClusterIP := ss_ClusterIP (svc_Spec t)\<rparr> else svc_Spec v)
      in t\<lparr>svc_Spec := spec, svc_Meta := merge_meta (svc_Meta t) (svc_Meta v)\<rparr>)"

definition ForServices :: "Service list \<Rightarrow> Service list \<Rightarrow> Service Inventory" where
  "ForServices existing desired = build_inventory (\<lambda>d. objkey (svc_Meta d)) update_Service existing desired"

text \<open>
  \<open>inject.PropagateOAuthCookieSecret\<close>: the cookie secret of the first proxy container of the old
  template replaces every argument with that prefix in the proxy containers of the new one.
\<close>

definition cookie_secret_arg :: "Container list \<Rightarrow> string" where
  "cookie_secret_arg cs = (case find (\<lambda>c. c_Name c = ''oauth-proxy'') cs of
     None \<Rightarrow> [] | Some c \<Rightarrow> FindItem ''--cookie-secret='' (c_Args c))"

definition PropagateOAuthCookieSecret :: "DeploymentSpec \<Rightarrow> DeploymentSpec \<Rightarrow> DeploymentSpec" where
  "PropagateOAuthCookieSecret specSrc specDst =
     (let secretArg = cookie_secret_arg (ps_Containers (pt_Spec (ds_Template specSrc)))
      in if secretArg \<noteq> [] then
           ds_Template_update (pt_Spec_update (ps_Containers_update (map (\<lambda>c.
             if c_Name c = ''oauth-proxy''
             then c\<lparr>c_Args := snd (ReplaceArgument ''--cookie-secret'' secretArg (c_Args c))\<rparr> else c)))) specDst
         else specDst)"

definition update_Deployment :: "Deployment \<Rightarrow> Deployment \<Rightarrow> Deployment" where
  "update_Deployment t v =
     (let vspec = (if ds_Replicas (dep_Spec t) \<noteq> None \<and> ds_Replicas (dep_Spec v) = None
                   then (dep_Spec v)\<lparr>ds_Replicas := ds_Replicas (dep_Spec t)\<rparr> else dep_Spec v);
          spec = PropagateOAuthCookieSecret (dep_Spec t) vspec
      in t\<lparr>dep_Spec := spec\<lparr>ds_Selector := ds_Selector (dep_Spec t)\<rparr>,
           dep_Meta := merge_meta (dep_Meta t) (dep_Meta v)\<rparr>)"

definition ForDeployments :: "Deployment list \<Rightarrow> Deployment list \<Rightarrow> Deployment Inventory" where
  "ForDeployments existing desired =
     build_inventory (\<lambda>d. objkey (dep_Meta d)) update_Deployment existing desired"

text \<open>
  The two builders over \<open>runtime.Object\<close> assert that every object has the API version that the
  operator is configured for; an object of the other version is a run-time panic.
\<close>

definition cronjob_version_of :: "Env \<Rightarrow> cronjob_version" where
  "cronjob_version_of e =
     (if viper_GetString e FlagCronJobsVersion = FlagCronJobsVersionBatchV1Beta1 then BatchV1Beta1 else BatchV1)"

definition update_CronJob :: "CronJob \<Rightarrow> CronJob \<Rightarrow> CronJob" where
  "update_CronJob t v = t\<lparr>cj_Spec := cj_Spec v, cj_Meta := merge_meta (cj_Meta t) (cj_Meta v)\<rparr>"

definition ForCronJobs :: "Env \<Rightarrow> CronJob list \<Rightarrow> CronJob list \<Rightarrow> CronJob Inventory res" where
  "ForCronJobs e existing desired =
     (if \<forall>d \<in> set (existing @ desired). cj_Version d = cronjob_version_of e
      then Inr (build_inventory (\<lambda>d. objkey (cj_Meta d)) update_CronJob existing desired)
      else Inl TypeAssertion)"

definition hpa_version_of :: "Env \<Rightarrow> hpa_version" where
  "hpa_version_of e =
     (if viper_GetString e FlagAutoscalingVersion = FlagAutoscalingVersionV2Beta2 then AutoscalingV2Beta2
      else AutoscalingV2)"

definition update_HPA :: "HPA \<Rightarrow> HPA \<Rightarrow> HPA" where
  "update_HPA t v = t\<lparr>hpa_Spec := hpa_Spec v, hpa_Meta := merge_meta (hpa_Meta t) (hpa_Meta v)\<rparr>"

definition ForHorizontalPodAutoscalers :: "Env \<Rightarrow> HPA list \<Rightarrow> HPA list \<Rightarrow> HPA Inventory res" where
  "ForHorizontalPodAutoscalers e existing desired =
     (if \<forall>d \<in> set (existing @ desired). hpa_Version d = hpa_version_of e
      then Inr (build_inventory (\<lambda>d. objkey (hpa_Meta d)) update_HPA existing desired)
      else Inl TypeAssertion)"

section \<open>The laws of a builder\<close>

text \<open>The last object of a list with a given key: what the map of the builder holds.\<close>

definition last_with :: "('a \<Rightarrow> string) \<Rightarrow> string \<Rightarrow> 'a list \<Rightarrow> 'a option" where
  "last_with key k xs = find (\<lambda>x. key x = k) (rev xs)"

lemma map_of_put_all_pairs:
  "map_of (put_all (map (\<lambda>d. (key d, d)) xs) al) k = or_else (last_with key k xs) (map_of al k)"
proof (induction xs arbitrary: al)
  case (Cons x xs)
  then show ?case
    by (auto simp: last_with_def find_append update_conv' or_else_def split: option.splits)
qed (simp add: last_with_def)

lemma map_of_object_map: "map_of (object_map key xs) k = last_with key k xs"
  by (simp add: object_map_def map_of_put_all_pairs or_else_def split: option.split)

lemma wf_object_map [simp]: "wf_amap (object_map key xs)"
  by (simp add: object_map_def)

lemma last_with_key: "last_with key k xs = Some x \<Longrightarrow> key x = k \<and> x \<in> set xs"
  by (auto simp: last_with_def dest: find_SomeD)

lemma last_with_None: "last_with key k xs = None \<longleftrightarrow> k \<notin> key ` set xs"
  by (auto simp: last_with_def find_None_iff)

lemma map_filter_cong: "(\<And>x. x \<in> set xs \<Longrightarrow> f x = g x) \<Longrightarrow> List.map_filter f xs = List.map_filter g xs"
  by (induction xs) (simp_all add: List.map_filter_simps split: option.split)

lemma filter_delete:
  "filter (\<lambda>(j, v). P j) (AList.delete k al) = filter (\<lambda>(j, v). P j \<and> j \<noteq> k) al"
  by (simp add: AList.delete_eq filter_filter) (rule filter_cong, auto)

lemma map_fst_filter: "map fst (filter (\<lambda>(k, v). P k) al) = filter P (map fst al)"
  by (induction al) auto

lemma inventory_loop_eq:
  assumes "wf_amap todo"
  shows "inventory_loop upd todo mc md up =
    \<lparr>inv_Create = map snd (filter (\<lambda>(k, v). \<not> (k \<in> fst ` set todo \<and> map_of md k \<noteq> None)) mc),
     inv_Update = up @ List.map_filter (\<lambda>(k, v). map_option (\<lambda>t. upd t v) (map_of md k)) todo,
     inv_Delete = map snd (filter (\<lambda>(k, v). k \<notin> fst ` set todo) md)\<rparr>"
  using assms
proof (induction todo arbitrary: mc md up)
  case Nil
  then show ?case by (simp add: List.map_filter_simps)
next
  case (Cons x todo)
  obtain k v where x: "x = (k, v)" by (cases x)
  with Cons.prems have k: "k \<notin> fst ` set todo" and wf: "wf_amap todo" by auto
  show ?case
  proof (cases "map_of md k")
    case None
    then have "fst ` set md \<inter> {k} = {}" by (auto simp: map_of_eq_None_iff)
    then have "filter (\<lambda>(j, v). j \<notin> fst ` set todo) md = filter (\<lambda>(j, v). j \<notin> fst ` set (x # todo)) md"
      by (intro filter_cong) (force simp: x)+
    with None show ?thesis
      by (simp add: x Cons.IH [OF wf] List.map_filter_simps) (rule arg_cong [where f = "map snd"], rule filter_cong, auto)
  next
    case (Some t)
    have "List.map_filter (\<lambda>(j, v). map_option (\<lambda>t. upd t v) (map_of (AList.delete k md) j)) todo
        = List.map_filter (\<lambda>(j, v). map_option (\<lambda>t. upd t v) (map_of md j)) todo"
      by (rule map_filter_cong) (use k in \<open>force simp: delete_conv'\<close>)
    moreover have "filter (\<lambda>(j, v). \<not> (j \<in> fst ` set todo \<and> map_of (AList.delete k md) j \<noteq> None)) (AList.delete k mc)
        = filter (\<lambda>(j, v). \<not> (j \<in> fst ` set (x # todo) \<and> map_of md j \<noteq> None)) mc"
      unfolding filter_delete by (rule filter_cong) (auto simp: x Some delete_conv')
    moreover have "filter (\<lambda>(j, v). j \<notin> fst ` set todo) (AList.delete k md)
        = filter (\<lambda>(j, v). j \<notin> fst ` set (x # todo)) md"
      unfolding filter_delete by (rule filter_cong) (auto simp: x)
    ultimately show ?thesis
      by (simp only: x inventory_loop.simps Some option.case Cons.IH [OF wf])
        (simp add: List.map_filter_simps Some)
  qed
qed

definition partitions :: "('a \<Rightarrow> string) \<Rightarrow> ('a \<Rightarrow> 'a \<Rightarrow> 'a) \<Rightarrow> 'a list \<Rightarrow> 'a list \<Rightarrow> 'a Inventory \<Rightarrow> bool" where
  "partitions key upd existing desired i \<longleftrightarrow>
     (\<forall>x. x \<in> set (inv_Create i) \<longleftrightarrow> last_with key (key x) desired = Some x \<and> key x \<notin> key ` set existing) \<and>
     (\<forall>x. x \<in> set (inv_Delete i) \<longleftrightarrow> last_with key (key x) existing = Some x \<and> key x \<notin> key ` set desired) \<and>
     (\<forall>u. u \<in> set (inv_Update i) \<longleftrightarrow>
        (\<exists>k t v. last_with key k existing = Some t \<and> last_with key k desired = Some v \<and> u = upd t v)) \<and>
     distinct (map key (inv_Create i @ inv_Update i @ inv_Delete i))"

locale inventory_kind =
  fixes key :: "'a \<Rightarrow> string" and upd :: "'a \<Rightarrow> 'a \<Rightarrow> 'a"
    and builder :: "'a list \<Rightarrow> 'a list \<Rightarrow> 'a Inventory"
  assumes builder_eq: "builder existing desired = build_inventory key upd existing desired"
    and key_upd: "key (upd t v) = key t"
begin

lemma object_map_key: "(k, x) \<in> set (object_map key xs) \<longleftrightarrow> last_with key k xs = Some x"
  by (metis map_of_object_map map_of_is_SomeI map_of_SomeD wf_object_map)

lemma builder_lists:
  "inv_Create (builder ex de) = map snd (filter (\<lambda>(k, v). last_with key k ex = None) (object_map key de))"
  "inv_Delete (builder ex de) = map snd (filter (\<lambda>(k, v). last_with key k de = None) (object_map key ex))"
  "inv_Update (builder ex de) =
     List.map_filter (\<lambda>(k, v). map_option (\<lambda>t. upd t v) (last_with key k ex)) (object_map key de)"
proof -
  have "k \<in> fst ` set (object_map key xs) \<longleftrightarrow> last_with key k xs \<noteq> None" for k xs
    by (metis map_of_object_map map_of_eq_None_iff)
  then show
    "inv_Create (builder ex de) = map snd (filter (\<lambda>(k, v). last_with key k ex = None) (object_map key de))"
    "inv_Delete (builder ex de) = map snd (filter (\<lambda>(k, v). last_with key k de = None) (object_map key ex))"
    "inv_Update (builder ex de) =
     List.map_filter (\<lambda>(k, v). map_option (\<lambda>t. upd t v) (last_with key k ex)) (object_map key de)"
    by (auto simp: builder_eq build_inventory_def Let_def inventory_loop_eq map_of_object_map
        object_map_key intro!: arg_cong [where f = "map snd"] filter_cong)
qed

lemma map_key_object_map:
  "map key (map snd (filter (\<lambda>(k, v). P k) (object_map key xs))) = filter P (map fst (object_map key xs))"
proof -
  have "(\<forall>(k, x) \<in> set al. key x = k) \<Longrightarrow> map key (map snd al) = map fst al" for al
    by (induction al) auto
  moreover have "\<forall>(k, x) \<in> set (filter (\<lambda>(k, v). P k) (object_map key xs)). key x = k"
    by (auto simp: object_map_key dest: last_with_key)
  ultimately have "map key (map snd (filter (\<lambda>(k, v). P k) (object_map key xs)))
      = map fst (filter (\<lambda>(k, v). P k) (object_map key xs))" by blast
  then show ?thesis by (simp only: map_fst_filter)
qed

lemma create_keys:
  "map key (inv_Create (builder ex de)) = filter (\<lambda>k. last_with key k ex = None) (map fst (object_map key de))"
  "map key (inv_Delete (builder ex de)) = filter (\<lambda>k. last_with key k de = None) (map fst (object_map key ex))"
  by (simp_all only: builder_lists map_key_object_map)

lemma update_keys:
  "map key (inv_Update (builder ex de)) = filter (\<lambda>k. last_with key k ex \<noteq> None) (map fst (object_map key de))"
proof -
  have "map key (List.map_filter (\<lambda>(k, v). map_option (\<lambda>t. upd t v) (last_with key k ex)) al)
      = filter (\<lambda>k. last_with key k ex \<noteq> None) (map fst al)" for al :: "'a amap"
    by (induction al) (auto simp: List.map_filter_simps key_upd last_with_key split: option.splits)
  then show ?thesis by (simp add: builder_lists)
qed

lemma object_map_keys: "k \<in> set (map fst (object_map key xs)) \<longleftrightarrow> last_with key k xs \<noteq> None"
  by (metis map_of_object_map map_of_eq_None_iff set_map)

lemma in_Create_iff:
  "x \<in> set (inv_Create (builder ex de)) \<longleftrightarrow> last_with key (key x) de = Some x \<and> key x \<notin> key ` set ex"
proof -
  have "x \<in> set (inv_Create (builder ex de)) \<longleftrightarrow> (\<exists>k. last_with key k de = Some x \<and> last_with key k ex = None)"
    by (force simp: builder_lists object_map_key image_iff)
  then show ?thesis by (metis last_with_key last_with_None)
qed

lemma in_Delete_iff:
  "x \<in> set (inv_Delete (builder ex de)) \<longleftrightarrow> last_with key (key x) ex = Some x \<and> key x \<notin> key ` set de"
proof -
  have "x \<in> set (inv_Delete (builder ex de)) \<longleftrightarrow> (\<exists>k. last_with key k ex = Some x \<and> last_with key k de = None)"
    by (force simp: builder_lists object_map_key image_iff)
  then show ?thesis by (metis last_with_key last_with_None)
qed

lemma in_Update_iff:
  "u \<in> set (inv_Update (builder ex de)) \<longleftrightarrow>
     (\<exists>k t v. last_with key k ex = Some t \<and> last_with key k de = Some v \<and> u = upd t v)"
  by (force simp: builder_lists List.map_filter_def object_map_key image_iff)

lemma builder_partitions: "partitions key upd ex de (builder ex de)"
proof -
  have "distinct (map key (inv_Create (builder ex de) @ inv_Update (builder ex de) @ inv_Delete (builder ex de)))"
    unfolding map_append create_keys update_keys
    by (auto simp: object_map_keys simp del: set_map)
  then show ?thesis
    by (simp add: partitions_def in_Create_iff in_Delete_iff in_Update_iff del: map_append)
qed

end

text \<open>The same partition seen through any other naming of the objects that agrees with the key.\<close>

lemma partition_idents:
  assumes "partitions key upd ex de i"
  shows "(\<And>d d'. d \<in> set de \<union> set ex \<Longrightarrow> d' \<in> set de \<union> set ex \<Longrightarrow> key d = key d' \<longleftrightarrow> f d = f d') \<Longrightarrow>
      f ` set (inv_Create i) = f ` set de - f ` set ex"
    and "(\<And>d d'. d \<in> set de \<union> set ex \<Longrightarrow> d' \<in> set de \<union> set ex \<Longrightarrow> key d = key d' \<longleftrightarrow> f d = f d') \<Longrightarrow>
      f ` set (inv_Delete i) = f ` set ex - f ` set de"
proof -
  have gen: "f ` {x. last_with key (key x) a = Some x \<and> key x \<notin> key ` set b} = f ` set a - f ` set b"
    if k: "\<And>d d'. d \<in> set a \<union> set b \<Longrightarrow> d' \<in> set a \<union> set b \<Longrightarrow> key d = key d' \<longleftrightarrow> f d = f d'" for a b
  proof (intro set_eqI iffI)
    fix y assume "y \<in> f ` {x. last_with key (key x) a = Some x \<and> key x \<notin> key ` set b}"
    then obtain x where "y = f x" "x \<in> set a" "key x \<notin> key ` set b" by (auto dest: last_with_key)
    with k show "y \<in> f ` set a - f ` set b" by (auto simp: image_iff)
  next
    fix y assume "y \<in> f ` set a - f ` set b"
    then obtain x where x: "y = f x" "x \<in> set a" "f x \<notin> f ` set b" by auto
    then obtain z where z: "last_with key (key x) a = Some z"
      by (cases "last_with key (key x) a") (auto simp: last_with_None)
    then have "key z = key x" "z \<in> set a" by (auto dest: last_with_key)
    with x z k have "f z = y" "key z \<notin> key ` set b" by (auto simp: image_iff)
    with z \<open>key z = key x\<close> show "y \<in> f ` {x. last_with key (key x) a = Some x \<and> key x \<notin> key ` set b}"
      by force
  qed
  have c: "set (inv_Create i) = {x. last_with key (key x) de = Some x \<and> key x \<notin> key ` set ex}"
    and d: "set (inv_Delete i) = {x. last_with key (key x) ex = Some x \<and> key x \<notin> key ` set de}"
    using assms by (auto simp: partitions_def)
  show "f ` set (inv_Create i) = f ` set de - f ` set ex"
    if "\<And>d d'. d \<in> set de \<union> set ex \<Longrightarrow> d' \<in> set de \<union> set ex \<Longrightarrow> key d = key d' \<longleftrightarrow> f d = f d'"
    unfolding c by (rule gen) (rule that)
  show "f ` set (inv_Delete i) = f ` set ex - f ` set de"
    if "\<And>d d'. d \<in> set de \<union> set ex \<Longrightarrow> d' \<in> set de \<union> set ex \<Longrightarrow> key d = key d' \<longleftrightarrow> f d = f d'"
    unfolding d by (rule gen) (rule that, auto)
qed

section \<open>Repeated updates\<close>

definition wf_meta :: "ObjectMeta \<Rightarrow> bool" where
  "wf_meta m \<longleftrightarrow> wf_gomap (om_Labels m) \<and> wf_gomap (om_Annotations m)"

lemma put_all_triv: "(\<forall>(k, v) \<in> set new. map_of al k = Some v) \<Longrightarrow> put_all new al = al"
  by (induction new) (auto simp: update_triv)

lemma put_all_idem: "wf_amap new \<Longrightarrow> put_all new (put_all new al) = put_all new al"
  by (rule put_all_triv) (auto simp: map_of_put_all)

lemma merge_meta_idem [simp]: "wf_meta v \<Longrightarrow> merge_meta (merge_meta t v) v = merge_meta t v"
  by (simp add: merge_meta_def InitObjectMeta_def Let_def wf_meta_def wf_gomap_def put_all_idem)

text \<open>
  A builder whose update rule absorbs itself: once the operations of an inventory have been carried
  out, comparing again with the same desired objects asks for no creation and no deletion, and the
  updates write back what is there.
\<close>

locale convergent_kind = inventory_kind key upd builder
  for key :: "'a \<Rightarrow> string" and upd and builder +
  fixes ok :: "'a \<Rightarrow> bool"
  assumes upd_idem: "ok v \<Longrightarrow> upd (upd t v) v = upd t v"
begin

abbreviation applied :: "'a list \<Rightarrow> 'a list \<Rightarrow> 'a list" where
  "applied ex de \<equiv> inv_Create (builder ex de) @ inv_Update (builder ex de)"

lemma applied_keys: "key ` set (applied ex de) = key ` set de"
proof -
  have "key ` set (applied ex de) = set (map key (applied ex de))" by (simp only: set_map)
  also have "\<dots> = set (map fst (object_map key de))"
    unfolding map_append create_keys update_keys by auto
  also have "\<dots> = key ` set de"
    by (auto simp: object_map_keys last_with_None simp del: set_map)
  finally show ?thesis .
qed

lemma last_with_applied:
  assumes "x \<in> set (applied ex de)"
  shows "last_with key (key x) (applied ex de) = Some x"
proof -
  have d: "distinct (map key (applied ex de))"
    using builder_partitions [of ex de] by (auto simp: partitions_def)
  obtain y where y: "last_with key (key x) (applied ex de) = Some y"
    using assms by (cases "last_with key (key x) (applied ex de)") (auto simp: last_with_None)
  then have "key y = key x" "y \<in> set (applied ex de)" by (auto dest: last_with_key)
  with d assms have "y = x" by (auto simp: distinct_map dest: inj_onD)
  with y show ?thesis by simp
qed

lemma second_round:
  assumes "\<forall>v \<in> set de. ok v"
  shows "inv_Create (builder (applied ex de) de) = []"
    and "inv_Delete (builder (applied ex de) de) = []"
    and "set (inv_Update (builder ex de)) \<subseteq> set (inv_Update (builder (applied ex de) de))"
proof -
  have "x \<notin> set (inv_Create (builder (applied ex de) de))" for x
    using applied_keys [of ex de] last_with_key [of key "key x" de x] by (auto simp: in_Create_iff)
  then show "inv_Create (builder (applied ex de) de) = []" by (metis list.set_intros(1) neq_Nil_conv)
  have "x \<notin> set (inv_Delete (builder (applied ex de) de))" for x
    using applied_keys [of ex de] last_with_key [of key "key x" "applied ex de" x] by (auto simp: in_Delete_iff)
  then show "inv_Delete (builder (applied ex de) de) = []" by (metis list.set_intros(1) neq_Nil_conv)
  show "set (inv_Update (builder ex de)) \<subseteq> set (inv_Update (builder (applied ex de) de))"
  proof
    fix u assume u: "u \<in> set (inv_Update (builder ex de))"
    then obtain k t v where tv: "last_with key k ex = Some t" "last_with key k de = Some v" "u = upd t v"
      by (auto simp: in_Update_iff)
    then have "key u = k" and "ok v" using assms by (auto simp: key_upd dest: last_with_key)
    moreover have "last_with key (key u) (applied ex de) = Some u"
      using u by (intro last_with_applied) simp
    moreover have "upd u v = u" using \<open>ok v\<close> tv by (simp add: upd_idem)
    ultimately show "u \<in> set (inv_Update (builder (applied ex de) de))"
      using tv unfolding in_Update_iff by metis
  qed
qed

end

section \<open>The laws for every builder\<close>

interpretation accounts: convergent_kind "\<lambda>d. objkey (sa_Meta d)" update_ServiceAccount ForAccounts "\<lambda>d. wf_meta (sa_Meta d)"
  by unfold_locales (simp_all add: ForAccounts_def update_ServiceAccount_def merge_meta_idem)

interpretation bindings: convergent_kind "\<lambda>d. objkey (crb_Meta d)" update_ClusterRoleBinding ForClusterRoleBindings "\<lambda>d. wf_meta (crb_Meta d)"
  by unfold_locales (simp_all add: ForClusterRoleBindings_def update_ClusterRoleBinding_def merge_meta_idem)

interpretation configmaps: convergent_kind "\<lambda>d. objkey (cm_Meta d)" update_ConfigMap ForConfigMaps "\<lambda>d. wf_meta (cm_Meta d)"
  by unfold_locales (simp_all add: ForConfigMaps_def update_ConfigMap_def merge_meta_idem)

interpretation consolelinks: convergent_kind "\<lambda>d. om_Name (cl_Meta d)" update_ConsoleLink ForConsoleLinks "\<lambda>d. wf_meta (cl_Meta d)"
  by unfold_locales (simp_all add: ForConsoleLinks_def update_ConsoleLink_def merge_meta_idem)

interpretation daemonsets: convergent_kind "\<lambda>d. objkey (dae_Meta d)" update_DaemonSet ForDaemonSets "\<lambda>d. wf_meta (dae_Meta d)"
  by unfold_locales (simp_all add: ForDaemonSets_def update_DaemonSet_def merge_meta_idem)

interpretation elasticsearches: convergent_kind "\<lambda>d. objkey (es_Meta d)" update_Elasticsearch ForElasticsearches "\<lambda>d. wf_meta (es_Meta d)"
  by unfold_locales (simp_all add: ForElasticsearches_def update_Elasticsearch_def merge_meta_idem)

interpretation ingresses: convergent_kind "\<lambda>d. objkey (ing_Meta d)" update_Ingress ForIngresses "\<lambda>d. wf_meta (ing_Meta d)"
  by unfold_locales (simp_all add: ForIngresses_def update_Ingress_def merge_meta_idem)

interpretation kafkas: convergent_kind "\<lambda>d. objkey (kf_Meta d)" update_Kafka ForKafkas "\<lambda>d. wf_meta (kf_Meta d)"
  by unfold_locales (simp_all add: ForKafkas_def update_Kafka_def merge_meta_idem)

interpretation kafkausers: convergent_kind "\<lambda>d. objkey (ku_Meta d)" update_KafkaUser ForKafkaUsers "\<lambda>d. wf_meta (ku_Meta d)"
  by unfold_locales (simp_all add: ForKafkaUsers_def update_KafkaUser_def merge_meta_idem)

interpretation routes: convergent_kind "\<lambda>d. objkey (rt_Meta d)" update_Route ForRoutes "\<lambda>d. wf_meta (rt_Meta d)"
  by unfold_locales (simp_all add: ForRoutes_def update_Route_def merge_meta_idem)

interpretation secrets: convergent_kind "\<lambda>d. objkey (sec_Meta d)" update_Secret ForSecrets "\<lambda>d. wf_meta (sec_Meta d)"
  by unfold_locales (simp_all add: ForSecrets_def update_Secret_def merge_meta_idem)

interpretation services: convergent_kind "\<lambda>d. objkey (svc_Meta d)" update_Service ForServices "\<lambda>d. wf_meta (svc_Meta d)"
  by unfold_locales (simp_all add: ForServices_def update_Service_def merge_meta_idem Let_def)

interpretation deployments: inventory_kind "\<lambda>d. objkey (dep_Meta d)" update_Deployment ForDeployments
  by unfold_locales (simp_all add: ForDeployments_def update_Deployment_def Let_def)

interpretation cronjobs: convergent_kind "\<lambda>d. objkey (cj_Meta d)" update_CronJob
  "build_inventory (\<lambda>d. objkey (cj_Meta d)) update_CronJob" "\<lambda>d. wf_meta (cj_Meta d)"
  by unfold_locales (simp_all add: update_CronJob_def)

interpretation autoscalers: convergent_kind "\<lambda>d. objkey (hpa_Meta d)" update_HPA
  "build_inventory (\<lambda>d. objkey (hpa_Meta d)) update_HPA" "\<lambda>d. wf_meta (hpa_Meta d)"
  by unfold_locales (simp_all add: update_HPA_def)

section \<open>Properties\<close>

text \<open>C9: for each of the fifteen kinds, the inventory sorts the objects by key into exactly three
  disjoint groups: desired only (create, the last desired object of each key), existing only
  (delete), and both (update, with the kind's own update rule applied to the last existing and the
  last desired object); the keys of all three lists together are distinct.  The two builders over
  untyped objects do this when every object has the configured API version.\<close>

theorem inventories_partition:
  "partitions (\<lambda>d. objkey (sa_Meta d)) update_ServiceAccount a1 b1 (ForAccounts a1 b1) \<and>
   partitions (\<lambda>d. objkey (crb_Meta d)) update_ClusterRoleBinding a2 b2 (ForClusterRoleBindings a2 b2) \<and>
   partitions (\<lambda>d. objkey (cm_Meta d)) update_ConfigMap a3 b3 (ForConfigMaps a3 b3) \<and>
   partitions (\<lambda>d. om_Name (cl_Meta d)) update_ConsoleLink a4 b4 (ForConsoleLinks a4 b4) \<and>
   partitions (\<lambda>d. objkey (dae_Meta d)) update_DaemonSet a5 b5 (ForDaemonSets a5 b5) \<and>
   partitions (\<lambda>d. objkey (dep_Meta d)) update_Deployment a6 b6 (ForDeployments a6 b6) \<and>
   partitions (\<lambda>d. objkey (es_Meta d)) update_Elasticsearch a7 b7 (ForElasticsearches a7 b7) \<and>
   partitions (\<lambda>d. objkey (ing_Meta d)) update_Ingress a8 b8 (ForIngresses a8 b8) \<and>
   partitions (\<lambda>d. objkey (kf_Meta d)) update_Kafka a9 b9 (ForKafkas a9 b9) \<and>
   partitions (\<lambda>d. objkey (ku_Meta d)) update_KafkaUser a10 b10 (ForKafkaUsers a10 b10) \<and>
   partitions (\<lambda>d. objkey (rt_Meta d)) update_Route a11 b11 (ForRoutes a11 b11) \<and>
   partitions (\<lambda>d. objkey (sec_Meta d)) update_Secret a12 b12 (ForSecrets a12 b12) \<and>
   partitions (\<lambda>d. objkey (svc_Meta d)) update_Service a13 b13 (ForServices a13 b13) \<and>
   (case ForCronJobs e a14 b14 of
      Inl err \<Rightarrow> err = TypeAssertion \<and> (\<exists>d \<in> set (a14 @ b14). cj_Version d \<noteq> cronjob_version_of e)
    | Inr i \<Rightarrow> partitions (\<lambda>d. objkey (cj_Meta d)) update_CronJob a14 b14 i) \<and>
   (case ForHorizontalPodAutoscalers e a15 b15 of
      Inl err \<Rightarrow> err = TypeAssertion \<and> (\<exists>d \<in> set (a15 @ b15). hpa_Version d \<noteq> hpa_version_of e)
    | Inr i \<Rightarrow> partitions (\<lambda>d. objkey (hpa_Meta d)) update_HPA a15 b15 i)"
  by (intro conjI accounts.builder_partitions bindings.builder_partitions configmaps.builder_partitions
      consolelinks.builder_partitions daemonsets.builder_partitions deployments.builder_partitions
      elasticsearches.builder_partitions ingresses.builder_partitions kafkas.builder_partitions
      kafkausers.builder_partitions routes.builder_partitions secrets.builder_partitions
      services.builder_partitions)
    (simp_all add: ForCronJobs_def ForHorizontalPodAutoscalers_def cronjobs.builder_partitions
      autoscalers.builder_partitions)

text \<open>Two objects with the same key are the same object of the cluster, since the name of a
  namespace has no dot.\<close>

lemma objkey_inj:
  assumes "CHR ''.'' \<notin> set (om_Namespace m)" "CHR ''.'' \<notin> set (om_Namespace m')" "objkey m = objkey m'"
  shows "om_Namespace m = om_Namespace m' \<and> om_Name m = om_Name m'"
proof -
  have "SplitN2 (CHR ''.'') (objkey m) = SplitN2 (CHR ''.'') (objkey m')" using assms by simp
  with assms(1,2) show ?thesis by (simp add: objkey_def SplitN2_append_sep)
qed


definition sample_service :: "string \<Rightarrow> string \<Rightarrow> Service" where
  "sample_service name ip = \<lparr>svc_TypeMeta = TypeMeta0,
     svc_Meta = ObjectMeta0\<lparr>om_Name := name, om_Namespace := ''ns'', om_Labels := Some [(''app'', ''jaeger'')]\<rparr>,
     svc_Spec = \<lparr>ss_Selector = None, ss_ClusterIP = ip, ss_Type = [], ss_Ports = []\<rparr>, svc_rest = []\<rparr>"


lemma ReplaceArgument_FindItem:
  assumes "HasPrefix a p" "HasPrefix a q" "\<And>x. HasPrefix x q \<Longrightarrow> HasPrefix x p"
    and "\<exists>x \<in> set args. HasPrefix x p"
  shows "FindItem q (snd (ReplaceArgument p a args)) = a"
  using assms(4)
proof (induction args)
  case (Cons x args)
  then show ?case using assms by (auto simp: ReplaceArgument_def)
qed simp

lemma cookie_prefix: "HasPrefix x ''--cookie-secret='' \<Longrightarrow> HasPrefix x ''--cookie-secret''"
  by (rule HasPrefix_trans [of x "''--cookie-secret=''"]) simp_all

lemma Propagate_containers:
  "ps_Containers (pt_Spec (ds_Template (PropagateOAuthCookieSecret src dst))) =
     (let a = cookie_secret_arg (ps_Containers (pt_Spec (ds_Template src)))
      in map (\<lambda>c. if c_Name c = ''oauth-proxy'' \<and> a \<noteq> []
           then c\<lparr>c_Args := snd (ReplaceArgument ''--cookie-secret'' a (c_Args c))\<rparr> else c)
         (ps_Containers (pt_Spec (ds_Template dst))))"
  by (auto simp: PropagateOAuthCookieSecret_def Let_def)

lemma Propagate_other_fields:
  "ds_Replicas (PropagateOAuthCookieSecret src dst) = ds_Replicas dst"
  "ds_Strategy (PropagateOAuthCookieSecret src dst) = ds_Strategy dst"
  "ps_Volumes (pt_Spec (ds_Template (PropagateOAuthCookieSecret src dst))) = ps_Volumes (pt_Spec (ds_Template dst))"
  by (simp_all add: PropagateOAuthCookieSecret_def Let_def)

lemma find_map_upd: "(\<And>c. P (f c) = P c) \<Longrightarrow> find P (map f cs) = map_option f (find P cs)"
  by (induction cs) auto

lemma cookie_secret_kept:
  assumes "cookie_secret_arg (ps_Containers (pt_Spec (ds_Template src))) = a" "a \<noteq> []"
    and "cookie_secret_arg (ps_Containers (pt_Spec (ds_Template dst))) \<noteq> []"
  shows "cookie_secret_arg (ps_Containers (pt_Spec (ds_Template (PropagateOAuthCookieSecret src dst)))) = a"
proof -
  obtain c where c: "find (\<lambda>c. c_Name c = ''oauth-proxy'') (ps_Containers (pt_Spec (ds_Template dst))) = Some c"
      "FindItem ''--cookie-secret='' (c_Args c) \<noteq> []"
    using assms(3) by (auto simp: cookie_secret_arg_def split: option.splits)
  have "HasPrefix a ''--cookie-secret=''"
    using assms(1,2) FindItem_prefix by (auto simp: cookie_secret_arg_def split: option.splits)
  moreover have "\<exists>x \<in> set (c_Args c). HasPrefix x ''--cookie-secret''"
    using c(2) FindItem_prefix [of "''--cookie-secret=''" "c_Args c"] by (blast intro: cookie_prefix)
  ultimately have "FindItem ''--cookie-secret='' (snd (ReplaceArgument ''--cookie-secret'' a (c_Args c))) = a"
    by (intro ReplaceArgument_FindItem cookie_prefix)
  moreover have "c_Name c = ''oauth-proxy''" using c(1) by (auto dest: find_SomeD)
  ultimately show ?thesis
    using assms(2) c(1) unfolding Propagate_containers Let_def assms(1)
    by (simp add: cookie_secret_arg_def find_map_upd)
qed

text \<open>C11: an updated deployment keeps what must not change across reconciliations: the immutable
  selector of the existing one, a replica count written by an autoscaler when the desired
  deployment leaves it open, and the cookie secret that the OAuth proxy was first given, so that
  sessions survive although every reconciliation generates a new secret; all other fields of the
  specification are the desired ones.\<close>

theorem deployment_update_keeps:
  assumes "u \<in> set (inv_Update (ForDeployments existing desired))"
  shows "\<exists>t \<in> set existing. \<exists>v \<in> set desired.
     objkey (dep_Meta t) = objkey (dep_Meta v) \<and> objkey (dep_Meta u) = objkey (dep_Meta t) \<and>
     ds_Selector (dep_Spec u) = ds_Selector (dep_Spec t) \<and>
     ds_Replicas (dep_Spec u) = or_else (ds_Replicas (dep_Spec v)) (ds_Replicas (dep_Spec t)) \<and>
     ds_Strategy (dep_Spec u) = ds_Strategy (dep_Spec v) \<and>
     map c_Image (ps_Containers (pt_Spec (ds_Template (dep_Spec u))))
       = map c_Image (ps_Containers (pt_Spec (ds_Template (dep_Spec v)))) \<and>
     (let old = cookie_secret_arg (ps_Containers (pt_Spec (ds_Template (dep_Spec t))));
          new = cookie_secret_arg (ps_Containers (pt_Spec (ds_Template (dep_Spec v))))
      in old = [] \<or> new \<noteq> [] \<longrightarrow>
         cookie_secret_arg (ps_Containers (pt_Spec (ds_Template (dep_Spec u)))) = (if old \<noteq> [] then old else new))"
proof -
  let ?key = "\<lambda>d. objkey (dep_Meta d)"
  obtain k t v where tv: "last_with ?key k existing = Some t" "last_with ?key k desired = Some v"
      "u = update_Deployment t v"
    using assms by (auto simp: deployments.in_Update_iff)
  let ?v = "if ds_Replicas (dep_Spec t) \<noteq> None \<and> ds_Replicas (dep_Spec v) = None
            then (dep_Spec v)\<lparr>ds_Replicas := ds_Replicas (dep_Spec t)\<rparr> else dep_Spec v"
  have u: "dep_Spec u = (PropagateOAuthCookieSecret (dep_Spec t) ?v)\<lparr>ds_Selector := ds_Selector (dep_Spec t)\<rparr>"
    by (simp add: tv(3) update_Deployment_def Let_def)
  have v: "ds_Template ?v = ds_Template (dep_Spec v)" "ds_Strategy ?v = ds_Strategy (dep_Spec v)" by simp_all
  have "map c_Image (ps_Containers (pt_Spec (ds_Template (dep_Spec u))))
       = map c_Image (ps_Containers (pt_Spec (ds_Template (dep_Spec v))))"
    by (simp add: u Propagate_containers v Let_def)
  moreover have "cookie_secret_arg (ps_Containers (pt_Spec (ds_Template (dep_Spec u))))
      = cookie_secret_arg (ps_Containers (pt_Spec (ds_Template (dep_Spec v))))"
    if "cookie_secret_arg (ps_Containers (pt_Spec (ds_Template (dep_Spec t)))) = []"
    using that by (simp add: u Propagate_containers v Let_def)
  moreover have "cookie_secret_arg (ps_Containers (pt_Spec (ds_Template (dep_Spec u))))
      = cookie_secret_arg (ps_Containers (pt_Spec (ds_Template (dep_Spec t))))"
    if "cookie_secret_arg (ps_Containers (pt_Spec (ds_Template (dep_Spec t)))) \<noteq> []"
       "cookie_secret_arg (ps_Containers (pt_Spec (ds_Template (dep_Spec v)))) \<noteq> []"
    using that by (simp add: u cookie_secret_kept v)
  moreover have "ds_Replicas (dep_Spec u) = or_else (ds_Replicas (dep_Spec v)) (ds_Replicas (dep_Spec t))"
    by (simp add: u Propagate_other_fields or_else_def split: option.split)
  moreover have "objkey (dep_Meta u) = objkey (dep_Meta t)"
    by (simp add: tv(3) update_Deployment_def Let_def)
  moreover have "ds_Strategy (dep_Spec u) = ds_Strategy (dep_Spec v)"
    by (simp add: u Propagate_other_fields)
  moreover have "ds_Selector (dep_Spec u) = ds_Selector (dep_Spec t)" by (simp add: u)
  moreover have "t \<in> set existing" "v \<in> set desired" "?key t = ?key v"
    using tv by (auto dest: last_with_key)
  ultimately show ?thesis by - (rule bexI [of _ t], rule bexI [of _ v], auto simp: Let_def)
qed

text \<open>A deployment with one OAuth proxy container.\<close>

definition sample_proxied :: "string \<Rightarrow> int32 option \<Rightarrow> Deployment" where
  "sample_proxied secret replicas = \<lparr>dep_TypeMeta = TypeMeta0,
     dep_Meta = ObjectMeta0\<lparr>om_Name := ''q'', om_Namespace := ''ns''\<rparr>,
     dep_Spec = \<lparr>ds_Replicas = replicas, ds_Selector = Some None, ds_Strategy = [],
       ds_Template = \<lparr>pt_Meta = ObjectMeta0, pt_Spec = PodSpec0\<lparr>ps_Containers :=
         [Container0\<lparr>c_Name := ''oauth-proxy'', c_Args := [''--cookie-secret='' @ secret]\<rparr>]\<rparr>\<rparr>\<rparr>,
     dep_Status = \<lparr>dst_Replicas = 0, dst_ReadyReplicas = 0, dst_AvailableReplicas = 0\<rparr>\<rparr>"

lemma sample_proxied_fields:
  "cookie_secret_arg (ps_Containers (pt_Spec (ds_Template (dep_Spec (sample_proxied s r))))) = ''--cookie-secret='' @ s"
  "ds_Replicas (dep_Spec (sample_proxied s r)) = r"
  "objkey (dep_Meta (sample_proxied s r)) = ''ns.q''"
  by (simp_all add: sample_proxied_def cookie_secret_arg_def PodSpec0_def Container0_def objkey_def)

theorem deployment_update_keeps_witness:
  "\<exists>u. inv_Update (ForDeployments [sample_proxied ''old'' (Some 3)] [sample_proxied ''new'' None]) = [u] \<and>
     ds_Replicas (dep_Spec u) = Some 3 \<and>
     cookie_secret_arg (ps_Containers (pt_Spec (ds_Template (dep_Spec u)))) = ''--cookie-secret=old''"
proof -
  have u: "inv_Update (ForDeployments [sample_proxied ''old'' (Some 3)] [sample_proxied ''new'' None])
      = [update_Deployment (sample_proxied ''old'' (Some 3)) (sample_proxied ''new'' None)]"
    by (simp add: ForDeployments_def build_inventory_def object_map_def sample_proxied_fields)
  show ?thesis
    using deployment_update_keeps [of "update_Deployment (sample_proxied ''old'' (Some 3)) (sample_proxied ''new'' None)"
        "[sample_proxied ''old'' (Some 3)]" "[sample_proxied ''new'' None]"]
    unfolding u by (simp add: sample_proxied_fields Let_def)
qed

end
