(* ===== verification/Cluster.thy ===== *)
theory Cluster
  imports Util
begin

text \<open>
  The Kubernetes API as the operator sees it.  The client of \<open>controller-runtime\<close> is a library: here
  it is a record of operations over an arbitrary state \<open>'s\<close> of the cluster, an argument of every
  operation that talks to the API server.  What the proofs use of it are the laws of the locale
  \<open>api_server\<close>, stated about the set of object identities of a state; an in-memory server satisfies
  them.
\<close>

section \<open>The client\<close>

type_synonym 's op = "'s \<Rightarrow> goerr option \<times> 's"
type_synonym ('a, 's) query = "'s \<Rightarrow> 'a res \<times> 's"

text \<open>
  A read can be answered by a later state, since other clients act in between.  \<open>cl_List k ns ls\<close> is
  a list restricted to a namespace, if one is given, and to the objects that carry the labels
  \<open>ls\<close>; \<open>cl_Attempts t\<close> is how often a condition polled every second runs before a timeout of \<open>t\<close>
  seconds.
\<close>

record 's Client =
  cl_List :: "kind \<Rightarrow> string option \<Rightarrow> string amap \<Rightarrow> (kobj list, 's) query"
  cl_Get :: "kind \<Rightarrow> string \<Rightarrow> string \<Rightarrow> (kobj, 's) query"
  cl_Create :: "kobj \<Rightarrow> 's op"
  cl_Update :: "kobj \<Rightarrow> 's op"
  cl_Delete :: "kobj \<Rightarrow> 's op"
  cl_ListJaegers :: "string option \<Rightarrow> string amap \<Rightarrow> (Jaeger list, 's) query"
  cl_GetJaeger :: "string \<Rightarrow> string \<Rightarrow> (Jaeger, 's) query"
  cl_UpdateJaeger :: "Jaeger \<Rightarrow> (Jaeger, 's) query"
  cl_StatusUpdate :: "Jaeger \<Rightarrow> (Jaeger, 's) query"
  cl_PatchJaeger :: "Jaeger \<Rightarrow> Jaeger \<Rightarrow> (Jaeger, 's) query"
  cl_StatusPatch :: "Jaeger \<Rightarrow> Jaeger \<Rightarrow> (Jaeger, 's) query"
  cl_GetNamespace :: "string \<Rightarrow> (Namespace, 's) query"
  cl_ListStatefulSets :: "string option \<Rightarrow> string amap \<Rightarrow> ((int32 option \<times> int32) list, 's) query"
  cl_Attempts :: "nat \<Rightarrow> nat"

section \<open>Sequences of operations\<close>

definition skip :: "'s op" where
  "skip s = (None, s)"

definition andthen :: "'s op \<Rightarrow> 's op \<Rightarrow> 's op" where
  "andthen f g s = (case f s of (Some e, s') \<Rightarrow> (Some e, s') | (None, s') \<Rightarrow> g s')"

text \<open>A loop that returns at the first error.\<close>

fun for_each :: "('a \<Rightarrow> 's op) \<Rightarrow> 'a list \<Rightarrow> 's op" where
  "for_each f [] s = (None, s)"
| "for_each f (x # xs) s = (case f x s of (Some e, s') \<Rightarrow> (Some e, s') | (None, s') \<Rightarrow> for_each f xs s')"

lemma skip_simp [simp]: "skip s = (None, s)"
  by (simp add: skip_def)

lemma andthen_None:
  "andthen f g s = (None, s') \<longleftrightarrow> (\<exists>s1. f s = (None, s1) \<and> g s1 = (None, s'))"
  by (auto simp: andthen_def split: prod.splits option.splits)

lemma andthen_skip [simp]: "andthen skip f = f" "andthen f skip = f"
  by (auto simp: andthen_def fun_eq_iff split: prod.splits option.splits)

lemma for_each_Cons_None:
  "for_each f (x # xs) s = (None, s') \<longleftrightarrow> (\<exists>s1. f x s = (None, s1) \<and> for_each f xs s1 = (None, s'))"
  by (auto split: prod.splits option.splits)

text \<open>
  \<open>wait.PollUntilContextTimeout\<close> with an immediate first attempt.  The condition reads the state and
  the flag \<open>seen\<close> of its closure; it yields done, an error, or neither.  When the attempts are used
  up the poll ends with a timeout error.
\<close>

datatype verdict = Done | Again | Stop goerr

fun poll :: "nat \<Rightarrow> (bool \<Rightarrow> 's \<Rightarrow> verdict \<times> bool \<times> 's) \<Rightarrow> bool \<Rightarrow> 's op" where
  "poll 0 cond seen s = (Some (Failed ''context deadline exceeded''), s)"
| "poll (Suc n) cond seen s = (case cond seen s of
     (Done, _, s') \<Rightarrow> (None, s')
   | (Stop e, _, s') \<Rightarrow> (Some e, s')
   | (Again, seen', s') \<Rightarrow> poll n cond seen' s')"

text \<open>The part that the conditions share: fetch the object, tell a vanished object from one that is
  not there yet, and look at the object when there is one.\<close>

definition watch_object ::
  "('a, 's) query \<Rightarrow> goerr \<Rightarrow> ('a \<Rightarrow> bool) \<Rightarrow> bool \<Rightarrow> 's \<Rightarrow> verdict \<times> bool \<times> 's" where
  "watch_object get removed ready seen s = (case get s of
     (Inl NotFound, s') \<Rightarrow> (if seen then Stop removed else Again, seen, s')
   | (Inl e, s') \<Rightarrow> (Stop e, seen, s')
   | (Inr d, s') \<Rightarrow> (if ready d then Done else Again, True, s'))"

text \<open>A poll over \<open>watch_object\<close> that returns without an error has read a ready object last.\<close>

lemma poll_watch_ready:
  assumes "poll n (watch_object get removed ready) seen s = (None, s')"
  shows "\<exists>s0 d. get s0 = (Inr d, s') \<and> ready d"
  using assms
proof (induction n arbitrary: seen s)
  case (Suc n)
  obtain r s1 where g: "get s = (r, s1)" by (cases "get s")
  show ?case
  proof (cases r)
    case (Inl e)
    with g Suc show ?thesis by (cases e) (auto simp: watch_object_def split: if_splits)
  next
    case (Inr d)
    with g Suc show ?thesis by (cases "ready d") (auto simp: watch_object_def)
  qed
qed simp

section \<open>What an API server promises\<close>

definition ident :: "kobj \<Rightarrow> kind \<times> string \<times> string" where
  "ident x = (kind_of x, om_Namespace (meta_of x), om_Name (meta_of x))"

definition has_labels :: "string amap \<Rightarrow> kobj \<Rightarrow> bool" where
  "has_labels ls x \<longleftrightarrow> (\<forall>(k, v) \<in> set ls. mget (om_Labels (meta_of x)) k = Some v)"

definition selects :: "kind \<Rightarrow> string option \<Rightarrow> string amap \<Rightarrow> kobj \<Rightarrow> bool" where
  "selects k ns ls x \<longleftrightarrow> kind_of x = k \<and> (case ns of None \<Rightarrow> True | Some n \<Rightarrow> om_Namespace (meta_of x) = n) \<and> has_labels ls x"

locale api_server =
  fixes C :: "'s Client" and objs :: "'s \<Rightarrow> kobj set"
  assumes one_each: "x \<in> objs s \<Longrightarrow> y \<in> objs s \<Longrightarrow> ident x = ident y \<Longrightarrow> x = y"
    and list_ok: "cl_List C k ns ls s = (Inr xs, s') \<Longrightarrow> s' = s \<and> set xs = {x \<in> objs s. selects k ns ls x}"
    and create_ok: "cl_Create C x s = (None, s') \<Longrightarrow>
      ident x \<notin> ident ` objs s \<and> ident ` objs s' = insert (ident x) (ident ` objs s)"
    and create_new: "ident x \<notin> ident ` objs s \<Longrightarrow> fst (cl_Create C x s) \<noteq> Some AlreadyExists"
    and create_exists: "ident x \<in> ident ` objs s \<Longrightarrow> cl_Create C x s = (Some AlreadyExists, s)"
    and update_ok: "cl_Update C x s = (None, s') \<Longrightarrow> ident x \<in> ident ` objs s \<and> ident ` objs s' = ident ` objs s"
    and delete_ok: "cl_Delete C x s = (None, s') \<Longrightarrow>
      ident x \<in> ident ` objs s \<and> ident ` objs s' = ident ` objs s - {ident x}"
    and delete_missing: "cl_Delete C x s = (Some NotFound, s') \<Longrightarrow> s' = s \<and> ident x \<notin> ident ` objs s"
begin

abbreviation ids :: "'s \<Rightarrow> (kind \<times> string \<times> string) set" where
  "ids s \<equiv> ident ` objs s"

lemma creates_ids: "for_each (cl_Create C) xs s = (None, s') \<Longrightarrow> ids s' = ids s \<union> ident ` set xs"
proof (induction xs arbitrary: s)
  case (Cons x xs)
  then obtain s1 where c: "cl_Create C x s = (None, s1)" and r: "for_each (cl_Create C) xs s1 = (None, s')"
    by (auto simp: for_each_Cons_None simp del: for_each.simps(2))
  have "ids s' = ids s1 \<union> ident ` set xs" "ids s1 = insert (ident x) (ids s)"
    using Cons.IH [OF r] create_ok [OF c] by (simp_all)
  then show ?case by simp
qed simp

lemma updates_ids: "for_each (cl_Update C) xs s = (None, s') \<Longrightarrow> ids s' = ids s \<and> ident ` set xs \<subseteq> ids s"
proof (induction xs arbitrary: s)
  case (Cons x xs)
  then obtain s1 where "cl_Update C x s = (None, s1)" "for_each (cl_Update C) xs s1 = (None, s')"
    by (auto simp: for_each_Cons_None simp del: for_each.simps(2))
  with Cons.IH update_ok show ?case by fastforce
qed simp

lemma deletes_ids: "for_each (cl_Delete C) xs s = (None, s') \<Longrightarrow> ids s' = ids s - ident ` set xs"
proof (induction xs arbitrary: s)
  case (Cons x xs)
  then obtain s1 where c: "cl_Delete C x s = (None, s1)" and r: "for_each (cl_Delete C) xs s1 = (None, s')"
    by (auto simp: for_each_Cons_None simp del: for_each.simps(2))
  have "ids s' = ids s1 - ident ` set xs" "ids s1 = ids s - {ident x}"
    using Cons.IH [OF r] delete_ok [OF c] by (simp_all)
  then show ?case by auto
qed simp

end

section \<open>An in-memory server\<close>

text \<open>The state is the list of stored objects, as in the fake client that the unit tests use.\<close>

definition mem_find :: "kobj \<Rightarrow> kobj list \<Rightarrow> bool" where
  "mem_find x s \<longleftrightarrow> ident x \<in> ident ` set s"

definition mem_objs :: "kobj list \<Rightarrow> kobj list" where
  "mem_objs s = filter (\<lambda>x. find (\<lambda>y. ident y = ident x) s = Some x) s"

definition mem_client :: "kobj list Client" where
  "mem_client = \<lparr>
     cl_List = (\<lambda>k ns ls s. (Inr (filter (selects k ns ls) (mem_objs s)), s)),
     cl_Get = (\<lambda>k ns n s. (case find (\<lambda>x. ident x = (k, ns, n)) s of None \<Rightarrow> Inl NotFound | Some x \<Rightarrow> Inr x, s)),
     cl_Create = (\<lambda>x s. if mem_find x s then (Some AlreadyExists, s) else (None, x # s)),
     cl_Update = (\<lambda>x s. if mem_find x s then (None, map (\<lambda>y. if ident y = ident x then x else y) s)
                        else (Some NotFound, s)),
     cl_Delete = (\<lambda>x s. if mem_find x s then (None, filter (\<lambda>y. ident y \<noteq> ident x) s) else (Some NotFound, s)),
     cl_ListJaegers = (\<lambda>ns ls s. (Inr [], s)),
     cl_GetJaeger = (\<lambda>ns n s. (Inl NotFound, s)),
     cl_UpdateJaeger = (\<lambda>j s. (Inr j, s)),
     cl_StatusUpdate = (\<lambda>j s. (Inr j, s)),
     cl_PatchJaeger = (\<lambda>b j s. (Inr j, s)),
     cl_StatusPatch = (\<lambda>b j s. (Inr j, s)),
     cl_GetNamespace = (\<lambda>n s. (Inl NotFound, s)),
     cl_ListStatefulSets = (\<lambda>ns ls s. (Inr [], s)),
     cl_Attempts = (\<lambda>t. Suc t)\<rparr>"

lemma ident_mem_objs: "ident ` set (mem_objs s) = ident ` set s"
proof
  show "ident ` set s \<subseteq> ident ` set (mem_objs s)"
  proof
    fix i assume "i \<in> ident ` set s"
    then obtain x where "find (\<lambda>y. ident y = i) s = Some x"
      by (cases "find (\<lambda>y. ident y = i) s") (auto simp: find_None_iff)
    moreover from this have "x \<in> set s" "ident x = i" by (auto simp: find_Some_iff)
    ultimately show "i \<in> ident ` set (mem_objs s)" by (auto simp: mem_objs_def)
  qed
qed (auto simp: mem_objs_def)

interpretation mem: api_server mem_client "\<lambda>s. set (mem_objs s)"
proof
  fix x y :: kobj and s
  assume "x \<in> set (mem_objs s)" "y \<in> set (mem_objs s)" "ident x = ident y"
  then show "x = y" by (simp add: mem_objs_def)
next
  fix x :: kobj and s s'
  assume "cl_Update mem_client x s = (None, s')"
  then have "ident x \<in> ident ` set s" "s' = map (\<lambda>y. if ident y = ident x then x else y) s"
    by (auto simp: mem_client_def mem_find_def split: if_splits)
  moreover have "map ident (map (\<lambda>y. if ident y = ident x then x else y) s) = map ident s"
    by (induction s) auto
  then have "ident ` set (map (\<lambda>y. if ident y = ident x then x else y) s) = ident ` set s"
    by (simp only: set_map [symmetric])
  ultimately show "ident x \<in> ident ` set (mem_objs s) \<and> ident ` set (mem_objs s') = ident ` set (mem_objs s)"
    by (simp add: ident_mem_objs)
qed (auto simp: mem_client_def ident_mem_objs mem_find_def split: if_splits)

end
