(* ===== verification/Apply.thy ===== *)
theory Apply
  imports Inventory Cluster
begin

text \<open>
  Package \<open>pkg/controller/jaeger\<close>: the \<open>apply\<dots>\<close> functions, one for each kind of object.  Each lists
  the objects of the instance, asks the inventory of the kind what to do, and creates, updates and
  deletes in this order, stopping at the first error; deployments, Kafka clusters and users wait
  for the created and updated objects to become stable before anything is deleted, and
  Elasticsearch clusters wait after each creation.
\<close>

section \<open>The loops of an apply function\<close>

definition run_inventory :: "'s Client \<Rightarrow> ('a \<Rightarrow> kobj) \<Rightarrow> 'a Inventory \<Rightarrow> 's op" where
  "run_inventory C wrap i =
     andthen (for_each (cl_Create C) (map wrap (inv_Create i)))
    (andthen (for_each (cl_Update C) (map wrap (inv_Update i)))
             (for_each (cl_Delete C) (map wrap (inv_Delete i))))"

definition run_inventory_waiting ::
  "'s Client \<Rightarrow> ('a \<Rightarrow> kobj) \<Rightarrow> ('a \<Rightarrow> 's op) \<Rightarrow> 'a Inventory \<Rightarrow> 's op" where
  "run_inventory_waiting C wrap wait i =
     andthen (for_each (cl_Create C) (map wrap (inv_Create i)))
    (andthen (for_each (cl_Update C) (map wrap (inv_Update i)))
    (andthen (for_each wait (inv_Create i))
    (andthen (for_each wait (inv_Update i))
             (for_each (cl_Delete C) (map wrap (inv_Delete i))))))"

text \<open>The items of a typed list.\<close>

definition with_list ::
  "'s Client \<Rightarrow> kind \<Rightarrow> string option \<Rightarrow> string amap \<Rightarrow> (kobj \<Rightarrow> 'a option) \<Rightarrow> ('a list \<Rightarrow> 's op) \<Rightarrow> 's op" where
  "with_list C k ns ls un rest s = (case cl_List C k ns ls s of
     (Inl e, s') \<Rightarrow> (Some e, s')
   | (Inr items, s') \<Rightarrow> rest (List.map_filter un items) s')"

definition un_Account :: "kobj \<Rightarrow> ServiceAccount option" where
  "un_Account x = (case x of OAccount d \<Rightarrow> Some d | _ \<Rightarrow> None)"

definition un_ClusterRoleBinding :: "kobj \<Rightarrow> ClusterRoleBinding option" where
  "un_ClusterRoleBinding x = (case x of OClusterRoleBinding d \<Rightarrow> Some d | _ \<Rightarrow> None)"

definition un_ConfigMap :: "kobj \<Rightarrow> ConfigMap option" where
  "un_ConfigMap x = (case x of OConfigMap d \<Rightarrow> Some d | _ \<Rightarrow> None)"

definition un_ConsoleLink :: "kobj \<Rightarrow> ConsoleLink option" where
  "un_ConsoleLink x = (case x of OConsoleLink d \<Rightarrow> Some d | _ \<Rightarrow> None)"

definition un_CronJob :: "kobj \<Rightarrow> CronJob option" where
  "un_CronJob x = (case x of OCronJob d \<Rightarrow> Some d | _ \<Rightarrow> None)"

definition un_DaemonSet :: "kobj \<Rightarrow> DaemonSet option" where
  "un_DaemonSet x = (case x of ODaemonSet d \<Rightarrow> Some d | _ \<Rightarrow> None)"

definition un_Deployment :: "kobj \<Rightarrow> Deployment option" where
  "un_Deployment x = (case x of ODeployment d \<Rightarrow> Some d | _ \<Rightarrow> None)"

definition un_Elasticsearch :: "kobj \<Rightarrow> Elasticsearch option" where
  "un_Elasticsearch x = (case x of OElasticsearch d \<Rightarrow> Some d | _ \<Rightarrow> None)"

definition un_HPA :: "kobj \<Rightarrow> HPA option" where
  "un_HPA x = (case x of OHPA d \<Rightarrow> Some d | _ \<Rightarrow> None)"

definition un_Ingress :: "kobj \<Rightarrow> Ingress option" where
  "un_Ingress x = (case x of OIngress d \<Rightarrow> Some d | _ \<Rightarrow> None)"

definition un_Job :: "kobj \<Rightarrow> Job option" where
  "un_Job x = (case x of OJob d \<Rightarrow> Some d | _ \<Rightarrow> None)"

definition un_Kafka :: "kobj \<Rightarrow> Kafka option" where
  "un_Kafka x = (case x of OKafka d \<Rightarrow> Some d | _ \<Rightarrow> None)"

definition un_KafkaUser :: "kobj \<Rightarrow> KafkaUser option" where
  "un_KafkaUser x = (case x of OKafkaUser d \<Rightarrow> Some d | _ \<Rightarrow> None)"

definition un_Route :: "kobj \<Rightarrow> Route option" where
  "un_Route x = (case x of ORoute d \<Rightarrow> Some d | _ \<Rightarrow> None)"

definition un_Secret :: "kobj \<Rightarrow> Secret option" where
  "un_Secret x = (case x of OSecret d \<Rightarrow> Some d | _ \<Rightarrow> None)"

definition un_Service :: "kobj \<Rightarrow> Service option" where
  "un_Service x = (case x of OService d \<Rightarrow> Some d | _ \<Rightarrow> None)"

definition instance_labels :: "Jaeger \<Rightarrow> string amap" where
  "instance_labels jaeger =
     [(''app.kubernetes.io/instance'', j_Name jaeger), (''app.kubernetes.io/managed-by'', ''jaeger-operator'')]"

section \<open>The apply functions\<close>

definition applyAccounts :: "'s Client \<Rightarrow> Jaeger \<Rightarrow> ServiceAccount list \<Rightarrow> 's op" where
  "applyAccounts C jaeger desired =
     with_list C KAccount (Some (j_Namespace jaeger)) (instance_labels jaeger) un_Account
       (\<lambda>existing. run_inventory C OAccount (ForAccounts existing desired))"

definition applyConfigMaps :: "'s Client \<Rightarrow> Jaeger \<Rightarrow> ConfigMap list \<Rightarrow> 's op" where
  "applyConfigMaps C jaeger desired =
     with_list C KConfigMap (Some (j_Namespace jaeger)) (instance_labels jaeger) un_ConfigMap
       (\<lambda>existing. run_inventory C OConfigMap (ForConfigMaps existing desired))"

definition applyDaemonSets :: "'s Client \<Rightarrow> Jaeger \<Rightarrow> DaemonSet list \<Rightarrow> 's op" where
  "applyDaemonSets C jaeger desired =
     with_list C KDaemonSet (Some (j_Namespace jaeger)) (instance_labels jaeger) un_DaemonSet
       (\<lambda>existing. run_inventory C ODaemonSet (ForDaemonSets existing desired))"

definition applyIngresses :: "'s Client \<Rightarrow> Jaeger \<Rightarrow> Ingress list \<Rightarrow> 's op" where
  "applyIngresses C jaeger desired =
     with_list C KIngress (Some (j_Namespace jaeger)) (instance_labels jaeger) un_Ingress
       (\<lambda>existing. run_inventory C OIngress (ForIngresses existing desired))"

definition applyRoutes :: "'s Client \<Rightarrow> Jaeger \<Rightarrow> Route list \<Rightarrow> 's op" where
  "applyRoutes C jaeger desired =
     with_list C KRoute (Some (j_Namespace jaeger)) (instance_labels jaeger) un_Route
       (\<lambda>existing. run_inventory C ORoute (ForRoutes existing desired))"

definition applySecrets :: "'s Client \<Rightarrow> Jaeger \<Rightarrow> Secret list \<Rightarrow> 's op" where
  "applySecrets C jaeger desired =
     with_list C KSecret (Some (j_Namespace jaeger)) (instance_labels jaeger) un_Secret
       (\<lambda>existing. run_inventory C OSecret (ForSecrets existing desired))"

definition applyServices :: "'s Client \<Rightarrow> Jaeger \<Rightarrow> Service list \<Rightarrow> 's op" where
  "applyServices C jaeger desired =
     with_list C KService (Some (j_Namespace jaeger)) (instance_labels jaeger) un_Service
       (\<lambda>existing. run_inventory C OService (ForServices existing desired))"

text \<open>The two kinds without a namespace are left alone unless the operator works cluster-wide.\<close>

definition applyClusterRoleBindingBindings :: "Env \<Rightarrow> 's Client \<Rightarrow> Jaeger \<Rightarrow> ClusterRoleBinding list \<Rightarrow> 's op" where
  "applyClusterRoleBindingBindings e C jaeger desired =
     (if viper_GetString e ConfigOperatorScope \<noteq> OperatorScopeCluster then skip
      else with_list C KClusterRoleBinding None (instance_labels jaeger) un_ClusterRoleBinding
        (\<lambda>existing. run_inventory C OClusterRoleBinding (ForClusterRoleBindings existing desired)))"

definition applyConsoleLinks :: "Env \<Rightarrow> 's Client \<Rightarrow> Jaeger \<Rightarrow> ConsoleLink list \<Rightarrow> 's op" where
  "applyConsoleLinks e C jaeger desired =
     (if viper_GetString e ConfigOperatorScope \<noteq> OperatorScopeCluster then skip
      else with_list C KConsoleLink None
        [(''app.kubernetes.io/instance'', j_Name jaeger), (''app.kubernetes.io/namespace'', j_Namespace jaeger),
         (''app.kubernetes.io/managed-by'', ''jaeger-operator'')] un_ConsoleLink
        (\<lambda>existing. run_inventory C OConsoleLink (ForConsoleLinks existing desired)))"

text \<open>The kinds with two API versions are listed in the configured one.\<close>

definition applyCronJobs :: "Env \<Rightarrow> 's Client \<Rightarrow> Jaeger \<Rightarrow> CronJob list \<Rightarrow> 's op" where
  "applyCronJobs e C jaeger desired =
     with_list C (KCronJob (cronjob_version_of e)) (Some (j_Namespace jaeger)) (instance_labels jaeger) un_CronJob
       (\<lambda>existing s. case ForCronJobs e existing desired of
          Inl err \<Rightarrow> (Some err, s) | Inr i \<Rightarrow> run_inventory C OCronJob i s)"

definition applyHorizontalPodAutoscalers :: "Env \<Rightarrow> 's Client \<Rightarrow> Jaeger \<Rightarrow> HPA list \<Rightarrow> 's op" where
  "applyHorizontalPodAutoscalers e C jaeger desired =
     with_list C (KHPA (hpa_version_of e)) (Some (j_Namespace jaeger)) (instance_labels jaeger) un_HPA
       (\<lambda>existing s. case ForHorizontalPodAutoscalers e existing desired of
          Inl err \<Rightarrow> (Some err, s) | Inr i \<Rightarrow> run_inventory C OHPA i s)"

section \<open>Waiting\<close>

text \<open>A typed \<open>Get\<close>: an object of another kind is never returned for the kind asked for.\<close>

definition get_typed :: "'s Client \<Rightarrow> kind \<Rightarrow> (kobj \<Rightarrow> 'a option) \<Rightarrow> ObjectMeta \<Rightarrow> ('a, 's) query" where
  "get_typed C k un m s = (case cl_Get C k (om_Namespace m) (om_Name m) s of
     (Inl e, s') \<Rightarrow> (Inl e, s')
   | (Inr x, s') \<Rightarrow> (case un x of None \<Rightarrow> (Inl NotFound, s') | Some d \<Rightarrow> (Inr d, s')))"

definition ErrDeploymentRemoved :: goerr where
  "ErrDeploymentRemoved = Failed ''deployment has been removed''"

definition deployment_stable :: "Deployment \<Rightarrow> bool" where
  "deployment_stable d \<longleftrightarrow> dst_ReadyReplicas (dep_Status d) = dst_Replicas (dep_Status d)"

definition waitForStability :: "'s Client \<Rightarrow> Deployment \<Rightarrow> 's op" where
  "waitForStability C dep =
     poll (cl_Attempts C 300)
       (watch_object (get_typed C KDeployment un_Deployment (dep_Meta dep)) ErrDeploymentRemoved deployment_stable)
       False"

definition applyDeployments :: "'s Client \<Rightarrow> Jaeger \<Rightarrow> Deployment list \<Rightarrow> 's op" where
  "applyDeployments C jaeger desired =
     with_list C KDeployment (Some (j_Namespace jaeger)) (instance_labels jaeger) un_Deployment
       (\<lambda>existing. run_inventory_waiting C ODeployment (waitForStability C) (ForDeployments existing desired))"

definition ErrKafkaRemoved :: goerr where
  "ErrKafkaRemoved = Failed ''kafka has been removed''"

definition ErrKafkaUserRemoved :: goerr where
  "ErrKafkaUserRemoved = Failed ''kafka user has been removed''"

definition getReadyCondition :: "KafkaCondition list \<Rightarrow> KafkaCondition" where
  "getReadyCondition conditions = (case find (\<lambda>c. EqualFold (kc_Type c) ''ready'') conditions of
     Some c \<Rightarrow> c | None \<Rightarrow> \<lparr>kc_Type = ''unknown'', kc_Status = ''unknown''\<rparr>)"

definition kafka_ready :: "KafkaCondition list \<Rightarrow> bool" where
  "kafka_ready conditions \<longleftrightarrow> EqualFold (kc_Status (getReadyCondition conditions)) ''true''"

definition waitForKafkaStability :: "'s Client \<Rightarrow> Kafka \<Rightarrow> 's op" where
  "waitForKafkaStability C kafka =
     poll (cl_Attempts C 300)
       (watch_object (get_typed C KKafka un_Kafka (kf_Meta kafka)) ErrKafkaRemoved (\<lambda>k. kafka_ready (kf_Conditions k)))
       False"

definition waitForKafkaUserStability :: "'s Client \<Rightarrow> KafkaUser \<Rightarrow> 's op" where
  "waitForKafkaUserStability C kafkaUser =
     poll (cl_Attempts C 300)
       (watch_object (get_typed C KKafkaUser un_KafkaUser (ku_Meta kafkaUser)) ErrKafkaUserRemoved
         (\<lambda>k. kafka_ready (ku_Conditions k)))
       False"

definition applyKafkas :: "'s Client \<Rightarrow> Jaeger \<Rightarrow> Kafka list \<Rightarrow> 's op" where
  "applyKafkas C jaeger desired =
     with_list C KKafka (Some (j_Namespace jaeger)) (instance_labels jaeger) un_Kafka
       (\<lambda>existing. run_inventory_waiting C OKafka (waitForKafkaStability C) (ForKafkas existing desired))"

definition applyKafkaUsers :: "'s Client \<Rightarrow> Jaeger \<Rightarrow> KafkaUser list \<Rightarrow> 's op" where
  "applyKafkaUsers C jaeger desired =
     with_list C KKafkaUser (Some (j_Namespace jaeger)) (instance_labels jaeger) un_KafkaUser
       (\<lambda>existing. run_inventory_waiting C OKafkaUser (waitForKafkaUserStability C) (ForKafkaUsers existing desired))"

text \<open>
  \<open>waitForAvailableElastic\<close>: the available deployments and the ready replicas of the stateful sets
  have to add up to the node count, in 32-bit arithmetic.  A stateful set without a replica count
  is a nil dereference.
\<close>

definition elastic_condition ::
  "'s Client \<Rightarrow> Elasticsearch \<Rightarrow> bool \<Rightarrow> 's \<Rightarrow> verdict \<times> bool \<times> 's" where
  "elastic_condition C es seen s =
     (let expectedSize = sum_list (map en_NodeCount (es_Nodes (es_Spec es)));
          ns = Some (om_Namespace (es_Meta es));
          ls = [(''cluster-name'', om_Name (es_Meta es)), (''component'', ''elasticsearch'')]
      in case cl_List C KDeployment ns ls s of
           (Inl NotFound, s') \<Rightarrow> (if seen then Stop (Failed ''Elasticsearch cluster has been removed'') else Again, seen, s')
         | (Inl e, s') \<Rightarrow> (Stop e, seen, s')
         | (Inr deps, s') \<Rightarrow>
             (let availableDep = (of_nat (length (filter (\<lambda>d. dst_Replicas (dep_Status d) = dst_AvailableReplicas (dep_Status d))
                    (List.map_filter un_Deployment deps))) :: int32)
              in case cl_ListStatefulSets C ns ls s' of
                   (Inl NotFound, s'') \<Rightarrow> (Again, True, s'')
                 | (Inl e, s'') \<Rightarrow> (Stop e, True, s'')
                 | (Inr sss, s'') \<Rightarrow>
                     if \<exists>p \<in> set sss. fst p = None then (Stop NilDereference, True, s'')
                     else if availableDep + sum_list (map snd sss) = expectedSize then (Done, True, s'')
                     else (Again, True, s'')))"

definition waitForAvailableElastic :: "'s Client \<Rightarrow> Elasticsearch \<Rightarrow> 's op" where
  "waitForAvailableElastic C es = poll (cl_Attempts C 120) (elastic_condition C es) False"

definition applyElasticsearches :: "'s Client \<Rightarrow> Jaeger \<Rightarrow> Elasticsearch list \<Rightarrow> 's op" where
  "applyElasticsearches C jaeger desired =
     with_list C KElasticsearch (Some (j_Namespace jaeger))
       [(''app.kubernetes.io/instance'', j_Name jaeger), (''app.kubernetes.io/part-of'', ''jaeger'')] un_Elasticsearch
       (\<lambda>existing. let i = ForElasticsearches existing desired in
          andthen (for_each (\<lambda>d. andthen (cl_Create C (OElasticsearch d)) (waitForAvailableElastic C d)) (inv_Create i))
         (andthen (for_each (cl_Update C) (map OElasticsearch (inv_Update i)))
                  (for_each (cl_Delete C) (map OElasticsearch (inv_Delete i)))))"

text \<open>Dependencies: a job that exists already is waited for like a new one.\<close>

definition ErrDependencyRemoved :: goerr where
  "ErrDependencyRemoved = Failed ''dependency has been removed''"

definition handleDependency :: "'s Client \<Rightarrow> Job \<Rightarrow> 's op" where
  "handleDependency C dep s = (case cl_Create C (OJob dep) s of
     (err, s') \<Rightarrow>
       if err \<noteq> None \<and> err \<noteq> Some AlreadyExists then (err, s')
       else (let deadline = (case js_ActiveDeadlineSeconds (job_Spec dep) of None \<Rightarrow> 120 | Some d \<Rightarrow> nat (sint d))
             in poll (cl_Attempts C deadline)
                  (watch_object (get_typed C KJob un_Job (job_Meta dep)) ErrDependencyRemoved (\<lambda>b. job_Succeeded b = 1))
                  False s'))"

definition handleDependencies :: "'s Client \<Rightarrow> Job list \<Rightarrow> 's op" where
  "handleDependencies C deps = for_each (handleDependency C) deps"

section \<open>What an apply function does to the cluster\<close>

lemmas un_defs = un_Account_def un_ClusterRoleBinding_def un_ConfigMap_def un_ConsoleLink_def
  un_CronJob_def un_DaemonSet_def un_Deployment_def un_Elasticsearch_def un_HPA_def un_Ingress_def
  un_Job_def un_Kafka_def un_KafkaUser_def un_Route_def un_Secret_def un_Service_def

lemma un_wrap:
  "un_Account x = Some a1 \<longleftrightarrow> x = OAccount a1"
  "un_ClusterRoleBinding x = Some a2 \<longleftrightarrow> x = OClusterRoleBinding a2"
  "un_ConfigMap x = Some a3 \<longleftrightarrow> x = OConfigMap a3"
  "un_ConsoleLink x = Some a4 \<longleftrightarrow> x = OConsoleLink a4"
  "un_DaemonSet x = Some a5 \<longleftrightarrow> x = ODaemonSet a5"
  "un_Deployment x = Some a6 \<longleftrightarrow> x = ODeployment a6"
  "un_Ingress x = Some a8 \<longleftrightarrow> x = OIngress a8"
  "un_Route x = Some a9 \<longleftrightarrow> x = ORoute a9"
  "un_Secret x = Some a10 \<longleftrightarrow> x = OSecret a10"
  "un_Service x = Some a11 \<longleftrightarrow> x = OService a11"
  by (auto simp: un_defs split: kobj.splits)

lemma set_map_filter_un:
  assumes "\<And>x d. un x = Some d \<longleftrightarrow> x = wrap d" and "\<And>x. x \<in> set xs \<Longrightarrow> \<exists>d. x = wrap d"
  shows "wrap ` set (List.map_filter un xs) = set xs"
proof -
  have "un (wrap d) = Some d" for d using assms(1) by simp
  then show ?thesis using assms(2) by (force simp: List.map_filter_def image_iff)
qed

lemma with_list_None:
  "with_list C k ns ls un rest s = (None, s') \<longleftrightarrow>
     (\<exists>items s1. cl_List C k ns ls s = (Inr items, s1) \<and> rest (List.map_filter un items) s1 = (None, s'))"
  by (auto simp: with_list_def split: prod.splits sum.splits)

text \<open>The identities after a successful run: the objects that the list selected are replaced by the
  desired ones, and nothing else is created or removed.\<close>

definition replaced :: "('s \<Rightarrow> kobj set) \<Rightarrow> 's \<Rightarrow> 's \<Rightarrow> (kobj \<Rightarrow> bool) \<Rightarrow> kobj set \<Rightarrow> bool" where
  "replaced objs s s' sel wanted \<longleftrightarrow>
     ident ` objs s' = ident ` {x \<in> objs s. \<not> sel x} \<union> ident ` wanted"

lemma replace_set: "A' = (A \<union> (D - E)) - (E - D) \<Longrightarrow> E \<subseteq> A \<Longrightarrow> A' = (A - E) \<union> D"
  by blast

context api_server
begin

lemma run_inventory_ids:
  assumes "run_inventory C wrap i s = (None, s')"
  shows "ids s' = (ids s \<union> ident ` wrap ` set (inv_Create i)) - ident ` wrap ` set (inv_Delete i)"
proof -
  obtain s1 s2 where "for_each (cl_Create C) (map wrap (inv_Create i)) s = (None, s1)"
      "for_each (cl_Update C) (map wrap (inv_Update i)) s1 = (None, s2)"
      "for_each (cl_Delete C) (map wrap (inv_Delete i)) s2 = (None, s')"
    using assms by (auto simp: run_inventory_def andthen_None)
  from creates_ids [OF this(1)] updates_ids [OF this(2)] deletes_ids [OF this(3)]
  show ?thesis by (simp add: image_image)
qed

lemma apply_replaces_by:
  assumes kind: "inventory_kind key upd builder"
    and un: "\<And>x d. un x = Some d \<longleftrightarrow> x = wrap d"
    and sel: "\<And>x. kind_of x = k \<Longrightarrow> \<exists>d. x = wrap d"
    and run: "with_list C k ns ls un rest s = (None, s')"
    and rest: "\<And>ex s. rest ex s = (None, s') \<Longrightarrow>
      ids s' = (ids s \<union> ident ` wrap ` set (inv_Create (builder ex desired))) - ident ` wrap ` set (inv_Delete (builder ex desired))"
    and key: "\<And>d d'. P d \<Longrightarrow> P d' \<Longrightarrow> key d = key d' \<longleftrightarrow> ident (wrap d) = ident (wrap d')"
    and P: "\<And>d. d \<in> set desired \<Longrightarrow> P d" "\<And>d. wrap d \<in> objs s \<Longrightarrow> selects k ns ls (wrap d) \<Longrightarrow> P d"
  shows "replaced objs s s' (selects k ns ls) (wrap ` set desired)"
proof -
  obtain items where l: "cl_List C k ns ls s = (Inr items, s)" and r: "rest (List.map_filter un items) s = (None, s')"
    using run by (auto simp: with_list_None dest: list_ok)
  let ?ex = "List.map_filter un items" and ?i = "\<lambda>d. ident (wrap d)"
  have items: "set items = {x \<in> objs s. selects k ns ls x}" using l by (blast dest: list_ok)
  then have "\<exists>d. x = wrap d" if "x \<in> set items" for x
    using that sel by (auto simp: selects_def)
  then have ex: "wrap ` set ?ex = {x \<in> objs s. selects k ns ls x}"
    by (subst set_map_filter_un [OF un]) (auto simp: items)
  then have Pex: "P d" if "d \<in> set ?ex" for d using P(2) that by blast
  have p: "partitions key upd ?ex desired (builder ?ex desired)"
    by (rule inventory_kind.builder_partitions [OF kind])
  have cr: "?i ` set (inv_Create (builder ?ex desired)) = ?i ` set desired - ?i ` set ?ex"
    by (rule partition_idents(1) [OF p]) (rule key, auto intro: P(1) Pex)
  have de: "?i ` set (inv_Delete (builder ?ex desired)) = ?i ` set ?ex - ?i ` set desired"
    by (rule partition_idents(2) [OF p]) (rule key, auto intro: P(1) Pex)
  have exi: "?i ` set ?ex = ident ` {x \<in> objs s. selects k ns ls x}"
    by (simp only: ex [symmetric] image_image)
  have "ids s' = (ids s \<union> (?i ` set desired - ?i ` set ?ex)) - (?i ` set ?ex - ?i ` set desired)"
    by (simp only: rest [OF r] image_image cr de)
  moreover have "?i ` set ?ex \<subseteq> ids s" unfolding exi by (rule image_mono) simp
  ultimately have "ids s' = (ids s - ?i ` set ?ex) \<union> ?i ` set desired" by (rule replace_set)
  moreover have "ids s - ident ` {x \<in> objs s. selects k ns ls x} = ident ` {x \<in> objs s. \<not> selects k ns ls x}"
  proof -
    have "inj_on ident (objs s)" by (rule inj_onI) (rule one_each)
    from inj_on_image_set_diff [OF this, of "objs s" "{x \<in> objs s. selects k ns ls x}"]
    show ?thesis by (simp add: set_diff_eq Collect_conj_eq [symmetric] conj_commute cong: conj_cong)
  qed
  ultimately show ?thesis by (simp add: replaced_def exi image_image)
qed

end

lemma kind_wrap:
  "kind_of x = KAccount \<Longrightarrow> \<exists>d. x = OAccount d"
  "kind_of x = KClusterRoleBinding \<Longrightarrow> \<exists>d. x = OClusterRoleBinding d"
  "kind_of x = KConfigMap \<Longrightarrow> \<exists>d. x = OConfigMap d"
  "kind_of x = KConsoleLink \<Longrightarrow> \<exists>d. x = OConsoleLink d"
  "kind_of x = KDaemonSet \<Longrightarrow> \<exists>d. x = ODaemonSet d"
  "kind_of x = KIngress \<Longrightarrow> \<exists>d. x = OIngress d"
  "kind_of x = KRoute \<Longrightarrow> \<exists>d. x = ORoute d"
  "kind_of x = KSecret \<Longrightarrow> \<exists>d. x = OSecret d"
  "kind_of x = KService \<Longrightarrow> \<exists>d. x = OService d"
  by (cases x; simp)+

definition dotless :: "ObjectMeta \<Rightarrow> bool" where
  "dotless m \<longleftrightarrow> CHR ''.'' \<notin> set (om_Namespace m)"

lemma objkey_iff:
  assumes "dotless m" "dotless m'"
  shows "objkey m = objkey m' \<longleftrightarrow> om_Namespace m = om_Namespace m' \<and> om_Name m = om_Name m'"
  using assms objkey_inj [of m m'] by (auto simp: dotless_def objkey_def)

lemma apply_replaces_dotless_by:
  assumes srv: "api_server C objs"
    and kind: "inventory_kind (\<lambda>d. objkey (meta d)) upd builder"
    and un: "\<And>x d. un x = Some d \<longleftrightarrow> x = wrap d"
    and wrap: "\<And>d. kind_of (wrap d) = k" "\<And>d. meta_of (wrap d) = meta d"
    and ns: "CHR ''.'' \<notin> set n"
    and rest: "\<And>ex s. rest ex s = (None, s') \<Longrightarrow>
      ident ` objs s' = (ident ` objs s \<union> ident ` wrap ` set (inv_Create (builder ex desired))) - ident ` wrap ` set (inv_Delete (builder ex desired))"
    and desired: "\<forall>d \<in> set desired. dotless (meta d)"
    and run: "with_list C k (Some n) ls un rest s = (None, s')"
    and sel: "\<And>x. kind_of x = k \<Longrightarrow> \<exists>d. x = wrap d"
  shows "replaced objs s s' (selects k (Some n) ls) (wrap ` set desired)"
  by (rule api_server.apply_replaces_by [OF srv kind un sel run rest, where P = "\<lambda>d. dotless (meta d)"])
    (use ns desired in \<open>auto simp: objkey_iff ident_def selects_def dotless_def wrap\<close>)

lemma apply_replaces_dotless:
  assumes srv: "api_server C objs"
    and kind: "inventory_kind (\<lambda>d. objkey (meta d)) upd builder"
    and un: "\<And>x d. un x = Some d \<longleftrightarrow> x = wrap d"
    and wrap: "\<And>d. kind_of (wrap d) = k" "\<And>d. meta_of (wrap d) = meta d"
    and ns: "CHR ''.'' \<notin> set n"
    and desired: "\<forall>d \<in> set desired. dotless (meta d)"
    and run: "with_list C k (Some n) ls un (\<lambda>ex. run_inventory C wrap (builder ex desired)) s = (None, s')"
    and sel: "\<And>x. kind_of x = k \<Longrightarrow> \<exists>d. x = wrap d"
  shows "replaced objs s s' (selects k (Some n) ls) (wrap ` set desired)"
  by (rule apply_replaces_dotless_by [OF srv kind un wrap ns _ desired run sel]) (erule api_server.run_inventory_ids [OF srv])


text \<open>A cluster with a service of the instance that is not wanted any more and one of another owner.\<close>

definition sample_jaeger :: Jaeger where
  "sample_jaeger = NewJaeger ''op'' ''ns'' ''my''"

definition sample_labelled :: "string \<Rightarrow> Service" where
  "sample_labelled name =
     (sample_service name [])\<lparr>svc_Meta := (svc_Meta (sample_service name []))\<lparr>om_Labels := Some (instance_labels sample_jaeger)\<rparr>\<rparr>"

definition sample_cluster :: "kobj list" where
  "sample_cluster = [OService (sample_labelled ''old''), OService (sample_service ''other'' [])]"

lemma sample_idents:
  "ident (OService (sample_service n ip)) = (KService, ''ns'', n)"
  "ident (OService (sample_labelled n)) = (KService, ''ns'', n)"
  "objkey (svc_Meta (sample_service n ip)) = ''ns.'' @ n"
  "objkey (svc_Meta (sample_labelled n)) = ''ns.'' @ n"
  "om_Labels (svc_Meta (sample_labelled n)) = Some (instance_labels sample_jaeger)"
  "om_Labels (svc_Meta (sample_service n ip)) = Some [(''app'', ''jaeger'')]"
  "om_Namespace (svc_Meta (sample_labelled n)) = ''ns''"
  "om_Namespace (svc_Meta (sample_service n ip)) = ''ns''"
  "j_Namespace sample_jaeger = ''ns''" "j_Name sample_jaeger = ''my''"
  by (simp_all add: ident_def sample_service_def sample_labelled_def objkey_def ObjectMeta0_def
      sample_jaeger_def NewJaeger_def)

lemma sample_apply:
  "applyServices mem_client sample_jaeger [sample_service ''q'' []] sample_cluster
     = (None, [OService (sample_service ''q'' []), OService (sample_service ''other'' [])])"
  by (simp add: applyServices_def with_list_def mem_client_def sample_cluster_def mem_objs_def
      selects_def has_labels_def sample_idents instance_labels_def List.map_filter_simps un_Service_def
      ForServices_def build_inventory_def object_map_def run_inventory_def andthen_def mem_find_def)


lemma for_each_None_each:
  "for_each f xs s = (None, s') \<Longrightarrow> x \<in> set xs \<Longrightarrow> \<exists>s0 s1. f x s0 = (None, s1)"
proof (induction xs arbitrary: s)
  case (Cons y ys)
  then show ?case by (auto simp: for_each_Cons_None simp del: for_each.simps(2))
qed simp

lemma waitForStability_ready:
  assumes "waitForStability C d s = (None, s')"
  shows "\<exists>s0 x. cl_Get C KDeployment (om_Namespace (dep_Meta d)) (om_Name (dep_Meta d)) s0 = (Inr (ODeployment x), s')
     \<and> dst_ReadyReplicas (dep_Status x) = dst_Replicas (dep_Status x)"
proof -
  obtain s0 x where "get_typed C KDeployment un_Deployment (dep_Meta d) s0 = (Inr x, s')" "deployment_stable x"
    using poll_watch_ready [OF assms [unfolded waitForStability_def]] by blast
  then show ?thesis
    by (auto simp: get_typed_def deployment_stable_def un_wrap split: prod.splits sum.splits option.splits)
qed


lemma poll_immediate: "0 < n \<Longrightarrow> cond seen s = (Done, b, s') \<Longrightarrow> poll n cond seen s = (None, s')"
  by (cases n) simp_all

lemma sample_wait:
  "waitForStability mem_client (sample_proxied x r) [ODeployment (sample_proxied x r)]
     = (None, [ODeployment (sample_proxied x r)])"
  unfolding waitForStability_def
  by (rule poll_immediate [where b = True])
    (simp_all add: mem_client_def watch_object_def get_typed_def ident_def un_Deployment_def deployment_stable_def
      sample_proxied_def)


section \<open>Instances with a long name\<close>

text \<open>The lists of the apply functions look for the full name of the instance, while the labels
  of the objects carry the name cut to 63 characters: the objects of an instance with a longer
  name are never found again, and the second time a desired service is applied the API server
  refuses to create it.\<close>

theorem long_instance_name_reapplied:
  assumes "api_server C objs" and "length (j_Name j) > 63"
    and "\<forall>x \<in> objs s. kind_of x = KService \<longrightarrow> (\<exists>n c. om_Labels (meta_of x) = Labels n c j)"
    and "OService svc \<in> objs s"
    and "cl_List C KService (Some (j_Namespace j)) (instance_labels j) s = (Inr items, s')"
  shows "applyServices C j [svc] s = (Some AlreadyExists, s)"
proof -
  have "mget (om_Labels (meta_of x)) ''app.kubernetes.io/instance'' \<noteq> Some (j_Name j)"
    if "om_Labels (meta_of x) = Labels n c j" for x n c
    using that assms(2) Truncate_bound_and_ends_aux [of "j_Name j" 63 "[]"] by (auto simp: Labels_def)
  then have none: "{x \<in> objs s. selects KService (Some (j_Namespace j)) (instance_labels j) x} = {}"
    using assms(3) by (fastforce simp: selects_def has_labels_def instance_labels_def)
  have l: "s' = s" "set items = {x \<in> objs s. selects KService (Some (j_Namespace j)) (instance_labels j) x}"
    using api_server.list_ok [OF assms(1,5)] by auto
  then have "items = []" using none by simp
  moreover have "cl_Create C (OService svc) s = (Some AlreadyExists, s)"
    by (rule api_server.create_exists [OF assms(1)]) (use assms(4) in blast)
  ultimately show ?thesis
    using assms(5) l(1)
    by (simp add: applyServices_def with_list_def List.map_filter_simps ForServices_def build_inventory_def
        object_map_def run_inventory_def andthen_def)
qed

definition sample_long :: Jaeger where
  "sample_long = NewJaeger ''op'' ''ns'' (replicate 64 (CHR ''a''))"

definition sample_long_service :: Service where
  "sample_long_service =
     (sample_service ''q'' [])\<lparr>svc_Meta := (svc_Meta (sample_service ''q'' []))\<lparr>om_Labels := Labels ''q'' ''c'' sample_long\<rparr>\<rparr>"

theorem long_instance_name_reapplied_witness:
  "applyServices mem_client sample_long [sample_long_service] [OService sample_long_service]
     = (Some AlreadyExists, [OService sample_long_service])"
proof (rule long_instance_name_reapplied [OF mem.api_server_axioms])
  show "length (j_Name sample_long) > 63" by (simp add: sample_long_def NewJaeger_def)
  have "om_Labels (svc_Meta sample_long_service) = Labels ''q'' ''c'' sample_long"
    by (simp add: sample_long_service_def)
  then show "\<forall>x \<in> set (mem_objs [OService sample_long_service]). kind_of x = KService \<longrightarrow>
      (\<exists>n c. om_Labels (meta_of x) = Labels n c sample_long)"
    by (auto simp: mem_objs_def)
  show "OService sample_long_service \<in> set (mem_objs [OService sample_long_service])" by (simp add: mem_objs_def)
qed (simp add: mem_client_def)

end
