(* ===== verification/Services.thy ===== *)
theory Services
  imports Apply
begin

text \<open>
  Package \<open>pkg/service\<close>: the services of the agent, the collector and the query component.  A port
  without a target port is served by the container port of the same number.
\<close>

section \<open>Names\<close>

definition GetNameForCollectorService :: "Jaeger \<Rightarrow> string" where
  "GetNameForCollectorService jaeger = DNSName (Truncate ''%s-collector'' 63 [j_Name jaeger])"

definition GetNameForHeadlessCollectorService :: "Jaeger \<Rightarrow> string" where
  "GetNameForHeadlessCollectorService jaeger = DNSName (Truncate ''%s-collector-headless'' 63 [j_Name jaeger])"

definition GetNameForQueryService :: "Jaeger \<Rightarrow> string" where
  "GetNameForQueryService jaeger = DNSName (Truncate ''%s-query'' 63 [j_Name jaeger])"

definition GetTLSSecretNameForQueryService :: "Jaeger \<Rightarrow> string" where
  "GetTLSSecretNameForQueryService jaeger = DNSName (Truncate ''%s-ui-oauth-proxy-tls'' 63 [j_Name jaeger])"

definition agent_service_name :: "Jaeger \<Rightarrow> string" where
  "agent_service_name jaeger = DNSName (Truncate ''%s-agent'' 63 [j_Name jaeger])"

section \<open>The service of the agent\<close>

definition service_port :: "string \<Rightarrow> int32 \<Rightarrow> ServicePort" where
  "service_port name port = ServicePort0\<lparr>sp_Name := name, sp_Port := port\<rparr>"

definition service_object :: "Jaeger \<Rightarrow> string \<Rightarrow> string \<Rightarrow> string gomap \<Rightarrow> ServiceSpec \<Rightarrow> Service" where
  "service_object jaeger name component annotations spec =
     \<lparr>svc_TypeMeta = \<lparr>tm_APIVersion = ''v1'', tm_Kind = ''Service''\<rparr>,
      svc_Meta = ObjectMeta0\<lparr>om_Name := name, om_Namespace := j_Namespace jaeger,
        om_Labels := Labels name component jaeger, om_Annotations := annotations,
        om_OwnerReferences := [AsOwner jaeger]\<rparr>,
      svc_Spec = spec, svc_rest = []\<rparr>"

definition NewAgentService :: "Jaeger \<Rightarrow> string gomap \<Rightarrow> Service" where
  "NewAgentService jaeger selector =
     (let adminPort = GetAdminPort (ToArgs (ag_Options (js_Agent (j_Spec jaeger)))) 14271
      in service_object jaeger (agent_service_name jaeger) ''service-agent'' None
        \<lparr>ss_Selector = selector, ss_ClusterIP = ''None'', ss_Type = [],
         ss_Ports = [(service_port ''zk-compact-trft'' 5775)\<lparr>sp_Protocol := ''UDP''\<rparr>,
                     service_port ''http-config-rest'' 5778,
                     (service_port ''jg-compact-trft'' 6831)\<lparr>sp_Protocol := ''UDP''\<rparr>,
                     (service_port ''jg-binary-trft'' 6832)\<lparr>sp_Protocol := ''UDP''\<rparr>,
                     service_port ''admin-http'' adminPort]\<rparr>)"

section \<open>The services of the collector\<close>

text \<open>The instance is never nil here.\<close>

definition GetPortNameForGRPC :: "Env \<Rightarrow> Jaeger \<Rightarrow> string" where
  "GetPortNameForGRPC e jaeger =
     (if GetPlatform e = OpenShiftPlatform then ''tls-grpc-jaeger''
      else case map_of (StringMap (col_Options (js_Collector (j_Spec jaeger)))) ''collector.grpc.tls.enabled'' of
          Some val \<Rightarrow> (case ParseBool val of
              None \<Rightarrow> ''grpc-jaeger''
            | Some enabled \<Rightarrow> if enabled then ''tls-grpc-jaeger'' else ''grpc-jaeger'')
        | None \<Rightarrow> ''grpc-jaeger'')"

definition getTypeForCollectorService :: "Jaeger \<Rightarrow> string" where
  "getTypeForCollectorService jaeger =
     (if col_ServiceType (js_Collector (j_Spec jaeger)) \<noteq> [] then col_ServiceType (js_Collector (j_Spec jaeger))
      else ''ClusterIP'')"

definition getOTLPServicePorts :: "Jaeger \<Rightarrow> ServicePort list" where
  "getOTLPServicePorts jaeger =
     (let options = (if js_Strategy (j_Spec jaeger) \<noteq> DeploymentStrategyAllInOne
                     then AllArgs [col_Options (js_Collector (j_Spec jaeger))]
                     else AllArgs [aio_Options (js_AllInOne (j_Spec jaeger))])
      in if IsOTLPEnable options then [service_port ''grpc-otlp'' 4317, service_port ''http-otlp'' 4318] else [])"

definition collectorService :: "Env \<Rightarrow> Jaeger \<Rightarrow> string gomap \<Rightarrow> Service" where
  "collectorService e jaeger selector =
     (let adminPort = GetAdminPort (ToArgs (col_Options (js_Collector (j_Spec jaeger)))) 14269;
          ports = [service_port ''http-zipkin'' 9411, service_port (GetPortNameForGRPC e jaeger) 14250,
                   service_port ''http-c-tchan-trft'' 14267, service_port ''http-c-binary-trft'' 14268,
                   service_port ''admin-http'' adminPort]
      in service_object jaeger (GetNameForCollectorService jaeger) ''service-collector''
        (jc_Annotations (col_Common (js_Collector (j_Spec jaeger))))
        \<lparr>ss_Selector = selector, ss_ClusterIP = [], ss_Type = [], ss_Ports = ports @ getOTLPServicePorts jaeger\<rparr>)"

definition headlessCollectorService :: "Env \<Rightarrow> Jaeger \<Rightarrow> string gomap \<Rightarrow> Service" where
  "headlessCollectorService e jaeger selector =
     (let svc = collectorService e jaeger selector; name = GetNameForHeadlessCollectorService jaeger
      in svc\<lparr>svc_Meta := (svc_Meta svc)\<lparr>om_Name := name,
               om_Annotations := Some [(''prometheus.io/scrape'', ''false''),
                 (''service.beta.openshift.io/serving-cert-secret-name'', name @ ''-tls'')]\<rparr>,
             svc_Spec := (svc_Spec svc)\<lparr>ss_ClusterIP := ''None''\<rparr>\<rparr>)"

definition clusteripCollectorService :: "Env \<Rightarrow> Jaeger \<Rightarrow> string gomap \<Rightarrow> Service" where
  "clusteripCollectorService e jaeger selector =
     svc_Spec_update (ss_Type_update (\<lambda>_. getTypeForCollectorService jaeger)) (collectorService e jaeger selector)"

definition NewCollectorServices :: "Env \<Rightarrow> Jaeger \<Rightarrow> string gomap \<Rightarrow> Service list" where
  "NewCollectorServices e jaeger selector =
     [headlessCollectorService e jaeger selector, clusteripCollectorService e jaeger selector]"

section \<open>The service of the query component\<close>

abbreviation (input) "uses_oauth_proxy jaeger \<equiv> ji_Security (js_Ingress (j_Spec jaeger)) = IngressSecurityOAuthProxy"

definition GetPortForQueryService :: "Jaeger \<Rightarrow> int" where
  "GetPortForQueryService jaeger = (if uses_oauth_proxy jaeger then 443 else 16686)"

definition GetPortNameForQueryService :: "Jaeger \<Rightarrow> string" where
  "GetPortNameForQueryService jaeger = (if uses_oauth_proxy jaeger then ''https-query'' else ''http-query'')"

definition getTargetPortForQueryService :: "Jaeger \<Rightarrow> int" where
  "getTargetPortForQueryService jaeger = (if uses_oauth_proxy jaeger then 8443 else 16686)"

definition getTypeForQueryService :: "Jaeger \<Rightarrow> string" where
  "getTypeForQueryService jaeger =
     (if q_ServiceType (js_Query (j_Spec jaeger)) \<noteq> [] then q_ServiceType (js_Query (j_Spec jaeger)) else ''ClusterIP'')"

definition GetNodePortForQueryService :: "Jaeger \<Rightarrow> int32" where
  "GetNodePortForQueryService jaeger = q_NodePort (js_Query (j_Spec jaeger))"

definition GetGRPCNodePortForQueryService :: "Jaeger \<Rightarrow> int32" where
  "GetGRPCNodePortForQueryService jaeger = q_GRPCNodePort (js_Query (j_Spec jaeger))"

text \<open>
  The annotations of the service are the map of the specification itself when there is one, so that
  the annotation written for the OAuth proxy ends up in the instance as well: the result is the
  service and the instance afterwards.
\<close>

definition query_annotations :: "Jaeger \<Rightarrow> string amap" where
  "query_annotations jaeger =
     (let annotations = entries (jc_Annotations (q_Common (js_Query (j_Spec jaeger))))
      in if uses_oauth_proxy jaeger
         then AList.update ''service.alpha.openshift.io/serving-cert-secret-name'' (GetTLSSecretNameForQueryService jaeger) annotations
         else annotations)"

definition NewQueryService :: "Jaeger \<Rightarrow> string gomap \<Rightarrow> Service \<times> Jaeger" where
  "NewQueryService jaeger selector =
     (let q = js_Query (j_Spec jaeger);
          adminPort = GetAdminPort (ToArgs (q_Options q)) 16687;
          nodePort = (\<lambda>p n. if q_ServiceType q = ''NodePort'' then p\<lparr>sp_NodePort := n\<rparr> else p);
          ports = [nodePort ((service_port (GetPortNameForQueryService jaeger) (word_of_int (GetPortForQueryService jaeger)))
                       \<lparr>sp_TargetPort := Some (getTargetPortForQueryService jaeger)\<rparr>) (GetNodePortForQueryService jaeger),
                   nodePort ((service_port ''grpc-query'' 16685)\<lparr>sp_TargetPort := Some 16685\<rparr>) (GetGRPCNodePortForQueryService jaeger),
                   (service_port ''admin-http'' adminPort)\<lparr>sp_TargetPort := Some (sint adminPort)\<rparr>];
          svc = service_object jaeger (GetNameForQueryService jaeger) ''service-query'' (Some (query_annotations jaeger))
            \<lparr>ss_Selector = selector, ss_ClusterIP = [], ss_Type = getTypeForQueryService jaeger, ss_Ports = ports\<rparr>
      in (svc, if jc_Annotations (q_Common q) = None then jaeger
               else j_Spec_update (js_Query_update (q_Common_update (jc_Annotations_update (\<lambda>_. Some (query_annotations jaeger))))) jaeger))"

section \<open>Properties\<close>

text \<open>A truncated name keeps its suffix.\<close>

lemma truncate_values_single: "truncate_values n [v] = [take (length v - n) v]"
  by simp

lemma Truncate_suffix:
  assumes "CHR ''%'' \<notin> set suf" "suf \<noteq> []" "length suf < 63" "alnum_char (last suf)"
  shows "\<exists>p. Truncate (''%s'' @ suf) 63 [n] = p \<and> p \<noteq> [] \<and> last p = last suf \<and> length p \<le> 63 \<and> set p \<subseteq> set n \<union> set suf"
proof -
  define r where "r = (if length (n @ suf) > 63 then take (63 - length suf) n @ suf else n @ suf)"
  have r: "r \<noteq> []" "last r = last suf" "length r \<le> 63" "set r \<subseteq> set n \<union> set suf"
    using assms(2,3) by (auto simp: r_def dest: in_set_takeD)
  have eq: "(if length (Sprintf (''%s'' @ suf) [n]) > 63
      then Sprintf (''%s'' @ suf) (truncate_values (length (Sprintf (''%s'' @ suf) [n]) - 63) [n])
      else Sprintf (''%s'' @ suf) [n]) = r"
    unfolding truncate_values_single Sprintf_s [OF assms(1)] using assms(3) by (auto simp: r_def)
  have t: "Truncate (''%s'' @ suf) 63 [n] = trimNonAlphaNumeric r"
    unfolding Truncate_def Let_def eq using r(3) by simp
  have "rev (dropWhile (\<lambda>c. \<not> alnum_char c) (rev r)) = r"
    using r(1,2) assms(4) by (cases r rule: rev_cases) auto
  then have trim: "trimNonAlphaNumeric r = dropWhile (\<lambda>c. \<not> alnum_char c) r" by (simp add: trimNonAlphaNumeric_def)
  have "\<not> (\<forall>c \<in> set r. \<not> alnum_char c)" using r(1,2) assms(4) last_in_set by metis
  then have "trimNonAlphaNumeric r \<noteq> []" unfolding trim dropWhile_eq_Nil_conv .
  moreover from this have "last (trimNonAlphaNumeric r) = last r" unfolding trim by (metis last_appendR takeWhile_dropWhile_id)
  moreover have "length (trimNonAlphaNumeric r) \<le> 63" using r(3) length_trim [of r] by simp
  moreover have "set (trimNonAlphaNumeric r) \<subseteq> set n \<union> set suf" using r(4) unfolding trim by (auto dest: set_dropWhileD)
  ultimately show ?thesis using r(2) t by auto
qed

lemma length_DNSName [simp]: "length (DNSName n) = length n"
  by (simp add: DNSName_def ToLower_def)

lemma DNSName_nth:
  "i < length n \<Longrightarrow> DNSName n ! i = (let x = lower_byte (n ! i) in if lower_char x \<or> digit_char x then x
     else if i = 0 \<or> i = length n - 1 then CHR ''a'' else CHR ''-'')"
  by (simp add: DNSName_def ToLower_def nth_enumerate_eq)

lemma DNSName_chars: "list_all (\<lambda>c. lower_char c \<or> digit_char c \<or> c = CHR ''-'') (DNSName n)"
  by (auto simp: list_all_iff in_set_conv_nth DNSName_nth Let_def split: if_splits)

lemma lower_byte_lower: "lower_char c \<Longrightarrow> lower_byte c = c"
  by (auto simp: lower_byte_def lower_char_def upper_char_def)

lemma last_DNSName: "n \<noteq> [] \<Longrightarrow> lower_char (last n) \<Longrightarrow> last (DNSName n) = last n"
  by (simp add: last_conv_nth DNSName_nth lower_byte_lower flip: length_greater_0_conv)

lemma service_name_last:
  assumes "CHR ''%'' \<notin> set suf" "suf \<noteq> []" "length suf < 63" "lower_char (last suf)"
  shows "DNSName (Truncate (''%s'' @ suf) 63 [n]) \<noteq> [] \<and> length (DNSName (Truncate (''%s'' @ suf) 63 [n])) \<le> 63 \<and>
    last (DNSName (Truncate (''%s'' @ suf) 63 [n])) = last suf"
  using Truncate_suffix [OF assms(1-3), of n] assms(4) last_DNSName
  by (auto simp: alnum_char_def simp flip: length_greater_0_conv)

lemmas service_names =
  service_name_last [of "''-collector''", simplified]
  service_name_last [of "''-collector-headless''", simplified]
  service_name_last [of "''-query''", simplified]
  service_name_last [of "''-agent''", simplified]

text \<open>Whatever the name of the instance, the services of one instance have pairwise different
  names of at most 63 characters that are DNS labels: cutting a long name never makes two of them
  collide.\<close>

theorem service_names_distinct:
  "(let names = [GetNameForCollectorService j, GetNameForHeadlessCollectorService j, GetNameForQueryService j, agent_service_name j]
    in distinct names \<and> list_all (\<lambda>n. n \<noteq> [] \<and> length n \<le> 63 \<and> list_all (\<lambda>c. lower_char c \<or> digit_char c \<or> c = CHR ''-'') n) names)"
proof -
  have low: "lower_char CHR ''r''" "lower_char CHR ''s''" "lower_char CHR ''y''" "lower_char CHR ''t''"
    by (simp_all add: lower_char_def)
  note N = service_names(1) [OF low(1)] service_names(2) [OF low(2)] service_names(3) [OF low(3)] service_names(4) [OF low(4)]
  have "distinct (map last [GetNameForCollectorService j, GetNameForHeadlessCollectorService j, GetNameForQueryService j, agent_service_name j])"
    by (simp add: GetNameForCollectorService_def GetNameForHeadlessCollectorService_def GetNameForQueryService_def
        agent_service_name_def N)
  then have "distinct [GetNameForCollectorService j, GetNameForHeadlessCollectorService j, GetNameForQueryService j, agent_service_name j]"
    by (simp only: distinct_map)
  then show ?thesis
    by (simp add: Let_def GetNameForCollectorService_def GetNameForHeadlessCollectorService_def GetNameForQueryService_def
        agent_service_name_def N DNSName_chars)
qed

end
