(* ===== verification/Accounts.thy ===== *)
theory Accounts
  imports Apply
begin

text \<open>
  Packages \<open>pkg/account\<close>, \<open>pkg/clusterrolebinding\<close> and \<open>pkg/consolelink\<close>: the service accounts of an
  instance, the cluster role binding that lets the OAuth proxy delegate, and the link in the
  OpenShift console.
\<close>

section \<open>Service accounts\<close>

abbreviation (input) "CollectorComponent \<equiv> ''collector''"
abbreviation (input) "QueryComponent \<equiv> ''query''"
abbreviation (input) "IngesterComponent \<equiv> ''ingester''"
abbreviation (input) "AllInOneComponent \<equiv> ''all-in-one''"
abbreviation (input) "AgentComponent \<equiv> ''agent''"
abbreviation (input) "DependenciesComponent \<equiv> ''dependencies''"
abbreviation (input) "EsIndexCleanerComponent \<equiv> ''es-index-cleaner''"
abbreviation (input) "EsRolloverComponent \<equiv> ''es-rollover''"
abbreviation (input) "CassandraCreateSchemaComponent \<equiv> ''cassandra-create-schema''"

text \<open>The block of the specification that a component of the switch reads first.\<close>

definition component_spec :: "Jaeger \<Rightarrow> string \<Rightarrow> JaegerCommonSpec option" where
  "component_spec jaeger component =
     (let sp = j_Spec jaeger; st = js_Storage sp in
      if component = CollectorComponent then Some (col_Common (js_Collector sp))
      else if component = QueryComponent then Some (q_Common (js_Query sp))
      else if component = IngesterComponent then Some (igr_Common (js_Ingester sp))
      else if component = AllInOneComponent then Some (aio_Common (js_AllInOne sp))
      else if component = AgentComponent then Some (ag_Common (js_Agent sp))
      else if component = DependenciesComponent then Some (jd_Common (st_Dependencies st))
      else if component = EsIndexCleanerComponent then Some (ic_Common (st_EsIndexCleaner st))
      else if component = EsRolloverComponent then Some (ro_Common (st_EsRollover st))
      else None)"

definition JaegerServiceAccountFor :: "Jaeger \<Rightarrow> string \<Rightarrow> string" where
  "JaegerServiceAccountFor jaeger component =
     (let sa = (case component_spec jaeger component of
                  None \<Rightarrow> []
                | Some c \<Rightarrow> jc_ServiceAccount (Merge [c, js_Common (j_Spec jaeger)]))
      in if sa = [] then j_Name jaeger else sa)"

definition getMain :: "Jaeger \<Rightarrow> ServiceAccount" where
  "getMain jaeger =
     \<lparr>sa_TypeMeta = \<lparr>tm_APIVersion = ''v1'', tm_Kind = ''ServiceAccount''\<rparr>,
      sa_Meta = ObjectMeta0\<lparr>om_Name := JaegerServiceAccountFor jaeger [], om_Namespace := j_Namespace jaeger,
        om_Labels := Labels (JaegerServiceAccountFor jaeger []) ''service-account'' jaeger,
        om_OwnerReferences := [AsOwner jaeger]\<rparr>,
      sa_rest = []\<rparr>"

definition query_account :: "Jaeger \<Rightarrow> string" where
  "query_account jaeger = jc_ServiceAccount (Merge [q_Common (js_Query (j_Spec jaeger)), js_Common (j_Spec jaeger)])"

definition OAuthProxyAccountNameFor :: "Jaeger \<Rightarrow> string" where
  "OAuthProxyAccountNameFor jaeger =
     (let sa = query_account jaeger in if length sa > 0 then sa else j_Name jaeger @ ''-ui-proxy'')"

definition getOAuthRedirectReference :: "Jaeger \<Rightarrow> string" where
  "getOAuthRedirectReference jaeger =
     (let q = [CHR 0x22]
      in ''{'' @ q @ ''kind'' @ q @ '':'' @ q @ ''OAuthRedirectReference'' @ q @ '','' @ q @ ''apiVersion'' @ q @ '':'' @ q @ ''v1'' @ q @
         '','' @ q @ ''reference'' @ q @ '':{'' @ q @ ''kind'' @ q @ '':'' @ q @ ''Route'' @ q @ '','' @ q @ ''name'' @ q @ '':'' @ q @
         j_Name jaeger @ q @ ''}}'')"

definition OAuthProxyAccount :: "Jaeger \<Rightarrow> ServiceAccount" where
  "OAuthProxyAccount jaeger =
     \<lparr>sa_TypeMeta = \<lparr>tm_APIVersion = ''v1'', tm_Kind = ''ServiceAccount''\<rparr>,
      sa_Meta = ObjectMeta0\<lparr>om_Name := OAuthProxyAccountNameFor jaeger, om_Namespace := j_Namespace jaeger,
        om_Labels := Labels (OAuthProxyAccountNameFor jaeger) ''service-account-oauth-proxy'' jaeger,
        om_Annotations := Some [(''serviceaccounts.openshift.io/oauth-redirectreference.primary'', getOAuthRedirectReference jaeger)],
        om_OwnerReferences := [AsOwner jaeger]\<rparr>,
      sa_rest = []\<rparr>"

definition account_Get :: "Jaeger \<Rightarrow> ServiceAccount list" where
  "account_Get jaeger =
     (if ji_Security (js_Ingress (j_Spec jaeger)) = IngressSecurityOAuthProxy \<and> length (query_account jaeger) = 0
      then [OAuthProxyAccount jaeger] else []) @ [getMain jaeger]"

section \<open>The cluster role binding\<close>

definition oauthProxyAuthDelegator :: "Jaeger \<Rightarrow> ClusterRoleBinding" where
  "oauthProxyAuthDelegator jaeger =
     (let name = DNSName (j_Namespace jaeger @ ''-'' @ j_Name jaeger @ ''-oauth-proxy-auth-delegator'')
      in \<lparr>crb_Meta = ObjectMeta0\<lparr>om_Name := name, om_Labels := Labels name ''service-account'' jaeger,
             om_OwnerReferences := [AsOwner jaeger]\<rparr>,
          crb_Subjects = [\<lparr>sub_Kind = ''ServiceAccount'', sub_Name = OAuthProxyAccountNameFor jaeger,
             sub_Namespace = j_Namespace jaeger\<rparr>],
          crb_RoleRef = \<lparr>rref_Kind = ''ClusterRole'', rref_Name = ''system:auth-delegator''\<rparr>\<rparr>)"

definition clusterrolebinding_Get :: "Env \<Rightarrow> Jaeger \<Rightarrow> ClusterRoleBinding list" where
  "clusterrolebinding_Get e jaeger =
     (if ji_Security (js_Ingress (j_Spec jaeger)) = IngressSecurityOAuthProxy \<and>
         os_DelegateUrls (ji_Openshift (js_Ingress (j_Spec jaeger))) \<noteq> [] \<and> IsAuthDelegatorAvailable e
      then [oauthProxyAuthDelegator jaeger] else [])"

section \<open>The console link\<close>

definition RouteAnnotation :: string where
  "RouteAnnotation = ''consolelink.jaegertracing.io/route''"

definition consolelink_Name :: "Jaeger \<Rightarrow> string" where
  "consolelink_Name jaeger = ''jaeger-'' @ j_Namespace jaeger @ ''-'' @ j_Name jaeger"

definition consolelink_Get :: "Jaeger \<Rightarrow> Route \<Rightarrow> ConsoleLink option" where
  "consolelink_Get jaeger route =
     (if ji_Enabled (js_Ingress (j_Spec jaeger)) = Some False then None
      else Some \<lparr>cl_Meta = ObjectMeta0\<lparr>om_Name := consolelink_Name jaeger, om_Namespace := j_Namespace jaeger,
               om_Labels := Some [(''app.kubernetes.io/instance'', j_Name jaeger),
                 (''app.kubernetes.io/namespace'', j_Namespace jaeger),
                 (''app.kubernetes.io/managed-by'', ''jaeger-operator'')],
               om_Annotations := Some [(RouteAnnotation, om_Name (rt_Meta route))]\<rparr>,
             cl_Spec = \<lparr>cls_Location = ''NamespaceDashboard'', cls_Text = ''Jaeger ['' @ j_Name jaeger @ '']'',
               cls_Href = [], cls_Namespaces = [j_Namespace jaeger]\<rparr>,
             cl_rest = []\<rparr>)"

definition UpdateHref :: "Route list \<Rightarrow> ConsoleLink list \<Rightarrow> ConsoleLink list" where
  "UpdateHref routes links =
     (let mapRoutes = put_all (map (\<lambda>r. (om_Name (rt_Meta r), rs_Host (rt_Spec r))) routes) []
      in List.map_filter (\<lambda>cl. case map_of mapRoutes (mstr (om_Annotations (cl_Meta cl)) RouteAnnotation) of
           None \<Rightarrow> None
         | Some host \<Rightarrow> Some (cl\<lparr>cl_Spec := (cl_Spec cl)\<lparr>cls_Href := ''https://'' @ host\<rparr>\<rparr>)) links)"

section \<open>Properties\<close>

lemma nonempty_eq_None: "nonempty s = None \<longleftrightarrow> s = []"
  by (simp add: nonempty_def)

lemma service_account_of_Merge:
  "jc_ServiceAccount (Merge [a, b]) = (if jc_ServiceAccount a \<noteq> [] then jc_ServiceAccount a else jc_ServiceAccount b)"
  using Merge_fields(8) [of "[a, b]"]
  by (cases "jc_ServiceAccount a = []"; cases "jc_ServiceAccount b = []"; cases "jc_ServiceAccount (Merge [a, b]) = []")
    (simp_all add: nonempty_def)


text \<open>The binding of an instance carries the label that selects the bindings of any instance with
  the same name.\<close>

definition label_value :: "string \<Rightarrow> bool" where
  "label_value n \<longleftrightarrow> n \<noteq> [] \<and> length n \<le> 63 \<and> alnum_char (hd n) \<and> alnum_char (last n) \<and> CHR ''%'' \<notin> set n"

lemma Truncate_label_value: "label_value n \<Longrightarrow> Truncate n 63 [] = n"
  by (rule Truncate_short) (simp_all add: label_value_def)

lemma delegator_selected:
  assumes "label_value (j_Name j)"
  shows "selects KClusterRoleBinding None (instance_labels j) (OClusterRoleBinding (oauthProxyAuthDelegator j))"
  using assms
  by (simp add: selects_def has_labels_def instance_labels_def oauthProxyAuthDelegator_def Labels_def Let_def Truncate_label_value)

text \<open>C26: cluster role bindings are looked up by the name of the instance only, without its
  namespace.  When two instances in different namespaces share a name, applying the bindings of
  one of them removes the binding of the other, whose OAuth proxy then cannot delegate any more.\<close>

theorem binding_of_homonym_deleted:
  assumes "api_server C objs" and "viper_GetString e ConfigOperatorScope = OperatorScopeCluster"
    and "list_all (\<lambda>b. om_Namespace (crb_Meta b) = []) bs" and "OClusterRoleBinding -` objs s = set bs"
    and "j_Name j' = j_Name j" "label_value (j_Name j)"
    and "oauthProxyAuthDelegator j' \<in> set bs"
    and "om_Name (crb_Meta (oauthProxyAuthDelegator j')) \<noteq> om_Name (crb_Meta (oauthProxyAuthDelegator j))"
    and "applyClusterRoleBindingBindings e C j (clusterrolebinding_Get e j) s = (None, s')"
  shows "ident (OClusterRoleBinding (oauthProxyAuthDelegator j')) \<notin> ident ` objs s'"
proof -
  let ?sel = "selects KClusterRoleBinding None (instance_labels j)" and ?b = "OClusterRoleBinding (oauthProxyAuthDelegator j')"
  have ns: "om_Namespace (crb_Meta (oauthProxyAuthDelegator x)) = []" for x
    by (simp add: oauthProxyAuthDelegator_def Let_def ObjectMeta0_def)
  have stored: "om_Namespace (crb_Meta d) = []" if "OClusterRoleBinding d \<in> objs s" for d
    using that assms(3,4) by (auto simp: list_all_iff)
  have run: "with_list C KClusterRoleBinding None (instance_labels j) un_ClusterRoleBinding
      (\<lambda>existing. run_inventory C OClusterRoleBinding (ForClusterRoleBindings existing (clusterrolebinding_Get e j))) s = (None, s')"
    using assms(2,9) by (simp add: applyClusterRoleBindingBindings_def)
  have key: "objkey (crb_Meta d) = objkey (crb_Meta d') \<longleftrightarrow> ident (OClusterRoleBinding d) = ident (OClusterRoleBinding d')"
    if "om_Namespace (crb_Meta d) = []" "om_Namespace (crb_Meta d') = []" for d d'
    using that by (simp add: ident_def objkey_def)
  have wanted: "om_Namespace (crb_Meta d) = []" if "d \<in> set (clusterrolebinding_Get e j)" for d
    using that by (auto simp: clusterrolebinding_Get_def ns split: if_splits)
  have "replaced objs s s' ?sel (OClusterRoleBinding ` set (clusterrolebinding_Get e j))"
    by (rule api_server.apply_replaces_by [OF assms(1) bindings.inventory_kind_axioms un_wrap(2) kind_wrap(2) run api_server.run_inventory_ids [OF assms(1)] key])
      (assumption | erule wanted | erule stored)+
  moreover have "?sel ?b" using delegator_selected [of j'] assms(5,6) by (simp add: instance_labels_def)
  moreover have "ident ?b \<notin> ident ` {x \<in> objs s. \<not> ?sel x}"
  proof
    assume "ident ?b \<in> ident ` {x \<in> objs s. \<not> ?sel x}"
    then obtain x where x: "x \<in> objs s" "\<not> ?sel x" "ident x = ident ?b" by auto
    have "?b \<in> objs s" using assms(4,7) by auto
    from api_server.one_each [OF assms(1) x(1) this x(3)] x(2) \<open>?sel ?b\<close> show False by simp
  qed
  moreover have "ident ?b \<notin> ident ` OClusterRoleBinding ` set (clusterrolebinding_Get e j)"
    using assms(8) by (auto simp: clusterrolebinding_Get_def ident_def)
  ultimately show ?thesis by (simp add: replaced_def)
qed

text \<open>Two instances with the same name; the other one has its binding, this one needs none.\<close>

definition sample_cluster_env :: Env where
  "sample_cluster_env = \<lparr>viper_GetString = (\<lambda>k. if k = ConfigOperatorScope then OperatorScopeCluster else []),
     viper_GetBool = (\<lambda>k. False), viper_IsSet = (\<lambda>k. False), ldflag_version = [], ldflag_defaultJaeger = [],
     ldflag_defaultAgent = [], ProxyVars = []\<rparr>"

definition sample_homonym :: Jaeger where
  "sample_homonym = NewJaeger ''op'' ''other'' ''my''"

theorem binding_of_homonym_deleted_witness:
  "applyClusterRoleBindingBindings sample_cluster_env mem_client sample_jaeger (clusterrolebinding_Get sample_cluster_env sample_jaeger)
     [OClusterRoleBinding (oauthProxyAuthDelegator sample_homonym)] = (None, []) \<and>
   ident (OClusterRoleBinding (oauthProxyAuthDelegator sample_homonym)) \<notin> ident ` set (mem_objs [])"
proof -
  let ?b = "oauthProxyAuthDelegator sample_homonym"
  have label: "label_value ''my''" by (simp add: label_value_def alnum_char_def lower_char_def)
  have "selects KClusterRoleBinding None (instance_labels sample_jaeger) (OClusterRoleBinding ?b)"
    using delegator_selected [of sample_homonym] label
    by (simp add: instance_labels_def sample_homonym_def sample_jaeger_def NewJaeger_def)
  moreover have get: "clusterrolebinding_Get sample_cluster_env sample_jaeger = []"
    by (simp add: clusterrolebinding_Get_def sample_jaeger_def NewJaeger_def JaegerSpec0_def)
  ultimately have run: "applyClusterRoleBindingBindings sample_cluster_env mem_client sample_jaeger
      (clusterrolebinding_Get sample_cluster_env sample_jaeger) [OClusterRoleBinding ?b] = (None, [])"
    by (simp add: applyClusterRoleBindingBindings_def sample_cluster_env_def with_list_def mem_client_def mem_objs_def
        map_filter_def un_ClusterRoleBinding_def ForClusterRoleBindings_def build_inventory_def object_map_def
        run_inventory_def andthen_def mem_find_def)
  have len: "length (om_Name (crb_Meta (oauthProxyAuthDelegator j))) = length (j_Namespace j) + length (j_Name j) + 28" for j
    by (simp add: oauthProxyAuthDelegator_def Let_def DNSName_def ToLower_def)
  have "length (om_Name (crb_Meta ?b)) \<noteq> length (om_Name (crb_Meta (oauthProxyAuthDelegator sample_jaeger)))"
    unfolding len by (simp add: sample_homonym_def sample_jaeger_def NewJaeger_def)
  then have names: "om_Name (crb_Meta ?b) \<noteq> om_Name (crb_Meta (oauthProxyAuthDelegator sample_jaeger))" by auto
  have "om_Namespace (crb_Meta ?b) = []" by (simp add: oauthProxyAuthDelegator_def Let_def ObjectMeta0_def)
  moreover have "j_Name sample_homonym = ''my''" "j_Name sample_jaeger = ''my''"
    by (simp_all add: sample_homonym_def sample_jaeger_def NewJaeger_def)
  moreover have "viper_GetString sample_cluster_env ConfigOperatorScope = OperatorScopeCluster"
    by (simp add: sample_cluster_env_def)
  moreover have "OClusterRoleBinding -` set (mem_objs [OClusterRoleBinding ?b]) = set [?b]"
    by (auto simp: mem_objs_def)
  ultimately have "ident (OClusterRoleBinding ?b) \<notin> ident ` set (mem_objs [])"
    using label names by (intro binding_of_homonym_deleted [OF mem.api_server_axioms _ _ _ _ _ _ _ run, where bs = "[?b]"]) simp_all
  with run show ?thesis by simp
qed

end
