(* ===== verification/Pod_Config.thy ===== *)
theory Pod_Config
  imports Services Accounts
begin

text \<open>
  The packages that add configuration to a pod: \<open>pkg/config/ca\<close> (trusted and service CA bundles on
  OpenShift), \<open>pkg/config/tls\<close> (the certificate of the collector), \<open>pkg/config/sampling\<close>,
  \<open>pkg/config/ui\<close> and the plugin volume of \<open>pkg/storage/grpc_plugin.go\<close>.  Each comes with the config
  map it reads from and with an \<open>Update\<close> that changes the merged common specification (and the list
  of arguments) of a component.
\<close>

section \<open>Certificate authorities\<close>

definition serviceCAMountPath :: string where
  "serviceCAMountPath = ''/etc/pki/ca-trust/source/service-ca''"

definition caBundleMountPath :: string where
  "caBundleMountPath = ''/etc/pki/ca-trust/extracted/pem''"

definition ServiceCAPath :: string where
  "ServiceCAPath = serviceCAMountPath @ ''/'' @ ''service-ca.crt''"

definition TrustedCANameFromString :: "string \<Rightarrow> string" where
  "TrustedCANameFromString name = name @ ''-trusted-ca''"

definition ServiceCANameFromString :: "string \<Rightarrow> string" where
  "ServiceCANameFromString name = name @ ''-service-ca''"

definition TrustedCAName :: "Jaeger \<Rightarrow> string" where
  "TrustedCAName jaeger = TrustedCANameFromString (j_Name jaeger)"

definition ServiceCAName :: "Jaeger \<Rightarrow> string" where
  "ServiceCAName jaeger = ServiceCANameFromString (j_Name jaeger)"

definition deployTrustedCA :: "Jaeger \<Rightarrow> bool" where
  "deployTrustedCA jaeger =
     (\<not> list_ex (\<lambda>vm. HasPrefix (vm_MountPath vm) caBundleMountPath) (jc_VolumeMounts (js_Common (j_Spec jaeger))))"

definition deployServiceCA :: "Jaeger \<Rightarrow> bool" where
  "deployServiceCA jaeger =
     (\<not> list_ex (\<lambda>vm. HasPrefix (vm_MountPath vm) serviceCAMountPath) (jc_VolumeMounts (js_Common (j_Spec jaeger))))"

definition config_map_object :: "string \<Rightarrow> string \<Rightarrow> string gomap \<Rightarrow> string gomap \<Rightarrow> OwnerReference list \<Rightarrow> string gomap \<Rightarrow> ConfigMap" where
  "config_map_object name ns labels annotations owners data =
     \<lparr>cm_TypeMeta = \<lparr>tm_APIVersion = ''v1'', tm_Kind = ''ConfigMap''\<rparr>,
      cm_Meta = ObjectMeta0\<lparr>om_Name := name, om_Namespace := ns, om_Labels := labels, om_Annotations := annotations,
        om_OwnerReferences := owners\<rparr>,
      cm_Data = data, cm_BinaryData = None\<rparr>"

definition GetTrustedCABundle :: "Env \<Rightarrow> Jaeger \<Rightarrow> ConfigMap option" where
  "GetTrustedCABundle e jaeger =
     (if GetPlatform e \<noteq> OpenShiftPlatform \<or> \<not> deployTrustedCA jaeger then None
      else (let name = TrustedCAName jaeger;
                labels = Some (AList.update ''config.openshift.io/inject-trusted-cabundle'' ''true''
                           (entries (Labels name ''ca-configmap'' jaeger)))
            in Some (config_map_object name (j_Namespace jaeger) labels None [] (Some [(''ca-bundle.crt'', [])]))))"

definition GetServiceCABundle :: "Env \<Rightarrow> Jaeger \<Rightarrow> ConfigMap option" where
  "GetServiceCABundle e jaeger =
     (if GetPlatform e \<noteq> OpenShiftPlatform \<or> \<not> deployServiceCA jaeger then None
      else (let name = ServiceCAName jaeger
            in Some (config_map_object name (j_Namespace jaeger) (Labels name ''service-ca-configmap'' jaeger)
                 (Some [(''service.beta.openshift.io/inject-cabundle'', ''true'')]) [] None)))"

definition config_volume :: "string \<Rightarrow> string \<Rightarrow> string \<Rightarrow> string \<Rightarrow> Volume" where
  "config_volume name cm key path = \<lparr>vol_Name = name, vol_Source = VSConfigMap cm [(key, path)]\<rparr>"

definition read_only_mount :: "string \<Rightarrow> string \<Rightarrow> VolumeMount" where
  "read_only_mount name path = \<lparr>vm_Name = name, vm_MountPath = path, vm_ReadOnly = True, vm_rest = []\<rparr>"

text \<open>Appending one volume with its mount, without and with the removal of duplicates.\<close>

definition append_volume :: "Volume \<Rightarrow> VolumeMount \<Rightarrow> JaegerCommonSpec \<Rightarrow> JaegerCommonSpec" where
  "append_volume v m spec = spec\<lparr>jc_Volumes := jc_Volumes spec @ [v], jc_VolumeMounts := jc_VolumeMounts spec @ [m]\<rparr>"

definition append_volume_once :: "Volume \<Rightarrow> VolumeMount \<Rightarrow> JaegerCommonSpec \<Rightarrow> JaegerCommonSpec" where
  "append_volume_once v m spec =
     spec\<lparr>jc_Volumes := RemoveDuplicatedVolumes (jc_Volumes spec @ [v]),
          jc_VolumeMounts := RemoveDuplicatedVolumeMounts (jc_VolumeMounts spec @ [m])\<rparr>"

definition ca_Update :: "Env \<Rightarrow> Jaeger \<Rightarrow> JaegerCommonSpec \<Rightarrow> JaegerCommonSpec" where
  "ca_Update e jaeger spec =
     (if GetPlatform e \<noteq> OpenShiftPlatform \<or> \<not> deployTrustedCA jaeger then spec
      else append_volume_once (config_volume (TrustedCAName jaeger) (TrustedCAName jaeger) ''ca-bundle.crt'' ''tls-ca-bundle.pem'')
             (read_only_mount (TrustedCAName jaeger) caBundleMountPath) spec)"

definition AddServiceCA :: "Env \<Rightarrow> Jaeger \<Rightarrow> JaegerCommonSpec \<Rightarrow> JaegerCommonSpec" where
  "AddServiceCA e jaeger spec =
     (if GetPlatform e \<noteq> OpenShiftPlatform \<or> \<not> deployServiceCA jaeger then spec
      else append_volume_once (config_volume (ServiceCAName jaeger) (ServiceCAName jaeger) ''service-ca.crt'' ''service-ca.crt'')
             (read_only_mount (ServiceCAName jaeger) serviceCAMountPath) spec)"

section \<open>The certificate of the collector\<close>

definition tls_configurationVolumeName :: "Jaeger \<Rightarrow> string" where
  "tls_configurationVolumeName jaeger = DNSName (j_Name jaeger @ ''-collector-tls-config-volume'')"

definition tls_Update :: "Env \<Rightarrow> Jaeger \<Rightarrow> JaegerCommonSpec \<times> string list \<Rightarrow> JaegerCommonSpec \<times> string list" where
  "tls_Update e jaeger = (\<lambda>(spec, options).
     if GetPlatform e \<noteq> OpenShiftPlatform \<or> length (FindItem ''--reporter.grpc.host-port='' options) \<noteq> 0 then (spec, options)
     else (append_volume \<lparr>vol_Name = tls_configurationVolumeName jaeger,
                          vol_Source = VSSecret (GetNameForHeadlessCollectorService jaeger @ ''-tls'')\<rparr>
             (read_only_mount (tls_configurationVolumeName jaeger) ''/etc/tls-config'') spec,
           options @ [''--collector.grpc.tls.enabled=true'', ''--collector.grpc.tls.cert=/etc/tls-config/tls.crt'',
             ''--collector.grpc.tls.key=/etc/tls-config/tls.key'']))"

section \<open>Sampling\<close>

definition defaultSamplingStrategy :: string where
  "defaultSamplingStrategy =
     (let q = [CHR 0x22]
      in ''{'' @ q @ ''default_strategy'' @ q @ '':{'' @ q @ ''param'' @ q @ '':1,'' @ q @ ''type'' @ q @ '':'' @ q @ ''probabilistic'' @ q @ ''}}'')"

definition CheckForSamplingConfigFile :: "Jaeger \<Rightarrow> bool" where
  "CheckForSamplingConfigFile jaeger =
     (let options = (if js_Strategy (j_Spec jaeger) = DeploymentStrategyAllInOne
                     then aio_Options (js_AllInOne (j_Spec jaeger)) else col_Options (js_Collector (j_Spec jaeger)))
      in mget (Map_opts options) ''sampling.strategies-file'' \<noteq> None)"

definition sampling_Get :: "Jaeger \<Rightarrow> ConfigMap option" where
  "sampling_Get jaeger =
     (if CheckForSamplingConfigFile jaeger then None
      else (let jsonObject = (if IsEmpty (js_SamplingOptions (j_Spec jaeger)) then defaultSamplingStrategy
                              else FreeForm_MarshalJSON (js_SamplingOptions (j_Spec jaeger)));
                name = j_Name jaeger @ ''-sampling-configuration''
            in Some (config_map_object name (j_Namespace jaeger) (Labels name ''sampling-configuration'' jaeger) None
                 [AsOwner jaeger] (Some [(''sampling'', jsonObject)]))))"

definition samplingConfigVolumeName :: "Jaeger \<Rightarrow> string" where
  "samplingConfigVolumeName jaeger = DNSName (Truncate ''%s-sampling-configuration-volume'' 63 [j_Name jaeger])"

definition sampling_Update :: "Jaeger \<Rightarrow> JaegerCommonSpec \<times> string list \<Rightarrow> JaegerCommonSpec \<times> string list" where
  "sampling_Update jaeger = (\<lambda>(spec, options).
     if CheckForSamplingConfigFile jaeger then (spec, options)
     else (append_volume (config_volume (samplingConfigVolumeName jaeger) (j_Name jaeger @ ''-sampling-configuration'') ''sampling'' ''sampling.json'')
             (read_only_mount (samplingConfigVolumeName jaeger) ''/etc/jaeger/sampling'') spec,
           options @ [''--sampling.strategies-file=/etc/jaeger/sampling/sampling.json'']))"

section \<open>The user interface\<close>

definition ui_Get :: "Jaeger \<Rightarrow> ConfigMap option" where
  "ui_Get jaeger =
     (if IsEmpty (js_UIOptions (j_Spec jaeger)) then None
      else (let name = j_Name jaeger @ ''-ui-configuration''
            in Some (config_map_object name (j_Namespace jaeger) (Labels name ''ui-configuration'' jaeger) None
                 [AsOwner jaeger] (Some [(''ui'', FreeForm_MarshalJSON (js_UIOptions (j_Spec jaeger)))]))))"

definition ui_configurationVolumeName :: "Jaeger \<Rightarrow> string" where
  "ui_configurationVolumeName jaeger = DNSName (Truncate ''%s-ui-configuration-volume'' 63 [j_Name jaeger])"

definition ui_Update :: "Jaeger \<Rightarrow> JaegerCommonSpec \<times> string list \<Rightarrow> JaegerCommonSpec \<times> string list" where
  "ui_Update jaeger = (\<lambda>(spec, options).
     if IsEmpty (js_UIOptions (j_Spec jaeger)) then (spec, options)
     else (append_volume (config_volume (ui_configurationVolumeName jaeger) (j_Name jaeger @ ''-ui-configuration'') ''ui'' ''ui.json'')
             (read_only_mount (ui_configurationVolumeName jaeger) ''/etc/config'') spec,
           options @ [''--query.ui-config=/etc/config/ui.json'']))"

section \<open>The storage plugin\<close>

definition UpdateGRPCPlugin :: "Jaeger \<Rightarrow> JaegerCommonSpec \<Rightarrow> JaegerCommonSpec" where
  "UpdateGRPCPlugin jaeger spec =
     (if st_Type (j_Storage jaeger) \<noteq> JaegerGRPCPluginStorage then spec
      else append_volume \<lparr>vol_Name = ''plugin-volume'', vol_Source = VSEmptyDir\<rparr>
             \<lparr>vm_Name = ''plugin-volume'', vm_MountPath = ''/plugin'', vm_ReadOnly = False, vm_rest = []\<rparr> spec)"

definition GetGRPCPluginInitContainers :: "Jaeger \<Rightarrow> JaegerCommonSpec \<Rightarrow> Container list" where
  "GetGRPCPluginInitContainers jaeger spec =
     (if st_Type (j_Storage jaeger) \<noteq> JaegerGRPCPluginStorage then []
      else [Container0\<lparr>c_Image := st_GRPCPluginImage (j_Storage jaeger), c_Name := ''install-plugin'',
              c_VolumeMounts := jc_VolumeMounts spec\<rparr>])"

section \<open>What an update of a pod promises\<close>

text \<open>The mounts that no volume backs, and the config maps that the volumes refer to.\<close>

definition unresolved :: "JaegerCommonSpec \<Rightarrow> string set" where
  "unresolved spec = vm_Name ` set (jc_VolumeMounts spec) - vol_Name ` set (jc_Volumes spec)"

definition config_maps_of :: "Volume list \<Rightarrow> string list" where
  "config_maps_of vs = List.map_filter (\<lambda>v. case vol_Source v of VSConfigMap n _ \<Rightarrow> Some n | _ \<Rightarrow> None) vs"

definition names_of :: "ConfigMap option \<Rightarrow> string list" where
  "names_of cm = (case cm of None \<Rightarrow> [] | Some c \<Rightarrow> [om_Name (cm_Meta c)])"

text \<open>A patch changes volumes and mounts only, backs every mount it adds, and refers to no config map
  but those in \<open>provided\<close>.\<close>

locale pod_patch =
  fixes patch :: "JaegerCommonSpec \<Rightarrow> JaegerCommonSpec" and provided :: "string list"
  assumes only_volumes: "patch c = c\<lparr>jc_Volumes := jc_Volumes (patch c), jc_VolumeMounts := jc_VolumeMounts (patch c)\<rparr>"
    and resolves: "unresolved (patch c) \<subseteq> unresolved c"
    and sources: "set (config_maps_of (jc_Volumes (patch c))) \<subseteq> set (config_maps_of (jc_Volumes c)) \<union> set provided"
begin

lemma patch_other_fields:
  "jc_Labels (patch c) = jc_Labels c" "jc_Annotations (patch c) = jc_Annotations c"
  "jc_Resources (patch c) = jc_Resources c" "jc_ImagePullPolicy (patch c) = jc_ImagePullPolicy c"
  by (subst only_volumes, simp)+

end

lemma pod_patch_id: "pod_patch (\<lambda>c. c) []"
  by unfold_locales simp_all

lemma pod_patch_comp:
  assumes "pod_patch p xs" "pod_patch q ys"
  shows "pod_patch (\<lambda>c. q (p c)) (xs @ ys)"
proof
  fix c
  show "q (p c) = c\<lparr>jc_Volumes := jc_Volumes (q (p c)), jc_VolumeMounts := jc_VolumeMounts (q (p c))\<rparr>"
    by (subst pod_patch.only_volumes [OF assms(2)], subst (1) pod_patch.only_volumes [OF assms(1)]) simp
  show "unresolved (q (p c)) \<subseteq> unresolved c"
    using pod_patch.resolves [OF assms(1), of c] pod_patch.resolves [OF assms(2), of "p c"] by blast
  show "set (config_maps_of (jc_Volumes (q (p c)))) \<subseteq> set (config_maps_of (jc_Volumes c)) \<union> set (xs @ ys)"
    using pod_patch.sources [OF assms(1), of c] pod_patch.sources [OF assms(2), of "p c"] by auto
qed

lemma config_maps_of_simps [simp]:
  "config_maps_of [] = []"
  "config_maps_of (v # vs) = (case vol_Source v of VSConfigMap n _ \<Rightarrow> [n] | _ \<Rightarrow> []) @ config_maps_of vs"
  "config_maps_of (vs @ ws) = config_maps_of vs @ config_maps_of ws"
  by (auto simp: config_maps_of_def List.map_filter_def split: VolumeSource.split)

lemma config_maps_of_mono: "set vs \<subseteq> set ws \<Longrightarrow> set (config_maps_of vs) \<subseteq> set (config_maps_of ws)"
  by (auto simp: config_maps_of_def List.map_filter_def)

lemma names_dedup_volumes: "vol_Name ` set (RemoveDuplicatedVolumes vs) = vol_Name ` set vs"
  unfolding volumes.dedup_items_eq by (simp add: volumes.names_first_of_each)

lemma names_dedup_mounts: "vm_Name ` set (RemoveDuplicatedVolumeMounts vs) = vm_Name ` set vs"
  unfolding volume_mounts.dedup_items_eq by (simp add: volume_mounts.names_first_of_each)

lemma append_volume_patch:
  assumes "vm_Name m = vol_Name v" "set (config_maps_of [v]) \<subseteq> set xs"
  shows "pod_patch (append_volume v m) xs" "pod_patch (append_volume_once v m) xs"
proof -
  show "pod_patch (append_volume v m) xs"
    by unfold_locales (use assms in \<open>auto simp: append_volume_def unresolved_def simp del: config_maps_of_simps(2)\<close>)
  show "pod_patch (append_volume_once v m) xs"
  proof
    fix c
    show "unresolved (append_volume_once v m c) \<subseteq> unresolved c"
      by (auto simp: append_volume_once_def unresolved_def names_dedup_volumes names_dedup_mounts assms(1))
    have "set (config_maps_of (RemoveDuplicatedVolumes (jc_Volumes c @ [v]))) \<subseteq> set (config_maps_of (jc_Volumes c @ [v]))"
      by (rule config_maps_of_mono) (rule volumes.dedup_subset)
    with assms(2) show "set (config_maps_of (jc_Volumes (append_volume_once v m c))) \<subseteq> set (config_maps_of (jc_Volumes c)) \<union> set xs"
      by (auto simp: append_volume_once_def simp del: config_maps_of_simps(2))
  qed (simp add: append_volume_once_def)
qed

lemma pod_patch_if:
  "(b \<Longrightarrow> pod_patch p xs) \<Longrightarrow> (\<not> b \<Longrightarrow> pod_patch q xs) \<Longrightarrow> pod_patch (\<lambda>c. if b then p c else q c) xs"
  by (cases b) simp_all

lemma pod_patch_weaken: "pod_patch p [] \<Longrightarrow> pod_patch p xs"
  by (simp add: pod_patch_def) blast

interpretation ca_patch: pod_patch "ca_Update e j" "names_of (GetTrustedCABundle e j)" for e j
  unfolding ca_Update_def
  by (rule pod_patch_if, rule pod_patch_weaken [OF pod_patch_id], rule append_volume_patch)
    (simp_all add: config_volume_def read_only_mount_def GetTrustedCABundle_def config_map_object_def names_of_def Let_def)

interpretation service_ca_patch: pod_patch "AddServiceCA e j" "names_of (GetServiceCABundle e j)" for e j
  unfolding AddServiceCA_def
  by (rule pod_patch_if, rule pod_patch_weaken [OF pod_patch_id], rule append_volume_patch)
    (simp_all add: config_volume_def read_only_mount_def GetServiceCABundle_def config_map_object_def names_of_def Let_def)

interpretation tls_patch: pod_patch "\<lambda>c. fst (tls_Update e j (c, opts))" "[]" for e j opts
  unfolding tls_Update_def prod.case if_distrib [of fst] fst_conv
  by (rule pod_patch_if, rule pod_patch_id, rule append_volume_patch) (simp_all add: read_only_mount_def)

interpretation sampling_patch: pod_patch "\<lambda>c. fst (sampling_Update j (c, opts))" "names_of (sampling_Get j)" for j opts
  unfolding sampling_Update_def prod.case if_distrib [of fst] fst_conv
  by (rule pod_patch_if, rule pod_patch_weaken [OF pod_patch_id], rule append_volume_patch)
    (simp_all add: config_volume_def read_only_mount_def sampling_Get_def config_map_object_def names_of_def Let_def)

interpretation ui_patch: pod_patch "\<lambda>c. fst (ui_Update j (c, opts))" "names_of (ui_Get j)" for j opts
  unfolding ui_Update_def prod.case if_distrib [of fst] fst_conv
  by (rule pod_patch_if, rule pod_patch_weaken [OF pod_patch_id], rule append_volume_patch)
    (simp_all add: config_volume_def read_only_mount_def ui_Get_def config_map_object_def names_of_def Let_def)

interpretation plugin_patch: pod_patch "UpdateGRPCPlugin j" "[]" for j
  unfolding UpdateGRPCPlugin_def by (rule pod_patch_if, rule pod_patch_id, rule append_volume_patch) simp_all

end
