(* ===== verification/Inject.thy ===== *)
theory Inject
  imports Pod_Config
begin

text \<open>
  Package \<open>pkg/inject\<close>: the agent sidecar (\<open>sidecar.go\<close>) and the OAuth proxy container
  (\<open>oauth_proxy.go\<close>).  The functions change the deployment they are given; a function that can
  panic returns a result.
\<close>

abbreviation (input) "dep_Name d \<equiv> om_Name (dep_Meta d)"
abbreviation (input) "dep_Namespace d \<equiv> om_Namespace (dep_Meta d)"
abbreviation (input) "dep_Labels d \<equiv> om_Labels (dep_Meta d)"
abbreviation (input) "dep_Annotations d \<equiv> om_Annotations (dep_Meta d)"
abbreviation (input) "dep_Pod d \<equiv> pt_Spec (ds_Template (dep_Spec d))"
abbreviation (input) "dep_Containers d \<equiv> ps_Containers (pt_Spec (ds_Template (dep_Spec d)))"
abbreviation (input) "upd_Pod f d \<equiv> dep_Spec_update (ds_Template_update (pt_Spec_update f)) d"

abbreviation (input) "AnnotationRev \<equiv> ''sidecar.jaegertracing.io/revision''"
abbreviation (input) "Annotation \<equiv> ''sidecar.jaegertracing.io/inject''"
abbreviation (input) "Label \<equiv> ''sidecar.jaegertracing.io/injected''"
abbreviation (input) "envVarServiceName \<equiv> ''JAEGER_SERVICE_NAME''"
abbreviation (input) "envVarPropagation \<equiv> ''JAEGER_PROPAGATION''"

definition PrometheusDefaultAnnotations :: "string amap" where
  "PrometheusDefaultAnnotations = [(''prometheus.io/scrape'', ''true''), (''prometheus.io/port'', ''14271'')]"

section \<open>Whether to inject, and from which instance\<close>

definition desired :: "Deployment \<Rightarrow> Namespace \<Rightarrow> bool" where
  "desired dep ns =
     ((case mget (dep_Annotations dep) Annotation of Some v \<Rightarrow> \<not> EqualFold v ''false'' | None \<Rightarrow> False) \<or>
      (case mget (om_Annotations (ns_Meta ns)) Annotation of Some v \<Rightarrow> \<not> EqualFold v ''false'' | None \<Rightarrow> False))"

text \<open>The revision is a 64-bit integer that wraps around.\<close>

definition IncreaseRevision :: "string gomap \<Rightarrow> string gomap" where
  "IncreaseRevision annotations = (case annotations of
     None \<Rightarrow> None
   | Some al \<Rightarrow>
       (let revStr = (case Atoi (mstr annotations AnnotationRev) of
                        Some n \<Rightarrow> Itoa (sint (word_of_int (n + 1) :: int64)) | None \<Rightarrow> ''0'')
        in Some (AList.update AnnotationRev revStr al)))"

fun agent_index :: "Container list \<Rightarrow> nat option" where
  "agent_index [] = None"
| "agent_index (c # cs) = (if c_Name c = ''jaeger-agent'' then Some 0 else map_option Suc (agent_index cs))"

text \<open>The index is \<open>-1\<close> when there is no agent.\<close>

definition HasJaegerAgent :: "Deployment \<Rightarrow> bool \<times> int" where
  "HasJaegerAgent dep = (case agent_index (dep_Containers dep) of None \<Rightarrow> (False, -1) | Some i \<Rightarrow> (True, int i))"

definition Needed :: "Deployment \<Rightarrow> Namespace \<Rightarrow> bool" where
  "Needed dep ns =
     (if \<not> desired dep ns then False
      else if mstr (dep_Labels dep) ''app'' = ''jaeger'' \<and> mstr (dep_Labels dep) ''app.kubernetes.io/component'' \<noteq> ''query'' then False
      else if fst (HasJaegerAgent dep) then mget (dep_Labels dep) Label \<noteq> None
      else True)"

fun getJaeger_from :: "string \<Rightarrow> string \<Rightarrow> Jaeger option \<Rightarrow> Jaeger list \<Rightarrow> Jaeger option" where
  "getJaeger_from deploymentNamespace name best [] = best"
| "getJaeger_from deploymentNamespace name best (j # jaegers) =
     (if j_Name j = name then
        (let best' = (case best of None \<Rightarrow> Some j | Some b \<Rightarrow> Some b)
         in if deploymentNamespace = j_Namespace j then Some j
            else getJaeger_from deploymentNamespace name best' jaegers)
      else getJaeger_from deploymentNamespace name best jaegers)"

definition getJaeger :: "string \<Rightarrow> string \<Rightarrow> Jaeger list \<Rightarrow> Jaeger option" where
  "getJaeger deploymentNamespace name jaegers = getJaeger_from deploymentNamespace name None jaegers"

definition getJaegerFromNamespace :: "string \<Rightarrow> Jaeger list \<Rightarrow> Jaeger list" where
  "getJaegerFromNamespace namespace jaegers = filter (\<lambda>p. j_Namespace p = namespace) jaegers"

definition Select :: "Deployment \<Rightarrow> Namespace \<Rightarrow> Jaeger list \<Rightarrow> Jaeger option" where
  "Select target ns availableJaegerPods =
     (let jaegerNameDep = mstr (dep_Annotations target) Annotation;
          jaegerNameNs = mstr (om_Annotations (ns_Meta ns)) Annotation
      in if jaegerNameDep \<noteq> [] \<and> \<not> EqualFold jaegerNameDep ''true''
         then getJaeger (dep_Namespace target) jaegerNameDep availableJaegerPods
         else case getJaeger (dep_Namespace target) jaegerNameNs availableJaegerPods of
             Some jaeger \<Rightarrow> Some jaeger
           | None \<Rightarrow>
               if EqualFold jaegerNameDep ''true'' \<or> EqualFold jaegerNameNs ''true''
               then (case availableJaegerPods of
                   [jaeger] \<Rightarrow> Some jaeger
                 | _ \<Rightarrow> (case getJaegerFromNamespace (dep_Namespace target) availableJaegerPods of
                       [jaeger] \<Rightarrow> Some jaeger | _ \<Rightarrow> None))
               else None)"

section \<open>Environment of the application containers\<close>

record SidecarOptions =
  EnvConfigMaps :: "ConfigMap list"

definition WithEnvFromConfigMaps :: "ConfigMap list \<Rightarrow> SidecarOptions \<Rightarrow> SidecarOptions" where
  "WithEnvFromConfigMaps configMaps s = s\<lparr>EnvConfigMaps := configMaps\<rparr>"

definition haskeyInEnvFromConfigMaps :: "string \<Rightarrow> ConfigMap list \<Rightarrow> bool" where
  "haskeyInEnvFromConfigMaps key configMaps = list_ex (\<lambda>cm. mget (cm_Data cm) key \<noteq> None) configMaps"

definition hasEnv :: "string \<Rightarrow> EnvVar list \<Rightarrow> bool" where
  "hasEnv name vars = list_ex (\<lambda>v. ev_Name v = name) vars"

definition add_env :: "ConfigMap list \<Rightarrow> string \<Rightarrow> string \<Rightarrow> Container \<Rightarrow> Container" where
  "add_env cms name val c =
     (if \<not> hasEnv name (c_Env c) \<and> \<not> haskeyInEnvFromConfigMaps name cms
      then c\<lparr>c_Env := c_Env c @ [\<lparr>ev_Name = name, ev_Value = val, ev_ValueFrom = None\<rparr>]\<rparr> else c)"

definition app_of :: "Deployment \<Rightarrow> string option" where
  "app_of dep =
     (let labels = om_Labels (pt_Meta (ds_Template (dep_Spec dep)))
      in case mget labels ''app.kubernetes.io/instance'' of
           Some a \<Rightarrow> Some a
         | None \<Rightarrow> (case mget labels ''app.kubernetes.io/name'' of Some a \<Rightarrow> Some a | None \<Rightarrow> mget labels ''app''))"

definition decorate_containers :: "Deployment \<Rightarrow> (SidecarOptions \<Rightarrow> SidecarOptions) list \<Rightarrow> Deployment" where
  "decorate_containers dep options = (case app_of dep of
     None \<Rightarrow> dep
   | Some app0 \<Rightarrow>
       (let app = (if length (dep_Namespace dep) > 0 then app0 @ ''.'' @ dep_Namespace dep else app0 @ ''.default'');
            cms = EnvConfigMaps (fold (\<lambda>opt s. opt s) options \<lparr>EnvConfigMaps = []\<rparr>)
        in upd_Pod (ps_Containers_update (map (\<lambda>c. add_env cms envVarPropagation ''jaeger,b3,w3c'' (add_env cms envVarServiceName app c)))) dep))"

definition put_default :: "string \<Rightarrow> string \<Rightarrow> string gomap \<Rightarrow> string gomap res" where
  "put_default key val m = (if mget m key = None then mput key val m else Inr m)"

definition decorate_annotations :: "string gomap \<Rightarrow> string gomap res" where
  "decorate_annotations m = fold (\<lambda>(k, v) r. res_bind r (put_default k v)) PrometheusDefaultAnnotations (Inr m)"

definition decorate :: "Deployment \<Rightarrow> (SidecarOptions \<Rightarrow> SidecarOptions) list \<Rightarrow> Deployment res" where
  "decorate dep options =
     res_bind (decorate_annotations (dep_Annotations dep)) (\<lambda>al.
       Inr (dep_Meta_update (\<lambda>m. m\<lparr>om_Annotations := al\<rparr>) (decorate_containers dep options)))"

section \<open>The tags of the agent\<close>

fun parse_tag_pairs :: "string list \<Rightarrow> string amap \<Rightarrow> string amap res" where
  "parse_tag_pairs [] tags = Inr tags"
| "parse_tag_pairs (p # ps) tags =
     (case SplitN2 (CHR ''='') p of
        [k, v] \<Rightarrow> parse_tag_pairs ps (AList.update k v tags)
      | _ \<Rightarrow> Inl IndexOutOfRange)"

definition parseAgentTags :: "string list \<Rightarrow> string amap res" where
  "parseAgentTags args =
     (let tagsArg = FindItem ''--agent.tags='' args
      in if tagsArg = [] then Inr []
         else (case SplitN2 (CHR ''='') tagsArg of
             [_, tagsParam] \<Rightarrow> parse_tag_pairs (Split (CHR '','') tagsParam) []
           | _ \<Rightarrow> Inl IndexOutOfRange))"

definition joinTags :: "string amap \<Rightarrow> string" where
  "joinTags tags = Join '','' (SortStrings (map (\<lambda>(k, v). k @ ''='' @ v) tags))"

definition getContainerName :: "Container list \<Rightarrow> int \<Rightarrow> string" where
  "getContainerName containers agentIdx =
     (if agentIdx = -1 \<and> length containers = 1 then c_Name (containers ! 0)
      else if agentIdx > -1 \<and> int (length containers) - 1 = 1 then c_Name (containers ! nat (1 - agentIdx))
      else [])"

definition isContainerPortAvailable :: "int32 \<Rightarrow> Deployment \<Rightarrow> bool" where
  "isContainerPortAvailable port dep =
     list_all (\<lambda>c. c_Name c = ''jaeger-agent'' \<or> list_all (\<lambda>p. port \<noteq> cp_ContainerPort p) (c_Ports c)) (dep_Containers dep)"

section \<open>The agent container\<close>

definition container_port :: "int32 \<Rightarrow> string \<Rightarrow> string \<Rightarrow> ContainerPort" where
  "container_port port name protocol = \<lparr>cp_ContainerPort = port, cp_HostPort = 0, cp_Name = name, cp_Protocol = protocol\<rparr>"

definition http_probe :: "int32 \<Rightarrow> int32 \<Rightarrow> int32 \<Rightarrow> int32 \<Rightarrow> Probe" where
  "http_probe port delay period threshold =
     \<lparr>pb_HTTPGet = Some (''/'', sint port), pb_InitialDelaySeconds = delay, pb_PeriodSeconds = period,
      pb_FailureThreshold = threshold, pb_rest = []\<rparr>"

definition default_agent_tags :: "Deployment \<Rightarrow> int \<Rightarrow> string amap" where
  "default_agent_tags dep agentIdx =
     (let name = getContainerName (dep_Containers dep) agentIdx
      in [(''cluster'', ''undefined''), (''deployment.name'', dep_Name dep), (''pod.namespace'', dep_Namespace dep),
          (''pod.name'', ''${POD_NAME:}''), (''host.ip'', ''${HOST_IP:}'')] @
         (if name \<noteq> [] then [(''container.name'', name)] else []))"

definition agent_reporter_args :: "Env \<Rightarrow> Jaeger \<Rightarrow> string list" where
  "agent_reporter_args e jaeger =
     (let args0 = ToArgs (ag_Options (js_Agent (j_Spec jaeger)));
          args1 = (if length (FindItem ''--reporter.grpc.host-port='' args0) = 0
                   then args0 @ [''--reporter.grpc.host-port=dns:///'' @ GetNameForHeadlessCollectorService jaeger @ ''.'' @
                          j_Namespace jaeger @ ''.svc:14250'']
                   else args0)
      in if GetPlatform e = OpenShiftPlatform \<and> length (FindItem ''--reporter.grpc.tls.enabled='' args1) = 0
         then args1 @ [''--reporter.grpc.tls.enabled=true'', ''--reporter.grpc.tls.ca='' @ ServiceCAPath]
         else args1)"

definition agent_tags_arg :: "Deployment \<Rightarrow> int \<Rightarrow> string res" where
  "agent_tags_arg dep agentIdx =
     (let defaults = default_agent_tags dep agentIdx
      in if agentIdx > -1
         then res_bind (parseAgentTags (c_Args (dep_Containers dep ! nat agentIdx))) (\<lambda>existing.
                Inr (''--agent.tags='' @ joinTags (put_all defaults existing)))
         else Inr (''--agent.tags='' @ joinTags defaults))"

definition agent_volumes_spec :: "Env \<Rightarrow> Jaeger \<Rightarrow> JaegerCommonSpec" where
  "agent_volumes_spec e jaeger = AddServiceCA e jaeger (ca_Update e jaeger (ag_Common (js_Agent (j_Spec jaeger))))"

definition agent_container :: "Env \<Rightarrow> Jaeger \<Rightarrow> Deployment \<Rightarrow> string list \<Rightarrow> Container" where
  "agent_container e jaeger dep args =
     (let reporter = agent_reporter_args e jaeger;
          adminPort = GetAdminPort reporter 14271;
          ag = js_Agent (j_Spec jaeger);
          probe = isContainerPortAvailable adminPort dep
      in Container0\<lparr>c_Image := AgentImageName e (ag_Image ag) ''jaeger-agent-image'', c_Name := ''jaeger-agent'',
           c_Args := SortStrings args,
           c_Env := [\<lparr>ev_Name = ''POD_NAME'', ev_Value = [], ev_ValueFrom = Some ''metadata.name''\<rparr>,
                     \<lparr>ev_Name = ''HOST_IP'', ev_Value = [], ev_ValueFrom = Some ''status.hostIP''\<rparr>] @ ProxyVars e,
           c_Ports := [container_port (GetPort ''--processor.zipkin-compact.server-host-port='' reporter 5775) ''zk-compact-trft'' ''UDP'',
                       container_port (GetPort ''--http-server.host-port='' reporter 5778) ''config-rest'' [],
                       container_port (GetPort ''--processor.jaeger-compact.server-host-port='' reporter 6831) ''jg-compact-trft'' ''UDP'',
                       container_port (GetPort ''--processor.jaeger-binary.server-host-port='' reporter 6832) ''jg-binary-trft'' ''UDP'',
                       container_port adminPort ''admin-http'' []],
           c_Resources := jc_Resources (Merge [ag_Common ag, js_Common (j_Spec jaeger)]),
           c_SecurityContext := ag_SidecarSecurityContext ag,
           c_VolumeMounts := jc_VolumeMounts (agent_volumes_spec e jaeger),
           c_LivenessProbe := (if probe then Some (http_probe adminPort 5 15 5) else None),
           c_ReadinessProbe := (if probe then Some (http_probe adminPort 1 0 0) else None)\<rparr>)"

text \<open>\<open>container\<close> also writes the pull secrets and volumes of the deployment.\<close>

definition agent_pod :: "Env \<Rightarrow> Jaeger \<Rightarrow> Deployment \<Rightarrow> Deployment" where
  "agent_pod e jaeger =
     upd_Pod (\<lambda>p. p\<lparr>ps_ImagePullSecrets := RemoveDuplicatedImagePullSecrets
                       (ps_ImagePullSecrets p @ jc_ImagePullSecrets (ag_Common (js_Agent (j_Spec jaeger)))),
                     ps_Volumes := RemoveDuplicatedVolumes (ps_Volumes p @ jc_Volumes (agent_volumes_spec e jaeger))\<rparr>)"

definition agent_args :: "Env \<Rightarrow> Jaeger \<Rightarrow> Deployment \<Rightarrow> int \<Rightarrow> string list res" where
  "agent_args e jaeger dep agentIdx =
     (let args = agent_reporter_args e jaeger
      in if length (FindItem ''--agent.tags='' args) = 0
         then res_bind (agent_tags_arg dep agentIdx) (\<lambda>a. Inr (args @ [a])) else Inr args)"

definition container :: "Env \<Rightarrow> Jaeger \<Rightarrow> Deployment \<Rightarrow> int \<Rightarrow> (Container \<times> Deployment) res" where
  "container e jaeger dep agentIdx =
     res_bind (agent_args e jaeger dep agentIdx) (\<lambda>args. Inr (agent_container e jaeger dep args, agent_pod e jaeger dep))"

definition put_label :: "string \<Rightarrow> string \<Rightarrow> string gomap \<Rightarrow> string gomap" where
  "put_label k v m = Some (AList.update k v (entries m))"

text \<open>The instance is never nil where the function is called.\<close>

definition Sidecar :: "Env \<Rightarrow> Jaeger \<Rightarrow> Deployment \<Rightarrow> (SidecarOptions \<Rightarrow> SidecarOptions) list \<Rightarrow> Deployment res" where
  "Sidecar e jaeger dep options =
     (if (case mget (dep_Labels dep) Label of Some val \<Rightarrow> val \<noteq> j_Name jaeger | None \<Rightarrow> False) then Inr dep
      else res_bind (decorate dep options) (\<lambda>dep1.
        case HasJaegerAgent dep1 of (hasAgent, idx) \<Rightarrow>
        res_bind (container e jaeger dep1 (if hasAgent then idx else -1)) (\<lambda>(c, dep2).
          let dep3 = upd_Pod (ps_Containers_update (\<lambda>cs. if hasAgent then cs[nat idx := c] else cs @ [c])) dep2
          in Inr (dep_Meta_update (om_Labels_update (put_label Label (Truncate (j_Name jaeger) 63 []))) dep3))))"

definition EqualSidecar :: "Deployment \<Rightarrow> Deployment \<Rightarrow> bool res" where
  "EqualSidecar dep oldDep =
     (case (HasJaegerAgent dep, HasJaegerAgent oldDep) of ((h, i), (h', i')) \<Rightarrow>
        if h \<noteq> h' then Inr False
        else if i < 0 \<or> i' < 0 then Inl IndexOutOfRange
        else Inr (dep_Containers dep ! nat i = dep_Containers oldDep ! nat i'))"

section \<open>Removing the sidecar\<close>

fun drop_first_agent :: "Container list \<Rightarrow> Container list" where
  "drop_first_agent [] = []"
| "drop_first_agent (c # cs) = (if c_Name c = ''jaeger-agent'' then cs else c # drop_first_agent cs)"

definition CleanSidecar :: "Env \<Rightarrow> string \<Rightarrow> Deployment \<Rightarrow> Deployment" where
  "CleanSidecar e instanceName deployment =
     (let d1 = dep_Meta_update (om_Labels_update (mdel Label)) deployment;
          d2 = upd_Pod (ps_Containers_update drop_first_agent) d1
      in if GetPlatform e = OpenShiftPlatform
         then upd_Pod (ps_Volumes_update (filter (\<lambda>v. vol_Name v \<notin>
                {TrustedCANameFromString instanceName, ServiceCANameFromString instanceName}))) d2
         else d2)"

definition GetConfigMapsMatchedEnvFromInDeployment :: "Deployment \<Rightarrow> ConfigMap list \<Rightarrow> ConfigMap list" where
  "GetConfigMapsMatchedEnvFromInDeployment dep configMaps =
     (let searchMap = put_all (map (\<lambda>cm. (om_Name (cm_Meta cm), cm)) configMaps) []
      in concat (map (\<lambda>c. List.map_filter (\<lambda>ef. case ef_ConfigMapRef ef of None \<Rightarrow> None | Some n \<Rightarrow> map_of searchMap n) (c_EnvFrom c))
           (dep_Containers dep)))"

section \<open>The OAuth proxy\<close>

text \<open>The random numbers for the cookie secret are an argument, see \<open>GenerateProxySecret\<close>.\<close>

definition proxyInitArguments :: "(nat \<Rightarrow> nat) \<Rightarrow> Jaeger \<Rightarrow> string list" where
  "proxyInitArguments Intn jaeger =
     [''--cookie-secret='' @ GenerateProxySecret Intn, ''--https-address=:8443'',
      ''--openshift-service-account='' @ OAuthProxyAccountNameFor jaeger, ''--provider=openshift'',
      ''--tls-cert=/etc/tls/private/tls.crt'', ''--tls-key=/etc/tls/private/tls.key'', ''--upstream=http://localhost:16686''] @
     (case os_Timeout (ji_Openshift (js_Ingress (j_Spec jaeger))) of None \<Rightarrow> [] | Some t \<Rightarrow> [''--upstream-timeout='' @ t])"

definition getOAuthProxyContainer :: "Env \<Rightarrow> (nat \<Rightarrow> nat) \<Rightarrow> Jaeger \<Rightarrow> Container" where
  "getOAuthProxyContainer e Intn jaeger =
     (let ing = js_Ingress (j_Spec jaeger); os = ji_Openshift ing;
          commonSpec = ca_Update e jaeger (Merge [ji_Common ing, js_Common (j_Spec jaeger)]);
          mounts0 = \<lparr>vm_Name = GetTLSSecretNameForQueryService jaeger, vm_MountPath = ''/etc/tls/private'', vm_ReadOnly = False, vm_rest = []\<rparr>
                    # filter (\<lambda>v. vm_Name v = TrustedCAName jaeger) (jc_VolumeMounts commonSpec);
          htpasswd = length (os_HtpasswdFile os) > 0;
          args = proxyInitArguments Intn jaeger @
            (if htpasswd then [''--htpasswd-file='' @ os_HtpasswdFile os, ''--display-htpasswd-form=false''] else []) @
            (case os_SAR os of Some sar \<Rightarrow> if length (TrimSpace sar) > 0 then [''--openshift-sar='' @ sar] else [] | None \<Rightarrow> []) @
            (if length (os_DelegateUrls os) > 0 \<and> IsAuthDelegatorAvailable e then [''--openshift-delegate-urls='' @ os_DelegateUrls os] else []) @
            ToArgs (ji_Options ing)
      in Container0\<lparr>c_Image := viper_GetString e FlagOpenShiftOauthProxyImage, c_Name := ''oauth-proxy'', c_Args := SortStrings args,
           c_VolumeMounts := mounts0 @ (if htpasswd then jc_VolumeMounts (js_Common (j_Spec jaeger)) else []),
           c_Ports := [container_port 8443 ''public'' []], c_Resources := jc_Resources commonSpec, c_Env := ProxyVars e\<rparr>)"

definition OAuthProxy :: "Env \<Rightarrow> (nat \<Rightarrow> nat) \<Rightarrow> Jaeger \<Rightarrow> Deployment \<Rightarrow> Deployment" where
  "OAuthProxy e Intn jaeger dep =
     (if \<not> uses_oauth_proxy jaeger then dep
      else upd_Pod (\<lambda>p. p\<lparr>ps_ServiceAccountName := OAuthProxyAccountNameFor jaeger,
             ps_Containers := ps_Containers p @ [getOAuthProxyContainer e Intn jaeger],
             ps_Volumes := ps_Volumes p @ [\<lparr>vol_Name = GetTLSSecretNameForQueryService jaeger,
               vol_Source = VSSecret (GetTLSSecretNameForQueryService jaeger)\<rparr>]\<rparr>) dep)"

end
