(* ===== verification/Deployments.thy ===== *)
theory Deployments
  imports Inject
begin

text \<open>
  Package \<open>pkg/deployment\<close>: the daemon set of the agent, the deployments of the all-in-one, collector,
  query and ingester components, their services and their autoscalers.
\<close>

section \<open>Shared pieces\<close>

text \<open>\<open>otlp.go\<close>\<close>

definition env_var :: "string \<Rightarrow> string \<Rightarrow> EnvVar" where
  "env_var name val = \<lparr>ev_Name = name, ev_Value = val, ev_ValueFrom = None\<rparr>"

definition getOTLPEnvVars :: "string list \<Rightarrow> EnvVar list" where
  "getOTLPEnvVars options =
     (if \<not> IsOTLPExplcitSet options
      then [env_var ''COLLECTOR_OTLP_ENABLED'' ''true'', env_var ''COLLECTOR_OTLP_GRPC_HOST_PORT'' ''0.0.0.0:4317'',
            env_var ''COLLECTOR_OTLP_HTTP_HOST_PORT'' ''0.0.0.0:4318'']
      else [])"

definition getOTLPContainePorts :: "string list \<Rightarrow> ContainerPort list" where
  "getOTLPContainePorts options =
     (if IsOTLPEnable options then [container_port 4317 ''grpc-otlp'' [], container_port 4318 ''http-otlp'' []] else [])"

text \<open>The base of the common specification that every component builds, and the merge with the blocks
  of the instance; the annotation for Istio is added when no block sets it.\<close>

definition base_annotations :: "int32 \<Rightarrow> string amap" where
  "base_annotations adminPort =
     [(''prometheus.io/scrape'', ''true''), (''prometheus.io/port'', Itoa (sint adminPort)), (''linkerd.io/inject'', ''disabled'')]"

definition base_common_spec :: "string amap \<Rightarrow> string gomap \<Rightarrow> JaegerCommonSpec" where
  "base_common_spec annotations labels = JaegerCommonSpec0\<lparr>jc_Annotations := Some annotations, jc_Labels := labels\<rparr>"

definition with_istio :: "JaegerCommonSpec \<Rightarrow> JaegerCommonSpec" where
  "with_istio spec =
     (if mget (jc_Annotations spec) ''sidecar.istio.io/inject'' = None
      then spec\<lparr>jc_Annotations := Some (AList.update ''sidecar.istio.io/inject'' ''false'' (entries (jc_Annotations spec)))\<rparr>
      else spec)"

definition component_common :: "Jaeger \<Rightarrow> JaegerCommonSpec \<Rightarrow> string amap \<Rightarrow> string gomap \<Rightarrow> JaegerCommonSpec" where
  "component_common jaeger spec annotations labels =
     with_istio (Merge [spec, js_Common (j_Spec jaeger), base_common_spec annotations labels])"

definition secret_env :: "string \<Rightarrow> EnvFromSource list" where
  "secret_env name = (if length name > 0 then [\<lparr>ef_SecretRef = Some name, ef_ConfigMapRef = None\<rparr>] else [])"

definition liveness :: "JaegerCommonSpec \<Rightarrow> int32 \<Rightarrow> Probe" where
  "liveness spec adminPort = (case jc_LivenessProbe spec of None \<Rightarrow> http_probe adminPort 5 15 5 | Some p \<Rightarrow> p)"

definition recreate_or :: "opaque option \<Rightarrow> opaque" where
  "recreate_or strategy = (case strategy of None \<Rightarrow> ''Recreate'' | Some s \<Rightarrow> s)"

text \<open>The container of a component, with the fields that all components take from the merged
  specification.\<close>

definition component_container ::
  "JaegerCommonSpec \<Rightarrow> JaegerCommonSpec \<Rightarrow> int32 \<Rightarrow> string \<Rightarrow> string \<Rightarrow> string list \<Rightarrow> EnvVar list \<Rightarrow> EnvFromSource list \<Rightarrow> ContainerPort list \<Rightarrow> Container" where
  "component_container own commonSpec adminPort img name args env envFrom ports =
     Container0\<lparr>c_Image := img, c_Name := name, c_Args := args, c_Env := env,
       c_VolumeMounts := jc_VolumeMounts commonSpec, c_EnvFrom := envFrom, c_Ports := ports,
       c_LivenessProbe := Some (liveness own adminPort), c_ReadinessProbe := Some (http_probe adminPort 1 0 0),
       c_Resources := jc_Resources commonSpec, c_ImagePullPolicy := jc_ImagePullPolicy commonSpec,
       c_SecurityContext := jc_ContainerSecurityContext commonSpec\<rparr>"

definition component_pod :: "Jaeger \<Rightarrow> JaegerCommonSpec \<Rightarrow> string list \<Rightarrow> Container \<Rightarrow> string \<Rightarrow> PodSpec" where
  "component_pod jaeger commonSpec pullSecrets ctr account =
     PodSpec0\<lparr>ps_ImagePullSecrets := pullSecrets, ps_Containers := [ctr], ps_Volumes := jc_Volumes commonSpec,
       ps_ServiceAccountName := account, ps_Affinity := jc_Affinity commonSpec, ps_Tolerations := jc_Tolerations commonSpec,
       ps_SecurityContext := jc_SecurityContext commonSpec, ps_EnableServiceLinks := Some False,
       ps_InitContainers := GetGRPCPluginInitContainers jaeger commonSpec\<rparr>"

definition component_deployment ::
  "Jaeger \<Rightarrow> string \<Rightarrow> JaegerCommonSpec \<Rightarrow> string gomap \<Rightarrow> int32 option \<Rightarrow> opaque \<Rightarrow> PodSpec \<Rightarrow> Deployment" where
  "component_deployment jaeger name commonSpec annotations replicas strategy pod =
     \<lparr>dep_TypeMeta = \<lparr>tm_APIVersion = ''apps/v1'', tm_Kind = ''Deployment''\<rparr>,
      dep_Meta = ObjectMeta0\<lparr>om_Name := name, om_Namespace := j_Namespace jaeger, om_Labels := jc_Labels commonSpec,
        om_Annotations := annotations, om_OwnerReferences := [AsOwner jaeger]\<rparr>,
      dep_Spec = \<lparr>ds_Replicas = replicas, ds_Selector = Some (jc_Labels commonSpec), ds_Strategy = strategy,
        ds_Template = \<lparr>pt_Meta = ObjectMeta0\<lparr>om_Labels := jc_Labels commonSpec, om_Annotations := jc_Annotations commonSpec\<rparr>,
          pt_Spec = pod\<rparr>\<rparr>,
      dep_Status = \<lparr>dst_Replicas = 0, dst_ReadyReplicas = 0, dst_AvailableReplicas = 0\<rparr>\<rparr>"

section \<open>The agent\<close>

definition Agent_name :: "Jaeger \<Rightarrow> string" where
  "Agent_name jaeger = j_Name jaeger @ ''-agent''"

definition daemonset_args :: "Env \<Rightarrow> Jaeger \<Rightarrow> string list" where
  "daemonset_args e jaeger =
     (let args0 = ToArgs (ag_Options (js_Agent (j_Spec jaeger)));
          collector = GetNameForHeadlessCollectorService jaeger @ ''.'' @ j_Namespace jaeger;
          args1 = (if length (FindItem ''--reporter.grpc.host-port='' args0) = 0
                   then args0 @ [''--reporter.grpc.host-port=dns:///'' @ collector @ '':14250''] else args0)
      in if GetPlatform e = OpenShiftPlatform \<and> length (FindItem ''--reporter.grpc.tls.enabled='' args1) = 0
         then args1 @ [''--reporter.grpc.tls.enabled=true'', ''--reporter.grpc.tls.ca='' @ ServiceCAPath,
                ''--reporter.grpc.tls.server-name='' @ collector @ ''.svc.cluster.local'']
         else args1)"

definition host_port :: "int32 \<Rightarrow> string \<Rightarrow> string \<Rightarrow> ContainerPort" where
  "host_port port name protocol = (container_port port name protocol)\<lparr>cp_HostPort := port\<rparr>"

definition Agent_Get :: "Env \<Rightarrow> Jaeger \<Rightarrow> DaemonSet option" where
  "Agent_Get e jaeger =
     (let ag = js_Agent (j_Spec jaeger)
      in if \<not> EqualFold (ag_Strategy ag) ''daemonset'' then None
         else (let args = daemonset_args e jaeger;
                   adminPort = GetAdminPort args 14271;
                   labels = Labels (Agent_name jaeger) ''agent'' jaeger;
                   commonSpec = AddServiceCA e jaeger (ca_Update e jaeger
                     (component_common jaeger (ag_Common ag) (base_annotations adminPort) labels));
                   dnsPolicy = (if ag_HostNetwork ag \<noteq> None \<and> ag_DNSPolicy ag = [] then ''ClusterFirstWithHostNet'' else ag_DNSPolicy ag);
                   ctr = component_container (ag_Common ag) commonSpec adminPort (AgentImageName e (ag_Image ag) ''jaeger-agent-image'')
                     ''jaeger-agent-daemonset'' (SortStrings args) (ProxyVars e) []
                     [host_port (GetPort ''--processor.zipkin-compact.server-host-port='' args 5775) ''zk-compact-trft'' ''UDP'',
                      host_port (GetPort ''--http-server.host-port='' args 5778) ''config-rest'' [],
                      host_port (GetPort ''--processor.jaeger-compact.server-host-port='' args 6831) ''jg-compact-trft'' ''UDP'',
                      host_port (GetPort ''--processor.jaeger-binary.server-host-port='' args 6832) ''jg-binary-trft'' ''UDP'',
                      host_port adminPort ''admin-http'' []]
               in Some \<lparr>dae_TypeMeta = \<lparr>tm_APIVersion = ''apps/v1'', tm_Kind = ''DaemonSet''\<rparr>,
                    dae_Meta = ObjectMeta0\<lparr>om_Name := j_Name jaeger @ ''-agent-daemonset'', om_Namespace := j_Namespace jaeger,
                      om_Labels := jc_Labels commonSpec, om_OwnerReferences := [AsOwner jaeger]\<rparr>,
                    dae_Selector = Some (jc_Labels commonSpec),
                    dae_Template = \<lparr>pt_Meta = ObjectMeta0\<lparr>om_Labels := jc_Labels commonSpec, om_Annotations := jc_Annotations commonSpec\<rparr>,
                      pt_Spec = PodSpec0\<lparr>ps_ImagePullSecrets := jc_ImagePullSecrets (ag_Common ag), ps_Containers := [ctr],
                        ps_DNSPolicy := dnsPolicy, ps_HostNetwork := (ag_HostNetwork ag = Some True),
                        ps_PriorityClassName := ag_PriorityClassName ag, ps_Volumes := jc_Volumes commonSpec,
                        ps_Affinity := jc_Affinity commonSpec, ps_Tolerations := jc_Tolerations commonSpec,
                        ps_SecurityContext := jc_SecurityContext commonSpec,
                        ps_ServiceAccountName := JaegerServiceAccountFor jaeger AgentComponent,
                        ps_EnableServiceLinks := Some False\<rparr>\<rparr>,
                    dae_rest = []\<rparr>))"

section \<open>The all-in-one component\<close>

definition AllInOne_labels :: "Jaeger \<Rightarrow> string gomap" where
  "AllInOne_labels jaeger = Labels (j_Name jaeger) ''all-in-one'' jaeger"

definition storage_args :: "Jaeger \<Rightarrow> Options \<Rightarrow> string \<Rightarrow> string list" where
  "storage_args jaeger own storageType = AllArgs [own, Filter (st_Options (j_Storage jaeger)) (OptionsPrefix storageType)]"

text \<open>The changes that the configuration packages make to the merged specification and the arguments.\<close>

definition AllInOne_config :: "Env \<Rightarrow> Jaeger \<Rightarrow> JaegerCommonSpec \<times> string list \<Rightarrow> JaegerCommonSpec \<times> string list" where
  "AllInOne_config e jaeger p =
     (let p1 = sampling_Update jaeger (ui_Update jaeger p);
          p2 = (if length (FindItem ''--collector.grpc.tls.enabled='' (snd p1)) = 0 then tls_Update e jaeger p1 else p1)
      in (UpdateGRPCPlugin jaeger (AddServiceCA e jaeger (ca_Update e jaeger (fst p2))), snd p2))"

definition AllInOne_Get :: "Env \<Rightarrow> Jaeger \<Rightarrow> Deployment" where
  "AllInOne_Get e jaeger =
     (let aio = js_AllInOne (j_Spec jaeger); stype = st_Type (j_Storage jaeger);
          adminPort = GetAdminPort (ToArgs (aio_Options aio)) 14269;
          jaegerDisabled = (aio_TracingEnabled aio = Some False);
          merged = component_common jaeger (aio_Common aio) (base_annotations adminPort) (AllInOne_labels jaeger);
          p = AllInOne_config e jaeger (merged, storage_args jaeger (aio_Options aio) stype);
          commonSpec = fst p; options = SortStrings (snd p);
          ms = aio_MetricsStorage aio;
          envVars = [env_var ''SPAN_STORAGE_TYPE'' stype, env_var ''METRICS_STORAGE_TYPE'' (mst_Type ms),
                     env_var ''COLLECTOR_ZIPKIN_HOST_PORT'' '':9411'', env_var ''JAEGER_DISABLED'' (FormatBool jaegerDisabled)] @
            (if mst_Type ms = ''prometheus'' \<and> mst_ServerUrl ms \<noteq> [] then [env_var ''PROMETHEUS_SERVER_URL'' (mst_ServerUrl ms)] else []) @
            ProxyVars e;
          ports = [container_port 5775 ''zk-compact-trft'' ''UDP'', container_port 5778 ''config-rest'' [],
                   container_port 6831 ''jg-compact-trft'' ''UDP'', container_port 6832 ''jg-binary-trft'' ''UDP'',
                   container_port 9411 ''zipkin'' [], container_port 14267 ''c-tchan-trft'' [], container_port 14268 ''c-binary-trft'' [],
                   container_port 16685 ''grpc-query'' [], container_port 16686 ''query'' [], container_port adminPort ''admin-http'' [],
                   container_port 14250 ''grpc'' []];
          ctr = component_container (aio_Common aio) commonSpec adminPort (ImageName e (aio_Image aio) ''jaeger-all-in-one-image'')
            ''jaeger'' options (envVars @ getOTLPEnvVars options) (secret_env (st_SecretName (j_Storage jaeger)))
            (ports @ getOTLPContainePorts options);
          pod = (component_pod jaeger commonSpec (jc_ImagePullSecrets commonSpec) ctr (JaegerServiceAccountFor jaeger AllInOneComponent))
            \<lparr>ps_PriorityClassName := aio_PriorityClassName aio\<rparr>
      in component_deployment jaeger (j_Name jaeger) commonSpec (Some (base_annotations adminPort)) None (recreate_or (aio_Strategy aio)) pod)"

definition AllInOne_Services :: "Env \<Rightarrow> Jaeger \<Rightarrow> Service list \<times> Jaeger" where
  "AllInOne_Services e jaeger =
     (let labels = jc_Labels (Merge [aio_Common (js_AllInOne (j_Spec jaeger)), js_Common (j_Spec jaeger),
            JaegerCommonSpec0\<lparr>jc_Labels := AllInOne_labels jaeger\<rparr>]);
          collectors = NewCollectorServices e jaeger labels;
          q = NewQueryService jaeger labels
      in (collectors @ [fst q, NewAgentService (snd q) labels], snd q))"

section \<open>The collector\<close>

definition Collector_name :: "Jaeger \<Rightarrow> string" where
  "Collector_name jaeger = j_Name jaeger @ ''-collector''"

definition Collector_labels :: "Jaeger \<Rightarrow> string gomap" where
  "Collector_labels jaeger = Labels (Collector_name jaeger) ''collector'' jaeger"

definition Collector_config :: "Env \<Rightarrow> Jaeger \<Rightarrow> string list \<Rightarrow> JaegerCommonSpec \<times> string list \<Rightarrow> JaegerCommonSpec \<times> string list" where
  "Collector_config e jaeger args p =
     (let p1 = sampling_Update jaeger p;
          p2 = (if length (FindItem ''--collector.grpc.tls.enabled='' args) = 0 then tls_Update e jaeger p1 else p1)
      in (UpdateGRPCPlugin jaeger (ca_Update e jaeger (fst p2)), snd p2))"

definition Collector_Get :: "Env \<Rightarrow> Jaeger \<Rightarrow> Deployment" where
  "Collector_Get e jaeger =
     (let col = js_Collector (j_Spec jaeger); streaming = (js_Strategy (j_Spec jaeger) = DeploymentStrategyStreaming);
          args = ToArgs (col_Options col);
          adminPort = GetAdminPort args 14269;
          merged = component_common jaeger (col_Common col) (base_annotations adminPort) (Collector_labels jaeger);
          storageType = (if streaming then JaegerKafkaStorage else st_Type (j_Storage jaeger));
          envFromSource = secret_env (st_SecretName (j_Storage jaeger)) @
            (if streaming then secret_env (col_KafkaSecretName col) else []);
          p = Collector_config e jaeger args (merged, storage_args jaeger (col_Options col) storageType);
          commonSpec = fst p; options = SortStrings (snd p);
          envVars = [env_var ''SPAN_STORAGE_TYPE'' storageType, env_var ''COLLECTOR_ZIPKIN_HOST_PORT'' '':9411''] @ ProxyVars e;
          ports = [container_port 9411 ''zipkin'' [], container_port 14267 ''c-tchan-trft'' [], container_port 14268 ''c-binary-trft'' [],
                   container_port adminPort ''admin-http'' [], container_port 14250 ''grpc'' []];
          ctr = (component_container (col_Common col) commonSpec adminPort (ImageName e (col_Image col) ''jaeger-collector-image'')
            ''jaeger-collector'' options (envVars @ getOTLPEnvVars options) envFromSource (ports @ getOTLPContainePorts options))
            \<lparr>c_Lifecycle := col_Lifecycle col\<rparr>;
          pod = (component_pod jaeger commonSpec (jc_ImagePullSecrets (js_Common (j_Spec jaeger))) ctr
            (JaegerServiceAccountFor jaeger CollectorComponent))
            \<lparr>ps_PriorityClassName := col_PriorityClassName col, ps_NodeSelector := col_NodeSelector col,
             ps_TerminationGracePeriodSeconds := col_TerminationGracePeriodSeconds col\<rparr>
      in component_deployment jaeger (Collector_name jaeger) commonSpec (Some (base_annotations adminPort)) (col_Replicas col)
           (recreate_or (col_Strategy col)) pod)"

definition Collector_Services :: "Env \<Rightarrow> Jaeger \<Rightarrow> Service list" where
  "Collector_Services e jaeger = NewCollectorServices e jaeger (Collector_labels jaeger)"

section \<open>The query component\<close>

definition Query_name :: "Jaeger \<Rightarrow> string" where
  "Query_name jaeger = j_Name jaeger @ ''-query''"

definition Query_labels :: "Jaeger \<Rightarrow> string gomap" where
  "Query_labels jaeger = Labels (Query_name jaeger) ''query'' jaeger"

definition Query_annotations :: "Jaeger \<Rightarrow> int32 \<Rightarrow> string amap" where
  "Query_annotations jaeger adminPort =
     (if q_TracingEnabled (js_Query (j_Spec jaeger)) = Some False then base_annotations adminPort
      else AList.update ''sidecar.jaegertracing.io/inject'' (j_Name jaeger) (base_annotations adminPort))"

definition Query_config :: "Env \<Rightarrow> Jaeger \<Rightarrow> JaegerCommonSpec \<times> string list \<Rightarrow> JaegerCommonSpec \<times> string list" where
  "Query_config e jaeger p =
     (let p1 = ui_Update jaeger p in (UpdateGRPCPlugin jaeger (ca_Update e jaeger (fst p1)), snd p1))"

definition Query_Get :: "Env \<Rightarrow> Jaeger \<Rightarrow> Deployment" where
  "Query_Get e jaeger =
     (let q = js_Query (j_Spec jaeger); stype = st_Type (j_Storage jaeger);
          adminPort = GetAdminPort (ToArgs (q_Options q)) 16687;
          jaegerDisabled = (q_TracingEnabled q = Some False);
          annotations = Query_annotations jaeger adminPort;
          merged = component_common jaeger (q_Common q) annotations (Query_labels jaeger);
          p = Query_config e jaeger (merged, storage_args jaeger (q_Options q) stype);
          commonSpec = fst p; options = SortStrings (snd p);
          ms = q_MetricsStorage q;
          envVars = [env_var ''SPAN_STORAGE_TYPE'' stype, env_var ''METRICS_STORAGE_TYPE'' (mst_Type ms),
                     env_var ''JAEGER_DISABLED'' (FormatBool jaegerDisabled)] @
            (if mst_Type ms = ''prometheus'' then [env_var ''PROMETHEUS_SERVER_URL'' (mst_ServerUrl ms)] else []) @ ProxyVars e;
          ctr = component_container (q_Common q) commonSpec adminPort (ImageName e (q_Image q) ''jaeger-query-image'')
            ''jaeger-query'' options envVars (secret_env (st_SecretName (j_Storage jaeger)))
            [container_port 16685 ''grpc-query'' [], container_port 16686 ''query'' [], container_port adminPort ''admin-http'' []];
          pod = (component_pod jaeger commonSpec (jc_ImagePullSecrets (js_Common (j_Spec jaeger))) ctr
            (JaegerServiceAccountFor jaeger QueryComponent))
            \<lparr>ps_PriorityClassName := q_PriorityClassName q, ps_NodeSelector := q_NodeSelector q\<rparr>
      in component_deployment jaeger (Query_name jaeger) commonSpec (Some annotations) (q_Replicas q) (recreate_or (q_Strategy q)) pod)"

definition Query_Services :: "Jaeger \<Rightarrow> Service list \<times> Jaeger" where
  "Query_Services jaeger = (let q = NewQueryService jaeger (Query_labels jaeger) in ([fst q], snd q))"

section \<open>The ingester\<close>

definition Ingester_name :: "Jaeger \<Rightarrow> string" where
  "Ingester_name jaeger = j_Name jaeger @ ''-ingester''"

definition Ingester_labels :: "Jaeger \<Rightarrow> string gomap" where
  "Ingester_labels jaeger = Labels (Ingester_name jaeger) ''ingester'' jaeger"

definition Ingester_Get :: "Env \<Rightarrow> Jaeger \<Rightarrow> Deployment option" where
  "Ingester_Get e jaeger =
     (if js_Strategy (j_Spec jaeger) \<noteq> DeploymentStrategyStreaming then None
      else (let ig = js_Ingester (j_Spec jaeger); stype = st_Type (j_Storage jaeger);
                adminPort = GetAdminPort (ToArgs (igr_Options ig)) 14270;
                merged = component_common jaeger (igr_Common ig) (base_annotations adminPort) (Ingester_labels jaeger);
                envFromSource = secret_env (st_SecretName (j_Storage jaeger)) @ secret_env (igr_KafkaSecretName ig);
                options = SortStrings (storage_args jaeger (igr_Options ig) stype);
                commonSpec = UpdateGRPCPlugin jaeger (ca_Update e jaeger merged);
                ctr = component_container (igr_Common ig) commonSpec adminPort (ImageName e (igr_Image ig) ''jaeger-ingester-image'')
                  ''jaeger-ingester'' options ([env_var ''SPAN_STORAGE_TYPE'' stype] @ ProxyVars e) envFromSource
                  [container_port adminPort ''admin-http'' []];
                pod = (component_pod jaeger commonSpec (jc_ImagePullSecrets (js_Common (j_Spec jaeger))) ctr
                  (JaegerServiceAccountFor jaeger IngesterComponent))\<lparr>ps_NodeSelector := igr_NodeSelector ig\<rparr>
            in Some (component_deployment jaeger (Ingester_name jaeger) commonSpec None (igr_Replicas ig)
                 (recreate_or (igr_Strategy ig)) pod)))"

section \<open>Autoscalers\<close>

text \<open>The interface \<open>component\<close> of \<open>autoscale.go\<close>, with the values its methods return.\<close>

record component =
  cmp_name :: string
  cmp_hpaLabels :: "string gomap"
  cmp_replicas :: "int32 option"
  cmp_commonSpec :: JaegerCommonSpec
  cmp_autoscalingSpec :: AutoScaleSpec
  cmp_jaeger :: Jaeger

definition autoscalers :: "Env \<Rightarrow> component \<Rightarrow> HPA list" where
  "autoscalers e c =
     (let as = cmp_autoscalingSpec c; jaeger = cmp_jaeger c
      in if cmp_replicas c \<noteq> None \<or> as_Autoscale as = Some False then []
         else (let wanted = (case as_MaxReplicas as of None \<Rightarrow> -1 | Some m \<Rightarrow> m);
                   maxReplicas = (if sint wanted < 0 then 100 else wanted);
                   commonSpec = Merge [cmp_commonSpec c, js_Common (j_Spec jaeger), JaegerCommonSpec0\<lparr>jc_Labels := cmp_hpaLabels c\<rparr>]
               in [\<lparr>hpa_Version = hpa_version_of e,
                    hpa_TypeMeta = \<lparr>tm_APIVersion = viper_GetString e FlagAutoscalingVersion, tm_Kind = ''HorizontalPodAutoscaler''\<rparr>,
                    hpa_Meta = ObjectMeta0\<lparr>om_Name := cmp_name c, om_Namespace := j_Namespace jaeger, om_Labels := jc_Labels commonSpec,
                      om_Annotations := jc_Annotations commonSpec, om_OwnerReferences := [AsOwner jaeger]\<rparr>,
                    hpa_Spec = \<lparr>hs_TargetAPIVersion = ''apps/v1'', hs_TargetKind = ''Deployment'', hs_TargetName = cmp_name c,
                      hs_MinReplicas = as_MinReplicas as, hs_MaxReplicas = maxReplicas,
                      hs_Metrics = [\<lparr>ms_Name = ''cpu'', ms_AverageUtilization = 90\<rparr>, \<lparr>ms_Name = ''memory'', ms_AverageUtilization = 90\<rparr>]\<rparr>,
                    hpa_rest = []\<rparr>]))"

definition hpa_labels :: "string \<Rightarrow> string gomap \<Rightarrow> string gomap" where
  "hpa_labels component labels = Some (AList.update ''app.kubernetes.io/component'' component (entries labels))"

definition Collector_Autoscalers :: "Env \<Rightarrow> Jaeger \<Rightarrow> HPA list" where
  "Collector_Autoscalers e jaeger = autoscalers e
     \<lparr>cmp_name = Collector_name jaeger, cmp_hpaLabels = hpa_labels ''hpa-collector'' (Collector_labels jaeger),
      cmp_replicas = col_Replicas (js_Collector (j_Spec jaeger)), cmp_commonSpec = col_Common (js_Collector (j_Spec jaeger)),
      cmp_autoscalingSpec = col_AutoScale (js_Collector (j_Spec jaeger)), cmp_jaeger = jaeger\<rparr>"

definition Ingester_Autoscalers :: "Env \<Rightarrow> Jaeger \<Rightarrow> HPA list" where
  "Ingester_Autoscalers e jaeger = autoscalers e
     \<lparr>cmp_name = Ingester_name jaeger, cmp_hpaLabels = hpa_labels ''hpa-ingester'' (Ingester_labels jaeger),
      cmp_replicas = igr_Replicas (js_Ingester (j_Spec jaeger)), cmp_commonSpec = igr_Common (js_Ingester (j_Spec jaeger)),
      cmp_autoscalingSpec = igr_AutoScale (js_Ingester (j_Spec jaeger)), cmp_jaeger = jaeger\<rparr>"

end
