(* ===== verification/Upgrade.thy ===== *)
theory Upgrade
  imports Cluster
begin

text \<open>
  Package \<open>pkg/upgrade\<close>: the migration of deprecated flags, the seven upgrade steps, and the
  routines that bring one instance, or all instances of an operator, to the current version.
  Semantic versions come from a library and are a parameter (\<open>SemVer\<close>), with the laws of its
  documentation in the locale \<open>semver\<close>.
\<close>

section \<open>Semantic versions\<close>

record 'v SemVer =
  sv_NewVersion :: "string \<Rightarrow> 'v option"
  sv_Compare :: "'v \<Rightarrow> 'v \<Rightarrow> int"
  sv_String :: "'v \<Rightarrow> string"

abbreviation LessThan :: "'v SemVer \<Rightarrow> 'v \<Rightarrow> 'v \<Rightarrow> bool" where
  "LessThan V a b \<equiv> sv_Compare V a b < 0"

abbreviation GreaterThan :: "'v SemVer \<Rightarrow> 'v \<Rightarrow> 'v \<Rightarrow> bool" where
  "GreaterThan V a b \<equiv> sv_Compare V a b > 0"

section \<open>Deprecated flags\<close>

type_synonym deprecationFlagMap = "string \<times> string"      \<comment> \<open>from, to\<close>

definition migrate_flag :: "deprecationFlagMap \<Rightarrow> iface amap \<Rightarrow> iface amap" where
  "migrate_flag d m = (case d of (from, to) \<Rightarrow> (case map_of m from of
     None \<Rightarrow> m
   | Some val \<Rightarrow> AList.delete from (if length to > 0 then AList.update to val m else m)))"

definition migrateDeprecatedOptions :: "Options \<Rightarrow> deprecationFlagMap list \<Rightarrow> Options" where
  "migrateDeprecatedOptions o' flagMap = NewOptions (Some (fold migrate_flag flagMap (GenericMap o')))"

abbreviation "upd_AllInOneOptions f j \<equiv> j_Spec_update (js_AllInOne_update (aio_Options_update f)) j"
abbreviation "upd_CollectorOptions f j \<equiv> j_Spec_update (js_Collector_update (col_Options_update f)) j"
abbreviation "upd_QueryOptions f j \<equiv> j_Spec_update (js_Query_update (q_Options_update f)) j"
abbreviation "upd_AgentOptions f j \<equiv> j_Spec_update (js_Agent_update (ag_Options_update f)) j"
abbreviation "upd_IngesterOptions f j \<equiv> j_Spec_update (js_Ingester_update (igr_Options_update f)) j"
abbreviation "upd_StorageOptions f j \<equiv> j_Spec_update (js_Storage_update (st_Options_update f)) j"
abbreviation "upd_IngressOptions f j \<equiv> j_Spec_update (js_Ingress_update (ji_Options_update f)) j"

definition migrateAllDeprecatedOptions :: "Jaeger \<Rightarrow> deprecationFlagMap list \<Rightarrow> Jaeger" where
  "migrateAllDeprecatedOptions jaeger flagMap =
     (let f = (\<lambda>o'. migrateDeprecatedOptions o' flagMap)
      in upd_StorageOptions f (upd_IngesterOptions f (upd_AgentOptions f (upd_QueryOptions f
           (upd_CollectorOptions f (upd_AllInOneOptions f jaeger))))))"

section \<open>The upgrade steps\<close>

type_synonym 's upgradeFunction = "'s Client \<Rightarrow> Jaeger \<Rightarrow> 's \<Rightarrow> Jaeger res \<times> 's"

definition upgrade1_15_0 :: "'s upgradeFunction" where
  "upgrade1_15_0 c jaeger s =
     (Inr (migrateAllDeprecatedOptions jaeger
        [(''collector.grpc.tls.client.ca'', ''collector.grpc.tls.client-ca''),
         (''collector.host-port'', ''reporter.tchannel.host-port''),
         (''discovery.conn-check-timeout'', ''reporter.tchannel.discovery.conn-check-timeout''),
         (''discovery.min-peers'', ''reporter.tchannel.discovery.min-peers''),
         (''health-check-http-port'', ''admin-http-port''),
         (''cassandra-archive.enable-dependencies-v2'', ''''),
         (''cassandra.enable-dependencies-v2'', '''')]), s)"

definition set_tls_if :: "string \<Rightarrow> iface amap \<Rightarrow> bool \<times> iface amap" where
  "set_tls_if p m =
     (if map_of m (p @ ''.authentication'') = Some (IStr ''tls'')
      then (True, AList.update (p @ ''.tls.enabled'') (IStr ''true'') m) else (False, m))"

definition upgrade1_17_0MigrateKafkaTLS :: "Options \<Rightarrow> Options \<times> bool" where
  "upgrade1_17_0MigrateKafkaTLS o' =
     (let (c1, m1) = set_tls_if ''kafka.consumer'' (GenericMap o');
          (c2, m2) = set_tls_if ''kafka.producer'' m1
      in if c1 \<or> c2 then (NewOptions (Some m2), True) else (o', False))"

definition upgrade1_17_0 :: "'s upgradeFunction" where
  "upgrade1_17_0 c jaeger s =
     (let prefix = [''collector.grpc'', ''reporter.grpc'', ''es'', ''es-archive'', ''cassandra'',
            ''cassandra-archive'', ''kafka.consumer'', ''kafka.producer''];
          d = map (\<lambda>item. (item @ ''.tls'', item @ ''.tls.enabled'')) prefix;
          f = (\<lambda>o'. fst (upgrade1_17_0MigrateKafkaTLS o'))
      in (Inr (upd_StorageOptions f (upd_IngesterOptions f (upd_CollectorOptions f
            (migrateAllDeprecatedOptions jaeger d)))), s))"

definition transformCollectorPorts :: "Options \<Rightarrow> deprecationFlagMap list \<Rightarrow> Options" where
  "transformCollectorPorts o' flags =
     NewOptions (Some (fold (\<lambda>(from, to) m. case map_of m to of
         None \<Rightarrow> m | Some val \<Rightarrow> AList.update to (IStr ('':'' @ sprint_v val)) m) flags (GenericMap o')))"

definition collectorDeprecatedFlags :: "deprecationFlagMap list" where
  "collectorDeprecatedFlags =
     [(''collector.port'', ''collector.tchan-server.host-port''),
      (''collector.http-port'', ''collector.http-server.host-port''),
      (''collector.grpc-port'', ''collector.grpc-server.host-port''),
      (''collector.zipkin.http-port'', ''collector.zipkin.host-port''),
      (''admin-http-port'', ''admin.http.host-port'')]"

definition migrateCollectorOptions :: "Jaeger \<Rightarrow> Options" where
  "migrateCollectorOptions jaeger =
     transformCollectorPorts
       (migrateDeprecatedOptions (col_Options (js_Collector (j_Spec jaeger))) collectorDeprecatedFlags)
       collectorDeprecatedFlags"

definition migrateAgentOptions :: "Jaeger \<Rightarrow> Options" where
  "migrateAgentOptions jaeger =
     (let ops = migrateDeprecatedOptions (ag_Options (js_Agent (j_Spec jaeger)))
        [(''collector.host-port'', ''''), (''reporter.tchannel.discovery.conn-check-timeout'', ''''),
         (''reporter.tchannel.discovery.min-peers'', ''''), (''reporter.tchannel.host-port'', ''''),
         (''reporter.tchannel.report-timeout'', '''')]
      in NewOptions (Some (GenericMap ops)))"

definition upgrade1_18_0 :: "'s upgradeFunction" where
  "upgrade1_18_0 c jaeger s =
     (let j1 = upd_CollectorOptions (\<lambda>_. migrateCollectorOptions jaeger) jaeger
      in (Inr (upd_AgentOptions (\<lambda>_. migrateAgentOptions j1) j1), s))"

definition upgrade1_20_0 :: "'s upgradeFunction" where
  "upgrade1_20_0 c jaeger s =
     (Inr (migrateAllDeprecatedOptions jaeger
        [(''es.max-num-spans'', ''es.max-doc-count''),
         (''es-archive.max-num-spans'', ''es-archive.max-doc-count'')]), s)"

text \<open>\<open>flagBoolValue\<close>: a value that is neither a string nor a boolean fails its type assertion.\<close>

definition flagBoolValue :: "iface \<Rightarrow> bool res" where
  "flagBoolValue v = (case v of
     IStr s \<Rightarrow> Inr (case ParseBool s of None \<Rightarrow> False | Some b \<Rightarrow> b)
   | IBool b \<Rightarrow> Inr b
   | _ \<Rightarrow> Inl TypeAssertion)"

definition updateCassandraVerifyHostFlagv1_22_0 :: "Options \<Rightarrow> Options res" where
  "updateCassandraVerifyHostFlagv1_22_0 options =
     (let m = GenericMap options
      in case map_of m ''cassandra.tls.verify-host'' of
           None \<Rightarrow> Inr (NewOptions (Some m))
         | Some oldFlagValue \<Rightarrow>
             res_bind (flagBoolValue oldFlagValue) (\<lambda>b.
               let m1 = AList.delete ''cassandra.tls.verify-host'' m
               in Inr (NewOptions (Some (if \<not> b then AList.update ''cassandra.tls.skip-host-verify'' (IStr ''true'') m1
                                         else m1)))))"

definition migrateCassandraVerifyFlagv1_22_0 :: "Jaeger \<Rightarrow> Jaeger res" where
  "migrateCassandraVerifyFlagv1_22_0 j =
     res_bind (updateCassandraVerifyHostFlagv1_22_0 (col_Options (js_Collector (j_Spec j)))) (\<lambda>oc.
     res_bind (updateCassandraVerifyHostFlagv1_22_0 (st_Options (js_Storage (j_Spec j)))) (\<lambda>os.
     res_bind (updateCassandraVerifyHostFlagv1_22_0 (ji_Options (js_Ingress (j_Spec j)))) (\<lambda>oi.
       Inr (upd_IngressOptions (\<lambda>_. oi) (upd_StorageOptions (\<lambda>_. os) (upd_CollectorOptions (\<lambda>_. oc) j))))))"

definition assert_string :: "iface \<Rightarrow> string res" where
  "assert_string v = (case v of IStr s \<Rightarrow> Inr s | _ \<Rightarrow> Inl TypeAssertion)"

definition migrateQueryHostPortFlagsv1_22_0 :: "Options \<Rightarrow> Options res" where
  "migrateQueryHostPortFlagsv1_22_0 options =
     (let m = GenericMap options;
          hasGrpcFlag = (map_of m ''query.grpc-server.host-port'' \<noteq> None);
          hasHTTPFlag = (map_of m ''query.http-server.host-port'' \<noteq> None)
      in res_bind (case map_of m ''query.port'' of
             Some port \<Rightarrow> res_bind (assert_string port) (\<lambda>p. Inr ('':'' @ p))
           | None \<Rightarrow> (case map_of m ''query.host-port'' of
                 Some hostPort \<Rightarrow> assert_string hostPort | None \<Rightarrow> Inr []))
         (\<lambda>newValue.
            let m1 = (if newValue \<noteq> [] \<and> \<not> hasGrpcFlag
                      then AList.update ''query.grpc-server.host-port'' (IStr newValue) m else m);
                m2 = (if newValue \<noteq> [] \<and> \<not> hasHTTPFlag
                      then AList.update ''query.http-server.host-port'' (IStr newValue) m1 else m1)
            in Inr (NewOptions (Some (AList.delete ''query.host-port'' (AList.delete ''query.port'' m2))))))"

definition upgrade1_22_0 :: "'s upgradeFunction" where
  "upgrade1_22_0 c jaeger s =
     (let coll = [(''jaeger.tags'', ''collector.tags'')];
          agent = [(''jaeger.tags'', ''agent.tags'')];
          query = [(''downsampling.hashsalt'', ''''), (''downsampling.ratio'', '''')];
          j1 = upd_QueryOptions (\<lambda>o'. migrateDeprecatedOptions o' query)
              (upd_AgentOptions (\<lambda>o'. migrateDeprecatedOptions o' agent)
              (upd_CollectorOptions (\<lambda>o'. migrateDeprecatedOptions o' coll)
              (upd_AllInOneOptions (\<lambda>o'. migrateDeprecatedOptions o' coll) jaeger)))
      in (res_bind (migrateQueryHostPortFlagsv1_22_0 (q_Options (js_Query (j_Spec j1)))) (\<lambda>oq.
            migrateCassandraVerifyFlagv1_22_0 (upd_QueryOptions (\<lambda>_. oq) j1)), s))"

definition upgrade1_28_0 :: "'s upgradeFunction" where
  "upgrade1_28_0 c jaeger s =
     (Inr (j_Spec_update (js_Ingress_update (ji_Openshift_update (os_SAR_update (\<lambda>sar.
        case sar of None \<Rightarrow> Some '' '' | Some x \<Rightarrow> Some x)))) jaeger), s)"

definition ShouldInjectOpenShiftElasticsearchConfiguration :: "JaegerStorageSpec \<Rightarrow> bool" where
  "ShouldInjectOpenShiftElasticsearchConfiguration st \<longleftrightarrow>
     st_Type st = JaegerESStorage \<and> mget (Map_opts (st_Options st)) ''es.server-urls'' = None"

definition es_to_delete :: "Jaeger \<Rightarrow> kobj" where
  "es_to_delete jaeger = OElasticsearch \<lparr>es_TypeMeta = TypeMeta0,
     es_Meta = ObjectMeta0\<lparr>om_Name := ''elasticsearch'', om_Namespace := j_Namespace jaeger\<rparr>,
     es_Spec = \<lparr>es_ManagementState = [], es_RedundancyPolicy = [], es_Image = [],
       es_Resources = ResourceRequirements0, es_Tolerations = [], es_Nodes = []\<rparr>, es_rest = []\<rparr>"

definition upgrade1_31_0 :: "'s upgradeFunction" where
  "upgrade1_31_0 c jaeger s =
     (if ShouldInjectOpenShiftElasticsearchConfiguration (j_Storage jaeger) then
        (case cl_Delete c (es_to_delete jaeger) s of
           (Some e, s') \<Rightarrow>
             (if e = NotFound then Inr jaeger
              else Inl (Failed ''failed to delete Elasticsearch, deletion is needed for certificate migration to Elasticsearch operator''), s')
         | (None, s') \<Rightarrow> (Inr jaeger, s'))
      else (Inr jaeger, s))"

definition upgrades :: "(string \<times> 's upgradeFunction) list" where
  "upgrades = [(''1.15.0'', upgrade1_15_0), (''1.17.0'', upgrade1_17_0), (''1.18.0'', upgrade1_18_0),
     (''1.20.0'', upgrade1_20_0), (''1.22.0'', upgrade1_22_0), (''1.28.0'', upgrade1_28_0),
     (''1.31.0'', upgrade1_31_0)]"

section \<open>Upgrading one instance\<close>

text \<open>\<open>sort.Sort(semver.Collection)\<close>: the keys are distinct versions, so any sort gives this list.\<close>

fun insert_version :: "'v SemVer \<Rightarrow> 'v \<Rightarrow> 'v list \<Rightarrow> 'v list" where
  "insert_version V x [] = [x]"
| "insert_version V x (y # ys) = (if LessThan V y x then y # insert_version V x ys else x # y # ys)"

definition versions :: "'v SemVer \<Rightarrow> string list \<Rightarrow> 'v list option" where
  "versions V ks = map_option (\<lambda>vs. foldr (insert_version V) vs []) (those (map (sv_NewVersion V) ks))"

fun upgrade_loop ::
  "'v SemVer \<Rightarrow> 's Client \<Rightarrow> 'v \<Rightarrow> 'v \<Rightarrow> 'v list \<Rightarrow> Jaeger \<Rightarrow> 's \<Rightarrow> (Jaeger \<times> goerr option) \<times> 's" where
  "upgrade_loop V c cur latest [] jaeger s = ((jaeger, None), s)"
| "upgrade_loop V c cur latest (v # vs) jaeger s =
     (if GreaterThan V v cur \<and> (LessThan V v latest \<or> sv_Compare V v latest = 0) then
        (case map_of upgrades (sv_String V v) of
           None \<Rightarrow> ((jaeger, Some NilDereference), s)
         | Some f \<Rightarrow> (case f c jaeger s of
             (Inl e, s') \<Rightarrow> ((jaeger, Some e), s')
           | (Inr upgraded, s') \<Rightarrow> upgrade_loop V c cur latest vs (upgraded\<lparr>j_Version := sv_String V v\<rparr>) s'))
      else upgrade_loop V c cur latest vs jaeger s)"

definition ManagedInstance ::
  "'v SemVer \<Rightarrow> 's Client \<Rightarrow> Jaeger \<Rightarrow> string \<Rightarrow> 's \<Rightarrow> (Jaeger \<times> goerr option) \<times> 's" where
  "ManagedInstance V c jaeger latestVersion s =
     (case (versions V (map fst (upgrades :: (string \<times> 's upgradeFunction) list)), sv_NewVersion V ''1.11.0'') of
        (Some semanticVersions, Some startUpdatesVersion) \<Rightarrow>
          (case sv_NewVersion V (j_Version jaeger) of
             None \<Rightarrow> ((jaeger, Some (Failed ''Invalid Semantic Version'')), s)
           | Some cur \<Rightarrow>
               (case sv_NewVersion V latestVersion of
                  None \<Rightarrow> ((jaeger, Some (Panic ''Invalid Semantic Version'')), s)
                | Some latest \<Rightarrow>
                    if LessThan V cur startUpdatesVersion then ((jaeger, None), s)
                    else if GreaterThan V cur latest then ((jaeger, None), s)
                    else (case upgrade_loop V c cur latest semanticVersions jaeger s of
                        ((j, Some e), s') \<Rightarrow> ((j, Some e), s')
                      | ((j, None), s') \<Rightarrow> ((j\<lparr>j_Version := sv_String V latest\<rparr>, None), s'))))
      | _ \<Rightarrow> ((jaeger, Some (Panic ''Invalid Semantic Version'')), s))"

section \<open>Upgrading all instances\<close>

text \<open>
  \<open>ManagedInstances\<close> lists the instances that carry the identity of the operator, in every watched
  namespace, upgrades each and stores the ones that changed; the status is patched separately,
  since the first patch resets it.
\<close>

fun list_namespaces ::
  "'s Client \<Rightarrow> string amap \<Rightarrow> string list \<Rightarrow> Jaeger list \<Rightarrow> (Jaeger list, 's) query" where
  "list_namespaces r ls [] acc s = (Inr acc, s)"
| "list_namespaces r ls (ns # nss) acc s = (case cl_ListJaegers r (Some ns) ls s of
     (Inl e, s') \<Rightarrow> (Inl e, s')
   | (Inr items, s') \<Rightarrow> list_namespaces r ls nss (acc @ items) s')"

definition upgrade_item :: "'v SemVer \<Rightarrow> 's Client \<Rightarrow> string \<Rightarrow> string \<Rightarrow> Jaeger \<Rightarrow> 's \<Rightarrow> 's" where
  "upgrade_item V c identity latestVersion j s =
     (if mstr (om_Labels (j_Meta j)) LabelOperatedBy \<noteq> identity then s
      else (case ManagedInstance V c j latestVersion s of
          ((_, Some e), s') \<Rightarrow> s'
        | ((jaeger, None), s') \<Rightarrow>
            if jaeger \<noteq> j then
              (case cl_PatchJaeger c j jaeger s' of
                 (Inl e, s'') \<Rightarrow> s''
               | (Inr stored, s'') \<Rightarrow>
                   snd (cl_StatusPatch c stored (stored\<lparr>j_Version := j_Version jaeger\<rparr>) s''))
            else s'))"

definition ManagedInstances :: "'v SemVer \<Rightarrow> Env \<Rightarrow> 's Client \<Rightarrow> string \<Rightarrow> 's op" where
  "ManagedInstances V e c latestVersion s =
     (let identity = viper_GetString e ConfigIdentity;
          ls = [(LabelOperatedBy, identity)];
          watch = viper_GetString e ConfigWatchNamespace
      in case (if watch \<noteq> WatchAllNamespaces then list_namespaces c ls (Split (CHR '','') watch) [] s
               else cl_ListJaegers c None ls s) of
           (Inl err, s') \<Rightarrow> (Some err, s')
         | (Inr items, s') \<Rightarrow> (None, fold (upgrade_item V c identity latestVersion) items s'))"

text \<open>\<open>applyUpgrades\<close> of the controller: an instance without a recorded version is new.\<close>

definition applyUpgrades ::
  "'v SemVer \<Rightarrow> Env \<Rightarrow> 's Client \<Rightarrow> Jaeger \<Rightarrow> 's \<Rightarrow> (Jaeger \<times> goerr option) \<times> 's" where
  "applyUpgrades V e c jaeger s =
     (let current = DefaultJaeger e
      in if length (j_Version jaeger) > 0 \<and> j_Version jaeger \<noteq> current then
           (case ManagedInstance V c jaeger current s of
              ((_, Some err), s') \<Rightarrow> ((jaeger, Some err), s')
            | ((upgraded, None), s') \<Rightarrow> ((upgraded\<lparr>j_Version := current\<rparr>, None), s'))
         else ((jaeger\<lparr>j_Version := current\<rparr>, None), s))"

section \<open>The laws of semantic versions\<close>

locale semver =
  fixes V :: "'v SemVer"
  assumes cmp_sym: "sv_Compare V a b < 0 \<longleftrightarrow> sv_Compare V b a > 0"
    and cmp_trans: "sv_Compare V a b \<le> 0 \<Longrightarrow> sv_Compare V b c \<le> 0 \<Longrightarrow> sv_Compare V a c \<le> 0"
    and reparse: "sv_NewVersion V t = Some v \<Longrightarrow>
      \<exists>v'. sv_NewVersion V (sv_String V v) = Some v' \<and> sv_Compare V v' v = 0 \<and> sv_String V v' = sv_String V v"
begin

abbreviation le :: "'v \<Rightarrow> 'v \<Rightarrow> bool" where
  "le a b \<equiv> sv_Compare V a b \<le> 0"

lemma le_total: "\<not> le a b \<Longrightarrow> le b a"
  using cmp_sym [of b a] by linarith

lemma greater_iff: "GreaterThan V a b \<longleftrightarrow> \<not> le a b"
  by linarith

lemma less_iff: "LessThan V a b \<longleftrightarrow> \<not> le b a"
  using cmp_sym [of a b] by linarith

lemma less_or_equal_iff: "LessThan V a b \<or> sv_Compare V a b = 0 \<longleftrightarrow> le a b"
  by linarith

lemma equal_le: "sv_Compare V a b = 0 \<Longrightarrow> le a b \<and> le b a"
  using cmp_sym [of a b] cmp_sym [of b a] by linarith

lemma insert_version_set: "set (insert_version V x ys) = insert x (set ys)"
  by (induction ys) auto

lemma insert_version_sorted: "sorted_wrt le ys \<Longrightarrow> sorted_wrt le (insert_version V x ys)"
proof (induction ys)
  case (Cons y ys)
  show ?case
  proof (cases "LessThan V y x")
    case True
    with Cons show ?thesis by (auto simp: insert_version_set)
  next
    case False
    then have "le x y" by (simp add: less_iff)
    with Cons.prems False show ?thesis by (auto intro: cmp_trans)
  qed
qed simp

lemma versions_sorted: "versions V ks = Some vs \<Longrightarrow> sorted_wrt le vs"
proof -
  have "sorted_wrt le (foldr (insert_version V) us [])" for us
    by (induction us) (auto intro: insert_version_sorted)
  then show "versions V ks = Some vs \<Longrightarrow> ?thesis" by (auto simp: versions_def)
qed

lemma filter_split:
  assumes "sorted_wrt le vs" "le a b" "le b c"
  shows "filter (\<lambda>v. \<not> le v a \<and> le v c) vs = filter (\<lambda>v. \<not> le v a \<and> le v b) vs @ filter (\<lambda>v. \<not> le v b \<and> le v c) vs"
  using assms(1)
proof (induction vs)
  case (Cons v vs)
  show ?case
  proof (cases "le v b")
    case True
    then have "le v c" using assms(3) cmp_trans by blast
    with True Cons show ?thesis by auto
  next
    case False
    then have "\<not> le v a" using assms(2) cmp_trans by blast
    have "\<not> le u b" if "u \<in> set vs" for u
      using that False Cons.prems cmp_trans [of v u b] by auto
    then have "filter (\<lambda>v. \<not> le v a \<and> le v b) vs = []" by (auto simp: filter_empty_conv)
    with False \<open>\<not> le v a\<close> Cons show ?thesis by auto
  qed
qed simp

end

section \<open>The sequence of upgrade steps\<close>

text \<open>The steps of a list of versions, one after the other.\<close>

fun run_steps :: "'v SemVer \<Rightarrow> 's Client \<Rightarrow> 'v list \<Rightarrow> Jaeger \<Rightarrow> 's \<Rightarrow> (Jaeger \<times> goerr option) \<times> 's" where
  "run_steps V c [] j s = ((j, None), s)"
| "run_steps V c (v # vs) j s = (case map_of upgrades (sv_String V v) of
     None \<Rightarrow> ((j, Some NilDereference), s)
   | Some f \<Rightarrow> (case f c j s of
       (Inl e, s') \<Rightarrow> ((j, Some e), s')
     | (Inr u, s') \<Rightarrow> run_steps V c vs (u\<lparr>j_Version := sv_String V v\<rparr>) s'))"

lemma upgrade_loop_run:
  "upgrade_loop V c cur latest vs j s =
     run_steps V c (filter (\<lambda>v. GreaterThan V v cur \<and> (LessThan V v latest \<or> sv_Compare V v latest = 0)) vs) j s"
  by (induction vs arbitrary: j s) (auto split: option.splits prod.splits sum.splits)

lemma run_steps_append:
  "run_steps V c (xs @ ys) j s = (case run_steps V c xs j s of
     ((j', Some e), s') \<Rightarrow> ((j', Some e), s')
   | ((j', None), s') \<Rightarrow> run_steps V c ys j' s')"
  by (induction xs arbitrary: j s) (auto split: option.splits prod.splits sum.splits)

text \<open>No step reads or writes the recorded version.\<close>

lemma step_version_independent:
  assumes "f \<in> snd ` set upgrades"
  shows "f c (j\<lparr>j_Version := x\<rparr>) s = (map_sum id (\<lambda>u. u\<lparr>j_Version := x\<rparr>) (fst (f c j s)), snd (f c j s))"
proof -
  have comm: "j_Spec_update g (i\<lparr>j_Version := x\<rparr>) = (j_Spec_update g i)\<lparr>j_Version := x\<rparr>" for g i
    by (cases i) simp
  have es: "es_to_delete (j\<lparr>j_Version := x\<rparr>) = es_to_delete j" by (simp add: es_to_delete_def)
  have bind: "map_sum id g (res_bind m h) = res_bind m (\<lambda>x. map_sum id g (h x))" for g m and h :: "_ \<Rightarrow> _ res"
    by (cases m) auto
  have "f \<in> {upgrade1_15_0, upgrade1_17_0, upgrade1_18_0, upgrade1_20_0, upgrade1_22_0, upgrade1_28_0, upgrade1_31_0}"
    using assms by (auto simp: upgrades_def)
  then show ?thesis
    by (elim insertE emptyE)
      (simp_all add: upgrade1_15_0_def upgrade1_17_0_def upgrade1_18_0_def upgrade1_20_0_def upgrade1_22_0_def
        upgrade1_28_0_def upgrade1_31_0_def migrateAllDeprecatedOptions_def migrateCollectorOptions_def
        migrateAgentOptions_def migrateCassandraVerifyFlagv1_22_0_def Let_def bind comm es
        split: prod.split option.split)
qed

lemma run_steps_version:
  fixes c :: "'s Client"
  assumes "run_steps V c vs j s = ((j', None), s')"
  shows "\<exists>j''. run_steps V c vs (j\<lparr>j_Version := x\<rparr>) s = ((j'', None), s') \<and> j''\<lparr>j_Version := z\<rparr> = j'\<lparr>j_Version := z\<rparr>"
proof (cases vs)
  case Nil
  with assms show ?thesis by simp
next
  case (Cons v vs')
  then obtain f :: "'s upgradeFunction" where f: "map_of upgrades (sv_String V v) = Some f"
    using assms by (auto split: option.splits)
  then have "f \<in> snd ` set upgrades" by (metis image_eqI map_of_SomeD snd_conv)
  then have "f c (j\<lparr>j_Version := x\<rparr>) s = (map_sum id (\<lambda>u. u\<lparr>j_Version := x\<rparr>) (fst (f c j s)), snd (f c j s))"
    by (rule step_version_independent)
  with assms f Cons show ?thesis
    by (auto split: prod.splits sum.splits)
qed

section \<open>Versions of the form major.minor.patch\<close>

definition parse_num :: "string \<Rightarrow> nat option" where
  "parse_num t = (if t = [] then None else digits_val 0 t)"

definition parse_triple :: "string \<Rightarrow> (nat \<times> nat \<times> nat) option" where
  "parse_triple t = (case map parse_num (Split (CHR ''.'') t) of
     [Some a, Some b, Some c] \<Rightarrow> Some (a, b, c) | _ \<Rightarrow> None)"

definition compare_nat :: "nat \<Rightarrow> nat \<Rightarrow> int" where
  "compare_nat a b = (if a < b then -1 else if a = b then 0 else 1)"

fun compare_triple :: "nat \<times> nat \<times> nat \<Rightarrow> nat \<times> nat \<times> nat \<Rightarrow> int" where
  "compare_triple (a, b, c) (a', b', c') =
     (if a \<noteq> a' then compare_nat a a' else if b \<noteq> b' then compare_nat b b' else compare_nat c c')"

fun string_triple :: "nat \<times> nat \<times> nat \<Rightarrow> string" where
  "string_triple (a, b, c) = nat_digits a @ CHR ''.'' # nat_digits b @ CHR ''.'' # nat_digits c"

definition triple_semver :: "(nat \<times> nat \<times> nat) SemVer" where
  "triple_semver = \<lparr>sv_NewVersion = parse_triple, sv_Compare = compare_triple, sv_String = string_triple\<rparr>"

lemma dot_not_digit: "CHR ''.'' \<notin> set (nat_digits n)"
  using nat_digits_digits [of n] by (auto simp: digit_char_def)

lemma parse_string_triple: "parse_triple (string_triple v) = Some v"
  by (cases v) (simp add: parse_triple_def Split_append_sep Split_single dot_not_digit parse_num_def digits_val_nat_digits)

interpretation triple: semver triple_semver
proof
  fix a b :: "nat \<times> nat \<times> nat"
  show "sv_Compare triple_semver a b < 0 \<longleftrightarrow> sv_Compare triple_semver b a > 0"
    by (cases a; cases b) (auto simp: triple_semver_def compare_nat_def)
next
  fix a b c :: "nat \<times> nat \<times> nat"
  have le: "compare_triple x y \<le> 0 \<longleftrightarrow> x = y \<or> (x, y) \<in> less_than <*lex*> (less_than <*lex*> less_than)" for x y
    by (cases x; cases y) (auto simp: compare_nat_def)
  have tr: "trans (less_than <*lex*> (less_than <*lex*> less_than))" by (intro trans_lex_prod trans_less_than)
  show "sv_Compare triple_semver a b \<le> 0 \<Longrightarrow> sv_Compare triple_semver b c \<le> 0 \<Longrightarrow> sv_Compare triple_semver a c \<le> 0"
    unfolding triple_semver_def SemVer.simps le using transD [OF tr, of a b c] by auto
next
  fix t and v :: "nat \<times> nat \<times> nat"
  show "\<exists>v'. sv_NewVersion triple_semver (sv_String triple_semver v) = Some v' \<and> sv_Compare triple_semver v' v = 0 \<and>
      sv_String triple_semver v' = sv_String triple_semver v"
    by (rule exI [of _ v]) (simp add: triple_semver_def parse_string_triple, cases v, simp add: compare_nat_def)
qed

section \<open>Properties\<close>

lemma ManagedInstance_cases:
  fixes c :: "'s Client"
  assumes "ManagedInstance V c j latestVersion s = ((j', None), s')"
  obtains vs start cur latest where
    "versions V (map fst (upgrades :: (string \<times> 's upgradeFunction) list)) = Some vs"
    "sv_NewVersion V ''1.11.0'' = Some start" "sv_NewVersion V (j_Version j) = Some cur"
    "sv_NewVersion V latestVersion = Some latest"
    "if LessThan V cur start \<or> GreaterThan V cur latest then j' = j \<and> s' = s
     else \<exists>i. upgrade_loop V c cur latest vs j s = ((i, None), s') \<and> j' = i\<lparr>j_Version := sv_String V latest\<rparr>"
  using assms by (auto simp: ManagedInstance_def split: option.splits if_splits prod.splits)

text \<open>C24: upgrading is stable: once an instance has been brought to a version, asking for the same
  version again changes neither the instance nor the cluster, whatever the steps did before.  It
  holds for every implementation of semantic versions that orders versions totally and reads back
  the versions it prints.\<close>

theorem ManagedInstance_idempotent:
  fixes c :: "'s Client"
  assumes "semver V" and "ManagedInstance V c j latestVersion s = ((j', None), s')"
  shows "ManagedInstance V c j' latestVersion s' = ((j', None), s')"
  using assms(2)
proof (cases rule: ManagedInstance_cases)
  case (1 vs start cur latest)
  note laws = semver.cmp_trans [OF assms(1)] semver.greater_iff [OF assms(1)] semver.less_iff [OF assms(1)]
    semver.less_or_equal_iff [OF assms(1)] semver.equal_le [OF assms(1)]
  show ?thesis
  proof (cases "LessThan V cur start \<or> GreaterThan V cur latest")
    case True
    then show ?thesis using 1(5) assms(2) by simp
  next
    case False
    with 1(5) obtain i where i: "j' = i\<lparr>j_Version := sv_String V latest\<rparr>" by auto
    obtain v' where v': "sv_NewVersion V (sv_String V latest) = Some v'" "sv_Compare V v' latest = 0"
      using semver.reparse [OF assms(1) 1(4)] by blast
    have "\<not> LessThan V v' start" "\<not> GreaterThan V v' latest"
      using False v'(2) laws(1) [of start cur latest] laws(1) [of start latest v'] laws(5) [of v' latest]
      by (auto simp: laws(2,3))
    moreover have "filter (\<lambda>v. GreaterThan V v v' \<and> (LessThan V v latest \<or> sv_Compare V v latest = 0)) vs = []"
      using laws(1) [of _ latest v'] laws(5) [OF v'(2)] by (auto simp: filter_empty_conv laws(4) laws(2))
    ultimately show ?thesis
      using 1 v' by (simp add: ManagedInstance_def i upgrade_loop_run)
  qed
qed

definition sample_versioned :: "string \<Rightarrow> Jaeger" where
  "sample_versioned v = (NewJaeger ''op'' ''ns'' ''my'')\<lparr>j_Version := v\<rparr>"

lemma sample_versions:
  "versions triple_semver (map fst (upgrades :: (string \<times> 's upgradeFunction) list)) =
     Some [(1, 15, 0), (1, 17, 0), (1, 18, 0), (1, 20, 0), (1, 22, 0), (1, 28, 0), (1, 31, 0)]"
  "parse_triple ''1.11.0'' = Some (1, 11, 0)" "parse_triple ''1.29.0'' = Some (1, 29, 0)"
  "parse_triple ''1.30.0'' = Some (1, 30, 0)" "parse_triple ''1.32.0'' = Some (1, 32, 0)"
  by (simp_all add: versions_def upgrades_def triple_semver_def parse_triple_def parse_num_def digit_char_def compare_nat_def)

lemma sample_upgrade:
  "ManagedInstance triple_semver (c :: 's Client) (sample_versioned ''1.29.0'') ''1.30.0'' s = ((sample_versioned ''1.30.0'', None), s)"
  "ManagedInstance triple_semver (c :: 's Client) (sample_versioned ''1.30.0'') ''1.32.0'' s = ((sample_versioned ''1.32.0'', None), s)"
  unfolding ManagedInstance_def sample_versions
  by (simp_all add: sample_versioned_def triple_semver_def sample_versions compare_nat_def upgrades_def
      upgrade1_31_0_def ShouldInjectOpenShiftElasticsearchConfiguration_def NewJaeger_def JaegerSpec0_def nat_digits.simps)

theorem ManagedInstance_idempotent_witness:
  "ManagedInstance triple_semver mem_client (sample_versioned ''1.32.0'') ''1.32.0'' [] = ((sample_versioned ''1.32.0'', None), [])"
  by (rule ManagedInstance_idempotent [OF triple.semver_axioms sample_upgrade(2)])

text \<open>C25: the path of an upgrade does not matter: going from the current version to a middle one and
  from there to the latest gives the same instance and the same cluster as going to the latest at
  once, as long as no step fails.\<close>

theorem ManagedInstance_path_independent:
  fixes c :: "'s Client"
  assumes "semver V"
    and "ManagedInstance V c j mid s = ((j1, None), s1)"
    and "ManagedInstance V c j1 latest s1 = ((j2, None), s2)"
    and "sv_NewVersion V ''1.11.0'' = Some start" "sv_NewVersion V (j_Version j) = Some cur"
    and "sv_NewVersion V mid = Some m" "sv_NewVersion V latest = Some l"
    and "sv_Compare V start cur \<le> 0" "sv_Compare V cur m \<le> 0" "sv_Compare V m l \<le> 0"
  shows "ManagedInstance V c j latest s = ((j2, None), s2)"
proof -
  note trans = semver.cmp_trans [OF assms(1)]
  note laws = semver.greater_iff [OF assms(1)] semver.less_iff [OF assms(1)] semver.less_or_equal_iff [OF assms(1)]
  obtain vs where vs: "versions V (map fst (upgrades :: (string \<times> 's upgradeFunction) list)) = Some vs"
    using assms(2) by (rule ManagedInstance_cases)
  let ?steps = "\<lambda>a b. filter (\<lambda>v. \<not> sv_Compare V v a \<le> 0 \<and> sv_Compare V v b \<le> 0) vs"
  have run: "upgrade_loop V c a b vs i t = run_steps V c (?steps a b) i t" for a b i t
    by (simp only: upgrade_loop_run laws(1,3))
  obtain i where i: "run_steps V c (?steps cur m) j s = ((i, None), s1)" "j1 = i\<lparr>j_Version := sv_String V m\<rparr>"
    using assms(2) vs assms(4-9)
    by (auto simp: ManagedInstance_def run laws split: if_splits prod.splits option.splits)
  obtain m' where m': "sv_NewVersion V (sv_String V m) = Some m'" "sv_Compare V m' m = 0"
    using semver.reparse [OF assms(1,6)] by blast
  then have mm: "sv_Compare V m m' \<le> 0" "sv_Compare V m' m \<le> 0" using semver.equal_le [OF assms(1)] by blast+
  have ord: "sv_Compare V start m' \<le> 0" "sv_Compare V m' l \<le> 0" "sv_Compare V cur l \<le> 0"
    using trans mm assms(8-10) by blast+
  have "?steps m' l = ?steps m l" using trans mm by (intro filter_cong) blast+
  then obtain i2 where i2: "run_steps V c (?steps m l) j1 s1 = ((i2, None), s2)" "j2 = i2\<lparr>j_Version := sv_String V l\<rparr>"
    using assms(3) vs assms(4,7) m' ord i(2)
    by (auto simp: ManagedInstance_def run laws split: if_splits prod.splits option.splits)
  obtain i3 where i3: "run_steps V c (?steps m l) i s1 = ((i3, None), s2)"
      "i3\<lparr>j_Version := sv_String V l\<rparr> = i2\<lparr>j_Version := sv_String V l\<rparr>"
    using run_steps_version [OF i2(1), of "j_Version i" "sv_String V l"] i(2) by auto
  have "?steps cur l = ?steps cur m @ ?steps m l"
    using semver.filter_split [OF assms(1) semver.versions_sorted [OF assms(1) vs] assms(9,10)] .
  then have "run_steps V c (?steps cur l) j s = ((i3, None), s2)"
    using i(1) i3(1) by (simp add: run_steps_append)
  then show ?thesis
    using vs assms(4,5,7,8) ord(3) i3(2) i2(2) by (simp add: ManagedInstance_def run laws)
qed

theorem ManagedInstance_path_independent_witness:
  "ManagedInstance triple_semver mem_client (sample_versioned ''1.29.0'') ''1.32.0'' [] = ((sample_versioned ''1.32.0'', None), [])"
  by (rule ManagedInstance_path_independent [OF triple.semver_axioms sample_upgrade,
        where start = "(1, 11, 0)" and cur = "(1, 29, 0)" and m = "(1, 30, 0)" and l = "(1, 32, 0)"])
    (simp_all add: triple_semver_def sample_versioned_def sample_versions compare_nat_def)

text \<open>\<open>applyUpgrades\<close> records the version of the operator even when no step ran: an instance that
  is newer than the operator, or older than the first version with an upgrade path, keeps its
  specification and its cluster untouched but is marked as being at the operator's version.\<close>

theorem applyUpgrades_marks_without_upgrading:
  assumes "sv_NewVersion V (j_Version j) = Some cur" "sv_NewVersion V (DefaultJaeger e) = Some latest"
    and "sv_NewVersion V ''1.11.0'' = Some start"
    and "LessThan V cur start \<or> GreaterThan V cur latest"
    and "versions V (map fst (upgrades :: (string \<times> 's upgradeFunction) list)) \<noteq> None"
  shows "applyUpgrades V e (c :: 's Client) j s = ((j\<lparr>j_Version := DefaultJaeger e\<rparr>, None), s)"
  using assms by (auto simp: applyUpgrades_def ManagedInstance_def Let_def)

definition sample_env :: Env where
  "sample_env = \<lparr>viper_GetString = (\<lambda>k. []), viper_GetBool = (\<lambda>k. False), viper_IsSet = (\<lambda>k. False),
     ldflag_version = ''1.30.0'', ldflag_defaultJaeger = ''1.30.0'', ldflag_defaultAgent = ''1.30.0'', ProxyVars = []\<rparr>"

theorem applyUpgrades_marks_without_upgrading_witness:
  "applyUpgrades triple_semver sample_env mem_client (sample_versioned ''1.32.0'') [] = ((sample_versioned ''1.30.0'', None), [])"
proof -
  have "applyUpgrades triple_semver sample_env mem_client (sample_versioned ''1.32.0'') []
      = (((sample_versioned ''1.32.0'')\<lparr>j_Version := DefaultJaeger sample_env\<rparr>, None), [])"
    by (rule applyUpgrades_marks_without_upgrading [where cur = "(1, 32, 0)" and latest = "(1, 30, 0)" and start = "(1, 11, 0)"])
      (simp_all add: triple_semver_def sample_versioned_def sample_versions [unfolded triple_semver_def] compare_nat_def
        DefaultJaeger_def sample_env_def)
  then show ?thesis by (simp add: sample_versioned_def DefaultJaeger_def sample_env_def)
qed

section \<open>Flag migration\<close>

text \<open>A table whose old names are distinct and are not new names of the same table.\<close>

definition wf_flags :: "deprecationFlagMap list \<Rightarrow> bool" where
  "wf_flags fm \<longleftrightarrow> distinct (map fst fm) \<and> distinct (filter (\<lambda>t. t \<noteq> []) (map snd fm)) \<and> set (map fst fm) \<inter> set (map snd fm) = {}"

lemma map_of_migrate_flag:
  "map_of (migrate_flag (f, t) m) k =
     (if k = f then None else if t = k \<and> t \<noteq> [] \<and> map_of m f \<noteq> None then map_of m f else map_of m k)"
  by (auto simp: migrate_flag_def delete_conv' update_conv' split: option.splits)

lemma map_of_migrate:
  assumes "wf_flags fm"
  shows "map_of (fold migrate_flag fm m) k =
    (if k \<in> fst ` set fm then None
     else case find (\<lambda>(f, t). t = k \<and> t \<noteq> [] \<and> map_of m f \<noteq> None) fm of
         Some (f, t) \<Rightarrow> map_of m f | None \<Rightarrow> map_of m k)"
  using assms
proof (induction fm arbitrary: m)
  case (Cons d fm)
  obtain f t where d: "d = (f, t)" by (cases d)
  have wf: "wf_flags fm" using Cons.prems by (auto simp: wf_flags_def d split: if_splits)
  have f: "f \<notin> fst ` set fm" "f \<notin> snd ` set fm" "f \<noteq> t" "t \<notin> fst ` set fm" "t \<noteq> [] \<Longrightarrow> t \<notin> snd ` set fm"
    using Cons.prems by (auto simp: wf_flags_def d)
  have eq: "find (\<lambda>(f', t'). t' = k \<and> t' \<noteq> [] \<and> map_of (migrate_flag (f, t) m) f' \<noteq> None) fm
      = find (\<lambda>(f', t'). t' = k \<and> t' \<noteq> [] \<and> map_of m f' \<noteq> None) fm"
    by (rule find_cong) (use f(1,4) in \<open>force simp: map_of_migrate_flag\<close>)+
  have none: "find (\<lambda>(f', t'). t' = k \<and> t' \<noteq> [] \<and> map_of m f' \<noteq> None) fm = None" if "t = k" "t \<noteq> []"
    using that f(5) by (force simp: find_None_iff)
  have old: "map_of (migrate_flag (f, t) m) f' = map_of m f'" if "(f', t') \<in> set fm" for f' t'
    using that f(1,4) by (force simp: map_of_migrate_flag)
  show ?case
  proof (cases "find (\<lambda>(f', t'). t' = k \<and> t' \<noteq> [] \<and> map_of m f' \<noteq> None) fm")
    case None
    then show ?thesis
      using Cons.IH [OF wf, of "migrate_flag (f, t) m"] eq f
      by (auto simp: d map_of_migrate_flag)
  next
    case (Some p)
    obtain f' t' where p: "p = (f', t')" by (cases p)
    with Some have p': "(f', t') \<in> set fm" "t' = k" "k \<noteq> []" by (auto dest: find_SomeD)
    then have "k \<in> snd ` set fm" by force
    then have k: "k \<noteq> f" using f(2) by blast
    have t: "\<not> (t = k \<and> t \<noteq> [] \<and> map_of m f \<noteq> None)" using none Some by auto
    have "map_of (fold migrate_flag fm (migrate_flag (f, t) m)) k
        = (if k \<in> fst ` set fm then None else map_of m f')"
      unfolding Cons.IH [OF wf] eq Some p using old [OF p'(1)] by simp
    then show ?thesis using k t Some p by (auto simp: d)
  qed
qed simp

lemma map_of_NewOptions_flat:
  assumes "wf_amap m" and "\<forall>(k, v) \<in> set m. \<exists>o'. v = iface_of o'"
  shows "mget (opts (NewOptions (Some m))) k = map_option (\<lambda>v. OStr (sprint_v v)) (map_of m k)"
proof -
  define al where "al = map (\<lambda>(k, v). (k, SOME o'. v = iface_of o')) m"
  have "map (\<lambda>(k, v). (k, iface_of v)) al = m"
    unfolding al_def using assms(2) by (induction m) (auto intro: someI2_ex)
  then have m: "m = GenericMap \<lparr>opts = Some al, json = None\<rparr>" by (simp add: GenericMap_def)
  have "wf_amap al" using assms(1) unfolding m GenericMap_def by (simp add: wf_map_snd del: map_map)
  then have "opts (NewOptions (Some m)) = Some (map (\<lambda>(k, v). (k, reparsed v)) al)"
    unfolding m by (subst NewOptions_GenericMap) (simp_all add: wf_gomap_def)
  moreover have "map_of (map (\<lambda>(k, v). (k, reparsed v)) al) k = map_option (\<lambda>v. OStr (sprint_v v)) (map_of m k)"
    unfolding m GenericMap_def Options.simps entries_simps
  proof (induction al)
    case (Cons x al)
    obtain a b where x: "x = (a, b)" by (cases x)
    show ?case using Cons by (cases b) (auto simp: x)
  qed simp
  ultimately show ?thesis by simp
qed

lemma migrate_flag_wf:
  assumes "wf_amap m" and "\<forall>(k, v) \<in> set m. \<exists>o'. v = iface_of o'"
  shows "wf_amap (fold migrate_flag fm m) \<and> (\<forall>(k, v) \<in> set (fold migrate_flag fm m). \<exists>o'. v = iface_of o')"
  using assms
proof (induction fm arbitrary: m)
  case (Cons d fm)
  obtain f t where d: "d = (f, t)" by (cases d)
  have upd: "(\<forall>(k, v) \<in> set (AList.update t w m). Q v)" if "\<forall>(k, v) \<in> set m. Q v" "Q w" for Q w and m :: "iface amap"
    using that by (induction m) auto
  have "wf_amap (migrate_flag d m)"
    using Cons.prems(1) by (auto simp: d migrate_flag_def distinct_update split: option.splits)
  moreover have "\<forall>(k, v) \<in> set (migrate_flag d m). \<exists>o'. v = iface_of o'"
  proof (cases "map_of m f")
    case None
    then show ?thesis using Cons.prems(2) by (simp add: d migrate_flag_def)
  next
    case (Some w)
    then have "\<exists>o'. w = iface_of o'" using Cons.prems(2) by (auto dest: map_of_SomeD)
    with Cons.prems(2) have "\<forall>(k, v) \<in> set (AList.update t w m). \<exists>o'. v = iface_of o'" by (rule upd)
    then show ?thesis using Cons.prems(2) Some by (auto simp: d migrate_flag_def AList.delete_eq)
  qed
  ultimately show ?case using Cons.IH by simp
qed simp

text \<open>The migration of deprecated flags moves values exactly as its table says: afterwards no old
  flag is left; a new flag has the value of its old flag when that was set, and otherwise the
  value it had; every other flag keeps its value.  Values go through the text form, so a list
  becomes one string.\<close>

theorem migrateDeprecatedOptions_moves:
  assumes "wf_gomap (opts o')" and "wf_flags fm"
  shows "mget (opts (migrateDeprecatedOptions o' fm)) k =
    (if k \<in> fst ` set fm then None
     else map_option reparsed
       (case find (\<lambda>(f, t). t = k \<and> t \<noteq> [] \<and> mget (opts o') f \<noteq> None) fm of
          Some (f, t) \<Rightarrow> mget (opts o') f | None \<Rightarrow> mget (opts o') k))"
proof -
  have g: "map_of (GenericMap o') x = map_option iface_of (mget (opts o') x)" for x
    by (simp add: GenericMap_def mget_def map_of_map)
  have r: "OStr (sprint_v (iface_of v)) = reparsed v" for v by (cases v) auto
  have wf: "wf_amap (GenericMap o')" using assms(1) by (simp add: GenericMap_def wf_map_snd wf_gomap_def del: map_map)
  have im: "\<forall>(k, v) \<in> set (GenericMap o'). \<exists>o'. v = iface_of o'" by (auto simp: GenericMap_def)
  note W = migrate_flag_wf [OF wf im, of fm]
  show ?thesis
    unfolding migrateDeprecatedOptions_def map_of_NewOptions_flat [OF conjunct1 [OF W] conjunct2 [OF W]]
      map_of_migrate [OF assms(2)]
    by (auto simp: g option.map_comp comp_def r split: option.split)
qed

theorem migrateDeprecatedOptions_moves_witness:
  "mget (opts (migrateDeprecatedOptions \<lparr>opts = Some [(''es.max-num-spans'', OStr ''10'')], json = None\<rparr>
     [(''es.max-num-spans'', ''es.max-doc-count'')])) ''es.max-doc-count'' = Some (OStr ''10'')"
  by (subst migrateDeprecatedOptions_moves) (simp_all add: wf_gomap_def wf_flags_def)

section \<open>The step to version 1.31\<close>

text \<open>After the step to 1.31 has succeeded for an instance that uses an OpenShift Elasticsearch,
  no Elasticsearch resource with the fixed name is left in the namespace of the instance.  Whether
  the instance provisioned it itself (the field \<open>doNotProvision\<close>) plays no role.\<close>

theorem upgrade1_31_0_deletes_elasticsearch:
  assumes "api_server C objs"
    and "ShouldInjectOpenShiftElasticsearchConfiguration (j_Storage j)"
    and "upgrade1_31_0 C j s = (Inr j', s')"
  shows "j' = j \<and> (KElasticsearch, j_Namespace j, ''elasticsearch'') \<notin> ident ` objs s'"
proof -
  have x: "ident (es_to_delete j) = (KElasticsearch, j_Namespace j, ''elasticsearch'')"
    by (simp add: es_to_delete_def ident_def)
  obtain r t where r: "cl_Delete C (es_to_delete j) s = (r, t)" by (cases "cl_Delete C (es_to_delete j) s")
  with assms(2,3) have "t = s'" "j' = j" "r = None \<or> r = Some NotFound"
    by (auto simp: upgrade1_31_0_def split: option.splits if_splits)
  from this(3) have "ident (es_to_delete j) \<notin> ident ` objs s'"
  proof
    assume "r = None"
    with r \<open>t = s'\<close> api_server.delete_ok [OF assms(1), of "es_to_delete j" s s'] show ?thesis by simp
  next
    assume "r = Some NotFound"
    with r \<open>t = s'\<close> api_server.delete_missing [OF assms(1), of "es_to_delete j" s s'] show ?thesis by simp
  qed
  with x \<open>j' = j\<close> show ?thesis by simp
qed

definition sample_es_jaeger :: Jaeger where
  "sample_es_jaeger = upd_Storage (\<lambda>st. st\<lparr>st_Type := ''elasticsearch'',
     st_Elasticsearch := (st_Elasticsearch st)\<lparr>ess_DoNotProvision := True\<rparr>\<rparr>) (NewJaeger ''op'' ''ns'' ''my'')"

theorem upgrade1_31_0_deletes_elasticsearch_witness:
  "upgrade1_31_0 mem_client sample_es_jaeger [es_to_delete sample_es_jaeger] = (Inr sample_es_jaeger, []) \<and>
   (KElasticsearch, j_Namespace sample_es_jaeger, ''elasticsearch'') \<notin> ident ` set (mem_objs [])"
proof -
  have inj: "ShouldInjectOpenShiftElasticsearchConfiguration (j_Storage sample_es_jaeger)"
    by (simp add: ShouldInjectOpenShiftElasticsearchConfiguration_def sample_es_jaeger_def NewJaeger_def JaegerSpec0_def
        Options0_def Map_opts_def)
  then have up: "upgrade1_31_0 mem_client sample_es_jaeger [es_to_delete sample_es_jaeger] = (Inr sample_es_jaeger, [])"
    by (simp add: upgrade1_31_0_def mem_client_def mem_find_def)
  from up upgrade1_31_0_deletes_elasticsearch [OF mem.api_server_axioms inj up] show ?thesis by simp
qed

end
