(* ===== verification/Normalize.thy ===== *)
theory Normalize
  imports Upgrade
begin

text \<open>
  Package \<open>pkg/strategy\<close>, file \<open>controller.go\<close>: the normalisation of a Jaeger instance before its
  objects are built.  Defaults are filled in, incompatible settings are replaced, and the options
  of the UI are derived; a UI menu of an unexpected shape is a failed type assertion, and options
  that are the JSON value null are a nil map.
\<close>

section \<open>Storage\<close>

definition distributedStorage :: "string \<Rightarrow> bool" where
  "distributedStorage storage \<longleftrightarrow> storage \<noteq> JaegerMemoryStorage \<and> storage \<noteq> JaegerBadgerStorage"

definition unknownStorage :: "string \<Rightarrow> bool" where
  "unknownStorage typ \<longleftrightarrow> typ \<notin> set ValidStorageTypes"

definition SupportedStorage :: "string \<Rightarrow> bool" where
  "SupportedStorage storage \<longleftrightarrow> storage = JaegerESStorage \<or> storage = JaegerCassandraStorage"

definition spark_auto_enabled :: "JaegerStorageSpec \<Rightarrow> bool" where
  "spark_auto_enabled spec =
     (let sFlagsMap = Some (StringMap (st_Options spec));
          tlsIsNotEnabled = (\<not> EqualFold (mstr sFlagsMap ''es.tls'') ''true'' \<and>
            \<not> EqualFold (mstr sFlagsMap ''es.tls.skip-host-verify'') ''true'' \<and>
            EqualFold (mstr sFlagsMap ''es.tls.ca'') [])
      in SupportedStorage (st_Type spec) \<and> \<not> ShouldInjectOpenShiftElasticsearchConfiguration spec \<and> tlsIsNotEnabled)"

definition spark_defaults :: "bool \<Rightarrow> JaegerDependenciesSpec \<Rightarrow> JaegerDependenciesSpec" where
  "spark_defaults auto d =
     (let d1 = (if auto \<and> jd_Enabled d = None then d\<lparr>jd_Enabled := Some True\<rparr> else d)
      in if jd_Schedule d1 = [] then d1\<lparr>jd_Schedule := ''55 23 * * *''\<rparr> else d1)"

definition normalizeSparkDependencies :: "JaegerStorageSpec \<Rightarrow> JaegerStorageSpec" where
  "normalizeSparkDependencies spec = st_Dependencies_update (spark_defaults (spark_auto_enabled spec)) spec"

definition normalizeIndexCleaner :: "string \<Rightarrow> JaegerEsIndexCleanerSpec \<Rightarrow> JaegerEsIndexCleanerSpec" where
  "normalizeIndexCleaner storage spec =
     (let s1 = (if storage = JaegerESStorage \<and> ic_Enabled spec = None then spec\<lparr>ic_Enabled := Some True\<rparr> else spec);
          s2 = (if ic_Schedule s1 = [] then s1\<lparr>ic_Schedule := ''55 23 * * *''\<rparr> else s1)
      in if ic_NumberOfDays s2 = None then s2\<lparr>ic_NumberOfDays := Some 7\<rparr> else s2)"

definition normalizeElasticsearch :: "ElasticsearchSpec \<Rightarrow> ElasticsearchSpec" where
  "normalizeElasticsearch spec =
     (let s1 = (if ess_NodeCount spec = 0 then spec\<lparr>ess_NodeCount := 3\<rparr> else spec);
          s2 = (if ess_RedundancyPolicy s1 = []
                then s1\<lparr>ess_RedundancyPolicy := (if ess_NodeCount s1 = 1 then ''ZeroRedundancy'' else ''SingleRedundancy'')\<rparr>
                else s1)
      in if ess_Resources s2 = None
         then s2\<lparr>ess_Resources := Some \<lparr>rr_Limits = Some [(''memory'', ''16Gi'')],
                                        rr_Requests = Some [(''memory'', ''16Gi''), (''cpu'', ''1'')]\<rparr>\<rparr>
         else s2)"

definition normalizeRollover :: "JaegerEsRolloverSpec \<Rightarrow> JaegerEsRolloverSpec" where
  "normalizeRollover spec = (if ro_Schedule spec = [] then spec\<lparr>ro_Schedule := ''0 0 * * *''\<rparr> else spec)"

section \<open>The options of the UI\<close>

definition enableArchiveButton :: "string amap \<Rightarrow> iface gomap \<Rightarrow> iface gomap res" where
  "enableArchiveButton sOpts uiOpts =
     (if mget uiOpts ''archiveEnabled'' = None \<and>
         (EqualFold (mstr (Some sOpts) ''es-archive.enabled'') ''true'' \<or>
          EqualFold (mstr (Some sOpts) ''cassandra-archive.enabled'') ''true'')
      then mput ''archiveEnabled'' (IBool True) uiOpts else Inr uiOpts)"

definition disableDependenciesTab :: "string \<Rightarrow> bool option \<Rightarrow> iface gomap \<Rightarrow> iface gomap res" where
  "disableDependenciesTab storage depsEnabled uiOpts =
     (if storage = JaegerMemoryStorage \<or> depsEnabled = Some True then Inr uiOpts
      else case mget uiOpts ''dependencies'' of
          None \<Rightarrow> mput ''dependencies'' (IObj [(''menuEnabled'', IBool False)]) uiOpts
        | Some (IObj deps) \<Rightarrow>
            if map_of deps ''menuEnabled'' = None
            then mput ''dependencies'' (IObj (AList.update ''menuEnabled'' (IBool False) deps)) uiOpts
            else Inr uiOpts
        | Some _ \<Rightarrow> Inr uiOpts)"

fun has_doc_item :: "iface list \<Rightarrow> bool option" where      \<comment> \<open>None: an item is not a map\<close>
  "has_doc_item [] = Some False"
| "has_doc_item (IObj it # items) =
     (if map_of it ''label'' = Some (IStr ''Documentation'') then Some True else has_doc_item items)"
| "has_doc_item (_ # items) = None"

fun hasDocumentationLink_from :: "nat \<Rightarrow> iface list \<Rightarrow> bool \<times> nat" where
  "hasDocumentationLink_from i [] = (False, 0)"
| "hasDocumentationLink_from i (IObj converted # menus) =
     (if map_of converted ''label'' = Some (IStr ''About'') then
        (case map_of converted ''items'' of
           Some (IArr items) \<Rightarrow> (case has_doc_item items of
               Some True \<Rightarrow> (True, i)
             | Some False \<Rightarrow> hasDocumentationLink_from (Suc i) menus
             | None \<Rightarrow> (False, 0))
         | _ \<Rightarrow> (False, 0))
      else hasDocumentationLink_from (Suc i) menus)"
| "hasDocumentationLink_from i (_ # menus) = (False, 0)"

definition hasDocumentationLink :: "iface list \<Rightarrow> bool \<times> nat" where
  "hasDocumentationLink menus = hasDocumentationLink_from 0 menus"

definition about_menu :: "Env \<Rightarrow> iface" where
  "about_menu e = IObj [(''label'', IStr ''About''),
     (''items'', IArr [IObj [(''label'', IStr ''Documentation''),
                             (''url'', IStr (viper_GetString e ''documentation-url''))]])]"

definition enableDocumentationLink :: "Env \<Rightarrow> iface gomap \<Rightarrow> iface gomap res" where
  "enableDocumentationLink e uiOpts =
     (if \<not> viper_IsSet e ''documentation-url'' then Inr uiOpts
      else case mget uiOpts ''menu'' of
          Some (IArr menuArray) \<Rightarrow>
            (case hasDocumentationLink menuArray of
               (True, menuIndex) \<Rightarrow> mput ''menu'' (IArr (menuArray[menuIndex := about_menu e])) uiOpts
             | (False, _) \<Rightarrow> Inr uiOpts)
        | Some _ \<Rightarrow> Inl TypeAssertion
        | None \<Rightarrow> mput ''menu'' (IArr [about_menu e]) uiOpts)"

text \<open>\<open>fmt.Sprintf("%v", x)\<close> of any JSON value; the keys of a map are printed in order.\<close>

fun sprint_any :: "iface \<Rightarrow> string" where
  "sprint_any (IArr vs) = ''['' @ Join '' '' (map sprint_any vs) @ '']''"
| "sprint_any (IObj al) =
     ''map['' @ Join '' '' (map snd (sort_entries (map (\<lambda>(k, v). (k, k @ '':'' @ sprint_any v)) al))) @ '']''"
| "sprint_any v = sprint_v v"

fun has_sign_in :: "iface list \<Rightarrow> bool" where      \<comment> \<open>the loop that leaves \<open>enableLogOut\<close> early\<close>
  "has_sign_in [] = False"
| "has_sign_in (IObj converted # menus) =
     (Contains (case map_of converted ''url'' of None \<Rightarrow> ''<nil>'' | Some u \<Rightarrow> sprint_any u) ''/oauth/sign_in''
      \<or> has_sign_in menus)"
| "has_sign_in (_ # menus) = True"

definition enableLogOut :: "JaegerSpec \<Rightarrow> iface gomap \<Rightarrow> iface gomap res" where
  "enableLogOut spec uiOpts =
     (if ji_Enabled (js_Ingress spec) = Some False \<or> ji_Security (js_Ingress spec) \<noteq> IngressSecurityOAuthProxy
      then Inr uiOpts
      else if os_SkipLogout (ji_Openshift (js_Ingress spec)) = Some True then Inr uiOpts
      else res_bind (case mget uiOpts ''menu'' of
              None \<Rightarrow> Inr [] | Some (IArr m) \<Rightarrow> Inr m | Some _ \<Rightarrow> Inl TypeAssertion)
        (\<lambda>menuArray.
           if has_sign_in menuArray then Inr uiOpts
           else mput ''menu'' (IArr (menuArray @ [IObj [(''label'', IStr ''Log Out''), (''url'', IStr ''/oauth/sign_in''),
                  (''anchorTarget'', IStr ''_self'')]])) uiOpts))"

definition normalizeUI :: "Env \<Rightarrow> JaegerSpec \<Rightarrow> JaegerSpec res" where
  "normalizeUI e spec =
     (let ui0 = (if IsEmpty (js_UIOptions spec) then Some []
                 else (case GetMap (js_UIOptions spec) of Inr m \<Rightarrow> m | Inl err \<Rightarrow> Some []))
      in res_bind (enableArchiveButton (StringMap (st_Options (js_Storage spec))) ui0) (\<lambda>ui1.
         res_bind (disableDependenciesTab (st_Type (js_Storage spec)) (jd_Enabled (st_Dependencies (js_Storage spec))) ui1) (\<lambda>ui2.
         res_bind (enableDocumentationLink e ui2) (\<lambda>ui3.
         res_bind (enableLogOut spec ui3) (\<lambda>ui4.
           Inr (if length (entries ui4) > 0 then spec\<lparr>js_UIOptions := NewFreeForm ui4\<rparr> else spec))))))"

section \<open>normalize\<close>

definition drop_reserved :: "string gomap \<Rightarrow> string gomap" where
  "drop_reserved labels = mdel ''app.kubernetes.io/managed-by'' (mdel ''app.kubernetes.io/instance'' labels)"

text \<open>Everything before the options of the UI, in the order of the source.\<close>

definition normalize_name :: "Jaeger \<Rightarrow> Jaeger" where
  "normalize_name j = (if j_Name j = [] then j_Meta_update (\<lambda>m. m\<lparr>om_Name := ''my-jaeger''\<rparr>) j else j)"

definition normalize_storage_type :: "string \<Rightarrow> string" where
  "normalize_storage_type t =
     (let t1 = (if t = [] then JaegerMemoryStorage else t)
      in if unknownStorage t1 then JaegerMemoryStorage else t1)"

definition normalize_labels :: "JaegerSpec \<Rightarrow> JaegerSpec" where
  "normalize_labels =
     js_Query_update (q_Common_update (jc_Labels_update drop_reserved)) \<circ>
     js_AllInOne_update (aio_Common_update (jc_Labels_update drop_reserved)) \<circ>
     js_Common_update (jc_Labels_update drop_reserved)"

definition normalize_strategy :: "JaegerSpec \<Rightarrow> JaegerSpec" where
  "normalize_strategy spec =
     (let s1 = (if js_Strategy spec \<noteq> DeploymentStrategyProduction \<and> js_Strategy spec \<noteq> DeploymentStrategyStreaming
                then spec\<lparr>js_Strategy := DeploymentStrategyAllInOne\<rparr> else spec)
      in if \<not> distributedStorage (st_Type (js_Storage s1)) \<and> js_Strategy s1 \<noteq> DeploymentStrategyAllInOne
         then s1\<lparr>js_Strategy := DeploymentStrategyAllInOne\<rparr> else s1)"

text \<open>The default access review: a JSON object that names the namespace.\<close>

definition default_sar :: "string \<Rightarrow> string" where
  "default_sar ns =
     (let q = [CHR 0x22]
      in ''{'' @ q @ ''namespace'' @ q @ '': '' @ q @ ns @ q @ '', '' @ q @ ''resource'' @ q @ '': '' @ q @ ''pods'' @ q @
         '', '' @ q @ ''verb'' @ q @ '': '' @ q @ ''get'' @ q @ ''}'')"

definition normalize_security :: "Env \<Rightarrow> string \<Rightarrow> JaegerIngressSpec \<Rightarrow> JaegerIngressSpec" where
  "normalize_security e ns ing =
     (let i1 = (if GetPlatform e = OpenShiftPlatform \<and> ji_Security ing \<noteq> IngressSecurityNoneExplicit
                then ing\<lparr>ji_Security := IngressSecurityOAuthProxy\<rparr>
                else ing\<lparr>ji_Security := IngressSecurityNoneExplicit\<rparr>)
      in if GetPlatform e = OpenShiftPlatform \<and> ji_Security i1 = IngressSecurityOAuthProxy \<and> os_SAR (ji_Openshift i1) = None
         then ji_Openshift_update (os_SAR_update (\<lambda>_. Some (default_sar ns))) i1 else i1)"

definition normalize_core :: "Env \<Rightarrow> Jaeger \<Rightarrow> Jaeger" where
  "normalize_core e jaeger =
     (let j1 = normalize_name jaeger;
          j2 = upd_Storage (st_Type_update normalize_storage_type) j1;
          j3 = j_Spec_update normalize_labels j2;
          j4 = j_Spec_update normalize_strategy j3;
          j5 = j_Spec_update (js_Ingress_update (normalize_security e (j_Namespace j4))) j4;
          j6 = upd_Storage normalizeSparkDependencies j5;
          j7 = upd_Storage (st_EsIndexCleaner_update (normalizeIndexCleaner (st_Type (j_Storage j6)))) j6;
          j8 = upd_Storage (st_Elasticsearch_update normalizeElasticsearch) j7
      in upd_Storage (st_EsRollover_update normalizeRollover) j8)"

definition normalize :: "Env \<Rightarrow> Jaeger \<Rightarrow> Jaeger res" where
  "normalize e jaeger =
     (let j = normalize_core e jaeger
      in res_bind (normalizeUI e (j_Spec j)) (\<lambda>spec.
           let j' = j\<lparr>j_Spec := spec\<rparr>
           in Inr (if ess_Name (st_Elasticsearch (j_Storage j')) = []
                   then upd_Storage (st_Elasticsearch_update (\<lambda>es. es\<lparr>ess_Name := ''elasticsearch''\<rparr>)) j' else j')))"

section \<open>Properties\<close>

lemma mget_drop_reserved [simp]:
  "mget (drop_reserved m) ''app.kubernetes.io/instance'' = None"
  "mget (drop_reserved m) ''app.kubernetes.io/managed-by'' = None"
  "k \<noteq> ''app.kubernetes.io/instance'' \<Longrightarrow> k \<noteq> ''app.kubernetes.io/managed-by'' \<Longrightarrow> mget (drop_reserved m) k = mget m k"
  by (simp_all add: drop_reserved_def mget_mdel)

definition normal_storage :: "JaegerStorageSpec \<Rightarrow> bool" where
  "normal_storage st \<longleftrightarrow> st_Type st \<in> set ValidStorageTypes \<and>
     jd_Schedule (st_Dependencies st) \<noteq> [] \<and> ic_Schedule (st_EsIndexCleaner st) \<noteq> [] \<and>
     ic_NumberOfDays (st_EsIndexCleaner st) \<noteq> None \<and> ro_Schedule (st_EsRollover st) \<noteq> [] \<and>
     ess_NodeCount (st_Elasticsearch st) \<noteq> 0 \<and> ess_RedundancyPolicy (st_Elasticsearch st) \<noteq> [] \<and>
     ess_Resources (st_Elasticsearch st) \<noteq> None"

definition normal_spec :: "Env \<Rightarrow> JaegerSpec \<Rightarrow> bool" where
  "normal_spec e sp \<longleftrightarrow> normal_storage (js_Storage sp) \<and>
     js_Strategy sp \<in> {DeploymentStrategyAllInOne, DeploymentStrategyProduction, DeploymentStrategyStreaming} \<and>
     (js_Strategy sp = DeploymentStrategyAllInOne \<or> distributedStorage (st_Type (js_Storage sp))) \<and>
     (case ji_Security (js_Ingress sp) of sec \<Rightarrow>
        sec = IngressSecurityNoneExplicit \<or>
        sec = IngressSecurityOAuthProxy \<and> GetPlatform e = OpenShiftPlatform \<and> os_SAR (ji_Openshift (js_Ingress sp)) \<noteq> None) \<and>
     (\<forall>ls \<in> {jc_Labels (js_Common sp), jc_Labels (aio_Common (js_AllInOne sp)), jc_Labels (q_Common (js_Query sp))}.
        mget ls ''app.kubernetes.io/instance'' = None \<and> mget ls ''app.kubernetes.io/managed-by'' = None)"

lemma normalize_strategy_Storage [simp]:
  "js_Storage (normalize_strategy sp) = js_Storage sp" "js_Ingress (normalize_strategy sp) = js_Ingress sp"
  "js_UIOptions (normalize_strategy sp) = js_UIOptions sp"
  "js_Common (normalize_strategy sp) = js_Common sp" "js_AllInOne (normalize_strategy sp) = js_AllInOne sp"
  "js_Query (normalize_strategy sp) = js_Query sp"
  by (simp_all add: normalize_strategy_def Let_def)

lemma normalize_storage_type_valid: "normalize_storage_type t \<in> set ValidStorageTypes"
  by (simp add: normalize_storage_type_def unknownStorage_def ValidStorageTypes_def Let_def)

lemma normalize_strategy_result:
  "js_Strategy (normalize_strategy sp) \<in> {DeploymentStrategyAllInOne, DeploymentStrategyProduction, DeploymentStrategyStreaming} \<and>
   (js_Strategy (normalize_strategy sp) = DeploymentStrategyAllInOne \<or> distributedStorage (st_Type (js_Storage sp)))"
  by (auto simp: normalize_strategy_def Let_def)

lemma normalizeSparkDependencies_fields [simp]:
  "st_Type (normalizeSparkDependencies st) = st_Type st" "st_Options (normalizeSparkDependencies st) = st_Options st"
  "st_EsIndexCleaner (normalizeSparkDependencies st) = st_EsIndexCleaner st"
  "st_Elasticsearch (normalizeSparkDependencies st) = st_Elasticsearch st"
  "st_EsRollover (normalizeSparkDependencies st) = st_EsRollover st"
  by (simp_all add: normalizeSparkDependencies_def Let_def)

lemma normalize_parts:
  "jd_Schedule (st_Dependencies (normalizeSparkDependencies st)) \<noteq> []"
  "ic_Schedule (normalizeIndexCleaner t ic) \<noteq> [] \<and> ic_NumberOfDays (normalizeIndexCleaner t ic) \<noteq> None"
  "ro_Schedule (normalizeRollover ro) \<noteq> []"
  "ess_NodeCount (normalizeElasticsearch es) \<noteq> 0 \<and> ess_RedundancyPolicy (normalizeElasticsearch es) \<noteq> [] \<and>
     ess_Resources (normalizeElasticsearch es) \<noteq> None"
  by (simp_all add: normalizeSparkDependencies_def spark_defaults_def normalizeIndexCleaner_def normalizeRollover_def
      normalizeElasticsearch_def Let_def)

lemma normalize_security_result:
  "ji_Security (normalize_security e ns i) = IngressSecurityNoneExplicit \<or>
   ji_Security (normalize_security e ns i) = IngressSecurityOAuthProxy \<and> GetPlatform e = OpenShiftPlatform \<and>
     os_SAR (ji_Openshift (normalize_security e ns i)) \<noteq> None"
  by (simp add: normalize_security_def Let_def)

lemma normalize_labels_fields:
  "mget (jc_Labels (js_Common (normalize_labels sp))) k = mget (drop_reserved (jc_Labels (js_Common sp))) k"
  "mget (jc_Labels (aio_Common (js_AllInOne (normalize_labels sp)))) k = mget (drop_reserved (jc_Labels (aio_Common (js_AllInOne sp)))) k"
  "mget (jc_Labels (q_Common (js_Query (normalize_labels sp)))) k = mget (drop_reserved (jc_Labels (q_Common (js_Query sp)))) k"
  "js_Storage (normalize_labels sp) = js_Storage sp" "js_Ingress (normalize_labels sp) = js_Ingress sp"
  by (simp_all add: normalize_labels_def)

lemma normalize_core_normal: "normal_spec e (j_Spec (normalize_core e j))"
proof -
  let ?sp = "normalize_labels (js_Storage_update (st_Type_update normalize_storage_type) (j_Spec (normalize_name j)))"
  have "js_Strategy (normalize_strategy ?sp) = DeploymentStrategyAllInOne \<or>
      distributedStorage (normalize_storage_type (st_Type (j_Storage (normalize_name j))))"
    using normalize_strategy_result [of ?sp] by (simp add: normalize_labels_fields)
  moreover have "js_Strategy (normalize_strategy ?sp) \<in> {DeploymentStrategyAllInOne, DeploymentStrategyProduction, DeploymentStrategyStreaming}"
    using normalize_strategy_result [of ?sp] by blast
  ultimately show ?thesis
    unfolding normal_spec_def normal_storage_def normalize_core_def Let_def
    using normalize_security_result
    by (simp add: normalize_parts normalize_storage_type_valid normalize_labels_fields)
qed

lemma normalizeUI_fields:
  assumes "normalizeUI e sp = Inr sp'"
  shows "sp' = sp\<lparr>js_UIOptions := js_UIOptions sp'\<rparr>"
  using assms by (auto simp: normalizeUI_def Let_def split: if_splits)

lemma normalize_result:
  assumes "normalize e j = Inr j'"
  shows "j' = j_Spec_update (\<lambda>sp. (js_Storage_update (st_Elasticsearch_update
      (ess_Name_update (\<lambda>n. if n = [] then ''elasticsearch'' else n))) sp)\<lparr>js_UIOptions := js_UIOptions (j_Spec j')\<rparr>) (normalize_core e j)"
proof -
  obtain sp where sp: "normalizeUI e (j_Spec (normalize_core e j)) = Inr sp"
      "j' = (let k = (normalize_core e j)\<lparr>j_Spec := sp\<rparr> in if ess_Name (st_Elasticsearch (j_Storage k)) = []
         then upd_Storage (st_Elasticsearch_update (\<lambda>es. es\<lparr>ess_Name := ''elasticsearch''\<rparr>)) k else k)"
    using assms by (auto simp: normalize_def Let_def)
  obtain ui where ui: "sp = (j_Spec (normalize_core e j))\<lparr>js_UIOptions := ui\<rparr>" using normalizeUI_fields [OF sp(1)] by metis
  show ?thesis
    by (cases "ess_Name (st_Elasticsearch (j_Storage (normalize_core e j))) = []") (simp_all add: sp(2) ui Let_def)
qed

lemma normalize_establishes_aux:
  assumes "normalize e j = Inr j'"
  shows "j_Name j' \<noteq> [] \<and> normal_spec e (j_Spec j') \<and> ess_Name (st_Elasticsearch (j_Storage j')) \<noteq> []"
proof -
  have "j_Name (normalize_core e j) \<noteq> []"
    by (simp add: normalize_core_def normalize_name_def Let_def)
  moreover have "normal_spec e (j_Spec (normalize_core e j))" by (rule normalize_core_normal)
  ultimately show ?thesis
    by (subst (1 2 3) normalize_result [OF assms]) (simp add: normal_spec_def normal_storage_def)
qed

text \<open>C23: whatever the user wrote, a normalised instance has a name, a known storage type, one of the
  three strategies (and a strategy with separate components only on a distributed storage), an
  explicit ingress security that asks for the OAuth proxy only on OpenShift and then with an
  access review, no reserved label in the blocks that are cleaned, and every default that the
  builders of the storage jobs rely on.\<close>

theorem normalize_establishes_defaults:
  assumes "normalize e j = Inr j'"
  shows "j_Name j' \<noteq> [] \<and> normal_spec e (j_Spec j') \<and> ess_Name (st_Elasticsearch (j_Storage j')) \<noteq> []"
  by (rule normalize_establishes_aux [OF assms])

definition sample_misconfigured :: Jaeger where
  "sample_misconfigured = j_Spec_update (\<lambda>sp. sp\<lparr>js_Strategy := ''production'', js_Storage := (js_Storage sp)\<lparr>st_Type := ''unknown''\<rparr>\<rparr>)
     (NewJaeger ''op'' ''ns'' [])"

lemma sample_misconfigured_normalizes:
  "\<exists>j'. normalize sample_env sample_misconfigured = Inr j' \<and> js_UIOptions (j_Spec j') = FreeForm0"
proof -
  have plat: "GetPlatform sample_env \<noteq> OpenShiftPlatform" by (simp add: GetPlatform_def sample_env_def ToLower_def)
  obtain sp where sp_eq: "j_Spec (normalize_core sample_env sample_misconfigured) = sp" by simp
  have sp: "js_UIOptions sp = FreeForm0" "st_Type (js_Storage sp) = ''memory''" "ji_Security (js_Ingress sp) = ''none''"
      "st_Options (js_Storage sp) = Options0"
    unfolding sp_eq [symmetric] normalize_core_def Let_def
    by (simp_all add: normalize_labels_fields normalizeSparkDependencies_def normalize_security_def plat
        normalize_labels_def normalize_name_def sample_misconfigured_def NewJaeger_def JaegerSpec0_def
        normalize_storage_type_def unknownStorage_def ValidStorageTypes_def del: FreeForm.simps Options.simps)
  have ui: "enableArchiveButton (StringMap Options0) (Some []) = Inr (Some [])"
    by (simp add: enableArchiveButton_def Options0_def StringMap_def EqualFold_def ToLower_def map_filter_def mstr_def)
  have "enableLogOut sp (Some []) = Inr (Some [])" by (simp add: enableLogOut_def sp)
  moreover have "enableDocumentationLink sample_env (Some []) = Inr (Some [])"
    by (simp add: enableDocumentationLink_def sample_env_def)
  moreover have "IsEmpty FreeForm0" by (simp add: IsEmpty_def FreeForm0_def)
  ultimately have "normalizeUI sample_env sp = Inr sp"
    using ui by (simp add: normalizeUI_def sp disableDependenciesTab_def Let_def)
  then show ?thesis by (simp add: normalize_def Let_def sp_eq sp)
qed

theorem normalize_establishes_defaults_witness:
  "\<exists>j'. normalize sample_env sample_misconfigured = Inr j' \<and> normal_spec sample_env (j_Spec j') \<and> j_Name j' \<noteq> []"
  using sample_misconfigured_normalizes normalize_establishes_defaults [of sample_env sample_misconfigured] by blast

section \<open>Normalising twice\<close>

lemma drop_reserved_idem [simp]: "drop_reserved (drop_reserved m) = drop_reserved m"
  by (cases m) (auto simp: drop_reserved_def AList.delete_eq intro: filter_cong)

lemma record_update_fix:
  "f (j_Spec j) = j_Spec j \<Longrightarrow> j_Spec_update f j = j"
  "g (js_Storage sp) = js_Storage sp \<Longrightarrow> js_Storage_update g sp = sp"
  "h (js_Ingress sp) = js_Ingress sp \<Longrightarrow> js_Ingress_update h sp = sp"
  "a (st_Type st) = st_Type st \<Longrightarrow> st_Type_update a st = st"
  "b (st_EsIndexCleaner st) = st_EsIndexCleaner st \<Longrightarrow> st_EsIndexCleaner_update b st = st"
  "c (st_Elasticsearch st) = st_Elasticsearch st \<Longrightarrow> st_Elasticsearch_update c st = st"
  "d (st_EsRollover st) = st_EsRollover st \<Longrightarrow> st_EsRollover_update d st = st"
  "x (st_Dependencies st) = st_Dependencies st \<Longrightarrow> st_Dependencies_update x st = st"
  by (cases j, simp, cases sp, simp, cases sp, simp, (cases st, simp)+)

lemma normalizeSparkDependencies_fix:
  assumes "st_Dependencies st' = st_Dependencies (normalizeSparkDependencies st)"
    and "st_Type st' = st_Type st" "st_Options st' = st_Options st"
  shows "normalizeSparkDependencies st' = st'"
proof -
  have "spark_auto_enabled st' = spark_auto_enabled st"
    using assms by (simp add: spark_auto_enabled_def ShouldInjectOpenShiftElasticsearchConfiguration_def)
  moreover have idem: "spark_defaults b (spark_defaults b d) = spark_defaults b d" for b d
    by (cases b; cases "jd_Enabled d"; cases "jd_Schedule d = []") (simp_all add: spark_defaults_def Let_def)
  ultimately have "spark_defaults (spark_auto_enabled st') (st_Dependencies st') = st_Dependencies st'"
    using assms(1) by (simp add: normalizeSparkDependencies_def)
  then show ?thesis
    unfolding normalizeSparkDependencies_def by (rule record_update_fix(8))
qed

lemma normalizeIndexCleaner_idem [simp]:
  "normalizeIndexCleaner t (normalizeIndexCleaner t ic) = normalizeIndexCleaner t ic"
  by (cases "t = JaegerESStorage"; cases "ic_Enabled ic"; cases "ic_Schedule ic = []"; cases "ic_NumberOfDays ic")
    (simp_all add: normalizeIndexCleaner_def Let_def)

lemma normalizeElasticsearch_idem [simp]:
  "normalizeElasticsearch (normalizeElasticsearch es) = normalizeElasticsearch es"
  by (cases "ess_NodeCount es = 0"; cases "ess_RedundancyPolicy es = []"; cases "ess_Resources es")
    (simp_all add: normalizeElasticsearch_def Let_def)

lemma normalizeRollover_idem [simp]: "normalizeRollover (normalizeRollover ro) = normalizeRollover ro"
  by (simp add: normalizeRollover_def)

lemma normalize_storage_type_idem [simp]: "normalize_storage_type (normalize_storage_type t) = normalize_storage_type t"
  using normalize_storage_type_valid [of t]
  by (subst normalize_storage_type_def) (auto simp: unknownStorage_def ValidStorageTypes_def Let_def)

lemma normalize_security_idem [simp]: "normalize_security e ns (normalize_security e ns i) = normalize_security e ns i"
  by (cases "GetPlatform e = OpenShiftPlatform"; cases "ji_Security i = IngressSecurityNoneExplicit"; cases "os_SAR (ji_Openshift i)")
    (simp_all add: normalize_security_def Let_def)

lemma normalizeElasticsearch_name [simp]:
  "normalizeElasticsearch (ess_Name_update f es) = ess_Name_update f (normalizeElasticsearch es)"
  by (cases "ess_NodeCount es = 0"; cases "ess_RedundancyPolicy es = []"; cases "ess_Resources es")
    (simp_all add: normalizeElasticsearch_def Let_def)

lemma normalize_strategy_fix:
  "js_Strategy sp \<in> {DeploymentStrategyAllInOne, DeploymentStrategyProduction, DeploymentStrategyStreaming} \<Longrightarrow>
   js_Strategy sp = DeploymentStrategyAllInOne \<or> distributedStorage (st_Type (js_Storage sp)) \<Longrightarrow>
   normalize_strategy sp = sp"
  by (auto simp: normalize_strategy_def Let_def)

lemma normalize_core_fix:
  assumes "j_Name j \<noteq> []" "normalize_labels (j_Spec j) = j_Spec j" "normalize_strategy (j_Spec j) = j_Spec j"
    and "normalize_security e (j_Namespace j) (js_Ingress (j_Spec j)) = js_Ingress (j_Spec j)"
    and "normalize_storage_type (st_Type (j_Storage j)) = st_Type (j_Storage j)"
    and "normalizeSparkDependencies (j_Storage j) = j_Storage j"
    and "normalizeIndexCleaner (st_Type (j_Storage j)) (st_EsIndexCleaner (j_Storage j)) = st_EsIndexCleaner (j_Storage j)"
    and "normalizeElasticsearch (st_Elasticsearch (j_Storage j)) = st_Elasticsearch (j_Storage j)"
    and "normalizeRollover (st_EsRollover (j_Storage j)) = st_EsRollover (j_Storage j)"
  shows "normalize_core e j = j"
  using assms by (simp add: normalize_core_def Let_def normalize_name_def record_update_fix)

lemma normalize_labels_fix: "normalize_labels (normalize_labels sp) = normalize_labels sp"
  by (simp add: normalize_labels_def comp_def)

lemma normalize_core_fields:
  fixes e j
  defines "k \<equiv> normalize_core e j"
  shows "j_Meta k = j_Meta (normalize_name j)"
    "normalize_labels (j_Spec k) = j_Spec k"
    "\<exists>i. js_Ingress (j_Spec k) = normalize_security e (j_Namespace j) i"
    "\<exists>t. st_Type (j_Storage k) = normalize_storage_type t"
    "\<exists>ic. st_EsIndexCleaner (j_Storage k) = normalizeIndexCleaner (st_Type (j_Storage k)) ic"
    "\<exists>es. st_Elasticsearch (j_Storage k) = normalizeElasticsearch es"
    "\<exists>ro. st_EsRollover (j_Storage k) = normalizeRollover ro"
    "\<exists>st. st_Dependencies (j_Storage k) = st_Dependencies (normalizeSparkDependencies st) \<and>
       st_Type (j_Storage k) = st_Type st \<and> st_Options (j_Storage k) = st_Options st"
proof -
  have ns: "j_Namespace (normalize_name j) = j_Namespace j" by (simp add: normalize_name_def)
  have lab: "normalize_labels (js_Storage_update a (js_Ingress_update b (normalize_strategy (normalize_labels sp))))
      = js_Storage_update a (js_Ingress_update b (normalize_strategy (normalize_labels sp)))" for a b sp
    by (cases "js_Strategy sp \<noteq> DeploymentStrategyProduction \<and> js_Strategy sp \<noteq> DeploymentStrategyStreaming";
        cases "distributedStorage (st_Type (js_Storage sp))"; cases "js_Strategy sp = DeploymentStrategyAllInOne")
      (simp_all add: normalize_labels_def normalize_strategy_def Let_def comp_def)
  show "j_Meta k = j_Meta (normalize_name j)"
    "\<exists>i. js_Ingress (j_Spec k) = normalize_security e (j_Namespace j) i"
    "\<exists>t. st_Type (j_Storage k) = normalize_storage_type t"
    "\<exists>ic. st_EsIndexCleaner (j_Storage k) = normalizeIndexCleaner (st_Type (j_Storage k)) ic"
    "\<exists>es. st_Elasticsearch (j_Storage k) = normalizeElasticsearch es"
    "\<exists>ro. st_EsRollover (j_Storage k) = normalizeRollover ro"
    by (auto simp: k_def normalize_core_def Let_def ns normalize_labels_fields)
  show "\<exists>st. st_Dependencies (j_Storage k) = st_Dependencies (normalizeSparkDependencies st) \<and>
       st_Type (j_Storage k) = st_Type st \<and> st_Options (j_Storage k) = st_Options st"
    by (rule exI [of _ "js_Storage (normalize_labels (js_Storage_update (st_Type_update normalize_storage_type) (j_Spec (normalize_name j))))"])
      (simp add: k_def normalize_core_def Let_def)
  show "normalize_labels (j_Spec k) = j_Spec k"
    unfolding k_def normalize_core_def Let_def using lab by (simp add: comp_def)
qed

definition core_fixed :: "Env \<Rightarrow> Jaeger \<Rightarrow> bool" where
  "core_fixed e j \<longleftrightarrow> j_Name j \<noteq> [] \<and> normalize_labels (j_Spec j) = j_Spec j \<and> normalize_strategy (j_Spec j) = j_Spec j \<and>
     normalize_security e (j_Namespace j) (js_Ingress (j_Spec j)) = js_Ingress (j_Spec j) \<and>
     normalize_storage_type (st_Type (j_Storage j)) = st_Type (j_Storage j) \<and>
     normalizeSparkDependencies (j_Storage j) = j_Storage j \<and>
     normalizeIndexCleaner (st_Type (j_Storage j)) (st_EsIndexCleaner (j_Storage j)) = st_EsIndexCleaner (j_Storage j) \<and>
     normalizeElasticsearch (st_Elasticsearch (j_Storage j)) = st_Elasticsearch (j_Storage j) \<and>
     normalizeRollover (st_EsRollover (j_Storage j)) = st_EsRollover (j_Storage j) \<and> ess_Name (st_Elasticsearch (j_Storage j)) \<noteq> []"

lemma core_fixed_normalize_core: "core_fixed e j \<Longrightarrow> normalize_core e j = j"
  unfolding core_fixed_def by (intro normalize_core_fix) auto

lemma normalize_fixed:
  assumes "normalize e j = Inr j'"
  shows "core_fixed e j'"
proof -
  let ?k = "normalize_core e j"
  note F = normalize_core_fields [of e j] and N = normalize_establishes_aux [OF assms]
  have j': "j' = j_Spec_update (\<lambda>sp. (js_Storage_update (st_Elasticsearch_update
      (ess_Name_update (\<lambda>n. if n = [] then ''elasticsearch'' else n))) sp)\<lparr>js_UIOptions := js_UIOptions (j_Spec j')\<rparr>) ?k"
    by (rule normalize_result [OF assms])
  obtain i t ic es ro st where P: "js_Ingress (j_Spec ?k) = normalize_security e (j_Namespace j) i"
      "st_Type (j_Storage ?k) = normalize_storage_type t"
      "st_EsIndexCleaner (j_Storage ?k) = normalizeIndexCleaner (st_Type (j_Storage ?k)) ic"
      "st_Elasticsearch (j_Storage ?k) = normalizeElasticsearch es" "st_EsRollover (j_Storage ?k) = normalizeRollover ro"
      "st_Dependencies (j_Storage ?k) = st_Dependencies (normalizeSparkDependencies st)"
      "st_Type (j_Storage ?k) = st_Type st" "st_Options (j_Storage ?k) = st_Options st"
    using F(3-8) by blast
  have eqs: "js_Ingress (j_Spec j') = js_Ingress (j_Spec ?k)" "st_Type (j_Storage j') = st_Type (j_Storage ?k)"
    "st_EsIndexCleaner (j_Storage j') = st_EsIndexCleaner (j_Storage ?k)"
    "st_EsRollover (j_Storage j') = st_EsRollover (j_Storage ?k)"
    "st_Dependencies (j_Storage j') = st_Dependencies (j_Storage ?k)"
    "st_Options (j_Storage j') = st_Options (j_Storage ?k)"
    "st_Elasticsearch (j_Storage j') = ess_Name_update (\<lambda>n. if n = [] then ''elasticsearch'' else n) (st_Elasticsearch (j_Storage ?k))"
    "j_Namespace j' = j_Namespace ?k"
    by (subst j', simp)+
  have ns: "j_Namespace ?k = j_Namespace j" by (simp add: F(1) normalize_name_def)
  have lab: "normalize_labels (j_Spec j') = j_Spec j'"
  proof -
    have "normalize_labels ((js_Storage_update f sp)\<lparr>js_UIOptions := u\<rparr>)
        = (js_Storage_update f (normalize_labels sp))\<lparr>js_UIOptions := u\<rparr>" for f u sp
      by (simp add: normalize_labels_def)
    then show ?thesis by (subst (1 2) j') (simp add: F(2))
  qed
  have "normalize_security e (j_Namespace j') (js_Ingress (j_Spec j')) = js_Ingress (j_Spec j')"
    by (simp add: eqs ns P(1))
  moreover have "normalize_storage_type (st_Type (j_Storage j')) = st_Type (j_Storage j')"
    by (simp add: eqs(2) P(2))
  moreover have "normalizeSparkDependencies (j_Storage j') = j_Storage j'"
    by (rule normalizeSparkDependencies_fix [of _ st]) (simp_all only: eqs P(6-8))
  moreover have "normalizeIndexCleaner (st_Type (j_Storage j')) (st_EsIndexCleaner (j_Storage j')) = st_EsIndexCleaner (j_Storage j')"
    unfolding eqs(2,3) by (subst (1 2) P(3)) (rule normalizeIndexCleaner_idem)
  moreover have "normalizeElasticsearch (st_Elasticsearch (j_Storage j')) = st_Elasticsearch (j_Storage j')"
    by (simp add: eqs(7) P(4))
  moreover have "normalizeRollover (st_EsRollover (j_Storage j')) = st_EsRollover (j_Storage j')"
    by (simp add: eqs(4) P(5))
  moreover have "normalize_strategy (j_Spec j') = j_Spec j'"
    using N by (intro normalize_strategy_fix) (auto simp: normal_spec_def)
  ultimately show ?thesis using lab N by (simp add: core_fixed_def)
qed

text \<open>Normalising is stable: the settings of a normalised instance are not changed by normalising
  it again (the options of the UI, which are printed anew, aside), so that storing the normalised
  resource does not set off an endless series of updates.\<close>

theorem normalize_idempotent:
  assumes "normalize e j = Inr j'"
  shows "normalize_core e j' = j'"
  by (rule core_fixed_normalize_core [OF normalize_fixed [OF assms]])

theorem normalize_idempotent_witness:
  "\<exists>j'. normalize sample_env sample_misconfigured = Inr j' \<and> normalize_core sample_env j' = j'"
  using sample_misconfigured_normalizes normalize_idempotent [of sample_env sample_misconfigured] by blast

end
