(* ===== verification/Go_Time.thy ===== *)
theory Go_Time
  imports Go_Strconv "HOL-Library.Log_Nat"
begin

text \<open>
  Package \<open>time\<close>: durations as numbers of nanoseconds of 64 bits, \<open>ParseDuration\<close>, and the floating
  point readings \<open>Hours\<close>, \<open>Minutes\<close> and \<open>Seconds\<close>.  A \<open>float64\<close> is the rational number it stands
  for, and an operation rounds its exact result to 53 bits with ties to even; the numbers of this
  package are between \<open>10^-19\<close> and \<open>2^64\<close>, far from overflow and from subnormal numbers.
\<close>

section \<open>Rounding to a double\<close>

definition round_half_even :: "rat \<Rightarrow> int" where
  "round_half_even x =
     (let r = \<lfloor>x\<rfloor>; f = x - of_int r
      in if f < 1 / 2 \<or> (f = 1 / 2 \<and> even r) then r else r + 1)"

definition pow2 :: "int \<Rightarrow> rat" where
  "pow2 i = (if 0 \<le> i then 2 ^ nat i else 1 / 2 ^ nat (- i))"

text \<open>The exponent of the leading bit of \<open>p / q\<close>.\<close>

definition float_exp :: "int \<Rightarrow> int \<Rightarrow> int" where
  "float_exp p q =
     (let k = bitlen p - bitlen q
      in if q * 2 ^ nat k \<le> p * 2 ^ nat (- k) then k else k - 1)"

definition fl :: "rat \<Rightarrow> rat" where
  "fl x =
     (if x = 0 then 0
      else (let (p, q) = quotient_of \<bar>x\<bar>; e = float_exp p q - 52
            in sgn x * of_int (round_half_even (\<bar>x\<bar> / pow2 e)) * pow2 e))"

definition is_int :: "rat \<Rightarrow> bool" where
  "is_int x \<longleftrightarrow> of_int \<lfloor>x\<rfloor> = x"

section \<open>Durations\<close>

type_synonym Duration = int

definition Second :: Duration where "Second = 1000000000"
definition Minute :: Duration where "Minute = 60 * Second"
definition Hour :: Duration where "Hour = 60 * Minute"

text \<open>Go divides towards zero; the readings divide the parts as doubles and add them.\<close>

definition quot_trunc :: "int \<Rightarrow> int \<Rightarrow> int" where
  "quot_trunc a b = sgn a * (\<bar>a\<bar> div b)"

definition rem_trunc :: "int \<Rightarrow> int \<Rightarrow> int" where
  "rem_trunc a b = sgn a * (\<bar>a\<bar> mod b)"

definition duration_as :: "Duration \<Rightarrow> Duration \<Rightarrow> rat" where
  "duration_as unit d = fl (fl (of_int (quot_trunc d unit)) + fl (fl (of_int (rem_trunc d unit)) / of_int unit))"

abbreviation "Hours \<equiv> duration_as Hour"
abbreviation "Minutes \<equiv> duration_as Minute"
abbreviation "Seconds \<equiv> duration_as Second"

text \<open>\<open>Round\<close> to a multiple of \<open>m\<close>, halves away from zero, saturating at the limits of 64 bits.\<close>

definition Duration_Round :: "Duration \<Rightarrow> Duration \<Rightarrow> Duration" where
  "Duration_Round m d =
     (if m \<le> 0 then d
      else (let r = \<bar>d\<bar> mod m; a = (if r + r < m then \<bar>d\<bar> - r else \<bar>d\<bar> + m - r)
            in if d < 0 then max (- (2 ^ 63)) (- a) else min (2 ^ 63 - 1) a))"

text \<open>Conversions of a double: \<open>%.0f\<close>, and \<open>int64(x)\<close>, which truncates.\<close>

definition sprint_0f :: "rat \<Rightarrow> string" where
  "sprint_0f x = (if x < 0 then CHR ''-'' # Itoa (round_half_even (- x)) else Itoa (round_half_even x))"

definition int64_of_float :: "rat \<Rightarrow> int" where
  "int64_of_float x = (if x < 0 then - \<lfloor>- x\<rfloor> else \<lfloor>x\<rfloor>)"

section \<open>ParseDuration\<close>

abbreviation (input) "digit_val c \<equiv> (of_char c :: int) - 48"

fun leadingInt :: "int \<Rightarrow> string \<Rightarrow> (int \<times> string) option" where
  "leadingInt x [] = Some (x, [])"
| "leadingInt x (c # s) =
     (if \<not> digit_char c then Some (x, c # s)
      else if x > 2 ^ 63 div 10 then None
      else if x * 10 + digit_val c > 2 ^ 63 then None
      else leadingInt (x * 10 + digit_val c) s)"

text \<open>Digits after the point that do not fit any more are skipped.\<close>

fun leadingFraction :: "int \<Rightarrow> int \<Rightarrow> bool \<Rightarrow> string \<Rightarrow> int \<times> int \<times> string" where
  "leadingFraction x scale overflow [] = (x, scale, [])"
| "leadingFraction x scale overflow (c # s) =
     (if \<not> digit_char c then (x, scale, c # s)
      else if overflow \<or> x > (2 ^ 63 - 1) div 10 \<or> x * 10 + digit_val c > 2 ^ 63 then leadingFraction x scale True s
      else leadingFraction (x * 10 + digit_val c) (scale * 10) False s)"

definition unit_of :: "string \<Rightarrow> int option" where
  "unit_of u = map_of [(''ns'', 1), (''us'', 1000), ([CHR 0xC2, CHR 0xB5, CHR ''s''], 1000), ([CHR 0xCE, CHR 0xBC, CHR ''s''], 1000),
     (''ms'', 1000000), (''s'', 1000000000), (''m'', 60000000000), (''h'', 3600000000000)] u"

abbreviation (input) "number_char c \<equiv> c = CHR ''.'' \<or> digit_char c"

lemma length_leadingInt: "leadingInt x s = Some (v, r) \<Longrightarrow> length r \<le> length s"
  by (induction x s rule: leadingInt.induct) (auto split: if_splits)

lemma length_leadingFraction: "leadingFraction x sc b s = (f, sc', r) \<Longrightarrow> length r \<le> length s"
  by (induction x sc b s rule: leadingFraction.induct) (auto split: if_splits)

text \<open>One component of a duration: its value and the rest of the text.\<close>

definition duration_part :: "string \<Rightarrow> (int \<times> string) option" where
  "duration_part s =
     (if s = [] \<or> \<not> number_char (hd s) then None
      else case leadingInt 0 s of
          None \<Rightarrow> None
        | Some (v, s1) \<Rightarrow>
            (let pre = length s1 \<noteq> length s;
                 (f, scale, s2) = (if s1 \<noteq> [] \<and> hd s1 = CHR ''.'' then leadingFraction 0 1 False (tl s1) else (0, 1, s1));
                 post = (s1 \<noteq> [] \<and> hd s1 = CHR ''.'' \<and> length s2 \<noteq> length (tl s1));
                 u = takeWhile (\<lambda>c. \<not> number_char c) s2; s3 = dropWhile (\<lambda>c. \<not> number_char c) s2
             in if \<not> pre \<and> \<not> post then None
                else if u = [] then None
                else case unit_of u of
                    None \<Rightarrow> None
                  | Some unit \<Rightarrow>
                      if v > 2 ^ 63 div unit then None
                      else (let w = v * unit + (if f > 0 then \<lfloor>fl (fl (of_int f) * fl (of_int unit / of_int scale))\<rfloor> else 0)
                            in if w > 2 ^ 63 then None else Some (w, s3))))"

lemma length_duration_part: "duration_part s = Some (w, r) \<Longrightarrow> length r < length s"
proof -
  assume a: "duration_part s = Some (w, r)"
  then obtain v s1 where s1: "leadingInt 0 s = Some (v, s1)" by (auto simp: duration_part_def split: if_splits option.splits)
  define s2 where "s2 = snd (snd (if s1 \<noteq> [] \<and> hd s1 = CHR ''.'' then leadingFraction 0 1 False (tl s1) else (0, 1, s1)))"
  have "length s2 \<le> length s1"
    using length_leadingFraction [of 0 1 False "tl s1"] unfolding s2_def by (cases "leadingFraction 0 1 False (tl s1)") (auto intro: le_trans)
  moreover have "r = dropWhile (\<lambda>c. \<not> number_char c) s2 \<and> takeWhile (\<lambda>c. \<not> number_char c) s2 \<noteq> []"
    using a s1 unfolding s2_def by (auto simp: duration_part_def Let_def split: if_splits option.splits prod.splits)
  moreover from this have "length r < length s2"
    by (cases s2) (auto simp: length_dropWhile_le le_imp_less_Suc split: if_splits)
  ultimately show ?thesis using length_leadingInt [OF s1] by linarith
qed

function duration_sum :: "int \<Rightarrow> string \<Rightarrow> int option" where
  "duration_sum d s =
     (if s = [] then Some d
      else case duration_part s of
          None \<Rightarrow> None
        | Some (w, r) \<Rightarrow> if d + w > 2 ^ 63 then None else duration_sum (d + w) r)"
  by pat_completeness auto
termination
  by (relation "measure (\<lambda>(d, s). length s)") (auto simp: length_duration_part)

declare duration_sum.simps [simp del]

definition ParseDuration :: "string \<Rightarrow> Duration option" where
  "ParseDuration orig =
     (let neg = (orig \<noteq> [] \<and> hd orig = CHR ''-'');
          s = (if orig \<noteq> [] \<and> (hd orig = CHR ''-'' \<or> hd orig = CHR ''+'') then tl orig else orig)
      in if s = ''0'' then Some 0
         else if s = [] then None
         else case duration_sum 0 s of
             None \<Rightarrow> None
           | Some d \<Rightarrow> if neg then Some (- d) else if d > 2 ^ 63 - 1 then None else Some d)"

section \<open>The accuracy of the readings\<close>

lemma pow2_pos: "0 < pow2 i"
  by (simp add: pow2_def)

lemma pow2_powi: "pow2 i = 2 powi i"
  by (simp add: pow2_def power_int_def field_simps)

lemma pow2_mono: "i \<le> j \<Longrightarrow> pow2 i \<le> pow2 j"
  by (simp add: pow2_powi power_int_increasing)

lemma pow2_add: "pow2 (i + j) = pow2 i * pow2 j"
  by (simp add: pow2_powi power_int_add)

lemma pow2_less_iff: "pow2 i < pow2 j \<longleftrightarrow> i < j"
  by (metis pow2_mono pow2_powi power_int_strict_increasing leD not_le_imp_less one_less_numeral_iff semiring_norm(76))

lemma round_half_even_int [simp]: "round_half_even (of_int n) = n"
  by (simp add: round_half_even_def)

lemma round_half_even_error: "\<bar>of_int (round_half_even x) - x\<bar> \<le> 1 / 2"
proof -
  define r where "r = \<lfloor>x\<rfloor>"
  have r: "of_int r \<le> x" "x < of_int r + 1" unfolding r_def by linarith+
  show ?thesis
  proof (cases "x - of_int r < 1 / 2 \<or> (x - of_int r = 1 / 2 \<and> even r)")
    case True
    then have "round_half_even x = r" by (simp add: round_half_even_def r_def Let_def)
    then show ?thesis using True r by (auto simp: abs_if)
  next
    case False
    then have "round_half_even x = r + 1" by (auto simp: round_half_even_def r_def Let_def)
    then show ?thesis using False r by (auto simp: abs_if)
  qed
qed

text \<open>Multiplying with a power of two.\<close>

lemma pow2_scale: "q * 2 ^ nat k \<le> p * 2 ^ nat (- k) \<longleftrightarrow> of_int q * pow2 k \<le> of_int p" for p q :: int
proof -
  have "(of_int (q * 2 ^ nat k) :: rat) \<le> of_int (p * 2 ^ nat (- k)) \<longleftrightarrow> of_int q * pow2 k \<le> of_int p"
    by (cases "0 \<le> k") (simp_all add: pow2_def field_simps)
  then show ?thesis by (simp only: of_int_le_iff)
qed

lemma bitlen_pow2: 
  assumes "0 < n"
  shows "pow2 (bitlen n - 1) \<le> of_int n" "of_int n < pow2 (bitlen n)"
proof -
  have b: "2 ^ nat (bitlen n - 1) \<le> n" "n < 2 ^ nat (bitlen n)" using bitlen_bounds [OF assms] by auto
  have pos: "0 < bitlen n" using assms bitlen_nonneg [of n] bitlen_eq_zero_iff [of n] by linarith
  have "(of_int (2 ^ nat (bitlen n - 1)) :: rat) \<le> of_int n" using b(1) by (simp only: of_int_le_iff)
  then show "pow2 (bitlen n - 1) \<le> of_int n" using pos by (simp add: pow2_def)
  have "(of_int n :: rat) < of_int (2 ^ nat (bitlen n))" using b(2) by (simp only: of_int_less_iff)
  then show "of_int n < pow2 (bitlen n)" using pos by (simp add: pow2_def)
qed

lemma float_exp_le:
  assumes "0 < p" "0 < q"
  shows "pow2 (float_exp p q) \<le> of_int p / of_int q"
proof -
  define k where "k = bitlen p - bitlen q"
  have "of_int q * pow2 (k - 1) \<le> of_int p"
  proof -
    have "of_int q * pow2 (k - 1) \<le> pow2 (bitlen q) * pow2 (k - 1)"
      using bitlen_pow2(2) [OF assms(2)] pow2_pos [of "k - 1"] by (intro mult_right_mono) auto
    also have "\<dots> = pow2 (bitlen p - 1)" unfolding k_def pow2_add [symmetric] by simp
    also have "\<dots> \<le> of_int p" by (rule bitlen_pow2(1) [OF assms(1)])
    finally show ?thesis .
  qed
  then have "of_int q * pow2 (float_exp p q) \<le> of_int p"
    unfolding float_exp_def Let_def k_def [symmetric] pow2_scale by simp
  then show ?thesis using assms(2) by (simp add: field_simps)
qed

lemma fl_of_int:
  assumes "0 \<le> n" "n < 2 ^ 53"
  shows "fl (of_int n) = of_int n"
proof (cases "n = 0")
  case False
  define e where "e = float_exp n 1 - 52"
  have n: "0 < n" using assms False by simp
  have "pow2 (float_exp n 1) < pow2 53"
    using float_exp_le [of n 1] n assms(2) by (simp add: pow2_def)
  then have e: "e \<le> 0" unfolding pow2_less_iff e_def by simp
  have "(of_int n :: rat) / pow2 e = of_int (n * 2 ^ nat (- e))" using e by (cases "e = 0") (simp_all add: pow2_def)
  then have "round_half_even (of_int n / pow2 e) = n * 2 ^ nat (- e)" by (simp only: round_half_even_int)
  moreover have "quotient_of \<bar>of_int n\<bar> = (n, 1)" using n by (simp add: quotient_of_int [symmetric])
  ultimately have "fl (of_int n) = of_int (n * 2 ^ nat (- e)) * pow2 e"
    using n by (simp add: fl_def e_def [symmetric])
  also have "\<dots> = of_int n" using e by (cases "e = 0") (simp_all add: pow2_def)
  finally show ?thesis .
qed (simp add: fl_def)

text \<open>Below \<open>2^28\<close>, the range of the hours and the minutes of a duration, a double is accurate to
  \<open>2^-26\<close>.\<close>

lemma fl_error:
  assumes "0 \<le> x" "x < 2 ^ 28"
  shows "\<bar>fl x - x\<bar> \<le> 1 / 2 ^ 26"
proof (cases "x = 0")
  case False
  obtain p q where pq: "quotient_of x = (p, q)" by (cases "quotient_of x")
  have q: "0 < q" and xpq: "x = of_int p / of_int q" using quotient_of_denom_pos [OF pq] quotient_of_div [OF pq] by auto
  have p: "0 < p" using assms(1) False q xpq by (simp add: zero_le_divide_iff order_less_le)
  define e where "e = float_exp p q - 52"
  have "pow2 (float_exp p q) < pow2 28" using float_exp_le [OF p q] assms(2) xpq by (simp add: pow2_def)
  then have "e \<le> -25" unfolding pow2_less_iff e_def by simp
  then have e: "pow2 e \<le> pow2 (-25)" by (rule pow2_mono)
  have "fl x = of_int (round_half_even (x / pow2 e)) * pow2 e"
    using assms(1) False pq by (simp add: fl_def e_def Let_def)
  then have "\<bar>fl x - x\<bar> = \<bar>of_int (round_half_even (x / pow2 e)) - x / pow2 e\<bar> * pow2 e"
    using pow2_pos [of e] by (simp add: abs_mult_pos' [symmetric] left_diff_distrib abs_mult) (simp add: field_simps)
  also have "\<dots> \<le> 1 / 2 * pow2 e" using round_half_even_error pow2_pos [of e] by (intro mult_right_mono) auto
  also have "\<dots> \<le> 1 / 2 ^ 26" using e by (simp add: pow2_def)
  finally show ?thesis .
qed (simp add: fl_def)

lemma duration_as_whole:
  assumes "0 \<le> d" "0 < unit" "unit dvd d" "d div unit < 2 ^ 53"
  shows "duration_as unit d = of_int (d div unit)"
proof -
  have q: "quot_trunc d unit = d div unit" using assms(1) by (cases "d = 0") (simp_all add: quot_trunc_def)
  have r: "rem_trunc d unit = 0" using assms(1,3) by (simp add: rem_trunc_def)
  have "fl (of_int (d div unit)) = of_int (d div unit)"
    using assms by (intro fl_of_int) (simp_all add: pos_imp_zdiv_nonneg_iff)
  moreover have "fl 0 = 0" by (simp add: fl_def)
  ultimately show ?thesis by (simp add: duration_as_def q r)
qed

lemma duration_as_fraction:
  assumes "0 \<le> d" "Second dvd d" "unit = u * Second" "1 < u" "u \<le> 3600" "d div unit < 2 ^ 28 - 1" "\<not> unit dvd d"
  shows "\<not> is_int (duration_as unit d)"
proof -
  define h m where "h = d div unit" and "m = (d mod unit) div Second"
  have S: "0 < Second" by (simp add: Second_def)
  have unit: "0 < unit" using assms(3,4) S by simp
  have n: "d mod unit = m * Second"
    unfolding m_def using assms(2,3) by (metis dvd_div_mult_self dvd_mod dvd_triv_right)
  have "d mod unit < unit" "0 \<le> d mod unit" "d mod unit \<noteq> 0" using unit assms(7) by (auto simp: dvd_eq_mod_eq_0)
  then have m: "0 < m" "m < u" using n assms(3) S by (auto simp: mult_less_cancel_right_pos zero_less_mult_iff mult_le_0_iff zero_le_mult_iff order_less_le)
  have h: "0 \<le> h" "h < 2 ^ 28 - 1" unfolding h_def using assms(1,6) unit by (simp_all add: pos_imp_zdiv_nonneg_iff)
  define x where "x = (of_int m / of_int u :: rat)"
  have x: "1 / 3600 \<le> x" "x \<le> 1 - 1 / 3600"
  proof -
    have "of_int u \<le> (3600 :: rat)" "1 \<le> (of_int m :: rat)" "of_int m + 1 \<le> (of_int u :: rat)" "0 < (of_int u :: rat)"
      using assms(4,5) m by (simp_all flip: of_int_add of_int_le_iff)
    then show "1 / 3600 \<le> x" "x \<le> 1 - 1 / 3600" by (simp_all add: x_def field_simps)
  qed
  have rn: "rem_trunc d unit = m * Second" "quot_trunc d unit = h"
    using assms(1) n by (cases "d = 0"; simp add: rem_trunc_def quot_trunc_def h_def)+
  have "fl (of_int (m * Second)) = of_int (m * Second)"
    using m assms(5) by (intro fl_of_int) (simp_all add: Second_def)
  moreover have "of_int (m * Second) / of_int unit = x" using S by (simp add: x_def assms(3))
  ultimately have a: "duration_as unit d = fl (of_int h + fl x)"
    unfolding duration_as_def rn using fl_of_int [of h] h by simp
  have small: "y - 1 / 10000 \<le> fl y" "fl y \<le> y + 1 / 10000" if "0 \<le> y" "y < 2 ^ 28" for y
  proof -
    have "\<bar>fl y - y\<bar> \<le> 1 / 10000" by (rule order_trans [OF fl_error [OF that]]) simp
    then show "y - 1 / 10000 \<le> fl y" "fl y \<le> y + 1 / 10000" by linarith+
  qed
  have e1: "x - 1 / 10000 \<le> fl x" "fl x \<le> x + 1 / 10000" using x by (intro small; simp)+
  have hr: "0 \<le> (of_int h :: rat)" "of_int h + 2 \<le> (2 ^ 28 :: rat)"
  proof -
    show "0 \<le> (of_int h :: rat)" using h(1) by simp
    have "h + 2 \<le> 2 ^ 28" using h(2) by simp
    then have "(of_int (h + 2) :: rat) \<le> of_int (2 ^ 28)" by (simp only: of_int_le_iff)
    then show "of_int h + 2 \<le> (2 ^ 28 :: rat)" by simp
  qed
  have f: "0 \<le> fl x" "fl x \<le> 1" using x e1 by linarith+
  have g: "0 \<le> of_int h + fl x" "of_int h + fl x < 2 ^ 28" using hr f by linarith+
  have "of_int h < fl (of_int h + fl x)" "fl (of_int h + fl x) < of_int h + 1"
    using x e1 small [OF g] by linarith+
  then have "\<lfloor>fl (of_int h + fl x)\<rfloor> = h" by (intro floor_unique) auto
  with \<open>of_int h < fl (of_int h + fl x)\<close> show ?thesis unfolding a is_int_def by simp
qed

end
