(* ===== verification/Cron_Jobs.thy ===== *)
theory Cron_Jobs
  imports Deployments Normalize Go_Time
begin

text \<open>
  Package \<open>pkg/cronjob\<close>: the jobs that clean and roll over the indices of Elasticsearch and the job
  that computes the dependencies between services.
\<close>

section \<open>Shared pieces\<close>

definition job_annotations :: "string amap" where
  "job_annotations = [(''prometheus.io/scrape'', ''false''), (''sidecar.istio.io/inject'', ''false''), (''linkerd.io/inject'', ''disabled'')]"

text \<open>The object of the configured API version.\<close>

definition cron_job :: "Env \<Rightarrow> ObjectMeta \<Rightarrow> string \<Rightarrow> string \<Rightarrow> int32 option \<Rightarrow> JobSpec \<Rightarrow> CronJob" where
  "cron_job e meta schedule policy limit job =
     \<lparr>cj_Version = cronjob_version_of e,
      cj_TypeMeta = \<lparr>tm_APIVersion = viper_GetString e FlagCronJobsVersion, tm_Kind = ''CronJob''\<rparr>,
      cj_Meta = meta,
      cj_Spec = \<lparr>cj_Schedule = schedule, cj_ConcurrencyPolicy = policy, cj_SuccessfulJobsHistoryLimit = limit, cj_Job = job\<rparr>,
      cj_rest = []\<rparr>"

definition flag_envs :: "string amap \<Rightarrow> (string \<times> string) list \<Rightarrow> EnvVar list" where
  "flag_envs options vars = List.map_filter (\<lambda>(flag, envVar). map_option (env_var envVar) (map_of options flag)) vars"

definition EsScriptEnvVars :: "Env \<Rightarrow> Options \<Rightarrow> EnvVar list" where
  "EsScriptEnvVars e options' =
     (let options = StringMap options'
      in flag_envs options
           [(''es.index-prefix'', ''INDEX_PREFIX''), (''es.index-date-separator'', ''INDEX_DATE_SEPARATOR''),
            (''es.username'', ''ES_USERNAME''), (''es.password'', ''ES_PASSWORD''), (''es.tls.enabled'', ''ES_TLS_ENABLED''),
            (''es.tls.ca'', ''ES_TLS_CA''), (''es.tls.cert'', ''ES_TLS_CERT''), (''es.tls.key'', ''ES_TLS_KEY''),
            (''es.tls.skip-host-verify'', ''ES_TLS_SKIP_HOST_VERIFY'')] @
         (case map_of options ''skip-dependencies'' of
            Some val \<Rightarrow> [env_var ''SKIP_DEPENDENCIES'' val]
          | None \<Rightarrow> if GetPlatform e = OpenShiftPlatform then [env_var ''SKIP_DEPENDENCIES'' ''true''] else []))"

section \<open>The index cleaner\<close>

definition index_cleaner_name :: "Jaeger \<Rightarrow> string" where
  "index_cleaner_name jaeger = Truncate ''%s-es-index-cleaner'' 52 [j_Name jaeger]"

definition CreateEsIndexCleaner :: "Env \<Rightarrow> Jaeger \<Rightarrow> CronJob res" where
  "CreateEsIndexCleaner e jaeger =
     (let st = j_Storage jaeger; ic = st_EsIndexCleaner st;
          esUrls = GetEsHostname (Map_opts (st_Options st));
          name = index_cleaner_name jaeger;
          envs = EsScriptEnvVars e (st_Options st) @ ProxyVars e @
            (case map_of (StringMap (st_Options st)) ''es.use-aliases'' of
               Some val \<Rightarrow> if EqualFold val ''true'' then [env_var ''ROLLOVER'' ''true''] else [] | None \<Rightarrow> []);
          commonSpec = ca_Update e jaeger (Merge [ic_Common ic, js_Common (j_Spec jaeger),
            base_common_spec job_annotations (Labels name ''cronjob-es-index-cleaner'' jaeger)])
      in case ic_NumberOfDays ic of
           None \<Rightarrow> Inl NilDereference
         | Some days \<Rightarrow> Inr (cron_job e
             (ObjectMeta0\<lparr>om_Name := name, om_Namespace := j_Namespace jaeger, om_Labels := jc_Labels commonSpec,
                om_Annotations := jc_Annotations commonSpec, om_OwnerReferences := [AsOwner jaeger]\<rparr>)
             (ic_Schedule ic) [] (ic_SuccessfulJobsHistoryLimit ic)
             \<lparr>js_ActiveDeadlineSeconds = None, js_TTLSecondsAfterFinished = ic_TTLSecondsAfterFinished ic,
              js_BackoffLimit = ic_BackoffLimit ic, js_Parallelism = Some 1,
              js_Template = \<lparr>pt_Meta = ObjectMeta0\<lparr>om_Labels := jc_Labels commonSpec, om_Annotations := jc_Annotations commonSpec\<rparr>,
                pt_Spec = PodSpec0\<lparr>ps_Containers := [Container0\<lparr>c_Name := Truncate name 63 [],
                      c_Image := ImageName e (ic_Image ic) ''jaeger-es-index-cleaner-image'',
                      c_ImagePullPolicy := jc_ImagePullPolicy (ic_Common ic), c_Args := [Itoa (sint days), esUrls],
                      c_Env := RemoveEmptyVars envs, c_EnvFrom := CreateEnvsFromSecret (st_SecretName st),
                      c_SecurityContext := jc_ContainerSecurityContext (ic_Common ic), c_Resources := jc_Resources commonSpec,
                      c_VolumeMounts := jc_VolumeMounts commonSpec\<rparr>],
                  ps_ImagePullSecrets := jc_ImagePullSecrets commonSpec, ps_RestartPolicy := ''Never'',
                  ps_Affinity := jc_Affinity commonSpec, ps_Tolerations := jc_Tolerations commonSpec,
                  ps_SecurityContext := jc_SecurityContext commonSpec,
                  ps_ServiceAccountName := JaegerServiceAccountFor jaeger EsIndexCleanerComponent,
                  ps_Volumes := jc_Volumes commonSpec, ps_PriorityClassName := ic_PriorityClassName ic\<rparr>\<rparr>\<rparr>))"

section \<open>Rollover and lookback\<close>

definition createTemplate :: "Env \<Rightarrow> string \<Rightarrow> string \<Rightarrow> Jaeger \<Rightarrow> EnvVar list \<Rightarrow> PodTemplateSpec" where
  "createTemplate e name action jaeger envs =
     (let st = j_Storage jaeger; ro = st_EsRollover st;
          commonSpec = ca_Update e jaeger (Merge [ro_Common ro, js_Common (j_Spec jaeger),
            JaegerCommonSpec0\<lparr>jc_Annotations := Some job_annotations\<rparr>])
      in \<lparr>pt_Meta = ObjectMeta0\<lparr>om_Labels := jc_Labels commonSpec, om_Annotations := jc_Annotations commonSpec\<rparr>,
          pt_Spec = PodSpec0\<lparr>ps_ImagePullSecrets := jc_ImagePullSecrets commonSpec, ps_RestartPolicy := ''OnFailure'',
            ps_Affinity := jc_Affinity commonSpec, ps_Tolerations := jc_Tolerations commonSpec,
            ps_SecurityContext := jc_SecurityContext commonSpec,
            ps_ServiceAccountName := JaegerServiceAccountFor jaeger EsRolloverComponent, ps_Volumes := jc_Volumes commonSpec,
            ps_Containers := [Container0\<lparr>c_Name := name, c_Image := ImageName e (ro_Image ro) ''jaeger-es-rollover-image'',
              c_Args := [action, GetEsHostname (Map_opts (st_Options st))], c_Env := RemoveEmptyVars (envs @ ProxyVars e),
              c_EnvFrom := CreateEnvsFromSecret (st_SecretName st), c_Resources := jc_Resources commonSpec,
              c_VolumeMounts := jc_VolumeMounts commonSpec, c_SecurityContext := jc_ContainerSecurityContext commonSpec\<rparr>]\<rparr>\<rparr>)"

definition rollover_meta :: "Jaeger \<Rightarrow> string \<Rightarrow> string \<Rightarrow> ObjectMeta" where
  "rollover_meta jaeger name component =
     ObjectMeta0\<lparr>om_Name := name, om_Namespace := j_Namespace jaeger, om_Labels := Labels name component jaeger,
       om_OwnerReferences := [AsOwner jaeger]\<rparr>"

definition rollover_name :: "Jaeger \<Rightarrow> string" where
  "rollover_name jaeger = Truncate ''%s-es-rollover'' 52 [j_Name jaeger]"

definition rollover :: "Env \<Rightarrow> Jaeger \<Rightarrow> CronJob" where
  "rollover e jaeger =
     (let name = rollover_name jaeger; ro = st_EsRollover (j_Storage jaeger);
          envs = EsScriptEnvVars e (st_Options (j_Storage jaeger)) @
            (if ro_Conditions ro \<noteq> [] then [env_var ''CONDITIONS'' (ro_Conditions ro)] else [])
      in cron_job e (rollover_meta jaeger name ''cronjob-es-rollover'') (ro_Schedule ro) ''Forbid'' (ro_SuccessfulJobsHistoryLimit ro)
           \<lparr>js_ActiveDeadlineSeconds = None, js_TTLSecondsAfterFinished = None, js_BackoffLimit = ro_BackoffLimit ro,
            js_Parallelism = Some 1, js_Template = createTemplate e name ''rollover'' jaeger envs\<rparr>)"

text \<open>\<open>parseToUnits\<close>: the largest unit of which the duration is a whole number, as a double.\<close>

datatype durationUnits = seconds | minutes | hours

fun units_text :: "durationUnits \<Rightarrow> string" where
  "units_text seconds = ''seconds''"
| "units_text minutes = ''minutes''"
| "units_text hours = ''hours''"

definition parseToUnits :: "Duration \<Rightarrow> durationUnits \<times> int" where
  "parseToUnits d =
     (if is_int (Hours d) then (hours, int64_of_float (Hours d))
      else if is_int (Minutes d) then (minutes, int64_of_float (Minutes d))
      else (seconds, int64_of_float (Seconds (Duration_Round Second d))))"

definition lookback_name :: "Jaeger \<Rightarrow> string" where
  "lookback_name jaeger = Truncate ''%s-es-lookback'' 52 [j_Name jaeger]"

definition lookback_envs :: "string \<Rightarrow> EnvVar list" where
  "lookback_envs readTTL =
     (if readTTL = [] then []
      else case ParseDuration readTTL of
          None \<Rightarrow> []
        | Some dur \<Rightarrow> (let (units, count) = parseToUnits dur
                       in [env_var ''UNIT'' (units_text units), env_var ''UNIT_COUNT'' (Itoa count)]))"

definition lookback :: "Env \<Rightarrow> Jaeger \<Rightarrow> CronJob" where
  "lookback e jaeger =
     (let name = lookback_name jaeger; ro = st_EsRollover (j_Storage jaeger);
          envs = EsScriptEnvVars e (st_Options (j_Storage jaeger)) @ lookback_envs (ro_ReadTTL ro)
      in cron_job e (rollover_meta jaeger name ''cronjob-es-lookback'') (ro_Schedule ro) ''Forbid'' (ro_SuccessfulJobsHistoryLimit ro)
           \<lparr>js_ActiveDeadlineSeconds = None, js_TTLSecondsAfterFinished = ro_TTLSecondsAfterFinished ro, js_BackoffLimit = None,
            js_Parallelism = None, js_Template = createTemplate e name ''lookback'' jaeger envs\<rparr>)"

definition CreateRollover :: "Env \<Rightarrow> Jaeger \<Rightarrow> CronJob list" where
  "CreateRollover e jaeger = [rollover e jaeger, lookback e jaeger]"

section \<open>Spark dependencies\<close>

definition getStorageEnvs :: "JaegerStorageSpec \<Rightarrow> EnvVar list" where
  "getStorageEnvs s =
     (let flag = mstr (Some (StringMap (st_Options s))); d = st_Dependencies s
      in if st_Type s = JaegerCassandraStorage then
           (let keyspace = (if flag ''cassandra.keyspace'' = [] then ''jaeger_v1_test'' else flag ''cassandra.keyspace'')
            in [env_var ''CASSANDRA_CONTACT_POINTS'' (flag ''cassandra.servers''), env_var ''CASSANDRA_KEYSPACE'' keyspace,
                env_var ''CASSANDRA_USERNAME'' (flag ''cassandra.username''), env_var ''CASSANDRA_PASSWORD'' (flag ''cassandra.password''),
                env_var ''CASSANDRA_USE_SSL'' (flag ''cassandra.tls''), env_var ''CASSANDRA_LOCAL_DC'' (flag ''cassandra.local-dc''),
                env_var ''CASSANDRA_CLIENT_AUTH_ENABLED'' (FormatBool (jd_CassandraClientAuthEnabled d))])
         else if st_Type s = JaegerESStorage then
           [env_var ''ES_NODES'' (flag ''es.server-urls''), env_var ''ES_INDEX_PREFIX'' (flag ''es.index-prefix''),
            env_var ''ES_INDEX_DATE_SEPARATOR'' (flag ''es.index-date-separator''), env_var ''ES_USERNAME'' (flag ''es.username''),
            env_var ''ES_PASSWORD'' (flag ''es.password''), env_var ''ES_TIME_RANGE'' (jd_ElasticsearchTimeRange d),
            env_var ''ES_USE_ALIASES'' (flag ''es.use-aliases'')] @
           (case jd_ElasticsearchNodesWanOnly d of None \<Rightarrow> [] | Some b \<Rightarrow> [env_var ''ES_NODES_WAN_ONLY'' (FormatBool b)]) @
           (case jd_ElasticsearchClientNodeOnly d of None \<Rightarrow> [] | Some b \<Rightarrow> [env_var ''ES_CLIENT_NODE_ONLY'' (FormatBool b)])
         else [])"

definition spark_name :: "Jaeger \<Rightarrow> string" where
  "spark_name jaeger = Truncate ''%s-spark-dependencies'' 52 [j_Name jaeger]"

definition CreateSparkDependencies :: "Env \<Rightarrow> Jaeger \<Rightarrow> CronJob" where
  "CreateSparkDependencies e jaeger =
     (let st = j_Storage jaeger; d = st_Dependencies st; name = spark_name jaeger;
          envVars = [env_var ''STORAGE'' (st_Type st), env_var ''SPARK_MASTER'' (jd_SparkMaster d), env_var ''JAVA_OPTS'' (jd_JavaOpts d)] @
            getStorageEnvs st @ ProxyVars e;
          commonSpec = ca_Update e jaeger (Merge [jd_Common d, js_Common (j_Spec jaeger),
            base_common_spec job_annotations (Labels name ''spark-dependencies'' jaeger)]);
          img = (if jd_Image d = [] then viper_GetString e ''jaeger-spark-dependencies-image'' else jd_Image d)
      in cron_job e
           (ObjectMeta0\<lparr>om_Name := name, om_Namespace := j_Namespace jaeger, om_Labels := jc_Labels commonSpec,
              om_OwnerReferences := [AsOwner jaeger]\<rparr>)
           (jd_Schedule d) ''Forbid'' (jd_SuccessfulJobsHistoryLimit d)
           \<lparr>js_ActiveDeadlineSeconds = None, js_TTLSecondsAfterFinished = None, js_BackoffLimit = jd_BackoffLimit d,
            js_Parallelism = Some 1,
            js_Template = \<lparr>pt_Meta = ObjectMeta0\<lparr>om_Labels := jc_Labels commonSpec, om_Annotations := jc_Annotations commonSpec\<rparr>,
              pt_Spec = PodSpec0\<lparr>ps_Containers := [Container0\<lparr>c_Image := img, c_Name := name, c_Env := RemoveEmptyVars envVars,
                    c_EnvFrom := CreateEnvsFromSecret (st_SecretName st), c_Resources := jc_Resources commonSpec,
                    c_VolumeMounts := jc_VolumeMounts (jd_Common d), c_SecurityContext := jc_ContainerSecurityContext commonSpec\<rparr>],
                ps_ImagePullSecrets := jc_ImagePullSecrets commonSpec, ps_RestartPolicy := ''Never'',
                ps_Affinity := jc_Affinity commonSpec, ps_Tolerations := jc_Tolerations commonSpec,
                ps_SecurityContext := jc_SecurityContext commonSpec,
                ps_ServiceAccountName := JaegerServiceAccountFor jaeger DependenciesComponent,
                ps_Volumes := jc_Volumes (jd_Common d)\<rparr>\<rparr>\<rparr>)"

section \<open>Properties\<close>

fun unit_length :: "durationUnits \<Rightarrow> Duration" where
  "unit_length seconds = Second"
| "unit_length minutes = Minute"
| "unit_length hours = Hour"

lemma whole_reading:
  assumes "0 \<le> d" "d < 2 ^ 63" "0 < unit" "unit dvd d" "1024 \<le> unit"
  shows "is_int (duration_as unit d) \<and> int64_of_float (duration_as unit d) * unit = d"
proof -
  have "d div unit \<le> d div 1024" using assms(1,5) by (intro zdiv_mono2) auto
  also have "\<dots> < 2 ^ 53" using assms(2) by simp
  finally have "duration_as unit d = of_int (d div unit)" by (rule duration_as_whole [OF assms(1,3,4)])
  moreover have "0 \<le> d div unit" using assms(1,3) by (simp add: pos_imp_zdiv_nonneg_iff)
  ultimately show ?thesis using assms(4) by (simp add: is_int_def int64_of_float_def)
qed

lemma unit_values: "Minute = 60 * Second" "Hour = 3600 * Second" "Second = 1000000000"
  by (simp_all add: Minute_def Hour_def Second_def)

text \<open>C31: the retention time of the lookback job is passed on exactly.  For every duration of whole
  seconds that fits 64 bits, \<open>parseToUnits\<close> yields a unit and a count whose product is the duration,
  in the largest unit that divides it: the detour over floating point numbers, with hours and
  minutes as doubles, loses nothing.\<close>

theorem parseToUnits_exact:
  assumes "0 \<le> d" "d < 2 ^ 63" "Second dvd d"
  shows "snd (parseToUnits d) * unit_length (fst (parseToUnits d)) = d \<and>
    fst (parseToUnits d) = (if Hour dvd d then hours else if Minute dvd d then minutes else seconds)"
proof -
  have small: "d div Hour < 2 ^ 27" "d div Minute < 2 ^ 28 - 1" using assms(2) by (simp_all add: unit_values)
  have H: "is_int (Hours d) \<longleftrightarrow> Hour dvd d"
    using whole_reading [OF assms(1,2), of Hour] duration_as_fraction [OF assms(1,3) unit_values(2)] small by (auto simp: unit_values)
  have M: "is_int (Minutes d) \<longleftrightarrow> Minute dvd d"
    using whole_reading [OF assms(1,2), of Minute] duration_as_fraction [OF assms(1,3) unit_values(1)] small by (auto simp: unit_values)
  have R: "Duration_Round Second d = d"
    using assms by (auto simp: Duration_Round_def unit_values)
  have W: "unit dvd d \<Longrightarrow> int64_of_float (duration_as unit d) * unit = d" if "unit \<in> {Hour, Minute, Second}" for unit
    using whole_reading [OF assms(1,2), of unit] that by (auto simp: unit_values)
  show ?thesis
    using W assms(3) by (simp add: parseToUnits_def H M R)
qed

theorem parseToUnits_exact_witness:
  "Second dvd 5400 * Second \<and> parseToUnits (5400 * Second) = (minutes, 90)"
proof -
  have "\<not> Hour dvd 5400 * Second" "Minute dvd 5400 * Second" by (simp_all add: unit_values)
  then show ?thesis
    using parseToUnits_exact [of "5400 * Second"] by (cases "parseToUnits (5400 * Second)") (simp add: unit_values)
qed

end
