(* ===== verification/Storage_Jobs.thy ===== *)
theory Storage_Jobs
  imports Cron_Jobs
begin

text \<open>
  Package \<open>pkg/storage\<close>: the jobs that must have finished before the other components are deployed
  (the schema of Cassandra, the mapping of Elasticsearch), and the Elasticsearch cluster that the
  operator provisions on OpenShift with the changes to the pods that use it.
\<close>

section \<open>Dependencies\<close>

definition EnableRollover :: "JaegerStorageSpec \<Rightarrow> bool" where
  "EnableRollover spec \<longleftrightarrow>
     st_Type spec = JaegerESStorage \<and> EqualFold (mstr (Some (StringMap (st_Options spec))) ''es.use-aliases'') ''true''"

definition es_job_envVars :: "Env \<Rightarrow> Options \<Rightarrow> EnvVar list" where
  "es_job_envVars e options =
     EsScriptEnvVars e options @ flag_envs (StringMap options) [(''es.num-shards'', ''SHARDS''), (''es.num-replicas'', ''REPLICAS'')]"

definition elasticsearchDependencies :: "Env \<Rightarrow> Jaeger \<Rightarrow> Job list" where
  "elasticsearchDependencies e jaeger =
     (let st = j_Storage jaeger; ro = st_EsRollover st;
          name = Truncate ''%s-es-rollover-create-mapping'' 63 [j_Name jaeger];
          commonSpec = Merge [ro_Common ro, js_Common (j_Spec jaeger),
            base_common_spec job_annotations (Labels name ''job-es-rollover-create-mapping'' jaeger)]
      in [\<lparr>job_TypeMeta = TypeMeta0,
           job_Meta = ObjectMeta0\<lparr>om_Name := name, om_Namespace := j_Namespace jaeger, om_Labels := jc_Labels commonSpec,
             om_OwnerReferences := [AsOwner jaeger]\<rparr>,
           job_Spec = \<lparr>js_ActiveDeadlineSeconds = None, js_TTLSecondsAfterFinished = None, js_BackoffLimit = None, js_Parallelism = None,
             js_Template = \<lparr>pt_Meta = ObjectMeta0\<lparr>om_Annotations := jc_Annotations commonSpec, om_Labels := jc_Labels commonSpec\<rparr>,
               pt_Spec = PodSpec0\<lparr>ps_ImagePullSecrets := jc_ImagePullSecrets commonSpec, ps_RestartPolicy := ''OnFailure'',
                 ps_Affinity := jc_Affinity commonSpec, ps_Tolerations := jc_Tolerations commonSpec,
                 ps_SecurityContext := jc_SecurityContext commonSpec,
                 ps_ServiceAccountName := JaegerServiceAccountFor jaeger EsRolloverComponent, ps_Volumes := jc_Volumes commonSpec,
                 ps_Containers := [Container0\<lparr>c_Name := name, c_Image := ImageName e (ro_Image ro) ''jaeger-es-rollover-image'',
                   c_Args := [''init'', GetEsHostname (Map_opts (st_Options st))],
                   c_Env := RemoveEmptyVars (es_job_envVars e (st_Options st)),
                   c_EnvFrom := CreateEnvsFromSecret (st_SecretName st), c_Resources := jc_Resources commonSpec,
                   c_VolumeMounts := jc_VolumeMounts commonSpec, c_SecurityContext := jc_ContainerSecurityContext commonSpec\<rparr>]\<rparr>\<rparr>\<rparr>,
           job_Succeeded = 0\<rparr>])"

text \<open>\<open>cassandraDeps\<close> writes its defaults into the instance: the result is the jobs and the instance.\<close>

definition cassandra_defaults :: "JaegerCassandraCreateSchemaSpec \<Rightarrow> JaegerCassandraCreateSchemaSpec" where
  "cassandra_defaults ccs =
     (let c1 = (if ccs_Enabled ccs = None then ccs\<lparr>ccs_Enabled := Some True\<rparr> else ccs)
      in if ccs_Enabled c1 = Some False then c1
         else (let c2 = (if ccs_Datacenter c1 = [] then c1\<lparr>ccs_Datacenter := ''test''\<rparr> else c1)
               in if ccs_Mode c2 = [] then c2\<lparr>ccs_Mode := ''prod''\<rparr> else c2))"

definition or_default :: "string \<Rightarrow> string \<Rightarrow> string" where
  "or_default s d = (if s = [] then d else s)"

definition trace_ttl :: "string \<Rightarrow> string" where
  "trace_ttl ttl = (if ttl = [] then ''172800''
     else case ParseDuration ttl of None \<Rightarrow> ''172800'' | Some dur \<Rightarrow> sprint_0f (Seconds dur))"

definition job_timeout :: "string \<Rightarrow> int64" where
  "job_timeout timeout = (if timeout = [] then 86400
     else case ParseDuration timeout of None \<Rightarrow> 86400 | Some dur \<Rightarrow> word_of_int (int64_of_float (Seconds dur)))"

definition cassandraDeps :: "Env \<Rightarrow> Jaeger \<Rightarrow> Job list \<times> Jaeger" where
  "cassandraDeps e jaeger0 =
     (let jaeger = upd_Storage (st_CassandraCreateSchema_update cassandra_defaults) jaeger0;
          st = j_Storage jaeger; ccs = st_CassandraCreateSchema st;
          flag = mstr (Some (StringMap (st_Options st)));
          envFromSource = CreateEnvsFromSecret (st_SecretName st);
          envVars = [env_var ''MODE'' (ccs_Mode ccs), env_var ''DATACENTER'' (ccs_Datacenter ccs),
                     env_var ''CQLSH_HOST'' (or_default (hd (Split (CHR '','') (flag ''cassandra.servers''))) ''cassandra''),
                     env_var ''CQLSH_PORT'' (or_default (flag ''cassandra.port'') ''9042''),
                     env_var ''KEYSPACE'' (or_default (flag ''cassandra.keyspace'') ''jaeger_v1_test'')] @
            (if length envFromSource = 0
             then [env_var ''CASSANDRA_USERNAME'' (flag ''cassandra.username''), env_var ''CASSANDRA_PASSWORD'' (flag ''cassandra.password'')]
             else []) @
            [env_var ''TRACE_TTL'' (trace_ttl (ccs_TraceTTL ccs))];
          truncatedName = Truncate ''%s-cassandra-schema-job'' 63 [j_Name jaeger];
          commonSpec = Merge [col_Common (js_Collector (j_Spec jaeger)), js_Common (j_Spec jaeger),
            base_common_spec job_annotations (Labels truncatedName ''cronjob-cassandra-schema'' jaeger)]
      in (if ccs_Enabled ccs = Some False then []
          else [\<lparr>job_TypeMeta = \<lparr>tm_APIVersion = ''batch/v1'', tm_Kind = ''Job''\<rparr>,
             job_Meta = ObjectMeta0\<lparr>om_Name := truncatedName, om_Namespace := j_Namespace jaeger, om_Labels := jc_Labels commonSpec,
               om_OwnerReferences := [AsOwner jaeger]\<rparr>,
             job_Spec = \<lparr>js_ActiveDeadlineSeconds = Some (job_timeout (ccs_Timeout ccs)), js_TTLSecondsAfterFinished = None,
               js_BackoffLimit = None, js_Parallelism = None,
               js_Template = \<lparr>pt_Meta = ObjectMeta0\<lparr>om_Annotations := jc_Annotations commonSpec\<rparr>,
                 pt_Spec = PodSpec0\<lparr>ps_ImagePullSecrets := jc_ImagePullSecrets commonSpec, ps_ActiveDeadlineSeconds := Some 320,
                   ps_Affinity := ccs_Affinity ccs, ps_Tolerations := jc_Tolerations commonSpec,
                   ps_SecurityContext := jc_SecurityContext commonSpec, ps_Volumes := jc_Volumes commonSpec,
                   ps_Containers := [Container0\<lparr>c_Image := ImageName e (ccs_Image ccs) ''jaeger-cassandra-schema-image'',
                     c_Name := truncatedName, c_Env := envVars, c_EnvFrom := envFromSource, c_Resources := jc_Resources commonSpec,
                     c_VolumeMounts := jc_VolumeMounts commonSpec, c_SecurityContext := jc_ContainerSecurityContext commonSpec\<rparr>],
                   ps_RestartPolicy := ''OnFailure''\<rparr>\<rparr>\<rparr>,
             job_Succeeded = 0\<rparr>], jaeger))"

definition Dependencies :: "Env \<Rightarrow> Jaeger \<Rightarrow> Job list \<times> Jaeger" where
  "Dependencies e jaeger =
     (if st_Type (j_Storage jaeger) = JaegerCassandraStorage then cassandraDeps e jaeger
      else if EnableRollover (j_Storage jaeger) then (elasticsearchDependencies e jaeger, jaeger)
      else ([], jaeger))"

section \<open>The pods that use a provisioned Elasticsearch\<close>

abbreviation (input) "uses_cert_management jaeger \<equiv> ess_UseCertManagement (st_Elasticsearch (j_Storage jaeger)) = Some True"

definition getCertPath :: "Jaeger \<Rightarrow> string" where
  "getCertPath jaeger = (if uses_cert_management jaeger then ''/certs/tls.crt'' else ''/certs/cert'')"

definition getCertKeyPath :: "Jaeger \<Rightarrow> string" where
  "getCertKeyPath jaeger = (if uses_cert_management jaeger then ''/certs/tls.key'' else ''/certs/key'')"

definition getCertCaPath :: "Jaeger \<Rightarrow> string" where
  "getCertCaPath jaeger = (if uses_cert_management jaeger then ''/certs/ca-bundle.crt'' else ''/certs/ca'')"

definition calculateReplicaShards :: "string \<Rightarrow> int \<Rightarrow> int" where
  "calculateReplicaShards policyType dataNodes =
     (if policyType = ''FullRedundancy'' then dataNodes - 1
      else if policyType = ''MultipleRedundancy'' then quot_trunc (dataNodes - 1) 2
      else if policyType = ''SingleRedundancy'' then 1
      else if policyType = ''ZeroRedundancy'' then 0
      else 1)"

definition es_url :: "Jaeger \<Rightarrow> string" where
  "es_url jaeger = ''https://'' @ ess_Name (st_Elasticsearch (j_Storage jaeger)) @ ''.'' @ j_Namespace jaeger @ ''.svc.cluster.local:9200''"

abbreviation (input) "has_arg flag args \<equiv> FindItem flag args \<noteq> []"

text \<open>The flags of one connection, \<open>p\<close> being \<open>--es\<close> or \<open>--es-archive\<close>.\<close>

definition inject_connection :: "Jaeger \<Rightarrow> string \<Rightarrow> string list \<Rightarrow> string list" where
  "inject_connection jaeger p args0 =
     (let es = st_Elasticsearch (j_Storage jaeger);
          args1 = args0 @ [p @ ''.server-urls='' @ es_url jaeger];
          args2 = (if \<not> has_arg (p @ ''.tls='') args1 \<and> \<not> has_arg (p @ ''.tls.enabled='') args1 then args1 @ [p @ ''.tls.enabled=true''] else args1);
          args3 = args2 @ [p @ ''.tls.ca='' @ getCertCaPath jaeger, p @ ''.tls.cert='' @ getCertPath jaeger, p @ ''.tls.key='' @ getCertKeyPath jaeger];
          args4 = (if \<not> has_arg (p @ ''.timeout'') args3 then args3 @ [p @ ''.timeout=15s''] else args3);
          args5 = (if \<not> has_arg (p @ ''.num-shards'') args4 then args4 @ [p @ ''.num-shards='' @ Itoa (sint (ess_NodeCount es))] else args4)
      in if \<not> has_arg (p @ ''.num-replicas'') args5
         then args5 @ [p @ ''.num-replicas='' @ Itoa (calculateReplicaShards (ess_RedundancyPolicy es) (sint (ess_NodeCount es)))] else args5)"

definition injectArguments :: "Jaeger \<Rightarrow> Container \<Rightarrow> Container" where
  "injectArguments jaeger c =
     (let args = inject_connection jaeger ''--es'' (c_Args c)
      in c\<lparr>c_Args := (if EqualFold (FindItem ''--es-archive.enabled'' args) ''--es-archive.enabled=true''
                       then inject_connection jaeger ''--es-archive'' args else args)\<rparr>)"

definition jaegerESSecretName :: "Jaeger \<Rightarrow> string" where
  "jaegerESSecretName jaeger =
     (if \<not> uses_cert_management jaeger then j_Name jaeger @ ''-'' else []) @ ''jaeger-'' @ ess_Name (st_Elasticsearch (j_Storage jaeger))"

definition certs_mount :: VolumeMount where
  "certs_mount = read_only_mount ''certs'' ''/certs''"

fun update_first :: "('a \<Rightarrow> 'a) \<Rightarrow> 'a list \<Rightarrow> 'a list" where
  "update_first f [] = []"
| "update_first f (x # xs) = f x # xs"

definition InjectStorageConfiguration :: "Jaeger \<Rightarrow> PodSpec \<Rightarrow> PodSpec" where
  "InjectStorageConfiguration jaeger p =
     p\<lparr>ps_Volumes := ps_Volumes p @ [\<lparr>vol_Name = ''certs'', vol_Source = VSSecret (jaegerESSecretName jaeger)\<rparr>],
       ps_Containers := update_first (\<lambda>c. let c' = injectArguments jaeger c in c'\<lparr>c_VolumeMounts := c_VolumeMounts c' @ [certs_mount]\<rparr>)
         (ps_Containers p)\<rparr>"

end
