(* ===== verification/ES_Storage.thy ===== *)
theory ES_Storage
  imports Storage_Jobs
begin

text \<open>
  Package \<open>pkg/storage\<close>, continued: the certificates of a provisioned Elasticsearch, which travel
  between secrets of the cluster and files of the operator's pod, and the Elasticsearch resource
  itself.
\<close>

section \<open>Paths\<close>

text \<open>\<open>filepath.Clean\<close> and \<open>path.Join\<close>, the elements of a path being processed from the left.\<close>

fun clean_elems :: "bool \<Rightarrow> string list \<Rightarrow> string list \<Rightarrow> string list" where
  "clean_elems rooted out [] = rev out"
| "clean_elems rooted out (x # xs) =
     (if x = [] \<or> x = ''.'' then clean_elems rooted out xs
      else if x = ''..'' then
        (case out of
           [] \<Rightarrow> clean_elems rooted (if rooted then [] else [''..'']) xs
         | y # ys \<Rightarrow> if y = ''..'' then clean_elems rooted (''..'' # out) xs else clean_elems rooted ys xs)
      else clean_elems rooted (x # out) xs)"

definition Clean :: "string \<Rightarrow> string" where
  "Clean path =
     (let rooted = (path \<noteq> [] \<and> hd path = CHR ''/'');
          res = (if rooted then ''/'' else []) @ Join ''/'' (clean_elems rooted [] (Split (CHR ''/'') path))
      in if res = [] then ''.'' else res)"

definition path_Join :: "string \<Rightarrow> string \<Rightarrow> string" where
  "path_Join dir file =
     (let elems = filter (\<lambda>x. x \<noteq> []) [dir, file] in if elems = [] then [] else Clean (Join ''/'' elems))"

section \<open>The operating system\<close>

text \<open>
  The calls of package \<open>os\<close> and the run of the script that generates certificates, over a state
  that holds the file system: \<open>os.Stat\<close> succeeds, \<open>os.MkdirAll\<close>, \<open>os.OpenFile\<close> with \<open>O_CREATE\<close>,
  \<open>File.Write\<close>, \<open>os.RemoveAll\<close>, \<open>os.ReadFile\<close>.
\<close>

record 's System =
  sys_Stat :: "string \<Rightarrow> 's \<Rightarrow> bool"
  sys_MkdirAll :: "string \<Rightarrow> 's op"
  sys_OpenFile :: "string \<Rightarrow> 's op"
  sys_Write :: "string \<Rightarrow> string \<Rightarrow> 's op"
  sys_RemoveAll :: "string \<Rightarrow> 's op"
  sys_ReadFile :: "string \<Rightarrow> 's \<Rightarrow> string res"
  sys_Bash :: "string \<Rightarrow> (string \<times> string) list \<Rightarrow> 's op"

section \<open>The secrets\<close>

record es_secret =
  sec_name :: string
  keyFileNameMap :: "(string \<times> string) list"

definition masterSecret :: es_secret where
  "masterSecret = \<lparr>sec_name = ''master-certs'', keyFileNameMap = [(''ca'', ''ca.crt''), (''ca-key'', ''ca.key'')]\<rparr>"

definition esSecret :: es_secret where
  "esSecret = \<lparr>sec_name = JaegerESStorage, keyFileNameMap =
     [(''elasticsearch.key'', ''elasticsearch.key''), (''elasticsearch.crt'', ''elasticsearch.crt''),
      (''logging-es.key'', ''logging-es.key''), (''logging-es.crt'', ''logging-es.crt''),
      (''admin-key'', ''system.admin.key''), (''admin-cert'', ''system.admin.crt''), (''admin-ca'', ''ca.crt'')]\<rparr>"

definition jaegerSecret :: es_secret where
  "jaegerSecret = \<lparr>sec_name = ''jaeger-elasticsearch'', keyFileNameMap =
     [(''ca'', ''ca.crt''), (''key'', ''user.jaeger.key''), (''cert'', ''user.jaeger.crt'')]\<rparr>"

definition curatorSecret :: es_secret where
  "curatorSecret = \<lparr>sec_name = ''curator'', keyFileNameMap =
     [(''ca'', ''ca.crt''), (''key'', ''system.logging.curator.key''), (''cert'', ''system.logging.curator.crt'')]\<rparr>"

definition instanceName :: "es_secret \<Rightarrow> Jaeger \<Rightarrow> string" where
  "instanceName s jaeger =
     (if sec_name s = sec_name esSecret then sec_name esSecret
      else if uses_cert_management jaeger then ''curator-'' @ ess_Name (st_Elasticsearch (j_Storage jaeger))
      else j_Name jaeger @ ''-'' @ sec_name s)"

definition getWorkingDir :: "Jaeger \<Rightarrow> string" where
  "getWorkingDir jaeger =
     Clean (''/tmp/_certs'' @ ''/'' @ j_Namespace jaeger @ ''/'' @ j_Name jaeger @ ''/'' @ om_UID (j_Meta jaeger))"

definition getFilePath :: "string \<Rightarrow> string \<Rightarrow> string" where
  "getFilePath dir toFile = path_Join dir toFile"

definition getFileContents :: "'s System \<Rightarrow> string \<Rightarrow> 's \<Rightarrow> string" where
  "getFileContents sys path s =
     (if path = [] then [] else case sys_ReadFile sys (Clean path) s of Inl _ \<Rightarrow> [] | Inr contents \<Rightarrow> contents)"

definition getWorkingDirContents :: "'s System \<Rightarrow> string \<Rightarrow> (string \<times> string) list \<Rightarrow> 's \<Rightarrow> string gomap" where
  "getWorkingDirContents sys dir content s =
     Some (put_all (map (\<lambda>(secretKey, certName). (secretKey, getFileContents sys (getFilePath dir certName) s)) content) [])"

definition createSecret :: "Jaeger \<Rightarrow> string \<Rightarrow> string gomap \<Rightarrow> Secret" where
  "createSecret jaeger secretName data =
     \<lparr>sec_Meta = ObjectMeta0\<lparr>om_Name := secretName, om_Namespace := j_Namespace jaeger,
        om_Labels := Labels secretName ''es-secret'' jaeger, om_OwnerReferences := [AsOwner jaeger]\<rparr>,
      sec_Type = ''Opaque'', sec_Data = data, sec_StringData = None\<rparr>"

definition ExtractSecrets :: "'s System \<Rightarrow> Jaeger \<Rightarrow> 's \<Rightarrow> Secret list" where
  "ExtractSecrets sys jaeger s =
     map (\<lambda>sec. createSecret jaeger (instanceName sec jaeger) (getWorkingDirContents sys (getWorkingDir jaeger) (keyFileNameMap sec) s))
       [masterSecret, esSecret, jaegerSecret, curatorSecret]"

text \<open>A file that exists is left alone; a file that could not be written is removed.\<close>

definition writeToFile :: "'s System \<Rightarrow> string \<Rightarrow> string \<Rightarrow> string \<Rightarrow> 's op" where
  "writeToFile sys dir file val s =
     (let path = Clean (getFilePath dir file)
      in if sys_Stat sys path s then (None, s)
         else andthen (sys_MkdirAll sys dir) (andthen (sys_OpenFile sys path)
           (\<lambda>s1. case sys_Write sys path val s1 of
               (Some err, s2) \<Rightarrow> (Some err, snd (sys_RemoveAll sys path s2))
             | (None, s2) \<Rightarrow> (None, s2))) s)"

definition extractSecretToFile :: "'s System \<Rightarrow> string \<Rightarrow> string gomap \<Rightarrow> es_secret \<Rightarrow> 's op" where
  "extractSecretToFile sys workingDir data sec =
     for_each (\<lambda>(k, v). writeToFile sys workingDir v (mstr data k)) (keyFileNameMap sec)"

definition extractSecretsToFile :: "'s System \<Rightarrow> Jaeger \<Rightarrow> Secret list \<Rightarrow> es_secret list \<Rightarrow> 's op" where
  "extractSecretsToFile sys jaeger secrets ss =
     (let secretMap = put_all (map (\<lambda>sec. (om_Name (sec_Meta sec), sec)) secrets) []
      in for_each (\<lambda>sec. case map_of secretMap (instanceName sec jaeger) of
           Some secret \<Rightarrow> extractSecretToFile sys (getWorkingDir jaeger) (sec_Data secret) sec
         | None \<Rightarrow> skip) ss)"

definition createESCerts :: "'s System \<Rightarrow> string \<Rightarrow> Jaeger \<Rightarrow> 's op" where
  "createESCerts sys script jaeger =
     sys_Bash sys script [(''NAMESPACE'', j_Namespace jaeger), (''WORKING_DIR'', getWorkingDir jaeger)]"

definition CreateCerts :: "'s System \<Rightarrow> string \<Rightarrow> Secret list \<Rightarrow> Jaeger \<Rightarrow> 's op" where
  "CreateCerts sys script secrets jaeger =
     andthen (extractSecretsToFile sys jaeger secrets [masterSecret, esSecret, jaegerSecret, curatorSecret])
       (createESCerts sys script jaeger)"

definition CleanCerts :: "'s System \<Rightarrow> Jaeger \<Rightarrow> 's op" where
  "CleanCerts sys jaeger = sys_RemoveAll sys (getWorkingDir jaeger)"

section \<open>The jobs of a provisioned Elasticsearch\<close>

text \<open>The second argument is overwritten; a container with fewer is a run-time panic.\<close>

definition InjectSecretsConfiguration :: "Jaeger \<Rightarrow> PodSpec \<Rightarrow> PodSpec res" where
  "InjectSecretsConfiguration jaeger p =
     (let es = st_Elasticsearch (j_Storage jaeger); nodes = sint (ess_NodeCount es);
          p' = p\<lparr>ps_Volumes := ps_Volumes p @ [\<lparr>vol_Name = ''certs'', vol_Source = VSSecret (instanceName curatorSecret jaeger)\<rparr>]\<rparr>
      in case ps_Containers p of
           [] \<Rightarrow> Inr p'
         | c # cs \<Rightarrow>
             if length (c_Args c) < 2 then Inl IndexOutOfRange
             else Inr (p'\<lparr>ps_Containers := c\<lparr>c_Args := (c_Args c)[1 := es_url jaeger],
                 c_Env := c_Env c @ [env_var ''ES_TLS_ENABLED'' ''true'', env_var ''ES_TLS_CA'' (getCertCaPath jaeger),
                   env_var ''ES_TLS_KEY'' (getCertKeyPath jaeger), env_var ''ES_TLS_CERT'' (getCertPath jaeger),
                   env_var ''SHARDS'' (Itoa nodes),
                   env_var ''REPLICAS'' (Itoa (calculateReplicaShards (ess_RedundancyPolicy es) nodes))],
                 c_VolumeMounts := c_VolumeMounts c @ [certs_mount]\<rparr> # cs\<rparr>))"

section \<open>The Elasticsearch resource\<close>

definition getNodes :: "string \<Rightarrow> ElasticsearchSpec \<Rightarrow> ElasticsearchNode list" where
  "getNodes uuid es =
     (let node = (\<lambda>count roles genuuid. \<lparr>en_NodeCount = count, en_Storage = ess_Storage es, en_NodeSelector = ess_NodeSelector es,
            en_Roles = roles, en_GenUUID = Some genuuid,
            en_ProxyResources = (case ess_ProxyResources es of None \<Rightarrow> ResourceRequirements0 | Some r \<Rightarrow> r)\<rparr>)
      in if sint (ess_NodeCount es) \<le> 3 then [node (ess_NodeCount es) [''master'', ''client'', ''data''] uuid]
         else [node 3 [''master'', ''client'', ''data''] (uuid @ ''master''), node (ess_NodeCount es - 3) [''client'', ''data''] uuid])"

definition es_uuid :: "Jaeger \<Rightarrow> string" where
  "es_uuid jaeger = filter (\<lambda>c. c \<noteq> CHR ''-'') (Truncate (DNSName (j_Namespace jaeger @ j_Name jaeger)) 42 [])"

definition Elasticsearch_Get :: "Jaeger \<Rightarrow> Elasticsearch option" where
  "Elasticsearch_Get jaeger =
     (let es = st_Elasticsearch (j_Storage jaeger)
      in if ess_DoNotProvision es then None
         else Some \<lparr>es_TypeMeta = TypeMeta0,
           es_Meta = ObjectMeta0\<lparr>om_Namespace := j_Namespace jaeger, om_Name := ess_Name es,
             om_Labels := Some [(''app'', ''jaeger''), (''app.kubernetes.io/name'', Truncate (ess_Name es) 63 []),
               (''app.kubernetes.io/instance'', Truncate (j_Name jaeger) 63 []),
               (''app.kubernetes.io/component'', ''elasticsearch''), (''app.kubernetes.io/part-of'', ''jaeger'')],
             om_Annotations := Some (if uses_cert_management jaeger then
               put_all [(''logging.openshift.io/elasticsearch-cert-management'', ''true''),
                  (''logging.openshift.io/elasticsearch-cert.'' @ jaegerESSecretName jaeger, ''user.jaeger''),
                  (''logging.openshift.io/elasticsearch-cert.curator-'' @ ess_Name es, ''system.logging.curator'')] [] else []),
             om_OwnerReferences := [AsOwner jaeger]\<rparr>,
           es_Spec = \<lparr>es_ManagementState = ''Managed'', es_RedundancyPolicy = ess_RedundancyPolicy es, es_Image = ess_Image es,
             es_Resources = (case ess_Resources es of None \<Rightarrow> ResourceRequirements0 | Some r \<Rightarrow> r),
             es_Tolerations = ess_Tolerations es, es_Nodes = getNodes (es_uuid jaeger) es\<rparr>,
           es_rest = []\<rparr>)"

section \<open>The topology of the cluster\<close>

definition masters :: "ElasticsearchNode list \<Rightarrow> int" where
  "masters ns = sum_list (map (\<lambda>n. if ''master'' \<in> set (en_Roles n) then sint (en_NodeCount n) else 0) ns)"

lemma sint_1: "sint (1 :: int32) = 1"
  by simp

lemma sint_inject: "sint (x :: int32) = sint y \<longleftrightarrow> x = y"
proof
  assume "sint x = sint y"
  then have "(word_of_int (sint x) :: int32) = word_of_int (sint y)" by simp
  then show "x = y" by simp
qed simp

lemma sint_minus_3: "3 < sint (n :: int32) \<Longrightarrow> sint (n - 3) = sint n - 3"
proof -
  assume a: "3 < sint n"
  have n: "sint n < 2 ^ 31" using sint_lt [of n] by simp
  have "sint (n - 3) = signed_take_bit 31 (sint n - 3)" by (simp add: sint_word_diff)
  then show ?thesis using a n by (simp add: signed_take_bit_int_eq_self_iff)
qed

lemma normalized_elasticsearch:
  "ess_NodeCount (normalizeElasticsearch es) = (if ess_NodeCount es = 0 then 3 else ess_NodeCount es)"
  "ess_RedundancyPolicy (normalizeElasticsearch es) = (if ess_RedundancyPolicy es = []
     then if ess_NodeCount es = 1 then ''ZeroRedundancy'' else ''SingleRedundancy'' else ess_RedundancyPolicy es)"
  by (auto simp: normalizeElasticsearch_def Let_def)

lemma quot_trunc_half: "0 \<le> a \<Longrightarrow> quot_trunc a 2 = a div 2"
  by (cases "a = 0") (simp_all add: quot_trunc_def)

lemma replica_shards_range:
  assumes "0 < n"
  shows "0 \<le> calculateReplicaShards p n \<and>
    (calculateReplicaShards p n < n \<longleftrightarrow> 1 < n \<or> p \<in> {''FullRedundancy'', ''MultipleRedundancy'', ''ZeroRedundancy''})"
proof -
  have h: "0 \<le> (n - 1) div 2" "(n - 1) div 2 < n" using assms by linarith+
  consider "p = ''FullRedundancy''" | "p = ''MultipleRedundancy''" | "p = ''ZeroRedundancy''"
    | "p \<notin> {''FullRedundancy'', ''MultipleRedundancy'', ''ZeroRedundancy''}" by blast
  then show ?thesis
  proof cases
    case 2
    then show ?thesis using assms h by (simp add: calculateReplicaShards_def quot_trunc_half)
  next
    case 4
    then have "calculateReplicaShards p n = 1" by (simp add: calculateReplicaShards_def)
    then show ?thesis using 4 by simp
  qed (use assms in \<open>simp_all add: calculateReplicaShards_def\<close>)
qed

text \<open>C32: the cluster that the operator asks for has the size the instance asks for.  For every positive
  number of nodes the groups of nodes add up to it, at most three of the nodes (and at least one) can be
  master, all of them hold data, the groups have different identifiers, and the identifier leaves
  room for the suffixes of the Elasticsearch operator within 63 characters.  The number of replicas
  of a shard is never negative, and after normalisation it is smaller than the number of nodes, so
  that every replica can be placed, unless the instance itself asks for a copy on a second node
  of a cluster of one.\<close>

theorem elasticsearch_topology:
  assumes "0 \<le> sint (ess_NodeCount es)"
  shows "let es' = normalizeElasticsearch es; n = sint (ess_NodeCount es'); ns = getNodes (es_uuid j) es';
             r = calculateReplicaShards (ess_RedundancyPolicy es') n
    in sum_list (map (\<lambda>x. sint (en_NodeCount x)) ns) = n \<and> masters ns = min 3 n \<and> 0 < n \<and>
       list_all (\<lambda>x. ''data'' \<in> set (en_Roles x) \<and> 0 < sint (en_NodeCount x)) ns \<and>
       distinct (map en_GenUUID ns) \<and> length (es_uuid j) \<le> 42 \<and> 0 \<le> r \<and>
       (r < n \<longleftrightarrow> \<not> (ess_NodeCount es = 1 \<and> ess_RedundancyPolicy es \<notin> {[], ''FullRedundancy'', ''MultipleRedundancy'', ''ZeroRedundancy''}))"
proof -
  define es' where "es' = normalizeElasticsearch es"
  define n where "n = sint (ess_NodeCount es')"
  have z: "sint (ess_NodeCount es) = 0 \<longleftrightarrow> ess_NodeCount es = 0"
    using sint_inject [of "ess_NodeCount es" 0] by (simp only: sint_0)
  have o: "sint (ess_NodeCount es) = 1 \<longleftrightarrow> ess_NodeCount es = 1"
    using sint_inject [of "ess_NodeCount es" 1] by (simp only: sint_1)
  have n: "0 < n" "n = 1 \<longleftrightarrow> ess_NodeCount es = 1"
    using assms z o by (auto simp: n_def es'_def normalized_elasticsearch)
  have u: "length (es_uuid j) \<le> 42"
    unfolding es_uuid_def using Truncate_bound_and_ends_aux [THEN conjunct1] by (rule order_trans [OF length_filter_le])
  have t: "sum_list (map (\<lambda>x. sint (en_NodeCount x)) (getNodes u es')) = n" "masters (getNodes u es') = min 3 n"
    "list_all (\<lambda>x. ''data'' \<in> set (en_Roles x) \<and> 0 < sint (en_NodeCount x)) (getNodes u es')" "distinct (map en_GenUUID (getNodes u es'))" for u
    using n(1) sint_minus_3 [of "ess_NodeCount es'"] by (auto simp: getNodes_def masters_def n_def [symmetric] Let_def)
  have r: "calculateReplicaShards (ess_RedundancyPolicy es') n < n \<longleftrightarrow>
      \<not> (ess_NodeCount es = 1 \<and> ess_RedundancyPolicy es \<notin> {[], ''FullRedundancy'', ''MultipleRedundancy'', ''ZeroRedundancy''})"
    using replica_shards_range [OF n(1), of "ess_RedundancyPolicy es'"] n by (auto simp: es'_def normalized_elasticsearch)
  show ?thesis
    unfolding Let_def es'_def [symmetric] n_def [symmetric] using t u n r replica_shards_range [OF n(1), of "ess_RedundancyPolicy es'"] by simp
qed

definition sample_es :: ElasticsearchSpec where
  "sample_es = (st_Elasticsearch (js_Storage JaegerSpec0))\<lparr>ess_NodeCount := 5\<rparr>"

theorem elasticsearch_topology_witness:
  "0 \<le> sint (ess_NodeCount sample_es) \<and>
   map (\<lambda>x. sint (en_NodeCount x)) (getNodes (es_uuid sample_jaeger) (normalizeElasticsearch sample_es)) = [3, 2] \<and>
   masters (getNodes (es_uuid sample_jaeger) (normalizeElasticsearch sample_es)) = 3"
proof -
  have five: "ess_NodeCount sample_es = 5" by (simp add: sample_es_def)
  have "masters (getNodes (es_uuid sample_jaeger) (normalizeElasticsearch sample_es)) = 3"
    using elasticsearch_topology [of sample_es sample_jaeger] by (simp add: Let_def five normalized_elasticsearch)
  then show ?thesis by (simp add: five getNodes_def normalized_elasticsearch Let_def)
qed

end
