(* ===== verification/ES_Certificates.thy ===== *)
theory ES_Certificates
  imports ES_Storage
begin

text \<open>
  The certificates of a provisioned Elasticsearch survive a restart of the operator: what
  \<open>ExtractSecrets\<close> stored in the cluster is what \<open>CreateCerts\<close> finds in the files again.
\<close>

section \<open>Paths\<close>

definition plain_name :: "string \<Rightarrow> bool" where
  "plain_name f \<longleftrightarrow> f \<noteq> [] \<and> f \<noteq> ''.'' \<and> f \<noteq> ''..'' \<and> CHR ''/'' \<notin> set f"

lemma clean_elems_snoc: "plain_name f \<Longrightarrow> clean_elems r out (xs @ [f]) = clean_elems r out xs @ [f]"
  by (induction r out xs rule: clean_elems.induct) (auto simp: plain_name_def split: list.split)

lemma Join_snoc: "Join sep (xs @ [f]) = (if xs = [] then f else Join sep xs @ sep @ f)"
  by (induction sep xs rule: Join.induct) auto

lemma Split_append: "Split b (s @ b # t) = Split b s @ Split b t"
  by (induction b s rule: Split.induct) (auto split: list.split)

text \<open>The prefix of a cleaned path does not depend on the name of the file.\<close>

lemma Clean_plain:
  assumes "plain_name f" "plain_name g" "d = [] \<or> hd d = CHR ''/''"
  shows "\<exists>d'. (d' = [] \<or> hd d' = CHR ''/'') \<and> Clean (d @ ''/'' @ f) = d' @ ''/'' @ f \<and> Clean (d @ ''/'' @ g) = d' @ ''/'' @ g"
proof -
  define E where "E = clean_elems True [] (Split (CHR ''/'') d)"
  have "Clean (d @ ''/'' @ h) = (''/'' @ Join ''/'' E) @ ''/'' @ h \<and> E \<noteq> [] \<or> Clean (d @ ''/'' @ h) = ''/'' @ h \<and> E = []"
    if "plain_name h" for h
  proof -
    have s: "Split (CHR ''/'') (d @ ''/'' @ h) = Split (CHR ''/'') d @ [h]"
      using that by (simp add: Split_append Split_single plain_name_def)
    have r: "d @ ''/'' @ h \<noteq> [] \<and> hd (d @ ''/'' @ h) = CHR ''/''" using assms(3) by (cases d) auto
    show ?thesis unfolding Clean_def Let_def s clean_elems_snoc [OF that] Join_snoc using r by (simp add: E_def)
  qed
  note c = this [OF assms(1)] this [OF assms(2)]
  show ?thesis
  proof (cases "E = []")
    case True
    then show ?thesis using c by (intro exI [of _ "[]"]) auto
  next
    case False
    then show ?thesis using c by (intro exI [of _ "''/'' @ Join ''/'' E"]) auto
  qed
qed

text \<open>The path of a file of the working directory, as it is read and written.\<close>

definition cert_path :: "string \<Rightarrow> string \<Rightarrow> string" where
  "cert_path dir f = Clean (getFilePath dir f)"

lemma cert_path_inject:
  assumes "plain_name f" "plain_name g" "dir \<noteq> []" "hd dir = CHR ''/''" "cert_path dir f = cert_path dir g"
  shows "f = g"
proof -
  have j: "getFilePath dir h = Clean (dir @ ''/'' @ h)" if "plain_name h" for h
    using that assms(3) by (simp add: getFilePath_def path_Join_def plain_name_def)
  obtain d where d: "d = [] \<or> hd d = CHR ''/''" "Clean (dir @ ''/'' @ f) = d @ ''/'' @ f" "Clean (dir @ ''/'' @ g) = d @ ''/'' @ g"
    using Clean_plain [OF assms(1,2), of dir] assms(4) by blast
  obtain d' where "Clean (d @ ''/'' @ f) = d' @ ''/'' @ f" "Clean (d @ ''/'' @ g) = d' @ ''/'' @ g"
    using Clean_plain [OF assms(1,2) d(1)] by blast
  then have "d' @ ''/'' @ f = d' @ ''/'' @ g" using assms(5) unfolding cert_path_def j [OF assms(1)] j [OF assms(2)] d by simp
  then show ?thesis by simp
qed

lemma getWorkingDir_rooted: "getWorkingDir j \<noteq> [] \<and> hd (getWorkingDir j) = CHR ''/''"
  by (simp add: getWorkingDir_def Clean_def Let_def)

section \<open>File systems\<close>

text \<open>What the code relies on: a file is there once it was created, reading gives what was written,
  and no call touches a file it was not given.\<close>

definition kept :: "'a option \<Rightarrow> 'a \<Rightarrow> 'a" where
  "kept c v = (case c of None \<Rightarrow> v | Some c' \<Rightarrow> c')"

locale file_system =
  fixes sys :: "'s System" and contents :: "'s \<Rightarrow> string \<Rightarrow> string option"
  assumes stat: "sys_Stat sys p s \<longleftrightarrow> contents s p \<noteq> None"
    and mkdir: "sys_MkdirAll sys d s = (None, s') \<Longrightarrow> contents s' = contents s"
    and openf: "sys_OpenFile sys p s = (None, s') \<Longrightarrow> contents s p = None \<Longrightarrow> contents s' = (contents s)(p \<mapsto> [])"
    and writef: "sys_Write sys p v s = (None, s') \<Longrightarrow> contents s p = Some [] \<Longrightarrow> contents s' = (contents s)(p \<mapsto> v)"
    and readf: "contents s p = Some v \<Longrightarrow> sys_ReadFile sys p s = Inr v"
begin

lemma writeToFile_contents:
  assumes "writeToFile sys dir f v s = (None, s')"
  shows "contents s' = (contents s)(cert_path dir f \<mapsto> kept (contents s (cert_path dir f)) v)"
proof (cases "sys_Stat sys (cert_path dir f) s")
  case True
  then obtain c where "contents s (cert_path dir f) = Some c" using stat by auto
  moreover have "s' = s" using assms True by (simp add: writeToFile_def cert_path_def)
  ultimately show ?thesis by (auto simp: kept_def)
next
  case False
  then have n: "contents s (cert_path dir f) = None" using stat by simp
  have "andthen (sys_MkdirAll sys dir) (andthen (sys_OpenFile sys (cert_path dir f))
      (\<lambda>s1. case sys_Write sys (cert_path dir f) v s1 of
          (Some err, s2) \<Rightarrow> (Some err, snd (sys_RemoveAll sys (cert_path dir f) s2)) | (None, s2) \<Rightarrow> (None, s2))) s = (None, s')"
    using assms False unfolding writeToFile_def Let_def cert_path_def [symmetric] by simp
  then obtain s1 s2 where s: "sys_MkdirAll sys dir s = (None, s1)" "sys_OpenFile sys (cert_path dir f) s1 = (None, s2)"
      "sys_Write sys (cert_path dir f) v s2 = (None, s')"
    unfolding andthen_None
    by (elim exE conjE, rename_tac s1 s2, case_tac "sys_Write sys (cert_path dir f) v s2") (auto split: option.splits)
  have "contents s1 = contents s" by (rule mkdir [OF s(1)])
  moreover from this n have "contents s2 = (contents s1)(cert_path dir f \<mapsto> [])" by (intro openf [OF s(2)]) simp
  moreover from this have "contents s' = (contents s2)(cert_path dir f \<mapsto> v)" by (intro writef [OF s(3)]) simp
  ultimately show ?thesis using n by (simp add: kept_def)
qed

lemma write_all_contents:
  assumes "for_each (\<lambda>(f, v). writeToFile sys dir f v) fs s = (None, s')"
  shows "contents s' p = (case contents s p of Some c \<Rightarrow> Some c | None \<Rightarrow> map_of (map (\<lambda>(f, v). (cert_path dir f, v)) fs) p)"
  using assms
proof (induction fs arbitrary: s)
  case Nil
  then show ?case by (simp split: option.split)
next
  case (Cons x fs)
  obtain f v where x: "x = (f, v)" by (cases x)
  obtain s1 where s1: "writeToFile sys dir f v s = (None, s1)" and r: "for_each (\<lambda>(f, v). writeToFile sys dir f v) fs s1 = (None, s')"
    using Cons.prems by (auto simp: x split: prod.splits option.splits)
  show ?case unfolding Cons.IH [OF r] writeToFile_contents [OF s1] by (auto simp: x kept_def split: option.split)
qed

end

section \<open>The certificates after a restart\<close>

abbreviation (input) "es_secrets \<equiv> [masterSecret, esSecret, jaegerSecret, curatorSecret]"

text \<open>The files of all secrets, with the value that \<open>R\<close> gives them.\<close>

definition secret_files :: "(string \<Rightarrow> 'a) \<Rightarrow> (string \<times> 'a) list" where
  "secret_files R = concat (map (\<lambda>sec. map (\<lambda>(k, f). (f, R f)) (keyFileNameMap sec)) es_secrets)"

lemmas es_secret_defs = masterSecret_def esSecret_def jaegerSecret_def curatorSecret_def

lemma for_each_append: "for_each f (xs @ ys) s = andthen (for_each f xs) (for_each f ys) s"
  by (induction xs arbitrary: s) (auto simp: andthen_def split: prod.splits option.splits)

lemma for_each_concat: "for_each (\<lambda>xs. for_each f xs) xss s = for_each f (concat xss) s"
  by (induction xss arbitrary: s) (auto simp: for_each_append andthen_def split: prod.splits option.splits)

lemma for_each_map: "for_each f (map g xs) s = for_each (\<lambda>x. f (g x)) xs s"
  by (induction xs arbitrary: s) (auto split: prod.splits option.splits)

lemma instance_names_distinct:
  assumes "\<not> uses_cert_management j"
  shows "distinct (map (\<lambda>sec. instanceName sec j) es_secrets)"
proof -
  have n: "j_Name j @ CHR ''-'' # x \<noteq> ''elasticsearch''" for x
  proof
    assume "j_Name j @ CHR ''-'' # x = ''elasticsearch''"
    then have "CHR ''-'' \<in> set ''elasticsearch''" by (metis in_set_conv_decomp)
    then show False by simp
  qed
  show ?thesis using assms n by (auto simp: instanceName_def es_secret_defs)
qed

lemma secret_files_plain: "(f, v) \<in> set (secret_files R) \<Longrightarrow> plain_name f \<and> v = R f"
  by (auto simp: secret_files_def es_secret_defs plain_name_def)

lemma for_each_cong: "(\<And>x. x \<in> set xs \<Longrightarrow> f x = g x) \<Longrightarrow> for_each f xs s = for_each g xs s"
  by (induction xs arbitrary: s) (auto split: prod.splits option.splits)

lemma map_of_put_all_Nil: "distinct (map fst al) \<Longrightarrow> map_of (put_all al []) = map_of al"
  by (rule ext) (simp add: map_of_put_all split: option.split)

lemma secret_keys_distinct: "sec \<in> set es_secrets \<Longrightarrow> distinct (map fst (keyFileNameMap sec))"
  by (auto simp: es_secret_defs)

lemma working_dir_value:
  assumes "distinct (map fst m)" "(k, f) \<in> set m"
  shows "mstr (getWorkingDirContents sys dir m s) k = getFileContents sys (getFilePath dir f) s"
proof -
  let ?al = "map (\<lambda>(k, f). (k, getFileContents sys (getFilePath dir f) s)) m"
  have "map fst ?al = map fst m" by auto
  then have d: "distinct (map fst ?al)" using assms(1) by (simp only:)
  have "(k, getFileContents sys (getFilePath dir f) s) \<in> set ?al" using assms(2) by force
  then have "map_of (put_all ?al []) k = Some (getFileContents sys (getFilePath dir f) s)"
    unfolding map_of_put_all_Nil [OF d] using d by (simp only: map_of_eq_Some_iff)
  then show ?thesis by (simp add: mstr_def mget_def getWorkingDirContents_def entries_def)
qed

lemma extract_secret_eq:
  assumes "sec \<in> set es_secrets"
  shows "extractSecretToFile sys dir (getWorkingDirContents sys dir (keyFileNameMap sec) s0) sec =
    for_each (\<lambda>(f, v). writeToFile sys dir f v) (map (\<lambda>(k, f). (f, getFileContents sys (getFilePath dir f) s0)) (keyFileNameMap sec))"
  by (rule ext, unfold extractSecretToFile_def for_each_map, rule for_each_cong)
    (auto simp: working_dir_value secret_keys_distinct [OF assms])

lemma extract_secrets_eq:
  assumes "\<not> uses_cert_management j"
  shows "extractSecretsToFile sys j (ExtractSecrets sys j s0) es_secrets s =
    for_each (\<lambda>(f, v). writeToFile sys (getWorkingDir j) f v)
      (secret_files (\<lambda>f. getFileContents sys (getFilePath (getWorkingDir j) f) s0)) s"
proof -
  let ?sec = "\<lambda>sec. createSecret j (instanceName sec j) (getWorkingDirContents sys (getWorkingDir j) (keyFileNameMap sec) s0)"
  let ?m = "put_all (map (\<lambda>sec. (om_Name (sec_Meta sec), sec)) (ExtractSecrets sys j s0)) []"
  have m: "map (\<lambda>sec. (om_Name (sec_Meta sec), sec)) (ExtractSecrets sys j s0) = map (\<lambda>sec. (instanceName sec j, ?sec sec)) es_secrets"
    by (simp add: ExtractSecrets_def createSecret_def)
  have d: "distinct (map fst (map (\<lambda>sec. (instanceName sec j, ?sec sec)) es_secrets))"
    using instance_names_distinct [OF assms] by (simp add: o_def)
  have "map_of ?m (instanceName sec j) = Some (?sec sec)" if "sec \<in> set es_secrets" for sec
  proof -
    have "(instanceName sec j, ?sec sec) \<in> set (map (\<lambda>sec. (instanceName sec j, ?sec sec)) es_secrets)"
      unfolding set_map using that by (rule_tac image_eqI [where x = sec]) simp_all
    then show ?thesis unfolding m map_of_put_all_Nil [OF d] using d by (simp only: map_of_eq_Some_iff)
  qed
  then have "extractSecretsToFile sys j (ExtractSecrets sys j s0) es_secrets s =
      for_each (\<lambda>sec. for_each (\<lambda>(f, v). writeToFile sys (getWorkingDir j) f v)
        (map (\<lambda>(k, f). (f, getFileContents sys (getFilePath (getWorkingDir j) f) s0)) (keyFileNameMap sec))) es_secrets s"
    unfolding extractSecretsToFile_def Let_def
    by (intro for_each_cong) (simp only: option.case extract_secret_eq [symmetric] createSecret_def Secret.simps)
  then show ?thesis unfolding secret_files_def for_each_concat [symmetric] for_each_map .
qed

lemma map_of_unique: "(p, v) \<in> set al \<Longrightarrow> (\<And>w. (p, w) \<in> set al \<Longrightarrow> w = v) \<Longrightarrow> map_of al p = Some v"
  by (metis map_of_SomeD weak_map_of_SomeI)

lemma restored_contents:
  assumes "file_system sys contents" "\<not> uses_cert_management j"
    and "list_all (\<lambda>(f, _). contents s (cert_path (getWorkingDir j) f) = None) (secret_files (\<lambda>_. ()))"
    and "extractSecretsToFile sys j (ExtractSecrets sys j s0) es_secrets s = (None, s')"
    and "sec \<in> set es_secrets" "(k, f) \<in> set (keyFileNameMap sec)"
  shows "getFileContents sys (getFilePath (getWorkingDir j) f) s' = getFileContents sys (getFilePath (getWorkingDir j) f) s0"
proof -
  let ?dir = "getWorkingDir j" and ?R = "\<lambda>f. getFileContents sys (getFilePath (getWorkingDir j) f) s0"
  note w = file_system.write_all_contents [OF assms(1) assms(4) [unfolded extract_secrets_eq [OF assms(2)]]]
  have mem: "(f, R f) \<in> set (secret_files R)" for R :: "string \<Rightarrow> 'x"
    using assms(5,6) unfolding secret_files_def by force
  have none: "contents s (cert_path ?dir f) = None"
    using assms(3) mem [of "\<lambda>_. ()"] by (auto simp: list_all_iff)
  have "map_of (map (\<lambda>(f, v). (cert_path ?dir f, v)) (secret_files ?R)) (cert_path ?dir f) = Some (?R f)"
  proof (rule map_of_unique)
    show "(cert_path ?dir f, ?R f) \<in> set (map (\<lambda>(f, v). (cert_path ?dir f, v)) (secret_files ?R))" using mem [of ?R] by force
    fix v
    assume "(cert_path ?dir f, v) \<in> set (map (\<lambda>(f, v). (cert_path ?dir f, v)) (secret_files ?R))"
    then obtain g where g: "(g, v) \<in> set (secret_files ?R)" "cert_path ?dir f = cert_path ?dir g" by auto
    have "f = g"
      using cert_path_inject [OF _ _ _ _ g(2)] secret_files_plain [OF g(1)] secret_files_plain [OF mem [of ?R]] getWorkingDir_rooted [of j] by blast
    then show "v = ?R f" using secret_files_plain [OF g(1)] by simp
  qed
  then have "contents s' (cert_path ?dir f) = Some (?R f)" by (simp add: w none)
  then have r: "sys_ReadFile sys (cert_path ?dir f) s' = Inr (?R f)" by (rule file_system.readf [OF assms(1)])
  show ?thesis
  proof (cases "getFilePath ?dir f = []")
    case False
    then show ?thesis using r by (simp add: getFileContents_def [of _ _ s'] cert_path_def)
  qed (simp add: getFileContents_def)
qed

lemma dir_contents_cong:
  assumes "\<And>k f. (k, f) \<in> set m \<Longrightarrow> getFileContents sys (getFilePath dir f) s = getFileContents sys (getFilePath dir f) s'"
  shows "getWorkingDirContents sys dir m s = getWorkingDirContents sys dir m s'"
proof -
  have "map (\<lambda>(k, f). (k, getFileContents sys (getFilePath dir f) s)) m = map (\<lambda>(k, f). (k, getFileContents sys (getFilePath dir f) s')) m"
    using assms by auto
  then show ?thesis by (simp only: getWorkingDirContents_def)
qed

text \<open>A file system in memory.\<close>

definition mem_system :: "(string \<rightharpoonup> string) System" where
  "mem_system = \<lparr>sys_Stat = (\<lambda>p s. s p \<noteq> None), sys_MkdirAll = (\<lambda>d s. (None, s)),
     sys_OpenFile = (\<lambda>p s. (None, s(p \<mapsto> (case s p of None \<Rightarrow> [] | Some c \<Rightarrow> c)))),
     sys_Write = (\<lambda>p v s. (None, s(p \<mapsto> v))), sys_RemoveAll = (\<lambda>p s. (None, s(p := None))),
     sys_ReadFile = (\<lambda>p s. case s p of None \<Rightarrow> Inl NotFound | Some c \<Rightarrow> Inr c), sys_Bash = (\<lambda>script env s. (None, s))\<rparr>"

interpretation mem_files: file_system mem_system "\<lambda>s. s"
  by unfold_locales (auto simp: mem_system_def)



end
