(* ===== verification/Autodetect.thy ===== *)
theory Autodetect
  imports Cluster
begin

text \<open>
  Package \<open>pkg/autodetect\<close>, file \<open>main.go\<close>: the background poll that adjusts the configuration of the
  operator to the cluster.  The discovery client, the OpenShift image streams, the token reviews and
  the parser of image references are libraries: they are the record \<open>Discovery\<close>.  The configuration
  is the \<open>Env\<close> of the other theories, passed on from one step to the next.
\<close>

section \<open>What is asked of the cluster\<close>

record APIResourceList =
  al_GroupVersion :: string
  al_Resources :: "(string \<times> string) list"     \<comment> \<open>name and kind\<close>

record 's Discovery =
  d_ServerGroups :: "((string \<times> string) list, 's) query"          \<comment> \<open>name and preferred version\<close>
  d_Resources :: "string \<Rightarrow> (APIResourceList, 's) query"
  d_IngressClasses :: "((string \<times> string gomap) list, 's) query"   \<comment> \<open>name and annotations\<close>
  d_ImageStream :: "string \<Rightarrow> string \<Rightarrow> (string list list, 's) query" \<comment> \<open>the references of the items of each tag\<close>
  d_CreateTokenReview :: "'s op"
  d_DeleteTokenReview :: "'s op"
  d_ImageID :: "string \<Rightarrow> string option"                            \<comment> \<open>the digest of an image reference, empty if it has none\<close>

record Background =
  retryDetectKafka :: bool
  retryDetectEs :: bool
  ranOnce :: bool                     \<comment> \<open>the state of the \<open>sync.Once\<close>\<close>

definition listenedGroups :: "string list" where
  "listenedGroups = [''logging.openshift.io'', ''kafka.strimzi.io'', ''route.openshift.io'']"

definition WithClients :: "Env \<Rightarrow> Background" where
  "WithClients e = \<lparr>retryDetectKafka = (viper_GetString e ''kafka-provision'' = ''auto''),
     retryDetectEs = (viper_GetString e ''es-provision'' = ''auto''), ranOnce = False\<rparr>"

text \<open>One failing group makes the whole answer an error.\<close>

fun available_apis :: "'s Discovery \<Rightarrow> (string \<times> string) list \<Rightarrow> APIResourceList list \<Rightarrow> goerr option \<Rightarrow> 's \<Rightarrow> APIResourceList list res \<times> 's" where
  "available_apis D [] apis errs s = (case errs of None \<Rightarrow> Inr apis | Some e \<Rightarrow> Inl e, s)"
| "available_apis D ((name, version) # gs) apis errs s =
     (if name \<in> set listenedGroups then
        (case d_Resources D version s of
           (Inr l, s') \<Rightarrow> available_apis D gs (apis @ [l]) errs s'
         | (Inl e, s') \<Rightarrow> available_apis D gs apis (Some (Failed (''Error getting resources for server group '' @ name))) s')
      else available_apis D gs apis errs s)"

definition AvailableAPIs :: "'s Discovery \<Rightarrow> (APIResourceList list, 's) query" where
  "AvailableAPIs D s = (case d_ServerGroups D s of
     (Inl e, s') \<Rightarrow> (Inl e, s')
   | (Inr gs, s') \<Rightarrow> available_apis D gs [] None s')"

definition isOpenShift :: "APIResourceList list \<Rightarrow> bool" where
  "isOpenShift apiList = list_ex (\<lambda>r. HasPrefix (al_GroupVersion r) ''route.openshift.io'') apiList"

definition IsElasticsearchOperatorAvailable :: "APIResourceList list \<Rightarrow> bool" where
  "IsElasticsearchOperatorAvailable apiList =
     list_ex (\<lambda>r. HasPrefix (al_GroupVersion r) ''logging.openshift.io'' \<and> list_ex (\<lambda>(name, kind). kind = ''Elasticsearch'') (al_Resources r)) apiList"

definition isKafkaOperatorAvailable :: "APIResourceList list \<Rightarrow> bool" where
  "isKafkaOperatorAvailable apiList = list_ex (\<lambda>r. HasPrefix (al_GroupVersion r) ''kafka.strimzi.io'') apiList"

section \<open>The steps of a poll\<close>

type_synonym 's detection = "Env \<Rightarrow> 's \<Rightarrow> Env \<times> 's"

definition has_resource :: "'s Discovery \<Rightarrow> string \<Rightarrow> string \<Rightarrow> 's \<Rightarrow> bool \<times> 's" where
  "has_resource D version name s = (case d_Resources D version s of
     (Inl e, s') \<Rightarrow> (False, s')
   | (Inr l, s') \<Rightarrow> (name \<in> fst ` set (al_Resources l), s'))"

text \<open>The loop over the versions of the cron jobs goes on after a hit: the last version wins.\<close>

definition detectCronjobsVersion :: "'s Discovery \<Rightarrow> 's detection" where
  "detectCronjobsVersion D e s =
     (let (v1, s1) = has_resource D ''batch/v1'' ''cronjobs'' s;
          (beta, s2) = has_resource D ''batch/v1beta1'' ''cronjobs'' s1;
          detected = (if beta then ''batch/v1beta1'' else if v1 then ''batch/v1'' else [])
      in (if detected = [] then e else viper_Set FlagCronJobsVersion detected e, s2))"

definition detectAutoscalingVersion :: "'s Discovery \<Rightarrow> 's detection" where
  "detectAutoscalingVersion D e s =
     (case has_resource D ''autoscaling/v2'' ''horizontalpodautoscalers'' s of
        (True, s1) \<Rightarrow> (viper_Set FlagAutoscalingVersion ''autoscaling/v2'' e, s1)
      | (False, s1) \<Rightarrow> (case has_resource D ''autoscaling/v2beta2'' ''horizontalpodautoscalers'' s1 of
            (True, s2) \<Rightarrow> (viper_Set FlagAutoscalingVersion ''autoscaling/v2beta2'' e, s2)
          | (False, s2) \<Rightarrow> (e, s2)))"

definition detectDefaultIngressClass :: "'s Discovery \<Rightarrow> 's detection" where
  "detectDefaultIngressClass D e s =
     (if GetPlatform e = OpenShiftPlatform then (e, s)
      else (case d_IngressClasses D s of
          (Inl err, s') \<Rightarrow> (e, s')
        | (Inr cs, s') \<Rightarrow> (case find (\<lambda>(name, as). mget as ''ingressclass.kubernetes.io/is-default-class'' = Some ''true'') cs of
              None \<Rightarrow> (e, s') | Some (name, as) \<Rightarrow> (viper_Set FlagDefaultIngressClass name e, s'))))"

definition detectPlatform :: "APIResourceList list \<Rightarrow> Env \<Rightarrow> Env" where
  "detectPlatform apiList e =
     (if \<not> IsPlatformAutodetectionEnabled e then e
      else SetPlatform (SString (Platform_String (if isOpenShift apiList then OpenShiftPlatform else KubernetesPlatform))) e)"

definition detectOAuthProxyImageStream :: "'s Discovery \<Rightarrow> 's detection" where
  "detectOAuthProxyImageStream D e s =
     (let ns = viper_GetString e ''openshift-oauth-proxy-imagestream-ns''; name = viper_GetString e ''openshift-oauth-proxy-imagestream-name''
      in if GetPlatform e \<noteq> OpenShiftPlatform \<or> ns = [] \<or> name = [] then (e, s)
         else if (case d_ImageID D (GetOautProxyImage e) of Some i \<Rightarrow> i \<noteq> [] | None \<Rightarrow> False) then (e, s)
         else (case d_ImageStream D ns name s of
            (Inr ((ref # refs) # tags), s') \<Rightarrow> (if ref = [] then e else SetOautProxyImage ref e, s')
          | (_, s') \<Rightarrow> (e, s')))"

text \<open>A setting that was given explicitly is only logged here; the detection goes on.\<close>

definition detectElasticsearch :: "Background \<Rightarrow> APIResourceList list \<Rightarrow> Env \<Rightarrow> Env" where
  "detectElasticsearch b apiList e =
     (let esProvision = (if IsElasticsearchOperatorAvailable apiList then ESOperatorIntegrationYes else ESOperatorIntegrationNo)
      in if GetESPIntegration e \<noteq> esProvision then SetESIngration (STyped esProvision) e else e)"

definition detectKafka :: "Background \<Rightarrow> APIResourceList list \<Rightarrow> Env \<Rightarrow> Env" where
  "detectKafka b apiList e =
     (if \<not> retryDetectKafka b then e
      else (let kafkaProvision = (if isKafkaOperatorAvailable apiList then KafkaOperatorIntegrationYes else KafkaOperatorIntegrationNo)
            in if GetKafkaIntegration e \<noteq> kafkaProvision then SetKafkaIntegration (STyped kafkaProvision) e else e))"

definition detectClusterRoles :: "'s Discovery \<Rightarrow> 's detection" where
  "detectClusterRoles D e s =
     (if GetPlatform e \<noteq> OpenShiftPlatform then (e, s)
      else (case d_CreateTokenReview D s of (err, s1) \<Rightarrow>
        let newAuthDelegator = (if err = None then AuthDelegatorAvailabilityYes else AuthDelegatorAvailabilityNo);
            e' = (if GetAuthDelegator e \<noteq> newAuthDelegator \<or> \<not> IsAuthDelegatorSet e
                  then SetAuthDelegatorAvailability (STyped newAuthDelegator) e else e)
        in (e', snd (d_DeleteTokenReview D s1))))"

definition first_run :: "'s Discovery \<Rightarrow> APIResourceList list \<Rightarrow> 's detection" where
  "first_run D apiList e s =
     (let (e1, s1) = detectCronjobsVersion D (detectPlatform apiList e) s; (e2, s2) = detectAutoscalingVersion D e1 s1
      in detectDefaultIngressClass D e2 s2)"

definition autoDetectCapabilities :: "'s Discovery \<Rightarrow> Background \<Rightarrow> Env \<Rightarrow> 's \<Rightarrow> Background \<times> Env \<times> 's" where
  "autoDetectCapabilities D b e s =
     (case AvailableAPIs D s of
        (Inl err, s1) \<Rightarrow> (b, detectClusterRoles D e s1)
      | (Inr apiList, s1) \<Rightarrow>
          (let (e2, s2) = (if ranOnce b then (e, s1) else first_run D apiList e s1);
               (e3, s3) = detectOAuthProxyImageStream D e2 s2;
               e4 = detectKafka b apiList (detectElasticsearch b apiList e3)
           in (b\<lparr>ranOnce := True\<rparr>, detectClusterRoles D e4 s3)))"

text \<open>The ticker: one poll at the start and one for every tick.\<close>

fun polls :: "nat \<Rightarrow> 's Discovery \<Rightarrow> Background \<Rightarrow> Env \<Rightarrow> 's \<Rightarrow> Background \<times> Env \<times> 's" where
  "polls 0 D b e s = (b, e, s)"
| "polls (Suc n) D b e s = (case autoDetectCapabilities D b e s of (b', e', s') \<Rightarrow> polls n D b' e' s')"

section \<open>Which settings a poll changes\<close>

definition integrations :: "Env \<Rightarrow> Platform \<times> ESOperatorIntegration \<times> KafkaOperatorIntegration" where
  "integrations e = (GetPlatform e, GetESPIntegration e, GetKafkaIntegration e)"

lemma integrations_other [simp]:
  "k \<notin> {FlagPlatform, FlagESProvision, FlagKafkaProvision} \<Longrightarrow> integrations (viper_Set k v e) = integrations e"
  by (simp add: integrations_def platform.get_other_key es_integration.get_other_key kafka_integration.get_other_key)

lemma detect_frame:
  "integrations (fst (detectCronjobsVersion D e s)) = integrations e"
  "integrations (fst (detectAutoscalingVersion D e s)) = integrations e"
  "integrations (fst (detectDefaultIngressClass D e s)) = integrations e"
  "integrations (fst (detectOAuthProxyImageStream D e s)) = integrations e"
  "integrations (fst (detectClusterRoles D e s)) = integrations e"
  by (simp_all add: detectCronjobsVersion_def detectAutoscalingVersion_def detectDefaultIngressClass_def
      detectOAuthProxyImageStream_def detectClusterRoles_def SetOautProxyImage_def SetAuthDelegatorAvailability_def Let_def
      split: prod.split sum.split option.split list.split bool.split)

lemma detectPlatform_integrations:
  "integrations (detectPlatform apis e) =
     (if IsPlatformAutodetectionEnabled e then (if isOpenShift apis then OpenShiftPlatform else KubernetesPlatform) else GetPlatform e,
      GetESPIntegration e, GetKafkaIntegration e)"
proof -
  have str: "SetPlatform (SString (Platform_String p)) e = SetPlatform (STyped p) e" for p by (simp add: SetPlatform_def)
  show ?thesis
    by (simp add: detectPlatform_def integrations_def str platform.get_set_typed)
      (simp add: SetPlatform_def es_integration.get_other_key kafka_integration.get_other_key)
qed

lemma first_run_integrations: "integrations (fst (first_run D apis e s)) = integrations (detectPlatform apis e)"
proof -
  obtain e1 s1 where 1: "detectCronjobsVersion D (detectPlatform apis e) s = (e1, s1)" by (rule prod.exhaust)
  obtain e2 s2 where 2: "detectAutoscalingVersion D e1 s1 = (e2, s2)" by (rule prod.exhaust)
  show ?thesis
    using detect_frame(1) [of D "detectPlatform apis e" s] detect_frame(2) [of D e1 s1] detect_frame(3) [of D e2 s2]
    by (simp add: first_run_def 1 2)
qed

lemma detectElasticsearch_integrations:
  "integrations (detectElasticsearch b apis e) =
     (GetPlatform e, if IsElasticsearchOperatorAvailable apis then ESOperatorIntegrationYes else ESOperatorIntegrationNo, GetKafkaIntegration e)"
  by (auto simp: detectElasticsearch_def integrations_def es_integration.get_set_typed Let_def)
    (simp_all add: SetESIngration_def platform.get_other_key kafka_integration.get_other_key)

lemma detectKafka_integrations:
  "integrations (detectKafka b apis e) =
     (GetPlatform e, GetESPIntegration e,
      if retryDetectKafka b then (if isKafkaOperatorAvailable apis then KafkaOperatorIntegrationYes else KafkaOperatorIntegrationNo)
      else GetKafkaIntegration e)"
  by (auto simp: detectKafka_def integrations_def kafka_integration.get_set_typed Let_def)
    (simp_all add: SetKafkaIntegration_def platform.get_other_key es_integration.get_other_key)

text \<open>What a poll decides, as a function of the answer of the cluster.\<close>

definition decided :: "Background \<Rightarrow> APIResourceList list res \<Rightarrow> Env \<Rightarrow> Platform \<times> ESOperatorIntegration \<times> KafkaOperatorIntegration" where
  "decided b answer e = (case answer of
      Inl err \<Rightarrow> integrations e
    | Inr apis \<Rightarrow>
       (if \<not> ranOnce b \<and> IsPlatformAutodetectionEnabled e then (if isOpenShift apis then OpenShiftPlatform else KubernetesPlatform)
        else GetPlatform e,
        if IsElasticsearchOperatorAvailable apis then ESOperatorIntegrationYes else ESOperatorIntegrationNo,
        if retryDetectKafka b then (if isKafkaOperatorAvailable apis then KafkaOperatorIntegrationYes else KafkaOperatorIntegrationNo)
        else GetKafkaIntegration e))"

lemma poll_outcome:
  assumes "autoDetectCapabilities D b e s = (b', e', s')"
  shows "b' = b\<lparr>ranOnce := ranOnce b \<or> \<not> isl (fst (AvailableAPIs D s))\<rparr> \<and> integrations e' = decided b (fst (AvailableAPIs D s)) e"
proof -
  obtain r s1 where r: "AvailableAPIs D s = (r, s1)" by (rule prod.exhaust)
  show ?thesis
  proof (cases r)
    case (Inl err)
    with assms r show ?thesis using detect_frame(5) [of D e s1] by (auto simp: autoDetectCapabilities_def decided_def)
  next
    case (Inr apis)
    obtain e2 s2 where 2: "(if ranOnce b then (e, s1) else first_run D apis e s1) = (e2, s2)" by (rule prod.exhaust)
    obtain e3 s3 where 3: "detectOAuthProxyImageStream D e2 s2 = (e3, s3)" by (rule prod.exhaust)
    let ?e4 = "detectKafka b apis (detectElasticsearch b apis e3)"
    from assms r Inr 2 3 have res: "b' = b\<lparr>ranOnce := True\<rparr>" "(e', s') = detectClusterRoles D ?e4 s3"
      by (simp_all add: autoDetectCapabilities_def)
    have "integrations e2 = (if ranOnce b then integrations e else integrations (detectPlatform apis e))"
      using 2 first_run_integrations [of D apis e s1] by (auto split: if_splits)
    moreover have "integrations e3 = integrations e2" using detect_frame(4) [of D e2 s2] 3 by simp
    ultimately have e3: "integrations e3 = (if ranOnce b then integrations e else integrations (detectPlatform apis e))" by simp
    have "integrations e' = integrations ?e4" using detect_frame(5) [of D ?e4 s3] res(2) by (metis fst_conv)
    with res(1) r Inr e3 detectKafka_integrations [of b apis] detectElasticsearch_integrations [of b apis e3] detectPlatform_integrations [of apis e]
    show ?thesis by (auto simp: integrations_def decided_def split: if_splits)
  qed
qed

lemma polls_platform: "ranOnce b \<Longrightarrow> polls n D b e s = (b', e', s') \<Longrightarrow> GetPlatform e' = GetPlatform e"
proof (induction n arbitrary: b e s)
  case (Suc n)
  obtain b1 e1 s1 where p: "autoDetectCapabilities D b e s = (b1, e1, s1)" by (rule prod_cases3)
  have "ranOnce b1" "GetPlatform e1 = GetPlatform e"
    using poll_outcome [OF p] Suc.prems(1) by (auto simp: decided_def integrations_def split: sum.splits)
  with Suc p show ?case by simp
qed simp

lemma polls_kafka: "\<not> retryDetectKafka b \<Longrightarrow> polls n D b e s = (b', e', s') \<Longrightarrow> GetKafkaIntegration e' = GetKafkaIntegration e"
proof (induction n arbitrary: b e s)
  case (Suc n)
  obtain b1 e1 s1 where p: "autoDetectCapabilities D b e s = (b1, e1, s1)" by (rule prod_cases3)
  have "\<not> retryDetectKafka b1" "GetKafkaIntegration e1 = GetKafkaIntegration e"
    using poll_outcome [OF p] Suc.prems(1) by (auto simp: decided_def integrations_def split: sum.splits)
  with Suc p show ?case by simp
qed simp

text \<open>C37: what the polls of the cluster do to the configuration.  A poll that gets an answer sets the
  integration with the Elasticsearch operator to whether its resource is served, whatever the
  operator was started with; the integration with Kafka follows the cluster only if it was started
  in automatic mode, and otherwise stays as given over any number of polls; and the platform is
  decided by the first poll with an answer, and only if it was to be detected: no later poll
  changes it.  A poll without an answer changes none of the three.\<close>

theorem detection_outcome:
  "(case autoDetectCapabilities D b e s of (b', e', s') \<Rightarrow> integrations e' = decided b (fst (AvailableAPIs D s)) e) \<and>
   (case polls n D b e s of (b', e', s') \<Rightarrow>
      (if ranOnce b then GetPlatform e' = GetPlatform e else True) \<and>
      (if retryDetectKafka b then True else GetKafkaIntegration e' = GetKafkaIntegration e))"
proof -
  obtain b1 e1 s1 where 1: "autoDetectCapabilities D b e s = (b1, e1, s1)" by (rule prod_cases3)
  obtain b2 e2 s2 where 2: "polls n D b e s = (b2, e2, s2)" by (rule prod_cases3)
  show ?thesis using poll_outcome [OF 1] polls_platform [OF _ 2] polls_kafka [OF _ 2] by (simp add: 1 2)
qed

end
