(* ===== verification/Query_Access.thy ===== *)
theory Query_Access
  imports Services
begin

text \<open>
  Packages \<open>pkg/ingress\<close> and \<open>pkg/route\<close>: the ingress (Kubernetes) and the route (OpenShift) through
  which the user interface is reached from outside the cluster.
\<close>

section \<open>The ingress\<close>

definition getRule :: "string \<Rightarrow> string \<Rightarrow> string \<Rightarrow> string \<times> int32 \<Rightarrow> IngressRule" where
  "getRule host path pathType backend = \<lparr>ir_Host = host, ir_Path = path, ir_PathType = pathType, ir_Backend = backend\<rparr>"

definition getRules :: "string \<Rightarrow> string \<Rightarrow> string list \<Rightarrow> string \<times> int32 \<Rightarrow> IngressRule list" where
  "getRules path pathType hosts backend =
     (if length hosts > 0 then map (\<lambda>host. getRule host path pathType backend) hosts else [getRule [] path pathType backend])"

definition query_base_path :: "Jaeger \<Rightarrow> string" where
  "query_base_path jaeger =
     (let strategy = js_Strategy (j_Spec jaeger);
          allInOne = map_of (StringMap (aio_Options (js_AllInOne (j_Spec jaeger)))) ''query.base-path'';
          query = map_of (StringMap (q_Options (js_Query (j_Spec jaeger)))) ''query.base-path''
      in if allInOne \<noteq> None \<and> strategy = DeploymentStrategyAllInOne then the allInOne
         else if (query \<noteq> None \<and> strategy = DeploymentStrategyProduction) \<or> strategy = DeploymentStrategyStreaming
         then (case query of None \<Rightarrow> [] | Some p \<Rightarrow> p)
         else [])"

definition addRulesSpec :: "Jaeger \<Rightarrow> string \<times> int32 \<Rightarrow> IngressSpec \<Rightarrow> IngressSpec" where
  "addRulesSpec jaeger backend spec =
     (let ing = js_Ingress (j_Spec jaeger); path = query_base_path jaeger;
          pathType = (if ji_PathType ing \<noteq> [] then ji_PathType ing else ''ImplementationSpecific'')
      in if length (ji_Hosts ing) > 0 \<or> path \<noteq> []
         then spec\<lparr>is_Rules := is_Rules spec @ getRules path pathType (ji_Hosts ing) backend\<rparr>
         else spec\<lparr>is_DefaultBackend := Some backend\<rparr>)"

definition addTLSSpec :: "Jaeger \<Rightarrow> IngressSpec \<Rightarrow> IngressSpec" where
  "addTLSSpec jaeger spec =
     (let ing = js_Ingress (j_Spec jaeger)
      in if length (ji_TLS ing) > 0
         then spec\<lparr>is_TLS := is_TLS spec @ map (\<lambda>tls. \<lparr>it_Hosts = itls_Hosts tls, it_SecretName = itls_SecretName tls\<rparr>) (ji_TLS ing)\<rparr>
         else if ji_SecretName ing \<noteq> [] then spec\<lparr>is_TLS := is_TLS spec @ [\<lparr>it_Hosts = [], it_SecretName = ji_SecretName ing\<rparr>]\<rparr>
         else spec)"

definition getInClusterAvailableIngressClass :: "Env \<Rightarrow> string option" where
  "getInClusterAvailableIngressClass e =
     (let ingressClassName = viper_GetString e FlagDefaultIngressClass
      in if ingressClassName = [] then None else Some ingressClassName)"

definition ingress_Get :: "Env \<Rightarrow> Jaeger \<Rightarrow> Ingress option" where
  "ingress_Get e jaeger =
     (let ing = js_Ingress (j_Spec jaeger); name = j_Name jaeger @ ''-query''
      in if ji_Enabled ing = Some False then None
         else (let commonSpec = Merge [ji_Common ing, js_Common (j_Spec jaeger),
                     JaegerCommonSpec0\<lparr>jc_Labels := Labels name ''query-ingress'' jaeger\<rparr>];
                   backend = (GetNameForQueryService jaeger, word_of_int (GetPortForQueryService jaeger));
                   spec = addTLSSpec jaeger (addRulesSpec jaeger backend
                     \<lparr>is_Rules = [], is_DefaultBackend = None, is_TLS = [], is_IngressClassName = None\<rparr>)
               in Some \<lparr>ing_TypeMeta = \<lparr>tm_APIVersion = ''networking.k8s.io/v1'', tm_Kind = ''Ingress''\<rparr>,
                    ing_Meta = ObjectMeta0\<lparr>om_Name := name, om_Namespace := j_Namespace jaeger, om_Labels := jc_Labels commonSpec,
                      om_Annotations := jc_Annotations commonSpec, om_OwnerReferences := [AsOwner jaeger]\<rparr>,
                    ing_Spec = spec\<lparr>is_IngressClassName := (case ji_IngressClassName ing of
                        Some c \<Rightarrow> Some c | None \<Rightarrow> getInClusterAvailableIngressClass e)\<rparr>,
                    ing_rest = []\<rparr>))"

section \<open>The route\<close>

definition route_name :: "Jaeger \<Rightarrow> string" where
  "route_name jaeger = DNSName
     (if length (j_Namespace jaeger) \<ge> 63 then j_Name jaeger
      else Truncate (j_Name jaeger) (62 - length (j_Namespace jaeger)) [])"

definition route_Get :: "Jaeger \<Rightarrow> Route option" where
  "route_Get jaeger =
     (let ing = js_Ingress (j_Spec jaeger)
      in if ji_Enabled ing = Some False then None
         else Some \<lparr>rt_TypeMeta = \<lparr>tm_APIVersion = ''route.openshift.io/v1'', tm_Kind = ''Route''\<rparr>,
                rt_Meta = ObjectMeta0\<lparr>om_Name := route_name jaeger, om_Namespace := j_Namespace jaeger,
                  om_Labels := Labels (j_Name jaeger) ''query-route'' jaeger, om_Annotations := jc_Annotations (ji_Common ing),
                  om_OwnerReferences := [AsOwner jaeger]\<rparr>,
                rt_Spec = \<lparr>rs_Host = (if length (ji_Hosts ing) > 0 then hd (ji_Hosts ing) else []),
                  rs_To = (''Service'', GetNameForQueryService jaeger),
                  rs_Termination = (if uses_oauth_proxy jaeger then ''reencrypt'' else ''edge''),
                  rs_Port = Some (GetPortNameForQueryService jaeger), rs_rest = []\<rparr>,
                rt_rest = []\<rparr>)"

section \<open>Properties\<close>

text \<open>Every backend of an ingress.\<close>

definition spec_backends :: "IngressSpec \<Rightarrow> (string \<times> int32) list" where
  "spec_backends spec = map ir_Backend (is_Rules spec) @ (case is_DefaultBackend spec of None \<Rightarrow> [] | Some b \<Rightarrow> [b])"

abbreviation (input) "ingress_backends i \<equiv> spec_backends (ing_Spec i)"

lemma spec_backends_update [simp]:
  "spec_backends (addTLSSpec j spec) = spec_backends spec" "spec_backends (spec\<lparr>is_IngressClassName := c\<rparr>) = spec_backends spec"
  by (simp_all add: spec_backends_def addTLSSpec_def Let_def)

lemma getRules_backends: "getRules path pt hosts b \<noteq> [] \<and> ir_Backend ` set (getRules path pt hosts b) = {b}"
  by (cases hosts) (auto simp: getRules_def getRule_def image_image)

lemma addRulesSpec_backends:
  "spec_backends spec = [] \<Longrightarrow> spec_backends (addRulesSpec j b spec) \<noteq> [] \<and> set (spec_backends (addRulesSpec j b spec)) = {b}"
  using getRules_backends by (cases b) (auto simp: addRulesSpec_def spec_backends_def Let_def split: option.splits)

lemma ingress_backends_eq:
  assumes "ingress_Get e j = Some i"
  shows "ingress_backends i \<noteq> [] \<and> set (ingress_backends i) = {(GetNameForQueryService j, word_of_int (GetPortForQueryService j))}"
proof -
  define b :: "string \<times> int32" where "b = (GetNameForQueryService j, word_of_int (GetPortForQueryService j))"
  define s0 where "s0 = \<lparr>is_Rules = [], is_DefaultBackend = None, is_TLS = [], is_IngressClassName = None\<rparr>"
  from assms have "spec_backends (ing_Spec i) = spec_backends (addRulesSpec j b s0)"
    unfolding ingress_Get_def Let_def b_def [symmetric] s0_def [symmetric] by (auto split: if_split_asm)
  moreover have "spec_backends s0 = []" by (simp add: s0_def spec_backends_def)
  ultimately show ?thesis using addRulesSpec_backends [of s0 j b] by (simp add: b_def)
qed

lemma query_service_ports:
  "om_Name (svc_Meta (fst (NewQueryService j l))) = GetNameForQueryService j"
  "word_of_int (GetPortForQueryService j) \<in> sp_Port ` set (ss_Ports (svc_Spec (fst (NewQueryService j l))))"
  "GetPortNameForQueryService j \<in> sp_Name ` set (ss_Ports (svc_Spec (fst (NewQueryService j l))))"
  by (simp_all add: NewQueryService_def service_object_def service_port_def Let_def)

lemma length_route_name:
  "length (j_Namespace j) < 63 \<Longrightarrow> length (route_name j) + 1 + length (j_Namespace j) \<le> 63"
  using Truncate_bound_and_ends_aux [THEN conjunct1, of "j_Name j" "62 - length (j_Namespace j)" "[]"] by (simp add: route_name_def)

text \<open>C30: the query service is reachable from outside.  Every backend of the ingress, of which there is
  at least one, and the target of the route name the query service and one of its ports, by number
  and by name; the route terminates the encryption at the router exactly when no proxy sits in front
  of the service; and the host name that OpenShift derives from a route, its name and the
  namespace joined by a dash, is a label of at most 63 characters whenever the namespace leaves room.\<close>

theorem query_access:
  "pred_option (\<lambda>i. ingress_backends i \<noteq> [] \<and>
      list_all (\<lambda>(name, port). name = om_Name (svc_Meta (fst (NewQueryService j l))) \<and>
        port \<in> sp_Port ` set (ss_Ports (svc_Spec (fst (NewQueryService j l))))) (ingress_backends i)) (ingress_Get e j) \<and>
   pred_option (\<lambda>r. rs_To (rt_Spec r) = (''Service'', om_Name (svc_Meta (fst (NewQueryService j l)))) \<and>
      pred_option (\<lambda>n. n \<in> sp_Name ` set (ss_Ports (svc_Spec (fst (NewQueryService j l))))) (rs_Port (rt_Spec r)) \<and>
      (rs_Termination (rt_Spec r) = ''edge'' \<longleftrightarrow> GetPortForQueryService j = getTargetPortForQueryService j) \<and>
      length (om_Name (rt_Meta r)) \<le> (if length (j_Namespace j) < 63 then 62 - length (j_Namespace j) else length (j_Name j))) (route_Get j)"
proof
  show "pred_option (\<lambda>i. ingress_backends i \<noteq> [] \<and>
      list_all (\<lambda>(name, port). name = om_Name (svc_Meta (fst (NewQueryService j l))) \<and>
        port \<in> sp_Port ` set (ss_Ports (svc_Spec (fst (NewQueryService j l))))) (ingress_backends i)) (ingress_Get e j)"
    using ingress_backends_eq [of e j] by (cases "ingress_Get e j") (simp_all add: list_all_iff query_service_ports)
  show "pred_option (\<lambda>r. rs_To (rt_Spec r) = (''Service'', om_Name (svc_Meta (fst (NewQueryService j l)))) \<and>
      pred_option (\<lambda>n. n \<in> sp_Name ` set (ss_Ports (svc_Spec (fst (NewQueryService j l))))) (rs_Port (rt_Spec r)) \<and>
      (rs_Termination (rt_Spec r) = ''edge'' \<longleftrightarrow> GetPortForQueryService j = getTargetPortForQueryService j) \<and>
      length (om_Name (rt_Meta r)) \<le> (if length (j_Namespace j) < 63 then 62 - length (j_Namespace j) else length (j_Name j))) (route_Get j)"
    using length_route_name [of j]
    by (auto simp: route_Get_def query_service_ports GetPortForQueryService_def getTargetPortForQueryService_def route_name_def Let_def)
qed

end
