(* ===== verification/Strategies.thy ===== *)
theory Strategies
  imports ES_Storage Query_Access Inject
begin

text \<open>
  Packages \<open>pkg/kafka\<close> and \<open>pkg/strategy\<close>: the objects of a provisioned Kafka, and the three strategies
  that put together everything an instance consists of.  The builders write into the instance they
  are given (the annotations of the query service, the defaults of Cassandra, the options for a
  provisioned Kafka), so that each of them returns the instance along with the strategy.
\<close>

section \<open>Kafka\<close>

definition Kafka_Persistent :: "Env \<Rightarrow> Jaeger \<Rightarrow> Kafka" where
  "Kafka_Persistent e jaeger =
     (let minimal = viper_GetBool e ''kafka-provisioning-minimal'';
          replicas = INum (if minimal then ''1'' else ''3''); replFactor = replicas;
          minIst = INum (if minimal then ''1'' else ''2'');
          size = (''size'', IStr ((if minimal then ''10'' else ''100'') @ ''Gi''));
          listener = (\<lambda>name port tls. IObj [(''name'', IStr name), (''port'', INum port), (''type'', IStr ''internal''), (''tls'', IBool tls)])
      in \<lparr>kf_Meta = ObjectMeta0\<lparr>om_Name := j_Name jaeger, om_Namespace := j_Namespace jaeger,
            om_Labels := Labels (j_Name jaeger) ''kafka'' jaeger, om_OwnerReferences := [AsOwner jaeger]\<rparr>,
          kf_Spec = ff_json (NewFreeForm (Some
            [(''kafka'', IObj [(''replicas'', replicas),
               (''listeners'', IArr [listener ''plain'' ''9092'' False, listener ''tls'' ''9093'' True]),
               (''config'', IObj [(''offsets.topic.replication.factor'', replFactor), (''transaction.state.log.replication.factor'', replFactor),
                  (''transaction.state.log.min.isr'', minIst), (''log.message.format.version'', IStr ''2.3'')]),
               (''storage'', IObj [(''type'', IStr ''jbod''),
                  (''volumes'', IArr [IObj [(''id'', INum ''0''), (''type'', IStr ''persistent-claim''), size, (''deleteClaim'', IBool False)]])])]),
             (''zookeeper'', IObj [(''replicas'', replicas),
               (''storage'', IObj [(''type'', IStr ''persistent-claim''), size, (''deleteClaim'', IBool False)])]),
             (''entityOperator'', IObj [(''topicOperator'', IObj []), (''userOperator'', IObj [])])])),
          kf_Conditions = []\<rparr>)"

definition Kafka_User :: "Jaeger \<Rightarrow> KafkaUser" where
  "Kafka_User jaeger =
     \<lparr>ku_Meta = ObjectMeta0\<lparr>om_Name := j_Name jaeger, om_Namespace := j_Namespace jaeger,
        om_Labels := Some (AList.update ''strimzi.io/cluster'' (j_Name jaeger) (entries (Labels (j_Name jaeger) ''kafkauser'' jaeger))),
        om_OwnerReferences := [AsOwner jaeger]\<rparr>,
      ku_Spec = ff_json (NewFreeForm (Some [(''authentication'', IObj [(''type'', IStr ''tls'')])])),
      ku_Conditions = []\<rparr>"

section \<open>The strategy\<close>

record S =
  S_typ :: string
  S_accounts :: "ServiceAccount list"
  S_clusterRoleBindings :: "ClusterRoleBinding list"
  S_configMaps :: "ConfigMap list"
  S_consoleLinks :: "ConsoleLink list"
  S_cronJobs :: "CronJob list"
  S_daemonSets :: "DaemonSet list"
  S_dependencies :: "Job list"
  S_deployments :: "Deployment list"
  S_elasticsearches :: "Elasticsearch list"
  S_horizontalPodAutoscalers :: "HPA list"
  S_ingresses :: "Ingress list"
  S_kafkas :: "Kafka list"
  S_kafkaUsers :: "KafkaUser list"
  S_routes :: "Route list"
  S_services :: "Service list"
  S_secrets :: "Secret list"

definition S_New :: S where
  "S_New = \<lparr>S_typ = [], S_accounts = [], S_clusterRoleBindings = [], S_configMaps = [], S_consoleLinks = [], S_cronJobs = [],
     S_daemonSets = [], S_dependencies = [], S_deployments = [], S_elasticsearches = [], S_horizontalPodAutoscalers = [],
     S_ingresses = [], S_kafkas = [], S_kafkaUsers = [], S_routes = [], S_services = [], S_secrets = []\<rparr>"

definition WithSecrets :: "Secret list \<Rightarrow> S \<Rightarrow> S" where
  "WithSecrets secrets s = s\<lparr>S_secrets := secrets\<rparr>"

definition ConsoleLinks :: "Route list \<Rightarrow> S \<Rightarrow> ConsoleLink list" where
  "ConsoleLinks routes s = UpdateHref routes (S_consoleLinks s)"

definition All :: "S \<Rightarrow> kobj list" where
  "All s = map OAccount (S_accounts s) @ map OClusterRoleBinding (S_clusterRoleBindings s) @ map OConsoleLink (S_consoleLinks s) @
     map OConfigMap (S_configMaps s) @ map OCronJob (S_cronJobs s) @ map OElasticsearch (S_elasticsearches s) @
     map OIngress (S_ingresses s) @ map OHPA (S_horizontalPodAutoscalers s) @ map OKafka (S_kafkas s) @
     map OKafkaUser (S_kafkaUsers s) @ map ORoute (S_routes s) @ map OService (S_services s) @ map OSecret (S_secrets s) @
     map OJob (S_dependencies s) @ map ODaemonSet (S_daemonSets s) @ map ODeployment (S_deployments s)"

section \<open>What the strategies share\<close>

definition opt_list :: "'a option \<Rightarrow> 'a list" where
  "opt_list x = (case x of None \<Rightarrow> [] | Some y \<Rightarrow> [y])"

text \<open>The objects that every strategy starts with: accounts, bindings and config maps.\<close>

definition base_strategy :: "Env \<Rightarrow> string \<Rightarrow> Jaeger \<Rightarrow> S" where
  "base_strategy e typ jaeger = S_New\<lparr>S_typ := typ, S_accounts := account_Get jaeger,
     S_clusterRoleBindings := clusterrolebinding_Get e jaeger,
     S_configMaps := opt_list (ui_Get jaeger) @ opt_list (sampling_Get jaeger) @ opt_list (GetTrustedCABundle e jaeger) @
       opt_list (GetServiceCABundle e jaeger)\<rparr>"

definition add_access :: "Env \<Rightarrow> Jaeger \<Rightarrow> S \<Rightarrow> S" where
  "add_access e jaeger c =
     (if GetPlatform e = OpenShiftPlatform
      then (case route_Get jaeger of
              None \<Rightarrow> c
            | Some q \<Rightarrow> c\<lparr>S_routes := S_routes c @ [q], S_consoleLinks := S_consoleLinks c @ opt_list (consolelink_Get jaeger q)\<rparr>)
      else c\<lparr>S_ingresses := S_ingresses c @ opt_list (ingress_Get e jaeger)\<rparr>)"

definition isBoolTrue :: "bool option \<Rightarrow> bool" where
  "isBoolTrue b \<longleftrightarrow> b = Some True"

definition spark_jobs :: "Env \<Rightarrow> Jaeger \<Rightarrow> CronJob list" where
  "spark_jobs e jaeger =
     (if isBoolTrue (jd_Enabled (st_Dependencies (j_Storage jaeger))) \<and> SupportedStorage (st_Type (j_Storage jaeger))
      then [CreateSparkDependencies e jaeger] else [])"

definition index_cleaner :: "Env \<Rightarrow> Jaeger \<Rightarrow> CronJob list res" where
  "index_cleaner e jaeger =
     (if isBoolTrue (ic_Enabled (st_EsIndexCleaner (j_Storage jaeger))) \<and> st_Type (j_Storage jaeger) = JaegerESStorage
      then res_bind (CreateEsIndexCleaner e jaeger) (\<lambda>cj. Inr [cj]) else Inr [])"

definition es_rollover :: "Env \<Rightarrow> Jaeger \<Rightarrow> CronJob list" where
  "es_rollover e jaeger = (if EnableRollover (j_Storage jaeger) then CreateRollover e jaeger else [])"

section \<open>All in one\<close>

definition newAllInOneStrategy :: "Env \<Rightarrow> (nat \<Rightarrow> nat) \<Rightarrow> Jaeger \<Rightarrow> (S \<times> Jaeger) res" where
  "newAllInOneStrategy e Intn jaeger0 =
     (let c1 = (base_strategy e DeploymentStrategyAllInOne jaeger0)
            \<lparr>S_deployments := [OAuthProxy e Intn jaeger0 (AllInOne_Get e jaeger0)], S_daemonSets := opt_list (Agent_Get e jaeger0)\<rparr>;
          (services, jaeger) = AllInOne_Services e jaeger0;
          c2 = add_access e jaeger (c1\<lparr>S_services := services\<rparr>)
      in res_bind (index_cleaner e jaeger) (\<lambda>cleaner.
           let (deps, jaeger') = Dependencies e jaeger
           in Inr (c2\<lparr>S_cronJobs := spark_jobs e jaeger @ cleaner @ es_rollover e jaeger, S_dependencies := deps\<rparr>, jaeger')))"

section \<open>Provisioning Elasticsearch\<close>

fun map_res :: "('a \<Rightarrow> 'b res) \<Rightarrow> 'a list \<Rightarrow> 'b list res" where
  "map_res f [] = Inr []"
| "map_res f (x # xs) = res_bind (f x) (\<lambda>y. res_bind (map_res f xs) (\<lambda>ys. Inr (y # ys)))"

definition upd_job_pod :: "(PodSpec \<Rightarrow> PodSpec res) \<Rightarrow> JobSpec \<Rightarrow> JobSpec res" where
  "upd_job_pod f js = res_bind (f (pt_Spec (js_Template js))) (\<lambda>p. Inr (js\<lparr>js_Template := (js_Template js)\<lparr>pt_Spec := p\<rparr>\<rparr>))"

definition upd_dependency :: "(PodSpec \<Rightarrow> PodSpec res) \<Rightarrow> Job \<Rightarrow> Job res" where
  "upd_dependency f job = res_bind (upd_job_pod f (job_Spec job)) (\<lambda>s. Inr (job\<lparr>job_Spec := s\<rparr>))"

definition upd_cron_job :: "(PodSpec \<Rightarrow> PodSpec res) \<Rightarrow> CronJob \<Rightarrow> CronJob res" where
  "upd_cron_job f cj = res_bind (upd_job_pod f (cj_Job (cj_Spec cj))) (\<lambda>s. Inr (cj\<lparr>cj_Spec := (cj_Spec cj)\<lparr>cj_Job := s\<rparr>\<rparr>))"

text \<open>\<open>autoProvisionElasticsearch\<close> with the pointers it is given: the deployments, the jobs that are
  dependencies, and the cron jobs, each changed in place.\<close>

definition autoProvisionElasticsearch ::
  "Jaeger \<Rightarrow> Job list \<Rightarrow> CronJob list \<Rightarrow> Deployment list \<Rightarrow> (Deployment list \<times> Job list \<times> CronJob list \<times> Elasticsearch list) res" where
  "autoProvisionElasticsearch jaeger jobs crons deployments =
     (let deployments' = map (upd_Pod (InjectStorageConfiguration jaeger)) deployments
      in res_bind (map_res (upd_dependency (InjectSecretsConfiguration jaeger)) jobs) (\<lambda>jobs'.
         res_bind (map_res (upd_cron_job (InjectSecretsConfiguration jaeger)) crons) (\<lambda>crons'.
         Inr (deployments', jobs', crons', opt_list (Elasticsearch_Get jaeger)))))"

definition provision_if_needed ::
  "Jaeger \<Rightarrow> Job list \<Rightarrow> CronJob list \<Rightarrow> Deployment list \<Rightarrow> (Deployment list \<times> Job list \<times> CronJob list \<times> Elasticsearch list) res" where
  "provision_if_needed jaeger jobs crons deployments =
     (if ShouldInjectOpenShiftElasticsearchConfiguration (j_Storage jaeger)
      then autoProvisionElasticsearch jaeger jobs crons deployments
      else Inr (deployments, jobs, crons, []))"

section \<open>Production\<close>

definition newProductionStrategy :: "Env \<Rightarrow> (nat \<Rightarrow> nat) \<Rightarrow> Jaeger \<Rightarrow> (S \<times> Jaeger) res" where
  "newProductionStrategy e Intn jaeger0 =
     (let c1 = (base_strategy e DeploymentStrategyProduction jaeger0)\<lparr>S_daemonSets := opt_list (Agent_Get e jaeger0)\<rparr>;
          (qservices, jaeger) = Query_Services jaeger0;
          c2 = (add_access e jaeger (c1\<lparr>S_services := Collector_Services e jaeger0 @ qservices\<rparr>))
            \<lparr>S_horizontalPodAutoscalers := Collector_Autoscalers e jaeger\<rparr>
      in res_bind (index_cleaner e jaeger) (\<lambda>cleaner.
           let cDep = Collector_Get e jaeger; queryDep = OAuthProxy e Intn jaeger (Query_Get e jaeger);
               (deps, jaeger') = Dependencies e jaeger
           in res_bind (provision_if_needed jaeger' deps (cleaner @ es_rollover e jaeger) [queryDep, cDep]) (\<lambda>(ds, deps', crons, es).
                Inr (c2\<lparr>S_cronJobs := spark_jobs e jaeger @ crons, S_dependencies := deps', S_elasticsearches := es,
                       S_deployments := rev ds\<rparr>, jaeger'))))"

section \<open>Streaming\<close>

definition kafka_brokers :: "Jaeger \<Rightarrow> string" where
  "kafka_brokers jaeger = j_Name jaeger @ ''-kafka-bootstrap.'' @ j_Namespace jaeger @ ''.svc.cluster.local:9093''"

definition kafka_options :: "string \<Rightarrow> Jaeger \<Rightarrow> iface amap" where
  "kafka_options p jaeger =
     (let clusterCAPath = ''/var/run/secrets/'' @ j_Name jaeger @ ''-cluster-ca'';
          clientCertPath = ''/var/run/secrets/'' @ j_Name jaeger
      in [(p @ ''.brokers'', IStr (kafka_brokers jaeger)), (p @ ''.authentication'', IStr ''tls''), (p @ ''.tls.enabled'', IStr ''true''),
          (p @ ''.tls.ca'', IStr (clusterCAPath @ ''/ca.crt'')), (p @ ''.tls.cert'', IStr (clientCertPath @ ''/user.crt'')),
          (p @ ''.tls.key'', IStr (clientCertPath @ ''/user.key''))])"

definition kafka_common_spec :: "Jaeger \<Rightarrow> JaegerCommonSpec" where
  "kafka_common_spec jaeger =
     (let user = ''kafkauser-'' @ j_Name jaeger; ca = ''kafkauser-'' @ j_Name jaeger @ ''-cluster-ca'';
          mount = (\<lambda>n path. \<lparr>vm_Name = n, vm_MountPath = path, vm_ReadOnly = False, vm_rest = []\<rparr>)
      in JaegerCommonSpec0\<lparr>
           jc_Volumes := [\<lparr>vol_Name = user, vol_Source = VSSecret (j_Name jaeger)\<rparr>,
                          \<lparr>vol_Name = ca, vol_Source = VSSecret (j_Name jaeger @ ''-cluster-ca-cert'')\<rparr>],
           jc_VolumeMounts := [mount user (''/var/run/secrets/'' @ j_Name jaeger),
                               mount ca (''/var/run/secrets/'' @ j_Name jaeger @ ''-cluster-ca'')]\<rparr>)"

definition autoProvisionKafka :: "Env \<Rightarrow> Jaeger \<Rightarrow> S \<Rightarrow> S \<times> Jaeger" where
  "autoProvisionKafka e jaeger0 manifest =
     (let jaeger = jaeger0\<lparr>j_Meta := (j_Meta jaeger0)\<lparr>om_Annotations :=
            Some (AList.update AnnotationProvisionedKafkaKey AnnotationProvisionedKafkaValue (entries (j_Annotations jaeger0)))\<rparr>\<rparr>;
          spec = j_Spec jaeger;
          collectorOpts = put_all (kafka_options ''kafka.producer'' jaeger) (GenericMap (col_Options (js_Collector spec)));
          ingesterOpts = put_all (kafka_options ''kafka.consumer'' jaeger) (GenericMap (igr_Options (js_Ingester spec)))
      in (manifest\<lparr>S_kafkas := S_kafkas manifest @ [Kafka_Persistent e jaeger], S_kafkaUsers := S_kafkaUsers manifest @ [Kafka_User jaeger]\<rparr>,
          jaeger\<lparr>j_Spec := spec\<lparr>js_Collector := (js_Collector spec)\<lparr>col_Options := NewOptions (Some collectorOpts)\<rparr>,
            js_Ingester := (js_Ingester spec)\<lparr>igr_Options := NewOptions (Some ingesterOpts)\<rparr>,
            js_Common := Merge [kafka_common_spec jaeger, js_Common spec]\<rparr>\<rparr>))"

definition provisions_kafka :: "Jaeger \<Rightarrow> bool" where
  "provisions_kafka jaeger \<longleftrightarrow>
     (map_of (GenericMap (col_Options (js_Collector (j_Spec jaeger)))) ''kafka.producer.brokers'' = None \<and>
      map_of (GenericMap (igr_Options (js_Ingester (j_Spec jaeger)))) ''kafka.consumer.brokers'' = None) \<or>
     mstr (j_Annotations jaeger) AnnotationProvisionedKafkaKey = AnnotationProvisionedKafkaValue"

text \<open>
  The labels of a deployment, of its selector and of its template are one map, so that the label that
  \<open>Sidecar\<close> writes appears in all three.
\<close>

definition share_labels :: "Deployment \<Rightarrow> Deployment" where
  "share_labels d =
     (let ls = om_Labels (dep_Meta d); tpl = ds_Template (dep_Spec d)
      in d\<lparr>dep_Spec := (dep_Spec d)\<lparr>ds_Selector := Some ls, ds_Template := tpl\<lparr>pt_Meta := (pt_Meta tpl)\<lparr>om_Labels := ls\<rparr>\<rparr>\<rparr>\<rparr>)"

definition newStreamingStrategy :: "Env \<Rightarrow> (nat \<Rightarrow> nat) \<Rightarrow> Jaeger \<Rightarrow> (S \<times> Jaeger) res" where
  "newStreamingStrategy e Intn jaeger0 =
     (let m0 = base_strategy e DeploymentStrategyStreaming jaeger0;
          (m1, jaeger1) = (if provisions_kafka jaeger0 then autoProvisionKafka e jaeger0 m0 else (m0, jaeger0));
          (qservices, jaeger) = Query_Services jaeger1;
          m2 = (add_access e jaeger (m1\<lparr>S_daemonSets := opt_list (Agent_Get e jaeger1), S_services := Collector_Services e jaeger1 @ qservices\<rparr>))
            \<lparr>S_horizontalPodAutoscalers := Collector_Autoscalers e jaeger @ Ingester_Autoscalers e jaeger\<rparr>
      in res_bind (index_cleaner e jaeger) (\<lambda>cleaner.
           let cDep = Collector_Get e jaeger; queryDep0 = OAuthProxy e Intn jaeger (Query_Get e jaeger)
           in res_bind (if q_TracingEnabled (js_Query (j_Spec jaeger)) = Some False then Inr queryDep0
                        else res_bind (Sidecar e jaeger queryDep0 []) (\<lambda>d. Inr (share_labels d))) (\<lambda>queryDep.
                let (deps, jaeger') = Dependencies e jaeger
                in res_bind (provision_if_needed jaeger' deps (cleaner @ es_rollover e jaeger)
                       (queryDep # opt_list (Ingester_Get e jaeger))) (\<lambda>(ds, deps', crons, es).
                     Inr (m2\<lparr>S_cronJobs := spark_jobs e jaeger @ crons, S_dependencies := deps', S_elasticsearches := es,
                            S_deployments := cDep # ds\<rparr>, jaeger')))))"

section \<open>The choice of the strategy\<close>

definition For :: "Env \<Rightarrow> (nat \<Rightarrow> nat) \<Rightarrow> Jaeger \<Rightarrow> (S \<times> Jaeger) res" where
  "For e Intn jaeger0 =
     res_bind (normalize e (if js_Strategy (j_Spec jaeger0) = DeploymentStrategyDeprecatedAllInOne
         then jaeger0\<lparr>j_Spec := (j_Spec jaeger0)\<lparr>js_Strategy := DeploymentStrategyAllInOne\<rparr>\<rparr> else jaeger0)) (\<lambda>jaeger.
       if js_Strategy (j_Spec jaeger) = DeploymentStrategyAllInOne then newAllInOneStrategy e Intn jaeger
       else if js_Strategy (j_Spec jaeger) = DeploymentStrategyStreaming then newStreamingStrategy e Intn jaeger
       else newProductionStrategy e Intn jaeger)"

end
