(* ===== verification/Inject_Stability.thy ===== *)
theory Inject_Stability
  imports Inject
begin

text \<open>
  What the injection of the sidecar guarantees: the tags of the agent survive printing and parsing,
  an injection is stable under repetition, removing the sidecar undoes it, and the choice of the
  instance follows the annotations.  The theory also states the two ways in which an injection
  goes wrong: deployments without annotations and instances with a long name.
\<close>

section \<open>Tags: printing and parsing\<close>

definition tag_safe :: "string amap \<Rightarrow> bool" where
  "tag_safe m \<longleftrightarrow> (\<forall>(k, v) \<in> set m. CHR ''='' \<notin> set k \<and> CHR '','' \<notin> set k \<and> CHR '','' \<notin> set v)"

lemma SplitN2_two: "SplitN2 b s = [k, v] \<Longrightarrow> s = k @ b # v \<and> b \<notin> set k"
  by (induction b s arbitrary: k rule: SplitN2.induct) (auto split: if_splits list.splits)

lemma AList_update_in: "x \<in> set (AList.update k v al) \<Longrightarrow> x = (k, v) \<or> x \<in> set al"
  by (induction al) (auto split: if_splits)

lemma tag_safe_update:
  "tag_safe m \<Longrightarrow> CHR ''='' \<notin> set k \<Longrightarrow> CHR '','' \<notin> set k \<Longrightarrow> CHR '','' \<notin> set v \<Longrightarrow> tag_safe (AList.update k v m)"
  by (auto simp: tag_safe_def dest: AList_update_in)

lemma tag_safe_put_all: "tag_safe new \<Longrightarrow> tag_safe al \<Longrightarrow> tag_safe (put_all new al)"
proof (induction new arbitrary: al)
  case (Cons x new)
  obtain k v where x: "x = (k, v)" by (cases x)
  have "tag_safe (AList.update k v al)" using Cons.prems by (intro tag_safe_update) (auto simp: x tag_safe_def)
  moreover have "tag_safe new" using Cons.prems(1) by (simp add: tag_safe_def)
  ultimately show ?case using Cons.IH by (simp add: x)
qed simp

lemma parse_tag_pairs_ok:
  assumes "parse_tag_pairs ps tags = Inr m" "\<forall>p \<in> set ps. CHR '','' \<notin> set p" "tag_safe tags" "wf_amap tags"
  shows "tag_safe m \<and> wf_amap m"
  using assms
proof (induction ps tags rule: parse_tag_pairs.induct)
  case (2 p ps tags)
  from 2(2) obtain k v where s: "SplitN2 (CHR ''='') p = [k, v]" by (auto split: list.splits)
  have "tag_safe (AList.update k v tags)"
    using SplitN2_two [OF s] 2(3,4) by (intro tag_safe_update) auto
  then show ?case using 2 s by (auto simp: distinct_update)
qed simp

lemma parse_tag_pairs_printed:
  assumes "tag_safe m"
  shows "parse_tag_pairs (map (\<lambda>(k, v). k @ ''='' @ v) m) tags = Inr (put_all m tags)"
  using assms
proof (induction m arbitrary: tags)
  case (Cons x m)
  obtain k v where x: "x = (k, v)" by (cases x)
  have "SplitN2 (CHR ''='') (k @ CHR ''='' # v) = [k, v]"
    using Cons.prems by (intro SplitN2_append_sep) (auto simp: x tag_safe_def)
  then show ?case using Cons by (auto simp: x tag_safe_def)
qed simp

lemma same_entries:
  fixes m m' :: "'v amap"
  assumes "wf_amap m" "wf_amap m'" "map_of m = map_of m'"
  shows "mset m = mset m'"
proof -
  have in_iff: "p \<in> set a \<longleftrightarrow> map_of a (fst p) = Some (snd p)" if "wf_amap a" for p and a :: "'v amap"
    using that by (cases p) (auto dest: map_of_SomeD)
  have "set m = set m'" using in_iff [OF assms(1)] in_iff [OF assms(2)] assms(3) by auto
  moreover have "distinct m" "distinct m'" using assms(1,2) by (simp_all add: distinct_map)
  ultimately show ?thesis by (simp add: set_eq_iff_mset_eq_distinct)
qed

lemma joinTags_cong: "wf_amap m \<Longrightarrow> wf_amap m' \<Longrightarrow> map_of m = map_of m' \<Longrightarrow> joinTags m = joinTags m'"
  using same_entries [of m m'] by (auto simp: joinTags_def intro!: arg_cong [of _ _ "Join '',''"] SortStrings_cong)

text \<open>The tags that are read back from a printed tag argument, in any order of the map.\<close>

lemma SortStrings_map: "SortStrings (map f m) = map f (sort_key f m)"
  unfolding SortStrings_def by (rule properties_for_sort) simp_all

lemma parse_printed:
  assumes "tag_safe m" "wf_amap m" "m \<noteq> []"
  shows "\<exists>m'. parse_tag_pairs (Split (CHR '','') (joinTags m)) [] = Inr m' \<and> wf_amap m' \<and> map_of m' = map_of m"
proof -
  let ?f = "\<lambda>(k, v). k @ ''='' @ v"
  define m' where "m' = sort_key ?f m"
  have safe: "tag_safe m'" using assms(1) by (simp add: m'_def tag_safe_def)
  have "mset (map fst m') = mset (map fst m)" by (simp add: m'_def)
  then have wf: "wf_amap m'" using assms(2) mset_eq_imp_distinct_iff by blast
  have "\<forall>w \<in> set (map ?f m'). CHR '','' \<notin> set w" using safe by (auto simp: tag_safe_def)
  moreover have "map ?f m' \<noteq> []" using assms(3) by (simp add: m'_def flip: set_empty)
  ultimately have "Split (CHR '','') (joinTags m) = map ?f m'"
    unfolding joinTags_def SortStrings_map m'_def [symmetric] by (intro Split_Join)
  then have "parse_tag_pairs (Split (CHR '','') (joinTags m)) [] = Inr (put_all m' [])"
    using parse_tag_pairs_printed [OF safe] by simp
  moreover have "map_of m' = map_of m" using assms(2) wf by (intro map_of_inject_set [THEN iffD2]) (simp_all add: m'_def)
  then have "map_of (put_all m' []) = map_of m"
    using map_of_put_all [OF wf, of "[]"] by (auto split: option.splits)
  ultimately show ?thesis using wf_amap_put_all [of "[]" m'] by auto
qed


section \<open>Injecting twice\<close>

lemma FindItem_unique:
  assumes "a \<in> set xs" "HasPrefix a p" "\<And>x. x \<in> set xs \<Longrightarrow> HasPrefix x p \<Longrightarrow> x = a"
  shows "FindItem p xs = a"
  using assms
proof (induction xs)
  case (Cons v xs)
  show ?case
  proof (cases "HasPrefix v p")
    case True
    then show ?thesis using Cons.prems(3) [of v] by simp
  next
    case False
    then have "a \<in> set xs" using Cons.prems(1,2) by auto
    then show ?thesis using False Cons.IH [OF _ Cons.prems(2)] Cons.prems(3) by simp
  qed
qed simp

lemma HasPrefix_not_Nil: "HasPrefix v p \<Longrightarrow> p \<noteq> [] \<Longrightarrow> v \<noteq> []"
  by (cases p; cases v) auto

lemma FindItem_Nil: "FindItem p xs = [] \<Longrightarrow> p \<noteq> [] \<Longrightarrow> x \<in> set xs \<Longrightarrow> \<not> HasPrefix x p"
  by (induction p xs rule: FindItem.induct) (auto split: if_splits dest: HasPrefix_not_Nil)

lemma parseAgentTags_sorted:
  assumes "FindItem ''--agent.tags='' args = []"
  shows "parseAgentTags (SortStrings (args @ [''--agent.tags='' @ s])) = parse_tag_pairs (Split (CHR '','') s) []"
proof -
  have "FindItem ''--agent.tags='' (SortStrings (args @ [''--agent.tags='' @ s])) = ''--agent.tags='' @ s"
    by (rule FindItem_unique) (use FindItem_Nil [OF assms] in auto)
  moreover have "SplitN2 (CHR ''='') (''--agent.tags'' @ CHR ''='' # s) = [''--agent.tags'', s]"
    by (rule SplitN2_append_sep) simp
  ultimately show ?thesis by (simp add: parseAgentTags_def)
qed

lemma default_agent_tags_wf [simp]: "wf_amap (default_agent_tags dep i)"
  by (simp add: default_agent_tags_def Let_def)

lemma default_agent_tags_safe:
  assumes "CHR '','' \<notin> set (dep_Name dep)" "CHR '','' \<notin> set (dep_Namespace dep)"
    and "\<forall>c \<in> set (dep_Containers dep). CHR '','' \<notin> set (c_Name c)" "i = -1 \<or> nat i < length (dep_Containers dep)"
  shows "tag_safe (default_agent_tags dep i)"
proof -
  have "CHR '','' \<notin> set (getContainerName (dep_Containers dep) i)"
    using assms(3,4) by (auto simp: getContainerName_def all_set_conv_all_nth)
  then show ?thesis using assms(1,2) by (simp add: tag_safe_def default_agent_tags_def Let_def)
qed

lemma default_agent_tags_not_Nil [simp]: "default_agent_tags dep i \<noteq> []"
  by (simp add: default_agent_tags_def Let_def)

lemma put_all_not_Nil: "new \<noteq> [] \<Longrightarrow> put_all new al \<noteq> []"
  using keys_put_all [of new al] by fastforce

text \<open>The tags that a second injection computes from the arguments of the first one.\<close>

lemma tags_stable:
  assumes "wf_amap new" "wf_amap ex" "tag_safe new" "tag_safe ex" "new \<noteq> []" "FindItem ''--agent.tags='' args = []"
  shows "\<exists>ex'. parseAgentTags (SortStrings (args @ [''--agent.tags='' @ joinTags (put_all new ex)])) = Inr ex' \<and>
    joinTags (put_all new ex') = joinTags (put_all new ex)"
proof -
  let ?m = "put_all new ex"
  have wf: "wf_amap ?m" "?m \<noteq> []" "tag_safe ?m"
    using assms by (simp_all add: put_all_not_Nil tag_safe_put_all)
  obtain ex' where ex': "parse_tag_pairs (Split (CHR '','') (joinTags ?m)) [] = Inr ex'" "wf_amap ex'" "map_of ex' = map_of ?m"
    using parse_printed [OF wf(3) wf(1) wf(2)] by blast
  have "map_of (put_all new ex') = map_of ?m"
    using map_of_put_all [OF assms(1)] ex'(3) by (auto split: option.splits)
  then have "joinTags (put_all new ex') = joinTags ?m"
    using ex'(2) wf(1) by (intro joinTags_cong) simp_all
  with ex'(1) show ?thesis unfolding parseAgentTags_sorted [OF assms(6)] by blast
qed


text \<open>What a second decoration does.\<close>

lemma add_env_idem [simp]: "add_env cms n v (add_env cms n v c) = add_env cms n v c"
  by (simp add: add_env_def hasEnv_def)

lemma add_env_commute:
  "n \<noteq> m \<Longrightarrow> hasEnv n (c_Env (add_env cms m v c)) = hasEnv n (c_Env c)"
  by (simp add: add_env_def hasEnv_def)

lemma add_env_fields [simp]:
  "c_Name (add_env cms n v c) = c_Name c" "c_Args (add_env cms n v c) = c_Args c" "c_Ports (add_env cms n v c) = c_Ports c"
  by (simp_all add: add_env_def)

definition decoration :: "Deployment \<Rightarrow> (SidecarOptions \<Rightarrow> SidecarOptions) list \<Rightarrow> Container \<Rightarrow> Container" where
  "decoration dep options = (case app_of dep of
     None \<Rightarrow> (\<lambda>c. c)
   | Some app0 \<Rightarrow>
       (let app = (if length (dep_Namespace dep) > 0 then app0 @ ''.'' @ dep_Namespace dep else app0 @ ''.default'');
            cms = EnvConfigMaps (fold (\<lambda>opt s. opt s) options \<lparr>EnvConfigMaps = []\<rparr>)
        in (\<lambda>c. add_env cms envVarPropagation ''jaeger,b3,w3c'' (add_env cms envVarServiceName app c))))"

lemma decoration_fields [simp]:
  "c_Name (decoration dep opt c) = c_Name c" "c_Args (decoration dep opt c) = c_Args c" "c_Ports (decoration dep opt c) = c_Ports c"
  by (simp_all add: decoration_def Let_def split: option.split)

lemma add_env_present:
  "hasEnv n (c_Env c) \<or> haskeyInEnvFromConfigMaps n cms \<Longrightarrow> add_env cms n v c = c"
  by (auto simp: add_env_def)

lemma add_env_has: "hasEnv n (c_Env (add_env cms n v c)) \<or> haskeyInEnvFromConfigMaps n cms"
  by (simp add: add_env_def hasEnv_def)

lemma decoration_idem [simp]: "decoration dep opt (decoration dep opt c) = decoration dep opt c"
proof (cases "app_of dep")
  case (Some a)
  have "add_env cms ''JAEGER_SERVICE_NAME'' v (add_env cms ''JAEGER_PROPAGATION'' w (add_env cms ''JAEGER_SERVICE_NAME'' v c)) =
      add_env cms ''JAEGER_PROPAGATION'' w (add_env cms ''JAEGER_SERVICE_NAME'' v c)" for cms v w
    by (rule add_env_present) (use add_env_has [of "''JAEGER_SERVICE_NAME''" cms v c] in \<open>simp add: add_env_commute\<close>)
  then show ?thesis by (simp add: decoration_def Some Let_def)
qed (simp add: decoration_def)

lemma decorate_containers_eq:
  "decorate_containers dep opt = upd_Pod (ps_Containers_update (map (decoration dep opt))) dep"
  by (simp add: decorate_containers_def decoration_def Let_def split: option.split)

lemma decorate_annotations_idem:
  "decorate_annotations m = Inr m' \<Longrightarrow> decorate_annotations m' = Inr m'"
  by (cases m) (auto simp: decorate_annotations_def PrometheusDefaultAnnotations_def put_default_def update_conv' split: if_splits)

lemma decorate_Inr:
  "decorate dep opt = Inr d \<longleftrightarrow> (\<exists>al. decorate_annotations (dep_Annotations dep) = Inr al \<and>
     d = dep_Meta_update (\<lambda>m. m\<lparr>om_Annotations := al\<rparr>) (upd_Pod (ps_Containers_update (map (decoration dep opt))) dep))"
  by (auto simp: decorate_def decorate_containers_eq)

lemma agent_index_map: "(\<And>c. c_Name (f c) = c_Name c) \<Longrightarrow> agent_index (map f cs) = agent_index cs"
  by (induction cs) auto

lemma agent_index_update: "agent_index cs = Some i \<Longrightarrow> c_Name c = ''jaeger-agent'' \<Longrightarrow> agent_index (cs[i := c]) = Some i"
  by (induction cs arbitrary: i) (auto split: if_splits)

lemma agent_index_append: "agent_index cs = None \<Longrightarrow> c_Name c = ''jaeger-agent'' \<Longrightarrow> agent_index (cs @ [c]) = Some (length cs)"
  by (induction cs) (auto split: if_splits)

lemma agent_index_SomeD: "agent_index cs = Some i \<Longrightarrow> i < length cs \<and> c_Name (cs ! i) = ''jaeger-agent''"
  by (induction cs arbitrary: i) (auto split: if_splits)


text \<open>The parts of a deployment that an injection changes.\<close>

definition with_parts :: "Deployment \<Rightarrow> ObjectMeta \<Rightarrow> Container list \<Rightarrow> Volume list \<Rightarrow> string list \<Rightarrow> Deployment" where
  "with_parts dep m cs vs ps =
     upd_Pod (\<lambda>p. p\<lparr>ps_Containers := cs, ps_Volumes := vs, ps_ImagePullSecrets := ps\<rparr>) (dep\<lparr>dep_Meta := m\<rparr>)"

lemma with_parts_simps [simp]:
  "dep_Meta (with_parts dep m cs vs ps) = m" "dep_Containers (with_parts dep m cs vs ps) = cs"
  "ps_Volumes (dep_Pod (with_parts dep m cs vs ps)) = vs" "ps_ImagePullSecrets (dep_Pod (with_parts dep m cs vs ps)) = ps"
  "pt_Meta (ds_Template (dep_Spec (with_parts dep m cs vs ps))) = pt_Meta (ds_Template (dep_Spec dep))"
  "with_parts (with_parts dep m cs vs ps) m' cs' vs' ps' = with_parts dep m' cs' vs' ps'"
  by (simp_all add: with_parts_def comp_def)

lemma upd_parts:
  "dep_Meta_update f (with_parts dep m cs vs ps) = with_parts dep (f m) cs vs ps"
  "upd_Pod (ps_Containers_update g) (with_parts dep m cs vs ps) = with_parts dep m (g cs) vs ps"
  by (simp_all add: with_parts_def comp_def)

lemma self_parts: "dep = with_parts dep (dep_Meta dep) (dep_Containers dep) (ps_Volumes (dep_Pod dep)) (ps_ImagePullSecrets (dep_Pod dep))"
  by (simp add: with_parts_def)

lemma app_of_parts [simp]: "app_of (with_parts dep m cs vs ps) = app_of dep"
  by (simp add: app_of_def)

lemma agent_pod_parts:
  "agent_pod e j (with_parts dep m cs vs ps) = with_parts dep m cs
     (RemoveDuplicatedVolumes (vs @ jc_Volumes (agent_volumes_spec e j)))
     (RemoveDuplicatedImagePullSecrets (ps @ jc_ImagePullSecrets (ag_Common (js_Agent (j_Spec j)))))"
  by (simp add: agent_pod_def with_parts_def comp_def)

lemma decoration_parts [simp]: "om_Namespace m = dep_Namespace dep \<Longrightarrow> decoration (with_parts dep m cs vs ps) opt = decoration dep opt"
  by (cases "app_of dep") (simp_all add: decoration_def)

lemma labels_update:
  "om_Labels_update (put_label k v) (m\<lparr>om_Annotations := al\<rparr>) = m\<lparr>om_Annotations := al, om_Labels := put_label k v (om_Labels m)\<rparr>"
  by (cases m) simp

definition own_or_free :: "Jaeger \<Rightarrow> string gomap \<Rightarrow> bool" where
  "own_or_free j labels = (case mget labels Label of Some val \<Rightarrow> val = j_Name j | None \<Rightarrow> True)"

definition place :: "nat option \<Rightarrow> Container \<Rightarrow> Container list \<Rightarrow> Container list" where
  "place i c cs = (case i of None \<Rightarrow> cs @ [c] | Some n \<Rightarrow> cs[n := c])"

definition idx_of :: "nat option \<Rightarrow> int" where
  "idx_of i = (case i of None \<Rightarrow> -1 | Some n \<Rightarrow> int n)"

text \<open>One injection, spelled out over the parts.\<close>

lemma Sidecar_parts:
  fixes dep opt
  defines "d1 \<equiv> (\<lambda>al. with_parts dep ((dep_Meta dep)\<lparr>om_Annotations := al\<rparr>) (map (decoration dep opt) (dep_Containers dep))
             (ps_Volumes (dep_Pod dep)) (ps_ImagePullSecrets (dep_Pod dep)))"
  assumes "own_or_free j (dep_Labels dep)" "decorate_annotations (dep_Annotations dep) = Inr al"
  shows "Sidecar e j dep opt =
    res_bind (agent_args e j (d1 al) (idx_of (agent_index (dep_Containers dep)))) (\<lambda>args. Inr (with_parts dep
      ((dep_Meta dep)\<lparr>om_Annotations := al, om_Labels := put_label Label (Truncate (j_Name j) 63 []) (dep_Labels dep)\<rparr>)
      (place (agent_index (dep_Containers dep)) (agent_container e j (d1 al) args) (map (decoration dep opt) (dep_Containers dep)))
      (RemoveDuplicatedVolumes (ps_Volumes (dep_Pod dep) @ jc_Volumes (agent_volumes_spec e j)))
      (RemoveDuplicatedImagePullSecrets (ps_ImagePullSecrets (dep_Pod dep) @ jc_ImagePullSecrets (ag_Common (js_Agent (j_Spec j)))))))"
proof -
  have dec: "decorate dep opt = Inr (d1 al)"
    unfolding decorate_def decorate_containers_eq assms(3) d1_def by (subst (3) self_parts) (simp add: upd_parts)
  have idx: "HasJaegerAgent (d1 al) = (case agent_index (dep_Containers dep) of None \<Rightarrow> (False, -1) | Some i \<Rightarrow> (True, int i))"
    by (simp add: HasJaegerAgent_def d1_def agent_index_map)
  have own: "(case mget (dep_Labels dep) Label of Some val \<Rightarrow> val \<noteq> j_Name j | None \<Rightarrow> False) = False"
    using assms(2) by (auto simp: own_or_free_def split: option.splits)
  show ?thesis
    unfolding Sidecar_def own dec idx container_def res_bind.simps if_False
    by (cases "agent_index (dep_Containers dep)"; cases "agent_args e j (d1 al) (idx_of (agent_index (dep_Containers dep)))")
      (simp_all add: idx_of_def place_def d1_def agent_pod_parts upd_parts Let_def labels_update)
qed


context dedup
begin

lemma first_of_each_cong: "set ex = set ex' \<Longrightarrow> first_of_each name ex xs = first_of_each name ex' xs"
proof (induction xs arbitrary: ex ex')
  case (Cons x xs)
  have "first_of_each name (name x # ex) xs = first_of_each name (name x # ex') xs" using Cons.prems by (intro Cons.IH) simp
  then show ?case by (simp only: first_of_each.simps Cons.IH [OF Cons.prems] Cons.prems)
qed simp

lemma first_of_each_known: "name ` set xs \<subseteq> set ex \<Longrightarrow> first_of_each name ex xs = []"
  by (induction xs arbitrary: ex) auto

lemma first_of_each_append:
  "first_of_each name ex (xs @ ys) = first_of_each name ex xs @ first_of_each name (map name xs @ ex) ys"
proof (induction xs arbitrary: ex)
  case (Cons x xs)
  have "first_of_each name (map name xs @ ex) ys = first_of_each name (map name (x # xs) @ ex) ys" if "name x \<in> set ex"
    using that by (intro first_of_each_cong) auto
  moreover have "first_of_each name (map name xs @ name x # ex) ys = first_of_each name (map name (x # xs) @ ex) ys"
    by (intro first_of_each_cong) auto
  ultimately show ?case using Cons.IH by (auto simp del: map_append)
qed simp

lemma dedup_append_known: "distinct (map name xs) \<Longrightarrow> name ` set ys \<subseteq> name ` set xs \<Longrightarrow> dedup_items (xs @ ys) = xs"
  using dedup_idem_if_distinct [of xs] by (simp add: dedup_items_eq first_of_each_append first_of_each_known)

lemma dedup_append_idem: "dedup_items (dedup_items (xs @ ys) @ ys) = dedup_items (xs @ ys)"
  by (rule dedup_append_known [OF dedup_distinct]) (auto simp: dedup_items_eq names_first_of_each)

end

lemma nth_place_other: "c_Name c = ''jaeger-agent'' \<Longrightarrow> agent_index cs = i \<Longrightarrow>
   list_all (\<lambda>c. c_Name c = ''jaeger-agent'' \<or> P c) (place i c cs) = list_all (\<lambda>c. c_Name c = ''jaeger-agent'' \<or> P c) cs"
  by (induction cs arbitrary: i) (auto simp: place_def split: if_splits option.splits)

lemma map_place: "map f (place i c cs) = place i (f c) (map f cs)"
  by (simp add: place_def map_update split: option.split)

definition placed :: "nat option \<Rightarrow> Container list \<Rightarrow> nat" where
  "placed i cs = (case i of None \<Rightarrow> length cs | Some n \<Rightarrow> n)"

lemma agent_index_place:
  "c_Name c = ''jaeger-agent'' \<Longrightarrow> agent_index (place (agent_index cs) c cs) = Some (placed (agent_index cs) cs)"
  by (simp add: place_def placed_def agent_index_append agent_index_update split: option.split)

lemma place_place: "place (Some (placed i cs)) c (place i c' cs) = place i c cs"
  by (simp add: place_def placed_def split: option.split)

lemma nth_placed: "agent_index cs = i \<Longrightarrow> place i c cs ! placed i cs = c"
  by (auto simp: place_def placed_def split: option.split dest: agent_index_SomeD)

lemma getContainerName_place:
  assumes "c_Name c = ''jaeger-agent''"
  shows "getContainerName (place (agent_index cs) c cs) (int (placed (agent_index cs) cs)) = getContainerName cs (idx_of (agent_index cs))"
proof (cases "agent_index cs")
  case None
  show ?thesis
  proof (cases cs)
    case (Cons x xs)
    then show ?thesis using None by (cases xs) (simp_all add: getContainerName_def place_def placed_def idx_of_def)
  qed (simp add: getContainerName_def place_def placed_def idx_of_def)
next
  case (Some i)
  then have "i < length cs" "c_Name (cs ! i) = ''jaeger-agent''" by (auto dest: agent_index_SomeD)
  moreover have "c_Name (cs[i := c] ! k) = c_Name (cs ! k)" if "k < length cs" for k
    using that assms \<open>c_Name (cs ! i) = ''jaeger-agent''\<close> by (cases "k = i") simp_all
  ultimately show ?thesis using Some
    by (auto simp: getContainerName_def place_def placed_def idx_of_def)
qed


lemma parseAgentTags_ok:
  assumes "parseAgentTags args = Inr m"
  shows "tag_safe m \<and> wf_amap m"
proof (cases "FindItem ''--agent.tags='' args = []")
  case True
  with assms show ?thesis by (simp add: parseAgentTags_def tag_safe_def)
next
  case False
  then obtain s where "parse_tag_pairs (Split (CHR '','') s) [] = Inr m"
    using assms by (auto simp: parseAgentTags_def split: list.splits)
  then show ?thesis by (rule parse_tag_pairs_ok) (auto dest: Split_no_sep simp: tag_safe_def)
qed

lemma joinTags_put_all_Nil: "wf_amap m \<Longrightarrow> joinTags (put_all m []) = joinTags m"
  by (rule joinTags_cong) (auto simp: map_of_put_all split: option.splits)

lemma agent_tags_arg_joined:
  assumes "agent_tags_arg dep i = Inr a"
  shows "\<exists>ex. tag_safe ex \<and> wf_amap ex \<and> a = ''--agent.tags='' @ joinTags (put_all (default_agent_tags dep i) ex)"
proof (cases "i > -1")
  case True
  then obtain ex where "parseAgentTags (c_Args (dep_Containers dep ! nat i)) = Inr ex"
      "a = ''--agent.tags='' @ joinTags (put_all (default_agent_tags dep i) ex)"
    using assms by (auto simp: agent_tags_arg_def)
  with parseAgentTags_ok show ?thesis by blast
next
  case False
  then have "a = ''--agent.tags='' @ joinTags (put_all (default_agent_tags dep i) [])"
    using assms by (simp add: agent_tags_arg_def joinTags_put_all_Nil)
  then show ?thesis by (intro exI [of _ "[]"]) (simp add: tag_safe_def)
qed

lemma agent_args_stable:
  assumes "agent_args e j dep i = Inr args" and safe: "tag_safe (default_agent_tags dep i)"
    and same: "default_agent_tags dep' i' = default_agent_tags dep i" "i' > -1"
    and prev: "c_Args (dep_Containers dep' ! nat i') = SortStrings args"
  shows "agent_args e j dep' i' = Inr args"
proof (cases "FindItem ''--agent.tags='' (agent_reporter_args e j) = []")
  case True
  then obtain a where a: "agent_tags_arg dep i = Inr a" "args = agent_reporter_args e j @ [a]"
    using assms(1) by (auto simp: agent_args_def)
  obtain ex where ex: "tag_safe ex" "wf_amap ex" "a = ''--agent.tags='' @ joinTags (put_all (default_agent_tags dep i) ex)"
    using agent_tags_arg_joined [OF a(1)] by blast
  obtain ex' where ex': "parseAgentTags (SortStrings args) = Inr ex'"
      "joinTags (put_all (default_agent_tags dep i) ex') = joinTags (put_all (default_agent_tags dep i) ex)"
    using tags_stable [OF default_agent_tags_wf ex(2) safe ex(1) default_agent_tags_not_Nil True] unfolding a(2) ex(3) by blast
  have "agent_tags_arg dep' i' = Inr a"
    using same ex' by (simp add: agent_tags_arg_def prev ex(3))
  with True show ?thesis by (simp add: agent_args_def a(2))
next
  case False
  with assms(1) show ?thesis by (simp add: agent_args_def)
qed

lemma agent_container_fields [simp]: "c_Name (agent_container e j dep args) = ''jaeger-agent''" "c_Args (agent_container e j dep args) = SortStrings args"
  by (simp_all add: agent_container_def Let_def)

lemma agent_container_cong:
  "(\<And>p. isContainerPortAvailable p dep = isContainerPortAvailable p dep') \<Longrightarrow> agent_container e j dep args = agent_container e j dep' args"
  by (simp add: agent_container_def Let_def)

definition no_comma :: "Deployment \<Rightarrow> bool" where
  "no_comma dep \<longleftrightarrow> CHR '','' \<notin> set (dep_Name dep) \<and> CHR '','' \<notin> set (dep_Namespace dep) \<and>
     (\<forall>c \<in> set (dep_Containers dep). CHR '','' \<notin> set (c_Name c))"

lemma Sidecar_Inr_parts:
  assumes "own_or_free j (dep_Labels dep)" "Sidecar e j dep opt = Inr d'"
  shows "\<exists>al. decorate_annotations (dep_Annotations dep) = Inr al"
proof (cases "decorate_annotations (dep_Annotations dep)")
  case (Inl err)
  then have "decorate dep opt = Inl err" by (simp add: decorate_def)
  then show ?thesis using assms by (auto simp: Sidecar_def own_or_free_def split: option.splits if_splits)
qed simp

lemma meta_swap: "m\<lparr>om_Annotations := a, om_Labels := l\<rparr> = m\<lparr>om_Labels := l, om_Annotations := a\<rparr>"
  by (cases m) simp

lemma put_label_idem: "put_label k v (put_label k v m) = put_label k v m"
  by (simp add: put_label_def)

lemma Sidecar_idempotent_aux:
  assumes own: "own_or_free j (dep_Labels dep)" and name: "label_value (j_Name j)" and comma: "no_comma dep"
    and run: "Sidecar e j dep opt = Inr d'"
  shows "Sidecar e j d' opt = Inr d'"
proof -
  obtain al where al: "decorate_annotations (dep_Annotations dep) = Inr al" using Sidecar_Inr_parts [OF own run] by blast
  let ?D = "decoration dep opt" let ?cs = "map ?D (dep_Containers dep)" let ?i = "agent_index (dep_Containers dep)"
  let ?d1 = "with_parts dep ((dep_Meta dep)\<lparr>om_Annotations := al\<rparr>) ?cs (ps_Volumes (dep_Pod dep)) (ps_ImagePullSecrets (dep_Pod dep))"
  let ?m' = "(dep_Meta dep)\<lparr>om_Annotations := al, om_Labels := put_label Label (Truncate (j_Name j) 63 []) (dep_Labels dep)\<rparr>"
  let ?vs = "RemoveDuplicatedVolumes (ps_Volumes (dep_Pod dep) @ jc_Volumes (agent_volumes_spec e j))"
  let ?ps = "RemoveDuplicatedImagePullSecrets (ps_ImagePullSecrets (dep_Pod dep) @ jc_ImagePullSecrets (ag_Common (js_Agent (j_Spec j))))"
  obtain args where args: "agent_args e j ?d1 (idx_of ?i) = Inr args"
      and d': "d' = with_parts dep ?m' (place ?i (agent_container e j ?d1 args) ?cs) ?vs ?ps"
    using run unfolding Sidecar_parts [OF own al] by auto
  let ?c = "agent_container e j ?d1 args"
  have i: "agent_index ?cs = ?i" by (simp add: agent_index_map)
  have idx: "agent_index (dep_Containers d') = Some (placed ?i ?cs)"
    using agent_index_place [of ?c ?cs] by (simp add: d' i)
  have own': "own_or_free j (dep_Labels d')"
    using Truncate_label_value [OF name] by (simp add: d' own_or_free_def put_label_def update_conv')
  have al': "decorate_annotations (dep_Annotations d') = Inr al" using decorate_annotations_idem [OF al] by (simp add: d')
  have D: "map (decoration d' opt) (dep_Containers d') = place ?i (?D ?c) ?cs"
    by (simp add: d' map_place comp_def)
  let ?d2 = "with_parts dep ?m' (place ?i (?D ?c) ?cs) ?vs ?ps"
  have d2: "with_parts d' ((dep_Meta d')\<lparr>om_Annotations := al\<rparr>) (map (decoration d' opt) (dep_Containers d'))
      (ps_Volumes (dep_Pod d')) (ps_ImagePullSecrets (dep_Pod d')) = ?d2"
    unfolding D by (simp add: d' meta_swap)
  have c: "agent_container e j ?d2 x = agent_container e j ?d1 x" for x
    by (rule agent_container_cong) (simp add: isContainerPortAvailable_def nth_place_other i)
  have tags: "default_agent_tags ?d2 (int (placed ?i ?cs)) = default_agent_tags ?d1 (idx_of ?i)"
    using getContainerName_place [of "?D ?c" ?cs] by (simp add: default_agent_tags_def i)
  have "idx_of ?i = -1 \<or> nat (idx_of ?i) < length ?cs" by (auto simp: idx_of_def split: option.split dest: agent_index_SomeD)
  then have safe: "tag_safe (default_agent_tags ?d1 (idx_of ?i))"
    using comma by (intro default_agent_tags_safe) (auto simp: no_comma_def)
  have args2: "agent_args e j ?d2 (int (placed ?i ?cs)) = Inr args"
    by (rule agent_args_stable [OF args safe tags]) (simp_all add: nth_placed i)
  show ?thesis
    unfolding Sidecar_parts [OF own' al'] idx d2 using args2
    by (simp add: idx_of_def c D place_place)
      (simp add: d' put_label_idem meta_swap volumes.dedup_append_idem pull_secrets.dedup_append_idem)
qed


lemma decorate_annotations_total: "\<exists>al'. decorate_annotations (Some al) = Inr al'"
  by (simp add: decorate_annotations_def PrometheusDefaultAnnotations_def put_default_def update_conv')

lemma Sidecar_meta:
  assumes "own_or_free j (dep_Labels dep)" "Sidecar e j dep opt = Inr d"
  shows "\<exists>al. dep_Meta d = (dep_Meta dep)\<lparr>om_Annotations := al, om_Labels := put_label Label (Truncate (j_Name j) 63 []) (dep_Labels dep)\<rparr>"
proof -
  obtain al where al: "decorate_annotations (dep_Annotations dep) = Inr al" using Sidecar_Inr_parts [OF assms] by blast
  then show ?thesis using assms(2) unfolding Sidecar_parts [OF assms(1) al] by (cases "agent_args e j (with_parts dep ((dep_Meta dep)\<lparr>om_Annotations := al\<rparr>)
     (map (decoration dep opt) (dep_Containers dep)) (ps_Volumes (dep_Pod dep)) (ps_ImagePullSecrets (dep_Pod dep))) (idx_of (agent_index (dep_Containers dep)))") auto
qed

lemma Sidecar_fresh_total:
  assumes "mget (dep_Labels dep) Label = None" "agent_index (dep_Containers dep) = None" "dep_Annotations dep \<noteq> None"
  shows "\<exists>d'. Sidecar e j dep opt = Inr d'"
proof -
  have own: "own_or_free j (dep_Labels dep)" using assms(1) by (simp add: own_or_free_def)
  obtain al where al: "decorate_annotations (dep_Annotations dep) = Inr al"
    using assms(3) decorate_annotations_total by (metis not_Some_eq)
  show ?thesis
    unfolding Sidecar_parts [OF own al] assms(2) by (simp add: idx_of_def agent_args_def agent_tags_arg_def Let_def)
qed

text \<open>A deployment with one application container.\<close>

definition sample_app :: "string gomap \<Rightarrow> Deployment" where
  "sample_app annotations = \<lparr>dep_TypeMeta = TypeMeta0,
     dep_Meta = ObjectMeta0\<lparr>om_Name := ''app'', om_Namespace := ''ns'', om_Annotations := annotations\<rparr>,
     dep_Spec = \<lparr>ds_Replicas = None, ds_Selector = None, ds_Strategy = [],
       ds_Template = \<lparr>pt_Meta = ObjectMeta0, pt_Spec = PodSpec0\<lparr>ps_Containers := [Container0\<lparr>c_Name := ''main''\<rparr>]\<rparr>\<rparr>\<rparr>,
     dep_Status = \<lparr>dst_Replicas = 0, dst_ReadyReplicas = 0, dst_AvailableReplicas = 0\<rparr>\<rparr>"

lemma sample_app_fields:
  "mget (dep_Labels (sample_app a)) k = None" "agent_index (dep_Containers (sample_app a)) = None"
  "dep_Annotations (sample_app a) = a" "no_comma (sample_app a)"
  by (simp_all add: sample_app_def ObjectMeta0_def no_comma_def)

lemma sample_app_injected: "\<exists>d'. Sidecar e j (sample_app (Some al)) opt = Inr d'"
  by (rule Sidecar_fresh_total) (simp_all add: sample_app_fields)

text \<open>The injection of the sidecar is stable: once the webhook has injected the agent of an
  instance into a deployment, injecting it again gives the same deployment, whether or not it had
  an agent before.  So the updates that the operator triggers do not restart the pods for nothing.
  Names contain no comma, and the name of the instance is a label value.\<close>

theorem Sidecar_idempotent:
  assumes "Sidecar e j dep opt = Inr d'" and "label_value (j_Name j)" and "no_comma dep"
  shows "Sidecar e j d' opt = Inr d'"
proof (cases "own_or_free j (dep_Labels dep)")
  case True
  then show ?thesis using assms by (intro Sidecar_idempotent_aux)
next
  case False
  then have "Sidecar e j dep opt = Inr dep" by (auto simp: Sidecar_def own_or_free_def split: option.splits)
  with assms(1) show ?thesis by simp
qed

theorem Sidecar_idempotent_witness:
  "\<exists>d'. Sidecar sample_cluster_env sample_jaeger (sample_app (Some [])) [] = Inr d' \<and> Sidecar sample_cluster_env sample_jaeger d' [] = Inr d'"
proof -
  have "label_value (j_Name sample_jaeger)"
    by (simp add: label_value_def sample_jaeger_def NewJaeger_def alnum_char_def lower_char_def)
  then show ?thesis
    using sample_app_injected Sidecar_idempotent [OF _ _ sample_app_fields(4), of sample_cluster_env sample_jaeger] by blast
qed

text \<open>An instance whose name does not survive as a label (more than 63 characters) is compared by
  its full name with the cut label: after the first injection every later one is skipped, so that
  the agents of such an instance are never updated, whatever changes in its specification.\<close>

theorem Sidecar_long_name_frozen:
  assumes "Sidecar e j dep opt = Inr d'" and "mget (dep_Labels dep) Label = None"
    and "Truncate (j_Name j) 63 [] \<noteq> j_Name j" and "j_Name j2 = j_Name j"
  shows "mget (dep_Labels d') Label \<noteq> None \<and> Sidecar e2 j2 d' opt2 = Inr d'"
proof -
  have own: "own_or_free j (dep_Labels dep)" using assms(2) by (simp add: own_or_free_def)
  obtain al where al: "decorate_annotations (dep_Annotations dep) = Inr al" using Sidecar_Inr_parts [OF own assms(1)] by blast
  have "mget (dep_Labels d') Label = Some (Truncate (j_Name j) 63 [])"
    using assms(1) unfolding Sidecar_parts [OF own al] by (auto simp: put_label_def update_conv')
  then show ?thesis using assms(3,4) by (simp add: Sidecar_def)
qed

theorem Sidecar_long_name_frozen_witness:
  "\<exists>d'. Sidecar sample_cluster_env sample_long (sample_app (Some [])) [] = Inr d' \<and>
     Sidecar sample_cluster_env (sample_long\<lparr>j_Version := ''1.2.3''\<rparr>) d' [] = Inr d'"
proof -
  have "length (j_Name sample_long) = 64" by (simp add: sample_long_def NewJaeger_def)
  moreover have "length (Truncate (j_Name sample_long) 63 []) \<le> 63"
    using Truncate_bound_and_ends_aux [of "j_Name sample_long" 63 "[]"] by simp
  ultimately have "Truncate (j_Name sample_long) 63 [] \<noteq> j_Name sample_long" by auto
  moreover obtain d' where "Sidecar sample_cluster_env sample_long (sample_app (Some [])) [] = Inr d'" using sample_app_injected by blast
  ultimately show ?thesis
    using Sidecar_long_name_frozen [OF _ sample_app_fields(1), of sample_cluster_env sample_long "Some []" "[]" d'
        "sample_long\<lparr>j_Version := ''1.2.3''\<rparr>" sample_cluster_env "[]"]
    by (intro exI [of _ d']) simp
qed

text \<open>A deployment without any annotation that gets its sidecar because of an annotation of the
  namespace makes the webhook panic: the default annotations for Prometheus are written into the
  nil map.\<close>

theorem Sidecar_panics_without_annotations:
  assumes "dep_Annotations dep = None" and "mget (dep_Labels dep) Label = None"
  shows "Sidecar e j dep opt = Inl NilMapWrite"
proof -
  have "decorate dep opt = Inl NilMapWrite"
    using assms(1) by (simp add: decorate_def decorate_annotations_def PrometheusDefaultAnnotations_def put_default_def)
  with assms(2) show ?thesis by (simp add: Sidecar_def)
qed

theorem Sidecar_panics_without_annotations_witness:
  "Needed (sample_app None) \<lparr>ns_Meta = ObjectMeta0\<lparr>om_Annotations := Some [(Annotation, ''true'')]\<rparr>\<rparr> \<and>
   Sidecar sample_cluster_env sample_jaeger (sample_app None) [] = Inl NilMapWrite"
proof -
  have "\<not> EqualFold ''true'' ''false''" by (simp add: EqualFold_def ToLower_def lower_byte_def upper_char_def)
  then have "Needed (sample_app None) \<lparr>ns_Meta = ObjectMeta0\<lparr>om_Annotations := Some [(Annotation, ''true'')]\<rparr>\<rparr>"
    by (simp add: Needed_def desired_def sample_app_fields mstr_def HasJaegerAgent_def)
  then show ?thesis
    using Sidecar_panics_without_annotations [OF sample_app_fields(3) sample_app_fields(1)] by blast
qed

section \<open>Removing the sidecar\<close>

lemma drop_first_agent_append:
  "agent_index cs = None \<Longrightarrow> c_Name c = ''jaeger-agent'' \<Longrightarrow> drop_first_agent (cs @ [c]) = cs"
  by (induction cs) (auto split: if_splits)

lemma append_volume_once_in: "v \<in> set (jc_Volumes (append_volume_once w m c)) \<Longrightarrow> v \<in> set (jc_Volumes c) \<or> v = w"
  using subsetD [OF volumes.dedup_subset, of v "jc_Volumes c @ [w]"] by (auto simp: append_volume_once_def)

lemma ca_Update_in:
  "v \<in> set (jc_Volumes (ca_Update e j c)) \<Longrightarrow> v \<in> set (jc_Volumes c) \<or> (GetPlatform e = OpenShiftPlatform \<and> vol_Name v = TrustedCAName j)"
  "v \<in> set (jc_Volumes (AddServiceCA e j c)) \<Longrightarrow> v \<in> set (jc_Volumes c) \<or> (GetPlatform e = OpenShiftPlatform \<and> vol_Name v = ServiceCAName j)"
  by (auto simp: ca_Update_def AddServiceCA_def config_volume_def dest: append_volume_once_in split: if_splits)

lemma agent_volumes_names:
  "v \<in> set (jc_Volumes (agent_volumes_spec e j)) \<Longrightarrow>
   v \<in> set (jc_Volumes (ag_Common (js_Agent (j_Spec j)))) \<or>
   (GetPlatform e = OpenShiftPlatform \<and> vol_Name v \<in> {TrustedCANameFromString (j_Name j), ServiceCANameFromString (j_Name j)})"
  unfolding agent_volumes_spec_def
  by (drule ca_Update_in(2)) (auto simp: TrustedCAName_def ServiceCAName_def dest: ca_Update_in(1))



section \<open>Choosing the instance\<close>

lemma getJaeger_from_spec:
  "getJaeger_from ns n best js =
     (case find (\<lambda>j. j_Name j = n \<and> j_Namespace j = ns) js of
        Some j \<Rightarrow> Some j
      | None \<Rightarrow> (case best of Some b \<Rightarrow> Some b | None \<Rightarrow> find (\<lambda>j. j_Name j = n) js))"
  by (induction ns n best js rule: getJaeger_from.induct) (auto split: option.splits)

text \<open>The instance for a sidecar is chosen by the annotations.  A name on the deployment wins over
  everything; otherwise a name on the namespace; among the instances of that name the one in the
  namespace of the deployment is preferred, and the first otherwise.  Without a usable name the value
  \<open>true\<close> selects the only instance there is, or the only one of the namespace, and nothing when the
  choice would be ambiguous.\<close>

theorem Select_by_annotation:
  "Select dep ns js =
    (let byName = (\<lambda>n. case find (\<lambda>j. j_Name j = n \<and> j_Namespace j = dep_Namespace dep) js of
                     Some j \<Rightarrow> Some j | None \<Rightarrow> find (\<lambda>j. j_Name j = n) js);
         d = mstr (dep_Annotations dep) Annotation; n = mstr (om_Annotations (ns_Meta ns)) Annotation;
         here = filter (\<lambda>j. j_Namespace j = dep_Namespace dep) js
     in if d \<noteq> [] \<and> \<not> EqualFold d ''true'' then byName d
        else case byName n of Some j \<Rightarrow> Some j
          | None \<Rightarrow> if EqualFold d ''true'' \<or> EqualFold n ''true''
                    then if length js = 1 then Some (hd js) else if length here = 1 then Some (hd here) else None
                    else None)"
proof -
  have one: "(case xs of [x] \<Rightarrow> Some x | _ \<Rightarrow> r) = (if length xs = 1 then Some (hd xs) else r)" for xs :: "Jaeger list" and r
    by (cases xs; cases "tl xs") (auto split: list.splits)
  show ?thesis
    unfolding Select_def getJaeger_def getJaeger_from_spec getJaegerFromNamespace_def Let_def one option.case
    by (rule refl)
qed

end
