(* ===== verification/Jaeger_Webhook.thy ===== *)
theory Jaeger_Webhook
  imports Upgrade Apply
begin

text \<open>
  Package \<open>apis/v1\<close>, file \<open>jaeger_webhook.go\<close>: the admission webhook of the Jaeger resource, which
  fills in defaults (\<open>Default\<close>) and then validates the result (\<open>ValidateUpdate\<close>).  The three regular
  expressions for the flags of TLS are matched by hand, as none of them can match a line break.
\<close>

section \<open>Regular expressions\<close>

text \<open>What follows the first two dashes: an expression that starts with \<open>--.*\<close> matches somewhere in a
  line exactly when the rest of it matches somewhere in this text.\<close>

fun after_dashes :: "string \<Rightarrow> string option" where
  "after_dashes (a # b # r) = (if a = CHR ''-'' \<and> b = CHR ''-'' then Some r else after_dashes (b # r))"
| "after_dashes _ = None"

definition in_line :: "(string \<Rightarrow> bool) \<Rightarrow> string \<Rightarrow> bool" where
  "in_line p l = (case after_dashes l of None \<Rightarrow> False | Some r \<Rightarrow> p r)"

definition in_some_line :: "(string \<Rightarrow> bool) \<Rightarrow> string \<Rightarrow> bool" where
  "in_some_line p s = list_ex (in_line p) (Split (CHR 0x0A) s)"

fun tls_enabled_in :: "string \<Rightarrow> bool" where
  "tls_enabled_in [] = False"
| "tls_enabled_in (c # r) =
     ((HasPrefix (c # r) ''tls'' \<and> (case drop 3 (c # r) of [] \<Rightarrow> False | _ # r' \<Rightarrow> HasPrefix r' ''enabled'')) \<or> tls_enabled_in r)"

definition tlsEnabledExists :: "string \<Rightarrow> bool" where
  "tlsEnabledExists = in_some_line tls_enabled_in"

fun tls_value_in :: "string \<Rightarrow> bool" where
  "tls_value_in [] = False"
| "tls_value_in (c # r) = ((HasPrefix (c # r) ''tls'' \<and> CHR ''='' \<in> set (drop 3 (c # r))) \<or> tls_value_in r)"

definition tlsFlag :: "string \<Rightarrow> bool" where
  "tlsFlag = in_some_line tls_value_in"

text \<open>The longest match, up to the last \<open>tls\<close>.\<close>

fun upto_last_tls :: "string \<Rightarrow> string option" where
  "upto_last_tls [] = None"
| "upto_last_tls (c # r) = (case upto_last_tls r of
     Some w \<Rightarrow> Some (c # w)
   | None \<Rightarrow> if HasPrefix (c # r) ''tls'' then Some ''tls'' else None)"

fun first_some_of :: "('a \<Rightarrow> 'b option) \<Rightarrow> 'a list \<Rightarrow> 'b option" where
  "first_some_of f [] = None"
| "first_some_of f (x # xs) = (case f x of Some y \<Rightarrow> Some y | None \<Rightarrow> first_some_of f xs)"

text \<open>The match of \<open>tlsFlagIdx\<close> without its two dashes.\<close>

definition tlsFlagIdx :: "string \<Rightarrow> string option" where
  "tlsFlagIdx s = first_some_of (\<lambda>l. Option.bind (after_dashes l) upto_last_tls) (Split (CHR 0x0A) s)"

section \<open>The webhook\<close>

text \<open>The map that is returned has one entry: this is its key, the value is the text true.  No
  match of \<open>tlsFlagIdx\<close> would be an index out of range.\<close>

fun additional_flags :: "string option \<Rightarrow> string list \<Rightarrow> string option res" where
  "additional_flags result [] = Inr result"
| "additional_flags result (arg # args) =
     (if tlsEnabledExists arg then Inr None
      else if tlsFlag arg \<and> result = None then
        (case tlsFlagIdx arg of None \<Rightarrow> Inl IndexOutOfRange | Some key \<Rightarrow> additional_flags (Some (key @ ''.enabled'')) args)
      else additional_flags result args)"

definition getAdditionalTLSFlags :: "string list \<Rightarrow> string option res" where
  "getAdditionalTLSFlags args = additional_flags None args"

definition objsWithOptions :: "Jaeger \<Rightarrow> Options list" where
  "objsWithOptions j =
     [aio_Options (js_AllInOne (j_Spec j)), q_Options (js_Query (j_Spec j)), col_Options (js_Collector (j_Spec j)),
      igr_Options (js_Ingester (j_Spec j)), ag_Options (js_Agent (j_Spec j)), st_Options (js_Storage (j_Spec j))]"

definition OpenShiftElasticsearchNodeCount :: "ESSpec \<Rightarrow> int32" where
  "OpenShiftElasticsearchNodeCount spec = foldl (\<lambda>nodes n. nodes + en_NodeCount n) 0 (es_Nodes spec)"

definition complete_tls :: "Options \<Rightarrow> Options res" where
  "complete_tls opt = res_bind (getAdditionalTLSFlags (ToArgs opt)) (\<lambda>f. case f of
     None \<Rightarrow> Inr opt
   | Some k \<Rightarrow> Inr (snd (parse (Some (AList.update k (IStr ''true'') (GenericMap opt))))))"

definition get_elasticsearch :: "'s Client \<Rightarrow> Jaeger \<Rightarrow> (Elasticsearch, 's) query" where
  "get_elasticsearch C j = get_typed C KElasticsearch un_Elasticsearch
     (ObjectMeta0\<lparr>om_Namespace := j_Namespace j, om_Name := ess_Name (st_Elasticsearch (j_Storage j))\<rparr>)"

definition checks_elasticsearch :: "Jaeger \<Rightarrow> bool" where
  "checks_elasticsearch j \<longleftrightarrow>
     ShouldInjectOpenShiftElasticsearchConfiguration (j_Storage j) \<and> ess_DoNotProvision (st_Elasticsearch (j_Storage j))"

definition default_name :: "Jaeger \<Rightarrow> Jaeger" where
  "default_name j = (if ess_Name (st_Elasticsearch (j_Storage j)) = []
     then upd_Storage (st_Elasticsearch_update (ess_Name_update (\<lambda>_. ''elasticsearch''))) j else j)"

definition default_flags :: "Jaeger \<Rightarrow> Jaeger res" where
  "default_flags j =
     res_bind (complete_tls (aio_Options (js_AllInOne (j_Spec j)))) (\<lambda>o1.
     res_bind (complete_tls (q_Options (js_Query (j_Spec j)))) (\<lambda>o2.
     res_bind (complete_tls (col_Options (js_Collector (j_Spec j)))) (\<lambda>o3.
     res_bind (complete_tls (igr_Options (js_Ingester (j_Spec j)))) (\<lambda>o4.
     res_bind (complete_tls (ag_Options (js_Agent (j_Spec j)))) (\<lambda>o5.
     res_bind (complete_tls (st_Options (js_Storage (j_Spec j)))) (\<lambda>o6.
       Inr (j_Spec_update (\<lambda>sp. sp\<lparr>js_AllInOne := (js_AllInOne sp)\<lparr>aio_Options := o1\<rparr>, js_Query := (js_Query sp)\<lparr>q_Options := o2\<rparr>,
         js_Collector := (js_Collector sp)\<lparr>col_Options := o3\<rparr>, js_Ingester := (js_Ingester sp)\<lparr>igr_Options := o4\<rparr>,
         js_Agent := (js_Agent sp)\<lparr>ag_Options := o5\<rparr>, js_Storage := (js_Storage sp)\<lparr>st_Options := o6\<rparr>\<rparr>) j)))))))"

text \<open>An error of \<open>Get\<close> other than a missing object leaves the empty object behind.\<close>

definition Default :: "'s Client \<Rightarrow> Jaeger \<Rightarrow> 's \<Rightarrow> Jaeger res \<times> 's" where
  "Default C j0 s =
     (let j = default_name j0;
          counted = (\<lambda>n. default_flags (upd_Storage (st_Elasticsearch_update (ess_NodeCount_update (\<lambda>_. n))) j))
      in if checks_elasticsearch j then
           (case get_elasticsearch C j s of
              (Inl NotFound, s') \<Rightarrow> (Inr j, s')
            | (Inl err, s') \<Rightarrow> (counted 0, s')
            | (Inr es, s') \<Rightarrow> (counted (OpenShiftElasticsearchNodeCount (es_Spec es)), s'))
         else (default_flags j, s))"

fun validate_flags :: "Options list \<Rightarrow> goerr option" where
  "validate_flags [] = None"
| "validate_flags (opt # os) = (case getAdditionalTLSFlags (ToArgs opt) of
     Inl err \<Rightarrow> Some err
   | Inr None \<Rightarrow> validate_flags os
   | Inr (Some f) \<Rightarrow> Some (Failed (''tls flags incomplete, got: ['' @ Join '' '' (ToArgs opt) @ '']'')))"

definition ValidateUpdate :: "'s Client \<Rightarrow> Jaeger \<Rightarrow> 's op" where
  "ValidateUpdate C j s =
     (if checks_elasticsearch j then
        (case get_elasticsearch C j s of
           (Inl NotFound, s') \<Rightarrow> (Some (Failed ''elasticsearch instance not found''), s')
         | (_, s') \<Rightarrow> (validate_flags (objsWithOptions j), s'))
      else (validate_flags (objsWithOptions j), s))"

definition ValidateCreate :: "'s Client \<Rightarrow> Jaeger \<Rightarrow> 's op" where
  "ValidateCreate C j = ValidateUpdate C j"

definition ValidateDelete :: "'s Client \<Rightarrow> Jaeger \<Rightarrow> 's op" where
  "ValidateDelete C j = skip"

section \<open>Completing the flags\<close>

lemma upto_last_tls_None: "upto_last_tls r = None \<Longrightarrow> \<not> tls_value_in r"
  by (induction r) (auto split: option.splits if_splits)

lemma HasPrefix_set: "HasPrefix s p \<Longrightarrow> set p \<subseteq> set s"
  by (induction s p rule: HasPrefix.induct) auto

lemma upto_last_tls_Some:
  "upto_last_tls r = Some w \<Longrightarrow> (\<exists>u. w = u @ ''tls'') \<and> set w \<subseteq> set r"
proof (induction r arbitrary: w)
  case (Cons c r)
  show ?case
  proof (cases "upto_last_tls r")
    case None
    with Cons.prems have "w = ''tls''" "HasPrefix (c # r) ''tls''" by (auto split: if_splits)
    then show ?thesis using HasPrefix_set [of r "''ls''"] by auto
  next
    case (Some v)
    with Cons.prems have "w = c # v" by simp
    moreover obtain u where "v = u @ ''tls''" "set v \<subseteq> set r" using Cons.IH [OF Some] by blast
    ultimately show ?thesis by (auto intro: exI [of _ "c # u"])
  qed
qed simp

lemma after_dashes_subset: "after_dashes l = Some r \<Longrightarrow> set r \<subseteq> set l"
  by (induction l rule: after_dashes.induct) (auto split: if_splits)

lemma first_some_of_None: "first_some_of f xs = None \<longleftrightarrow> (\<forall>x \<in> set xs. f x = None)"
  by (induction xs) (auto split: option.splits)

lemma first_some_of_Some: "first_some_of f xs = Some y \<Longrightarrow> \<exists>x \<in> set xs. f x = Some y"
  by (induction xs) (auto split: option.splits)

lemma tlsFlag_has_key: "tlsFlag s \<Longrightarrow> tlsFlagIdx s \<noteq> None"
proof -
  assume "tlsFlag s"
  then obtain l r where "l \<in> set (Split (CHR 0x0A) s)" "after_dashes l = Some r" "tls_value_in r"
    by (auto simp: tlsFlag_def in_some_line_def in_line_def list_ex_iff split: option.splits)
  then show ?thesis using upto_last_tls_None [of r] unfolding tlsFlagIdx_def first_some_of_None
    by (cases "upto_last_tls r") (auto intro!: bexI [of _ l])
qed

lemma additional_flags_total: "\<exists>r. additional_flags k args = Inr r"
proof (induction args arbitrary: k)
  case (Cons a args)
  then show ?case using tlsFlag_has_key [of a] by (auto split: option.split)
qed simp

lemma additional_flags_present: "\<exists>a \<in> set args. tlsEnabledExists a \<Longrightarrow> additional_flags k args = Inr None"
proof (induction args arbitrary: k)
  case (Cons a args)
  then show ?case using tlsFlag_has_key [of a] by (auto split: option.split)
qed simp

lemma additional_flags_key:
  "additional_flags k args = Inr (Some f) \<Longrightarrow> k = Some f \<or> (\<exists>a \<in> set args. \<exists>w. tlsFlagIdx a = Some w \<and> f = w @ ''.enabled'')"
proof (induction args arbitrary: k)
  case (Cons a args)
  then show ?case by (fastforce split: if_splits option.splits)
qed simp

lemma Split_pieces: "x \<in> set (Split b s) \<Longrightarrow> b \<notin> set x"
  by (induction b s arbitrary: x rule: Split.induct) (auto split: list.splits if_splits)

lemma Split_prefix: "b \<notin> set p \<Longrightarrow> Split b v = l # ls \<Longrightarrow> Split b (p @ v) = (p @ l) # ls"
  by (induction p) auto

lemma Split_Cons: obtains l ls where "Split b v = l # ls"
  by (cases "Split b v"; cases v) (auto split: if_splits list.splits)

lemma key_shape:
  assumes "tlsFlagIdx a = Some w"
  obtains u where "w = u @ ''tls''" "CHR 0x0A \<notin> set w"
proof -
  obtain l r where "l \<in> set (Split (CHR 0x0A) a)" "after_dashes l = Some r" "upto_last_tls r = Some w"
    using first_some_of_Some [OF assms [unfolded tlsFlagIdx_def]] by (auto simp: Option.bind_eq_Some_conv)
  with Split_pieces after_dashes_subset upto_last_tls_Some show ?thesis using that by blast
qed

lemma tls_enabled_in_append: "tls_enabled_in (u @ ''tls'' @ c # ''enabled'' @ r)"
  by (induction u) auto

lemma key_enables:
  assumes "tlsFlagIdx a = Some w"
  shows "tlsEnabledExists (''--'' @ (w @ ''.enabled'') @ ''='' @ v)"
proof -
  obtain u where w: "w = u @ ''tls''" "CHR 0x0A \<notin> set w" using key_shape [OF assms] .
  obtain l ls where "Split (CHR 0x0A) v = l # ls" by (rule Split_Cons)
  then have "Split (CHR 0x0A) ((''--'' @ (w @ ''.enabled'') @ ''='') @ v) = ((''--'' @ (w @ ''.enabled'') @ ''='') @ l) # ls"
    using w(2) by (intro Split_prefix) auto
  then show ?thesis
    using tls_enabled_in_append [of u "CHR ''.''" "''='' @ l"] by (simp add: tlsEnabledExists_def in_some_line_def in_line_def w(1))
qed

lemma list_all_update: "list_all P al \<Longrightarrow> P (k, v) \<Longrightarrow> list_all P (AList.update k v al)"
  by (induction al) auto

lemma parse_plain:
  assumes "list_all (\<lambda>(k, v). (\<exists>t. v = IStr t) \<or> (\<exists>ts. v = IStrs ts)) al" "list_all (\<lambda>(k, v). \<exists>t. v = OStr t) es"
  obtains es' where "parse_entries es al = Inr es'" "fst ` set es \<union> fst ` set al \<subseteq> fst ` set es'"
    "list_all (\<lambda>(k, v). \<exists>t. v = OStr t) es'"
  using assms
proof (induction al arbitrary: es thesis)
  case (Cons x al)
  obtain k v where x: "x = (k, v)" by (cases x)
  with Cons.prems(2) obtain t where e: "entry es k v = Inr (AList.update k (OStr t) es)" by fastforce
  have upd: "list_all (\<lambda>(k, v). \<exists>t. v = OStr t) (AList.update k (OStr t) es)"
    using Cons.prems(3) by (rule list_all_update) simp
  have al: "list_all (\<lambda>(k, v). (\<exists>t. v = IStr t) \<or> (\<exists>ts. v = IStrs ts)) al" using Cons.prems(2) by simp
  obtain es' where "parse_entries (AList.update k (OStr t) es) al = Inr es'"
      "fst ` set (AList.update k (OStr t) es) \<union> fst ` set al \<subseteq> fst ` set es'" "list_all (\<lambda>(k, v). \<exists>t. v = OStr t) es'"
    using Cons.IH [OF _ al upd] by blast
  then show ?case using Cons.prems(1) [of es'] by (simp add: x e dom_update)
qed simp

lemma complete_tls_complete:
  obtains opt' where "complete_tls opt = Inr opt'" "getAdditionalTLSFlags (ToArgs opt') = Inr None"
proof -
  obtain r where r: "getAdditionalTLSFlags (ToArgs opt) = Inr r" using additional_flags_total unfolding getAdditionalTLSFlags_def by blast
  show ?thesis
  proof (cases r)
    case None
    with r show ?thesis using that [of opt] by (simp add: complete_tls_def)
  next
    case (Some k)
    let ?al = "AList.update k (IStr ''true'') (GenericMap opt)"
    obtain a w where kw: "tlsFlagIdx a = Some w" "k = w @ ''.enabled''"
      using r Some additional_flags_key unfolding getAdditionalTLSFlags_def by blast
    have "(\<exists>t. iface_of v = IStr t) \<or> (\<exists>ts. iface_of v = IStrs ts)" for v by (cases v) auto
    then have al: "list_all (\<lambda>(k, v). (\<exists>t. v = IStr t) \<or> (\<exists>ts. v = IStrs ts)) ?al"
      by (intro list_all_update) (auto simp: GenericMap_def list_all_iff)
    obtain es where es: "parse_entries [] ?al = Inr es" "fst ` set ?al \<subseteq> fst ` set es" "list_all (\<lambda>(k, v). \<exists>t. v = OStr t) es"
      using parse_plain [OF al, of "[]"] by auto
    then obtain t where "(k, OStr t) \<in> set es" by (force simp: dom_update list_all_iff)
    then have "''--'' @ k @ ''='' @ t \<in> set (concat (map arg_of es))" by force
    then have "getAdditionalTLSFlags (ToArgs \<lparr>opts = Some es, json = None\<rparr>) = Inr None"
      using key_enables [OF kw(1), of t] unfolding getAdditionalTLSFlags_def ToArgs_def kw(2) by (intro additional_flags_present) auto
    moreover have "complete_tls opt = Inr \<lparr>opts = Some es, json = None\<rparr>" by (simp add: complete_tls_def r Some parse_def es(1))
    ultimately show ?thesis using that by blast
  qed
qed

lemma default_flags_valid:
  obtains j' where "default_flags j = Inr j'" "validate_flags (objsWithOptions j') = None"
proof -
  obtain o1 o2 o3 o4 o5 o6 where
    "complete_tls (aio_Options (js_AllInOne (j_Spec j))) = Inr o1" "getAdditionalTLSFlags (ToArgs o1) = Inr None"
    "complete_tls (q_Options (js_Query (j_Spec j))) = Inr o2" "getAdditionalTLSFlags (ToArgs o2) = Inr None"
    "complete_tls (col_Options (js_Collector (j_Spec j))) = Inr o3" "getAdditionalTLSFlags (ToArgs o3) = Inr None"
    "complete_tls (igr_Options (js_Ingester (j_Spec j))) = Inr o4" "getAdditionalTLSFlags (ToArgs o4) = Inr None"
    "complete_tls (ag_Options (js_Agent (j_Spec j))) = Inr o5" "getAdditionalTLSFlags (ToArgs o5) = Inr None"
    "complete_tls (st_Options (js_Storage (j_Spec j))) = Inr o6" "getAdditionalTLSFlags (ToArgs o6) = Inr None"
    using complete_tls_complete by metis
  then show ?thesis using that by (simp add: default_flags_def objsWithOptions_def)
qed

text \<open>C36: the two webhooks agree.  Completing an instance never fails, and whatever the state of the
  cluster when the result is validated, the flags of TLS are never a reason to refuse it: the
  validation refuses exactly when the instance points to an Elasticsearch that is not there.  The
  only instances that are left incomplete are those whose Elasticsearch was already missing when the
  defaults were filled in.\<close>

theorem Default_makes_valid:
  assumes "\<not> (checks_elasticsearch (default_name j) \<and> fst (get_elasticsearch C (default_name j) s) = Inl NotFound)"
  shows "\<exists>j'. fst (Default C j s) = Inr j' \<and>
    (\<forall>t. fst (ValidateUpdate C j' t) =
       (if checks_elasticsearch j' \<and> fst (get_elasticsearch C j' t) = Inl NotFound
        then Some (Failed ''elasticsearch instance not found'') else None))"
proof -
  have "\<exists>k. fst (Default C j s) = default_flags k"
  proof (cases "checks_elasticsearch (default_name j)")
    case True
    obtain r s' where g: "get_elasticsearch C (default_name j) s = (r, s')" by (cases "get_elasticsearch C (default_name j) s")
    show ?thesis
    proof (cases r)
      case (Inl err)
      with True assms g show ?thesis by (cases err) (auto simp: Default_def Let_def)
    next
      case (Inr es)
      with True g show ?thesis by (auto simp: Default_def Let_def)
    qed
  qed (auto simp: Default_def Let_def)
  then obtain k where k: "fst (Default C j s) = default_flags k" ..
  obtain j' where j': "default_flags k = Inr j'" "validate_flags (objsWithOptions j') = None" by (rule default_flags_valid)
  have "fst (ValidateUpdate C j' t) = (if checks_elasticsearch j' \<and> fst (get_elasticsearch C j' t) = Inl NotFound
        then Some (Failed ''elasticsearch instance not found'') else None)" for t
    using j'(2) by (cases "get_elasticsearch C j' t") (auto simp: ValidateUpdate_def split: sum.splits goerr.splits)
  then show ?thesis using k j'(1) by auto
qed

definition sample_tls_jaeger :: Jaeger where
  "sample_tls_jaeger = j_Spec_update (js_Collector_update (\<lambda>c. c\<lparr>col_Options := \<lparr>opts = Some [(''kafka.producer.tls.ca'', OStr ''/ca'')], json = None\<rparr>\<rparr>)) sample_jaeger"

theorem Default_makes_valid_witness:
  "\<exists>j'. fst (Default mem_client sample_tls_jaeger []) = Inr j' \<and>
    (\<forall>t. fst (ValidateUpdate mem_client j' t) =
       (if checks_elasticsearch j' \<and> fst (get_elasticsearch mem_client j' t) = Inl NotFound
        then Some (Failed ''elasticsearch instance not found'') else None))"
  by (rule Default_makes_valid)
    (simp add: checks_elasticsearch_def default_name_def sample_tls_jaeger_def sample_jaeger_def NewJaeger_def JaegerSpec0_def
      ShouldInjectOpenShiftElasticsearchConfiguration_def)

lemma upto_last_tls_append:
  "upto_last_tls q = None \<Longrightarrow> CHR ''='' \<notin> set q \<Longrightarrow>
     upto_last_tls (q @ ''='' @ v) = map_option (\<lambda>w. q @ ''='' @ w) (upto_last_tls v)"
proof (induction q)
  case Nil
  then show ?case by (simp split: option.split)
next
  case (Cons c q)
  then have q: "upto_last_tls q = None" "\<not> HasPrefix (c # q) ''tls''" by (auto split: option.splits if_splits)
  have "HasPrefix (c # q @ ''='' @ v) ''tls'' \<longleftrightarrow> HasPrefix (c # q) ''tls''"
    using Cons.prems(2) by (cases q; cases "tl q") auto
  with Cons q show ?case by (simp split: option.split)
qed

lemma upto_last_tls_from:
  "upto_last_tls (p @ ''tls'' @ r) = Some (p @ ''tls'' @ (case upto_last_tls r of None \<Rightarrow> [] | Some w \<Rightarrow> w))"
  by (induction p) (auto split: option.split)

text \<open>Which flag is added.  For an option \<open>p\<close>\<open>tls\<close>\<open>q\<close> with the value \<open>v\<close>, where no switch of TLS is
  among the arguments, the switch is \<open>p\<close>\<open>tls.enabled\<close> as intended as long as the letters tls do not
  occur in the value; otherwise the expression runs on into the value, and the key of the added
  option holds the name, an equals sign and part of the value.\<close>

theorem tls_switch_of_option:
  assumes "upto_last_tls q = None" "CHR ''='' \<notin> set q" "CHR 0x0A \<notin> set (p @ q @ v)"
    "\<not> tlsEnabledExists (''--'' @ p @ ''tls'' @ q @ ''='' @ v)"
  shows "getAdditionalTLSFlags [''--'' @ p @ ''tls'' @ q @ ''='' @ v] =
    Inr (Some (case upto_last_tls v of None \<Rightarrow> p @ ''tls.enabled'' | Some w \<Rightarrow> p @ ''tls'' @ q @ ''='' @ w @ ''.enabled''))"
proof -
  let ?r = "p @ ''tls'' @ q @ ''='' @ v"
  have sp: "Split (CHR 0x0A) (''--'' @ ?r) = [''--'' @ ?r]"
    using Split_prefix [of "CHR 0x0A" "''--'' @ ?r" "[]" "[]" "[]"] assms(3) by simp
  have "tls_value_in (p @ ''tls'' @ q @ ''='' @ v)" by (induction p) auto
  then have "tlsFlag (''--'' @ ?r)" unfolding tlsFlag_def in_some_line_def sp by (simp add: in_line_def)
  moreover have "tlsFlagIdx (''--'' @ ?r) = upto_last_tls ?r" unfolding tlsFlagIdx_def sp by (simp split: option.split)
  ultimately show ?thesis
    using assms(4) upto_last_tls_from [of p "q @ ''='' @ v"] upto_last_tls_append [OF assms(1,2), of v]
    unfolding getAdditionalTLSFlags_def by (cases "upto_last_tls v") simp_all
qed

theorem tls_switch_of_option_witness:
  "getAdditionalTLSFlags [''--es.tls.ca=/etc/pki/ca.crt''] = Inr (Some ''es.tls.enabled'') \<and>
   getAdditionalTLSFlags [''--es.tls.ca=/etc/tls/ca.crt''] = Inr (Some ''es.tls.ca=/etc/tls.enabled'')"
  using tls_switch_of_option [of "''.ca''" "''es.''" "''/etc/pki/ca.crt''"] tls_switch_of_option [of "''.ca''" "''es.''" "''/etc/tls/ca.crt''"]
  by (simp add: tlsEnabledExists_def in_some_line_def in_line_def)

end
