(* ===== verification/Sidecar_Control.thy ===== *)
theory Sidecar_Control
  imports Inject_Stability Jaeger_Webhook
begin

text \<open>
  Everything that reacts to changes around the deployments with sidecars: the admission webhook that
  injects and removes the agent (\<open>controllers/appsv1/deployment_webhook.go\<close>), the controller of the
  namespaces (\<open>pkg/controller/namespace\<close>), the background process that cleans deployments whose
  instance is gone (\<open>pkg/autoclean\<close>), the synchronisation of the deployments when an instance changes
  (\<open>syncOnJaegerChanges\<close> of \<open>pkg/controller/jaeger\<close>), and the controller that follows the node count of
  an Elasticsearch (\<open>pkg/controller/elasticsearch\<close>).
\<close>

section \<open>The webhook of the deployments\<close>

text \<open>A request carries the outcome of decoding its object; a patch is given by the object that it
  leads to.\<close>

record Request =
  rq_Namespace :: string
  rq_Object :: "Deployment res"

datatype Response = Allowed string | Errored int goerr | Patched Deployment

definition shouldHandleDeployment :: "Env \<Rightarrow> Request \<Rightarrow> bool" where
  "shouldHandleDeployment e req =
     (let namespaces = viper_GetString e ConfigWatchNamespace
      in if namespaces \<noteq> WatchAllNamespaces then list_ex (\<lambda>ns. EqualFold ns (rq_Namespace req)) (Split (CHR '','') namespaces) else True)"

definition reconcileConfigMap :: "'s Client \<Rightarrow> Deployment \<Rightarrow> ConfigMap \<Rightarrow> 's op" where
  "reconcileConfigMap C dep cm s =
     (case cl_Create C (OConfigMap (cm\<lparr>cm_Meta := (cm_Meta cm)\<lparr>om_Namespace := dep_Namespace dep\<rparr>\<rparr>)) s of
        (Some AlreadyExists, s') \<Rightarrow> (None, s')
      | r \<Rightarrow> r)"

definition ca_config_maps :: "Env \<Rightarrow> Jaeger \<Rightarrow> ConfigMap list" where
  "ca_config_maps e jaeger =
     (case GetTrustedCABundle e jaeger of None \<Rightarrow> [] | Some cm \<Rightarrow> [cm]) @ (case GetServiceCABundle e jaeger of None \<Rightarrow> [] | Some cm \<Rightarrow> [cm])"

definition reconcileConfigMaps :: "Env \<Rightarrow> 's Client \<Rightarrow> Jaeger \<Rightarrow> Deployment \<Rightarrow> 's op" where
  "reconcileConfigMaps e C jaeger dep = for_each (reconcileConfigMap C dep) (ca_config_maps e jaeger)"

text \<open>The zero value of the namespace stands in when it cannot be read.\<close>

definition fetch_namespace :: "'s Client \<Rightarrow> string \<Rightarrow> 's \<Rightarrow> Namespace \<times> 's" where
  "fetch_namespace C name s = (case cl_GetNamespace C name s of
     (Inr ns, s') \<Rightarrow> (ns, s') | (Inl err, s') \<Rightarrow> (\<lparr>ns_Meta = ObjectMeta0\<rparr>, s'))"

definition list_config_maps :: "'s Client \<Rightarrow> string \<Rightarrow> 's \<Rightarrow> ConfigMap list \<times> 's" where
  "list_config_maps C ns s = (case cl_List C KConfigMap (Some ns) [] s of
     (Inl err, s') \<Rightarrow> ([], s') | (Inr items, s') \<Rightarrow> (List.map_filter un_ConfigMap items, s'))"

definition inject_response :: "Env \<Rightarrow> 's Client \<Rightarrow> Jaeger \<Rightarrow> Deployment \<Rightarrow> 's \<Rightarrow> Response res \<times> 's" where
  "inject_response e C jaeger dep s =
     (let s1 = (if j_Namespace jaeger \<noteq> dep_Namespace dep then snd (reconcileConfigMaps e C jaeger dep s) else s);
          (cms, s2) = list_config_maps C (dep_Namespace dep) s1
      in (res_bind (Sidecar e jaeger dep [WithEnvFromConfigMaps (GetConfigMapsMatchedEnvFromInDeployment dep cms)]) (\<lambda>d. Inr (Patched d)), s2))"

text \<open>The namespaces to watch are one text here, also when it names several.\<close>

definition webhook_jaegers :: "Env \<Rightarrow> 's Client \<Rightarrow> (Jaeger list, 's) query" where
  "webhook_jaegers e C = cl_ListJaegers C (if viper_GetString e ConfigOperatorScope = OperatorScopeNamespace
     then Some (viper_GetString e ConfigWatchNamespace) else None) []"

definition Handle :: "Env \<Rightarrow> 's Client \<Rightarrow> Request \<Rightarrow> 's \<Rightarrow> Response res \<times> 's" where
  "Handle e C req s =
     (if \<not> shouldHandleDeployment e req then (Inr (Allowed ''not watching in namespace, we do not touch the deployment''), s)
      else case rq_Object req of
        Inl err \<Rightarrow> (Inr (Errored 400 err), s)
      | Inr dep \<Rightarrow>
          if mstr (dep_Labels dep) ''app'' = ''jaeger'' \<and> mstr (dep_Labels dep) ''app.kubernetes.io/component'' \<noteq> ''query''
          then (Inr (Allowed ''is jaeger deployment, we do not touch it''), s)
          else (let (ns, s1) = fetch_namespace C (rq_Namespace req) s
                in case webhook_jaegers e C s1 of
                  (Inl err, s2) \<Rightarrow> (Inr (Errored 500 err), s2)
                | (Inr jaegers, s2) \<Rightarrow>
                    if Needed dep ns then
                      (case Select dep ns jaegers of
                         None \<Rightarrow> (Inr (Allowed ''no suitable Jaeger instances found to inject a sidecar''), s2)
                       | Some jaeger \<Rightarrow>
                           if om_DeletionTimestamp (j_Meta jaeger) = None then inject_response e C jaeger dep s2
                           else (Inr (Allowed ''no suitable Jaeger instances found to inject a sidecar''), s2))
                    else (case mget (dep_Labels dep) Label of
                        Some v \<Rightarrow> if fst (HasJaegerAgent dep) then (Inr (Patched (CleanSidecar e v dep)), s2) else (Inr (Allowed ''no action needed''), s2)
                      | None \<Rightarrow> (Inr (Allowed ''no action needed''), s2))))"

section \<open>The controller of the namespaces\<close>

definition bump_revision :: "Deployment \<Rightarrow> Deployment" where
  "bump_revision dep = dep_Meta_update (om_Annotations_update IncreaseRevision) dep"

definition namespace_touches :: "Namespace \<Rightarrow> Deployment \<Rightarrow> bool" where
  "namespace_touches ns dep \<longleftrightarrow>
     mstr (dep_Labels dep) ''app'' \<noteq> ''jaeger'' \<and>
     (Needed dep ns \<or> (fst (HasJaegerAgent dep) \<and> mget (dep_Annotations dep) Annotation = None))"

definition Reconcile_Namespace :: "'s Client \<Rightarrow> string \<Rightarrow> 's op" where
  "Reconcile_Namespace C name s =
     (case cl_GetNamespace C name s of
        (Inl err, s1) \<Rightarrow> (if err = NotFound then None else Some err, s1)
      | (Inr ns, s1) \<Rightarrow> (case cl_List C KDeployment (Some name) [] s1 of
            (Inl err, s2) \<Rightarrow> (if err = NotFound then None else Some err, s2)
          | (Inr items, s2) \<Rightarrow>
              for_each (\<lambda>dep. if namespace_touches ns dep then cl_Update C (ODeployment (bump_revision dep)) else skip)
                (List.map_filter un_Deployment items) s2))"

section \<open>The deployments of an instance that changes\<close>

text \<open>The lists of a watched namespace each, or of the whole cluster; the first error ends it.\<close>

fun list_deployments :: "'s Client \<Rightarrow> string list \<Rightarrow> Deployment list \<Rightarrow> (Deployment list, 's) query" where
  "list_deployments C [] acc s = (Inr acc, s)"
| "list_deployments C (ns # nss) acc s = (case cl_List C KDeployment (Some ns) [] s of
     (Inl e, s') \<Rightarrow> (Inl e, s')
   | (Inr items, s') \<Rightarrow> list_deployments C nss (acc @ List.map_filter un_Deployment items) s')"

definition watched_deployments :: "Env \<Rightarrow> 's Client \<Rightarrow> (Deployment list, 's) query" where
  "watched_deployments e C s =
     (let namespaces = viper_GetString e ConfigWatchNamespace
      in if namespaces \<noteq> WatchAllNamespaces then list_deployments C (Split (CHR '','') namespaces) [] s
         else (case cl_List C KDeployment None [] s of
             (Inl e, s') \<Rightarrow> (Inl e, s') | (Inr items, s') \<Rightarrow> (Inr (List.map_filter un_Deployment items), s')))"

text \<open>The loop that chooses the deployments, with its cache of namespaces.\<close>

fun to_sync :: "'s Client \<Rightarrow> string \<Rightarrow> Namespace amap \<Rightarrow> Deployment list \<Rightarrow> 's \<Rightarrow> Deployment list \<times> 's" where
  "to_sync C jaegerName nss [] s = ([], s)"
| "to_sync C jaegerName nss (dep # deps) s =
     (if (case mget (dep_Labels dep) Label of Some val \<Rightarrow> val \<noteq> jaegerName | None \<Rightarrow> False) then to_sync C jaegerName nss deps s
      else if mget (dep_Annotations dep) Annotation \<noteq> None then
        (case to_sync C jaegerName nss deps s of (ds, s') \<Rightarrow> (bump_revision dep # ds, s'))
      else (case (case map_of nss (dep_Namespace dep) of Some ns \<Rightarrow> (Inr ns, s) | None \<Rightarrow> cl_GetNamespace C (dep_Namespace dep) s) of
          (Inl err, s1) \<Rightarrow> to_sync C jaegerName nss deps s1
        | (Inr ns, s1) \<Rightarrow>
            (let nss' = (if map_of nss (dep_Namespace dep) = None then AList.update (om_Name (ns_Meta ns)) ns nss else nss)
             in case to_sync C jaegerName nss' deps s1 of (ds, s') \<Rightarrow>
                  (if mget (om_Annotations (ns_Meta ns)) Annotation \<noteq> None then bump_revision dep # ds else ds, s'))))"

definition syncOnJaegerChanges :: "Env \<Rightarrow> 's Client \<Rightarrow> string \<Rightarrow> 's op" where
  "syncOnJaegerChanges e C jaegerName s = (case watched_deployments e C s of
     (Inl err, s') \<Rightarrow> (Some err, s')
   | (Inr deps, s1) \<Rightarrow> (case to_sync C jaegerName [] deps s1 of (ds, s2) \<Rightarrow> for_each (cl_Update C) (map ODeployment ds) s2))"

section \<open>Cleaning deployments whose instance is gone\<close>

text \<open>The selector for the label is built but not used, so that all deployments are listed; errors
  of the lists are logged and leave them empty.\<close>

definition deployments_in :: "'s Client \<Rightarrow> string option \<Rightarrow> 's \<Rightarrow> Deployment list \<times> 's" where
  "deployments_in C ns s = (case cl_List C KDeployment ns [] s of
     (Inl err, s') \<Rightarrow> ([], s') | (Inr items, s') \<Rightarrow> (List.map_filter un_Deployment items, s'))"

definition instances_in :: "'s Client \<Rightarrow> string option \<Rightarrow> 's \<Rightarrow> Jaeger list \<times> 's" where
  "instances_in C ns s = (case cl_ListJaegers C ns [] s of (Inl err, s') \<Rightarrow> ([], s') | (Inr js, s') \<Rightarrow> (js, s'))"

fun collect_watched :: "'s Client \<Rightarrow> string option list \<Rightarrow> 's \<Rightarrow> (Deployment list \<times> string list) \<times> 's" where
  "collect_watched C [] s = (([], []), s)"
| "collect_watched C (ns # nss) s =
     (let (deps, s1) = deployments_in C ns s; (js, s2) = instances_in C ns s1; ((deps', names), s3) = collect_watched C nss s2
      in ((deps @ deps', map (\<lambda>j. j_Name j) js @ names), s3))"

definition orphaned :: "string list \<Rightarrow> Deployment \<Rightarrow> bool" where
  "orphaned instances dep = (case mget (dep_Labels dep) Label of None \<Rightarrow> False | Some v \<Rightarrow> v \<notin> set instances)"

definition cleaned :: "Env \<Rightarrow> Deployment \<Rightarrow> Deployment" where
  "cleaned e dep = CleanSidecar e (mstr (dep_Labels dep) Label) dep"

definition cleanDeployments :: "Env \<Rightarrow> 's Client \<Rightarrow> 's \<Rightarrow> 's" where
  "cleanDeployments e C s =
     (let namespaces = viper_GetString e ConfigWatchNamespace;
          ((deps, instances), s1) = collect_watched C (if namespaces \<noteq> WatchAllNamespaces then map Some (Split (CHR '','') namespaces) else [None]) s
      in fold (\<lambda>dep s. if orphaned instances dep then snd (cl_Update C (ODeployment (cleaned e dep)) s) else s) deps s1)"

section \<open>Following the size of an Elasticsearch\<close>

definition follows_node_count :: "Elasticsearch \<Rightarrow> Jaeger \<Rightarrow> bool" where
  "follows_node_count es jaeger \<longleftrightarrow>
     ShouldInjectOpenShiftElasticsearchConfiguration (j_Storage jaeger) \<and>
     ess_Name (st_Elasticsearch (j_Storage jaeger)) = om_Name (es_Meta es) \<and>
     ess_NodeCount (st_Elasticsearch (j_Storage jaeger)) \<noteq> OpenShiftElasticsearchNodeCount (es_Spec es)"

definition with_node_count :: "Elasticsearch \<Rightarrow> Jaeger \<Rightarrow> Jaeger" where
  "with_node_count es jaeger =
     upd_Storage (st_Elasticsearch_update (ess_NodeCount_update (\<lambda>_. OpenShiftElasticsearchNodeCount (es_Spec es)))) jaeger"

definition Reconcile_Elasticsearch :: "'s Client \<Rightarrow> string \<Rightarrow> string \<Rightarrow> 's op" where
  "Reconcile_Elasticsearch C namespace name s =
     (case get_typed C KElasticsearch un_Elasticsearch (ObjectMeta0\<lparr>om_Namespace := namespace, om_Name := name\<rparr>) s of
        (Inl err, s1) \<Rightarrow> (if err = NotFound then None else Some err, s1)
      | (Inr es, s1) \<Rightarrow> (case cl_ListJaegers C (Some namespace) [] s1 of
            (Inl err, s2) \<Rightarrow> (Some err, s2)
          | (Inr jaegers, s2) \<Rightarrow>
              for_each (\<lambda>jaeger s. if follows_node_count es jaeger
                  then (case cl_UpdateJaeger C (with_node_count es jaeger) s of (Inl err, s') \<Rightarrow> (Some err, s') | (Inr _, s') \<Rightarrow> (None, s'))
                  else (None, s)) jaegers s2))"

end
