(* ===== verification/Controller.thy ===== *)
theory Controller
  imports Strategies Sidecar_Control
begin

text \<open>
  Package \<open>pkg/controller/jaeger\<close>, files \<open>jaeger_controller.go\<close> and \<open>configmap.go\<close>: the reconciliation of
  a Jaeger instance.  The state is that of the cluster and of the files of the operator together;
  the client, the operating system, the semantic versions and the random numbers are parameters.
  A panic is an error that nothing handles: it ends the function without the steps that follow.
\<close>

section \<open>Errors that are handled\<close>

fun panics :: "goerr \<Rightarrow> bool" where
  "panics (Failed _) = False"
| "panics NotFound = False"
| "panics AlreadyExists = False"
| "panics _ = True"

text \<open>An error that is logged and otherwise ignored.\<close>

definition logged :: "'s op \<Rightarrow> 's op" where
  "logged f s = (case f s of (Some err, s') \<Rightarrow> (if panics err then Some err else None, s') | (None, s') \<Rightarrow> (None, s'))"

section \<open>Config maps of deleted instances\<close>

text \<open>The selector asks for two equal labels and for one of two components.\<close>

definition getSelectorsForConfigMaps :: "string \<Rightarrow> string list \<Rightarrow> string amap \<times> (kobj \<Rightarrow> bool)" where
  "getSelectorsForConfigMaps instName components =
     ([(''app.kubernetes.io/name'', Truncate instName 63 []), (''app.kubernetes.io/managed-by'', ''jaeger-operator'')],
      \<lambda>x. case mget (om_Labels (meta_of x)) ''app.kubernetes.io/component'' of None \<Rightarrow> False | Some v \<Rightarrow> v \<in> set components)"

definition cleanConfigMaps :: "'s Client \<Rightarrow> string \<Rightarrow> 's op" where
  "cleanConfigMaps C instName s =
     (let (labels, component) = getSelectorsForConfigMaps instName [''ca-configmap'', ''service-ca-configmap'']
      in case cl_List C KConfigMap None labels s of
           (Inl err, s') \<Rightarrow> (Some err, s')
         | (Inr items, s') \<Rightarrow> (None, fold (\<lambda>cm s. snd (cl_Delete C cm s)) (filter component items) s'))"

section \<open>Applying a strategy\<close>

definition getSecretsForNamespace :: "Secret list \<Rightarrow> string \<Rightarrow> Secret list" where
  "getSecretsForNamespace secrets namespace = filter (\<lambda>x. om_Namespace (sec_Meta x) = namespace) secrets"

definition generates_certs :: "Jaeger \<Rightarrow> bool" where
  "generates_certs jaeger \<longleftrightarrow>
     ShouldInjectOpenShiftElasticsearchConfiguration (j_Storage jaeger) \<and> ess_UseCertManagement (st_Elasticsearch (j_Storage jaeger)) \<noteq> Some True"

definition certGenerationScript :: string where
  "certGenerationScript = ''./scripts/cert_generation.sh''"

text \<open>The secrets that are added to the strategy, and the instance as it is returned.\<close>

definition es_certificates :: "'s Client \<Rightarrow> 's System \<Rightarrow> Jaeger \<Rightarrow> 's \<Rightarrow> (Jaeger \<times> Secret list res) \<times> 's" where
  "es_certificates C sys jaeger s =
     (if \<not> generates_certs jaeger then ((jaeger, Inr []), s)
      else (case cl_List C KSecret None (instance_labels jaeger) s of
          (Inl err, s1) \<Rightarrow> (let failed = jaeger\<lparr>j_Phase := JaegerPhaseFailed\<rparr> in ((failed, Inl err), snd (cl_StatusUpdate C failed s1)))
        | (Inr items, s1) \<Rightarrow>
            (case CreateCerts sys certGenerationScript
                    (getSecretsForNamespace (List.map_filter un_Secret items) (j_Namespace jaeger)) jaeger s1 of
               (Some err, s2) \<Rightarrow> ((jaeger, Inl err), s2)
             | (None, s2) \<Rightarrow> ((jaeger, Inr (ExtractSecrets sys jaeger s2)), s2))))"

definition apply_console_links :: "Env \<Rightarrow> 's Client \<Rightarrow> Jaeger \<Rightarrow> S \<Rightarrow> 's op" where
  "apply_console_links e C jaeger str =
     logged (with_list C KRoute (Some (j_Namespace jaeger)) [] un_Route (\<lambda>routes. applyConsoleLinks e C jaeger (ConsoleLinks routes str)))"

definition apply_access :: "Env \<Rightarrow> 's Client \<Rightarrow> Jaeger \<Rightarrow> S \<Rightarrow> 's op" where
  "apply_access e C jaeger str =
     (if GetPlatform e = OpenShiftPlatform
      then andthen (applyRoutes C jaeger (S_routes str)) (apply_console_links e C jaeger str)
      else applyIngresses C jaeger (S_ingresses str))"

text \<open>When the autoscalers fail, the function returns without the daemon sets and without an error.\<close>

definition apply_last :: "Env \<Rightarrow> 's Client \<Rightarrow> Jaeger \<Rightarrow> S \<Rightarrow> 's op" where
  "apply_last e C jaeger str s =
     (case applyHorizontalPodAutoscalers e C jaeger (S_horizontalPodAutoscalers str) s of
        (Some err, s') \<Rightarrow> (if panics err then Some err else None, s')
      | (None, s') \<Rightarrow> applyDaemonSets C jaeger (S_daemonSets str) s')"

definition apply_objects :: "Env \<Rightarrow> 's Client \<Rightarrow> Jaeger \<Rightarrow> S \<Rightarrow> 's op" where
  "apply_objects e C jaeger str =
     andthen (applySecrets C jaeger (S_secrets str))
    (andthen (if IsESOperatorIntegrationEnabled e then applyElasticsearches C jaeger (S_elasticsearches str) else skip)
    (andthen (if IsKafkaOperatorIntegrationEnabled e
              then andthen (applyKafkas C jaeger (S_kafkas str)) (applyKafkaUsers C jaeger (S_kafkaUsers str)) else skip)
    (andthen (applyAccounts C jaeger (S_accounts str))
    (andthen (handleDependencies C (S_dependencies str))
    (andthen (applyClusterRoleBindingBindings e C jaeger (S_clusterRoleBindings str))
    (andthen (applyConfigMaps C jaeger (S_configMaps str))
    (andthen (applyCronJobs e C jaeger (S_cronJobs str))
    (andthen (applyServices C jaeger (S_services str))
    (andthen (applyDeployments C jaeger (S_deployments str))
    (andthen (apply_access e C jaeger str)
             (apply_last e C jaeger str)))))))))))"

definition apply_strategy ::
  "'v SemVer \<Rightarrow> Env \<Rightarrow> 's Client \<Rightarrow> 's System \<Rightarrow> Jaeger \<Rightarrow> S \<Rightarrow> 's \<Rightarrow> (Jaeger \<times> goerr option) \<times> 's" where
  "apply_strategy V e C sys jaeger0 str s =
     (case applyUpgrades V e C jaeger0 s of
        ((jaeger, Some err), s1) \<Rightarrow> ((jaeger, Some err), s1)
      | ((jaeger1, None), s1) \<Rightarrow>
          (case es_certificates C sys jaeger1 s1 of
             ((jaeger, Inl err), s2) \<Rightarrow> ((jaeger, Some err), s2)
           | ((jaeger, Inr secrets), s2) \<Rightarrow>
               (case apply_objects e C jaeger (WithSecrets (S_secrets str @ secrets) str) s2 of (err, s3) \<Rightarrow> ((jaeger, err), s3))))"

section \<open>Reconciling an instance\<close>

definition validate :: "Jaeger \<Rightarrow> goerr option" where
  "validate jaeger =
     (let ttl = ro_ReadTTL (st_EsRollover (j_Storage jaeger))
      in if ttl \<noteq> [] \<and> ParseDuration ttl = None then Some (Failed ''failed to parse esRollover.readTTL to time.Duration'') else None)"

definition runStrategyChooser :: "Env \<Rightarrow> (nat \<Rightarrow> nat) \<Rightarrow> Jaeger \<Rightarrow> (S \<times> Jaeger) res" where
  "runStrategyChooser e Intn jaeger = For e Intn jaeger"

text \<open>
  The copy that is compared with the result shares its maps with the instance.  What is written into
  these maps in the meantime (the labels that \<open>normalize\<close> removes, the annotations of the query
  service, the annotation of a provisioned Kafka) therefore shows in the copy as well.
\<close>

definition seen_through_copy :: "Jaeger \<Rightarrow> Jaeger \<Rightarrow> Jaeger" where
  "seen_through_copy original updated =
     (let shared = (\<lambda>old new. if old = None then None else new);
          sp = j_Spec updated
      in original\<lparr>
        j_Meta := (j_Meta original)\<lparr>om_Annotations := shared (om_Annotations (j_Meta original)) (om_Annotations (j_Meta updated))\<rparr>,
        j_Spec := (normalize_labels (j_Spec original))\<lparr>js_Query := q_Common_update (jc_Annotations_update
            (\<lambda>old. shared old (jc_Annotations (q_Common (js_Query sp))))) (js_Query (normalize_labels (j_Spec original)))\<rparr>\<rparr>)"

text \<open>Maps are compared as maps: the entries of the maps that the operator rebuilds are put in order.\<close>

definition sorted_map :: "'a gomap \<Rightarrow> 'a gomap" where
  "sorted_map = map_option sort_entries"

definition sorted_options :: "Options \<Rightarrow> Options" where
  "sorted_options o' = o'\<lparr>opts := sorted_map (opts o')\<rparr>"

definition sorted_common :: "JaegerCommonSpec \<Rightarrow> JaegerCommonSpec" where
  "sorted_common c = c\<lparr>jc_Annotations := sorted_map (jc_Annotations c), jc_Labels := sorted_map (jc_Labels c),
     jc_Resources := \<lparr>rr_Limits = sorted_map (rr_Limits (jc_Resources c)), rr_Requests = sorted_map (rr_Requests (jc_Resources c))\<rparr>\<rparr>"

definition sorted_jaeger :: "Jaeger \<Rightarrow> Jaeger" where
  "sorted_jaeger j = j\<lparr>j_Meta := om_Annotations_update sorted_map (j_Meta j),
     j_Spec := (j_Spec j)\<lparr>
       js_Common := sorted_common (js_Common (j_Spec j)),
       js_AllInOne := aio_Options_update sorted_options (js_AllInOne (j_Spec j)),
       js_Query := q_Common_update sorted_common (q_Options_update sorted_options (js_Query (j_Spec j))),
       js_Collector := col_Options_update sorted_options (js_Collector (j_Spec j)),
       js_Ingester := igr_Options_update sorted_options (js_Ingester (j_Spec j)),
       js_Agent := ag_Options_update sorted_options (js_Agent (j_Spec j)),
       js_Storage := st_Options_update sorted_options (js_Storage (j_Spec j))\<rparr>\<rparr>"

definition DeepEqual :: "Jaeger \<Rightarrow> Jaeger \<Rightarrow> bool" where
  "DeepEqual a b \<longleftrightarrow> sorted_jaeger a = sorted_jaeger b"

text \<open>Taking charge of an instance that no operator has claimed.\<close>

definition claim_instance :: "Env \<Rightarrow> 's Client \<Rightarrow> Jaeger \<Rightarrow> 's op" where
  "claim_instance e C inst s =
     (let claimed = inst\<lparr>j_Meta := (j_Meta inst)\<lparr>om_Labels :=
            Some (AList.update LabelOperatedBy (viper_GetString e ConfigIdentity) (entries (om_Labels (j_Meta inst))))\<rparr>\<rparr>
      in case cl_UpdateJaeger C claimed s of
           (Inl err, s1) \<Rightarrow> (Some err, snd (cl_StatusUpdate C (claimed\<lparr>j_Phase := JaegerPhaseFailed\<rparr>) s1))
         | (Inr _, s1) \<Rightarrow> (None, s1))"

text \<open>Storing the outcome: the resource when it changed, then the status when it has to change.  The
  answer to the first request overwrites the instance, its status included.\<close>

definition store_back :: "'s Client \<Rightarrow> Jaeger \<Rightarrow> Jaeger \<Rightarrow> 's op" where
  "store_back C original updated s =
     (case (if DeepEqual (seen_through_copy original updated) updated then (Inr updated, s) else cl_UpdateJaeger C updated s) of
        (Inl err, s1) \<Rightarrow> (Some err, s1)
      | (Inr inst, s1) \<Rightarrow>
          if j_Version updated \<noteq> j_Version original \<or> j_Phase inst \<noteq> JaegerPhaseRunning
          then (case cl_StatusUpdate C (inst\<lparr>j_Phase := JaegerPhaseRunning, j_Version := j_Version updated\<rparr>) s1 of
              (Inl err, s2) \<Rightarrow> (Some err, s2) | (Inr _, s2) \<Rightarrow> (None, s2))
          else (None, s1))"

definition reconcile_owned :: "'v SemVer \<Rightarrow> Env \<Rightarrow> 's Client \<Rightarrow> 's System \<Rightarrow> (nat \<Rightarrow> nat) \<Rightarrow> Jaeger \<Rightarrow> 's op" where
  "reconcile_owned V e C sys Intn inst s =
     (let original = inst\<lparr>j_TypeMeta := \<lparr>tm_APIVersion = ''jaegertracing.io/v1'', tm_Kind = ''Jaeger''\<rparr>\<rparr>
      in case runStrategyChooser e Intn original of
           Inl err \<Rightarrow> (Some err, s)
         | Inr (str, inst1) \<Rightarrow>
             (case apply_strategy V e C sys inst1 str s of
                ((_, Some err), s1) \<Rightarrow>
                  (Some err, if panics err then s1 else snd (cl_StatusUpdate C (inst1\<lparr>j_Phase := JaegerPhaseFailed\<rparr>) s1))
              | ((updated, None), s1) \<Rightarrow> store_back C original updated s1))"

definition reconcile_instance :: "'v SemVer \<Rightarrow> Env \<Rightarrow> 's Client \<Rightarrow> 's System \<Rightarrow> (nat \<Rightarrow> nat) \<Rightarrow> Jaeger \<Rightarrow> 's op" where
  "reconcile_instance V e C sys Intn inst s =
     (case validate inst of
        Some err \<Rightarrow> (Some err, s)
      | None \<Rightarrow> (case mget (om_Labels (j_Meta inst)) LabelOperatedBy of
            Some val \<Rightarrow> if val \<noteq> viper_GetString e ConfigIdentity then (None, s) else reconcile_owned V e C sys Intn inst s
          | None \<Rightarrow> claim_instance e C inst s))"

definition Reconcile :: "'v SemVer \<Rightarrow> Env \<Rightarrow> 's Client \<Rightarrow> 's System \<Rightarrow> (nat \<Rightarrow> nat) \<Rightarrow> string \<Rightarrow> string \<Rightarrow> 's op" where
  "Reconcile V e C sys Intn namespace name s =
     (case cl_GetJaeger C namespace name s of
        (Inl NotFound, s1) \<Rightarrow> cleanConfigMaps C name s1
      | (Inl err, s1) \<Rightarrow> (Some err, s1)
      | (Inr inst, s1) \<Rightarrow> andthen (syncOnJaegerChanges e C (j_Name inst)) (reconcile_instance V e C sys Intn inst) s1)"

end
