(* ===== verification/Strategy_Stability.thy ===== *)
theory Strategy_Stability
  imports Strategies Inject_Stability
begin

text \<open>
  What the strategies change in the instance they are built from, and that a second round changes
  nothing more: the lemmas behind the properties of the strategies.
\<close>

section \<open>What a strategy writes into the instance\<close>

definition settle_query :: "Jaeger \<Rightarrow> Jaeger" where
  "settle_query j = (if jc_Annotations (q_Common (js_Query (j_Spec j))) = None then j
     else j_Spec_update (js_Query_update (q_Common_update (jc_Annotations_update (\<lambda>_. Some (query_annotations j))))) j)"

definition settle_cassandra :: "Jaeger \<Rightarrow> Jaeger" where
  "settle_cassandra j = (if st_Type (j_Storage j) = JaegerCassandraStorage
     then upd_Storage (st_CassandraCreateSchema_update cassandra_defaults) j else j)"

definition settle_kafka :: "Jaeger \<Rightarrow> Jaeger" where
  "settle_kafka jaeger0 =
     (if js_Strategy (j_Spec jaeger0) = DeploymentStrategyStreaming \<and> provisions_kafka jaeger0
      then (let jaeger = jaeger0\<lparr>j_Meta := (j_Meta jaeger0)\<lparr>om_Annotations :=
                   Some (AList.update AnnotationProvisionedKafkaKey AnnotationProvisionedKafkaValue (entries (j_Annotations jaeger0)))\<rparr>\<rparr>;
                spec = j_Spec jaeger
            in jaeger\<lparr>j_Spec := spec\<lparr>
                 js_Collector := (js_Collector spec)\<lparr>col_Options := NewOptions (Some (put_all (kafka_options ''kafka.producer'' jaeger) (GenericMap (col_Options (js_Collector spec)))))\<rparr>,
                 js_Ingester := (js_Ingester spec)\<lparr>igr_Options := NewOptions (Some (put_all (kafka_options ''kafka.consumer'' jaeger) (GenericMap (igr_Options (js_Ingester spec)))))\<rparr>,
                 js_Common := Merge [kafka_common_spec jaeger, js_Common spec]\<rparr>\<rparr>)
      else jaeger0)"

definition settle :: "Jaeger \<Rightarrow> Jaeger" where
  "settle j = settle_cassandra (settle_query (settle_kafka j))"

lemma snd_NewQueryService: "snd (NewQueryService j l) = settle_query j"
  by (simp add: NewQueryService_def settle_query_def Let_def)

lemma snd_Dependencies: "snd (Dependencies e j) = settle_cassandra j"
  by (simp add: Dependencies_def cassandraDeps_def settle_cassandra_def Let_def)

lemma snd_Services: "snd (AllInOne_Services e j) = settle_query j" "snd (Query_Services j) = settle_query j"
  by (simp_all add: AllInOne_Services_def Query_Services_def Let_def snd_NewQueryService)

lemma instance_pairs:
  obtains ss qs ds where "AllInOne_Services e j = (ss, settle_query j)" "Query_Services j = (qs, settle_query j)"
    "Dependencies e (settle_query j) = (ds, settle_cassandra (settle_query j))"
  using snd_Services snd_Dependencies by (metis prod.collapse)

lemma newAllInOneStrategy_instance:
  assumes "newAllInOneStrategy e Intn j = Inr (st, j')" "js_Strategy (j_Spec j) \<noteq> DeploymentStrategyStreaming"
  shows "j' = settle j"
proof -
  have "j' = settle_cassandra (settle_query j)"
    by (rule instance_pairs [of e j]) (use assms(1) in \<open>auto simp: newAllInOneStrategy_def Let_def res_bind_Inr_iff split: prod.splits\<close>)
  then show ?thesis using assms(2) by (simp add: settle_def settle_kafka_def)
qed

lemma newProductionStrategy_instance:
  assumes "newProductionStrategy e Intn j = Inr (st, j')" "js_Strategy (j_Spec j) \<noteq> DeploymentStrategyStreaming"
  shows "j' = settle j"
proof -
  have "j' = settle_cassandra (settle_query j)"
    by (rule instance_pairs [of e j]) (use assms(1) in \<open>auto simp: newProductionStrategy_def Let_def res_bind_Inr_iff split: prod.splits\<close>)
  then show ?thesis using assms(2) by (simp add: settle_def settle_kafka_def)
qed

lemma snd_autoProvisionKafka:
  "js_Strategy (j_Spec j) = DeploymentStrategyStreaming \<Longrightarrow> provisions_kafka j \<Longrightarrow> snd (autoProvisionKafka e j m) = settle_kafka j"
  by (simp add: autoProvisionKafka_def settle_kafka_def Let_def)

lemma newStreamingStrategy_instance:
  assumes "newStreamingStrategy e Intn j = Inr (st, j')" "js_Strategy (j_Spec j) = DeploymentStrategyStreaming"
  shows "j' = settle j"
proof -
  obtain m1 j1 where k: "(if provisions_kafka j then autoProvisionKafka e j (base_strategy e DeploymentStrategyStreaming j)
      else (base_strategy e DeploymentStrategyStreaming j, j)) = (m1, j1)" by (rule prod.exhaust)
  then have "j1 = settle_kafka j"
    using snd_autoProvisionKafka [OF assms(2), of e] by (auto simp: settle_kafka_def split: if_splits dest: arg_cong [of _ _ snd])
  moreover have "j' = settle_cassandra (settle_query j1)"
    by (rule instance_pairs [of e j1]) (use assms(1) in \<open>auto simp: newStreamingStrategy_def k Let_def res_bind_Inr_iff split: prod.splits\<close>)
  ultimately show ?thesis by (simp add: settle_def)
qed

lemma For_instance:
  assumes "For e Intn j = Inr (st, j')"
  obtains j0 k where "normalize e j0 = Inr k" "j' = settle k"
    "j0 = (if js_Strategy (j_Spec j) = DeploymentStrategyDeprecatedAllInOne then j\<lparr>j_Spec := (j_Spec j)\<lparr>js_Strategy := DeploymentStrategyAllInOne\<rparr>\<rparr> else j)"
  using assms newAllInOneStrategy_instance newStreamingStrategy_instance newProductionStrategy_instance
  unfolding For_def res_bind_Inr_iff by (auto split: if_split_asm)

section \<open>Writing twice\<close>

lemma AList_update_same: "map_of al k = Some v \<Longrightarrow> AList.update k v al = al"
  by (induction al) (auto split: if_splits)

lemma put_all_same: "list_all (\<lambda>(k, v). map_of al k = Some v) new \<Longrightarrow> put_all new al = al"
  by (induction new) (auto simp: AList_update_same)

lemma put_all_map: "put_all (map (\<lambda>(k, v). (k, f v)) new) (map (\<lambda>(k, v). (k, f v)) al) = map (\<lambda>(k, v). (k, f v)) (put_all new al)"
proof -
  have upd: "AList.update k (f v) (map (\<lambda>(k, v). (k, f v)) al) = map (\<lambda>(k, v). (k, f v)) (AList.update k v al)" for k v al
    by (induction al) auto
  show ?thesis by (induction new arbitrary: al) (auto simp: upd)
qed

definition plain_opts :: "(string \<times> string) list \<Rightarrow> optval amap" where
  "plain_opts kvs = map (\<lambda>(k, s). (k, OStr s)) kvs"

text \<open>Options that are set by the operator, read back and set again.\<close>

lemma set_options_stable:
  fixes kvs :: "(string \<times> string) list"
  defines "set_on \<equiv> \<lambda>o'. NewOptions (Some (put_all (map (\<lambda>(k, s). (k, IStr s)) kvs) (GenericMap o')))"
  assumes "wf_amap kvs" "wf_gomap (opts o')"
  shows "set_on (set_on o') = set_on o'"
proof -
  have one: "set_on o1 = \<lparr>opts = Some (map (\<lambda>(k, v). (k, reparsed v)) (put_all (plain_opts kvs) (entries (opts o1)))), json = None\<rparr>"
    if "wf_gomap (opts o1)" for o1
  proof -
    have "map (\<lambda>(k, s). (k, IStr s)) kvs = map (\<lambda>(k, v). (k, iface_of v)) (plain_opts kvs)" by (induction kvs) (auto simp: plain_opts_def)
    then have "set_on o1 = NewOptions (Some (GenericMap \<lparr>opts = Some (put_all (plain_opts kvs) (entries (opts o1))), json = None\<rparr>))"
      unfolding set_on_def GenericMap_def by (simp add: put_all_map)
    then show ?thesis using that by (simp add: NewOptions_GenericMap wf_gomap_def)
  qed
  let ?al = "put_all (plain_opts kvs) (entries (opts o'))" and ?r = "map (\<lambda>(k, v). (k, reparsed v))"
  have wf: "wf_amap (plain_opts kvs)" using assms(2) by (simp add: plain_opts_def comp_def case_prod_unfold)
  have "map_of (?r ?al) k = Some (OStr t)" if "(k, OStr t) \<in> set (plain_opts kvs)" for k t
    using that wf by (simp add: map_of_map comp_def map_of_put_all)
  moreover have "\<exists>t. v = OStr t" if "(k, v) \<in> set (plain_opts kvs)" for k v using that by (auto simp: plain_opts_def)
  ultimately have "put_all (plain_opts kvs) (?r ?al) = ?r ?al" by (intro put_all_same) (fastforce simp: list_all_iff)
  moreover have "?r (?r ?al) = ?r ?al"
  proof -
    have "reparsed (reparsed v) = reparsed v" for v by (cases v) auto
    then show ?thesis by (auto simp: comp_def case_prod_unfold)
  qed
  moreover have "wf_gomap (opts (set_on o'))" using assms(3) by (simp add: one wf_gomap_def wf_map_snd del: map_map)
  ultimately show ?thesis using one [OF assms(3)] one [of "set_on o'"] by simp
qed

context dedup
begin

lemma first_of_each_twice: "first_of_each name ex (first_of_each name ex xs) = first_of_each name ex xs"
  by (induction xs arbitrary: ex) auto

lemma dedup_prefix_idem: "dedup_items (xs @ dedup_items (xs @ ys)) = dedup_items (xs @ ys)"
proof -
  have "first_of_each name (map name xs) (first_of_each name [] xs) = []"
    by (rule first_of_each_known) (simp add: names_first_of_each)
  moreover have "first_of_each name (map name (first_of_each name [] xs) @ map name xs) zs = first_of_each name (map name xs) zs" for zs
    by (rule first_of_each_cong) (simp, use names_first_of_each [of "[]" xs] in blast)
  ultimately show ?thesis by (simp add: dedup_items_eq first_of_each_append first_of_each_twice)
qed

end

lemma put_missing_idem: "wf_amap al \<Longrightarrow> put_missing al [] = al"
proof -
  have "wf_amap (bl @ al) \<Longrightarrow> put_missing al bl = bl @ al" for bl
  proof (induction al arbitrary: bl)
    case (Cons x al)
    obtain k v where x: "x = (k, v)" by (cases x)
    have "map_of bl k = None" using Cons.prems x by (simp add: map_of_eq_None_iff)
    moreover have "AList.update k v bl = bl @ [(k, v)]" using Cons.prems x by (intro update_fresh) auto
    ultimately show ?case using Cons.IH [of "bl @ [(k, v)]"] Cons.prems x by simp
  qed simp
  from this [of "[]"] show "wf_amap al \<Longrightarrow> put_missing al [] = al" by simp
qed

lemma merge_resource_list_eq:
  "merge_resource_list new old = (if entries new = [] then old else Some (put_missing (entries new) (entries old)))"
proof -
  have "fold (\<lambda>(k, v) m. case mget m k of None \<Rightarrow> Some (AList.update k v (entries m)) | Some _ \<Rightarrow> m) al (Some bl) = Some (put_missing al bl)" for al bl
    by (induction al arbitrary: bl) (auto simp: mget_def split: option.split)
  then have "merge_resource_list new (Some bl) = Some (put_missing (entries new) bl)" for bl by (simp add: merge_resource_list_def)
  moreover have "merge_resource_list new None = (if entries new = [] then None else merge_resource_list new (Some []))"
    by (cases "entries new") (auto simp: merge_resource_list_def mget_def)
  ultimately show ?thesis by (cases old) auto
qed

text \<open>A block with volumes and mounts only, merged in front of the common block.\<close>

definition volumes_block :: "Volume list \<Rightarrow> VolumeMount list \<Rightarrow> JaegerCommonSpec" where
  "volumes_block vs ms = JaegerCommonSpec0\<lparr>jc_Volumes := vs, jc_VolumeMounts := ms\<rparr>"

lemma Merge_volumes_block:
  "Merge [volumes_block vs ms, c] = \<lparr>jc_Volumes = RemoveDuplicatedVolumes (vs @ jc_Volumes c),
     jc_VolumeMounts = RemoveDuplicatedVolumeMounts (ms @ jc_VolumeMounts c),
     jc_Annotations = Some (put_missing (entries (jc_Annotations c)) []), jc_Labels = Some (put_missing (entries (jc_Labels c)) []),
     jc_Resources = \<lparr>rr_Limits = merge_resource_list (rr_Limits (jc_Resources c)) None, rr_Requests = merge_resource_list (rr_Requests (jc_Resources c)) None\<rparr>,
     jc_Affinity = jc_Affinity c, jc_Tolerations = jc_Tolerations c, jc_SecurityContext = jc_SecurityContext c,
     jc_ContainerSecurityContext = jc_ContainerSecurityContext c, jc_ServiceAccount = jc_ServiceAccount c, jc_LivenessProbe = None,
     jc_ImagePullSecrets = RemoveDuplicatedImagePullSecrets (jc_ImagePullSecrets c), jc_ImagePullPolicy = jc_ImagePullPolicy c\<rparr>"
  by (simp add: Merge_def merge_step_def volumes_block_def JaegerCommonSpec0_def MergeResources_def ResourceRequirements0_def
      merge_resource_list_eq [of None] Let_def)

lemma put_missing_eq_Nil: "put_missing al [] = [] \<longleftrightarrow> al = []"
proof
  assume "put_missing al [] = []"
  then have "map_of al k = None" for k using map_of_put_missing [of al "[]" k] by simp
  then show "al = []" by (cases al) (auto, metis option.distinct(1))
qed simp

lemma merge_resource_list_idem: "merge_resource_list (merge_resource_list m None) None = merge_resource_list m None"
  by (simp add: merge_resource_list_eq put_missing_idem put_missing_eq_Nil)

lemma Merge_volumes_block_idem:
  "Merge [volumes_block vs ms, Merge [volumes_block vs ms, c]] = Merge [volumes_block vs ms, c]"
  by (simp add: Merge_volumes_block volumes.dedup_prefix_idem volume_mounts.dedup_prefix_idem put_missing_idem merge_resource_list_idem
      pull_secrets.dedup_idem_if_distinct pull_secrets.dedup_distinct [simplified])

definition kafka_settings :: "string \<Rightarrow> Jaeger \<Rightarrow> (string \<times> string) list" where
  "kafka_settings p j =
     [(p @ ''.brokers'', kafka_brokers j), (p @ ''.authentication'', ''tls''), (p @ ''.tls.enabled'', ''true''),
      (p @ ''.tls.ca'', ''/var/run/secrets/'' @ j_Name j @ ''-cluster-ca/ca.crt''), (p @ ''.tls.cert'', ''/var/run/secrets/'' @ j_Name j @ ''/user.crt''),
      (p @ ''.tls.key'', ''/var/run/secrets/'' @ j_Name j @ ''/user.key'')]"

lemma kafka_options_plain: "kafka_options p j = map (\<lambda>(k, s). (k, IStr s)) (kafka_settings p j)"
  by (simp add: kafka_options_def kafka_settings_def Let_def)

lemma kafka_settings_wf: "wf_amap (kafka_settings p j)"
  by (simp add: kafka_settings_def)

definition set_kafka :: "string \<Rightarrow> Jaeger \<Rightarrow> Options \<Rightarrow> Options" where
  "set_kafka p j o' = NewOptions (Some (put_all (kafka_options p j) (GenericMap o')))"

lemma set_kafka_stable: "wf_gomap (opts o') \<Longrightarrow> set_kafka p j (set_kafka p j o') = set_kafka p j o'"
  unfolding set_kafka_def kafka_options_plain by (rule set_options_stable [OF kafka_settings_wf])

definition kafka_block :: "Jaeger \<Rightarrow> JaegerCommonSpec" where
  "kafka_block j = volumes_block (jc_Volumes (kafka_common_spec j)) (jc_VolumeMounts (kafka_common_spec j))"

lemma kafka_common_spec_block: "kafka_common_spec j = kafka_block j"
  by (simp add: kafka_block_def kafka_common_spec_def volumes_block_def JaegerCommonSpec0_def Let_def)

lemma same_names:
  assumes "j_Name j = j_Name k" "j_Namespace j = j_Namespace k"
  shows "kafka_options p j = kafka_options p k" "kafka_common_spec j = kafka_common_spec k"
  using assms by (simp_all add: kafka_options_def kafka_brokers_def kafka_common_spec_def Let_def)

section \<open>The instance is settled by one round\<close>

lemma settle_query_settles [simp]: "settle_query (settle_query j) = settle_query j"
  by (simp add: settle_query_def query_annotations_def GetTLSSecretNameForQueryService_def AList_update_same Let_def
      AList.update_conv')

lemma cassandra_defaults_idem [simp]: "cassandra_defaults (cassandra_defaults c) = cassandra_defaults c"
  by (cases "ccs_Enabled c"; cases "ccs_Enabled c = Some False"; cases "ccs_Datacenter c = []"; cases "ccs_Mode c = []")
    (simp_all add: cassandra_defaults_def Let_def)

lemma settle_cassandra_settles [simp]: "settle_cassandra (settle_cassandra j) = settle_cassandra j"
  by (simp add: settle_cassandra_def comp_def)

lemma settle_kafka_eq:
  "settle_kafka j = (if js_Strategy (j_Spec j) = DeploymentStrategyStreaming \<and> provisions_kafka j
     then j\<lparr>j_Meta := (j_Meta j)\<lparr>om_Annotations := Some (AList.update AnnotationProvisionedKafkaKey AnnotationProvisionedKafkaValue (entries (j_Annotations j)))\<rparr>,
       j_Spec := (j_Spec j)\<lparr>js_Collector := (js_Collector (j_Spec j))\<lparr>col_Options := set_kafka ''kafka.producer'' j (col_Options (js_Collector (j_Spec j)))\<rparr>,
         js_Ingester := (js_Ingester (j_Spec j))\<lparr>igr_Options := set_kafka ''kafka.consumer'' j (igr_Options (js_Ingester (j_Spec j)))\<rparr>,
         js_Common := Merge [kafka_block j, js_Common (j_Spec j)]\<rparr>\<rparr>
     else j)"
proof -
  let ?k = "j\<lparr>j_Meta := (j_Meta j)\<lparr>om_Annotations := Some (AList.update AnnotationProvisionedKafkaKey AnnotationProvisionedKafkaValue (entries (j_Annotations j)))\<rparr>\<rparr>"
  have "kafka_options p ?k = kafka_options p j" "kafka_common_spec ?k = kafka_block j" for p
    using same_names [of ?k j] by (simp_all add: kafka_common_spec_block)
  then show ?thesis by (simp add: settle_kafka_def set_kafka_def Let_def cong: if_cong)
qed

definition wf_brokers :: "Jaeger \<Rightarrow> bool" where
  "wf_brokers j \<longleftrightarrow> wf_gomap (opts (col_Options (js_Collector (j_Spec j)))) \<and> wf_gomap (opts (igr_Options (js_Ingester (j_Spec j))))"

lemma settle_kafka_settles:
  assumes "wf_brokers j"
  shows "settle_kafka (settle_kafka j) = settle_kafka j"
proof (cases "js_Strategy (j_Spec j) = DeploymentStrategyStreaming \<and> provisions_kafka j")
  case True
  let ?k = "settle_kafka j"
  have k: "j_Name ?k = j_Name j" "j_Namespace ?k = j_Namespace j" "js_Strategy (j_Spec ?k) = DeploymentStrategyStreaming"
    "mstr (j_Annotations ?k) AnnotationProvisionedKafkaKey = AnnotationProvisionedKafkaValue"
    using True by (simp_all add: settle_kafka_eq mstr_def AList.update_conv')
  then have p: "provisions_kafka ?k" by (simp add: provisions_kafka_def)
  have o: "kafka_options p ?k = kafka_options p j" "kafka_block ?k = kafka_block j" for p
    using same_names [of ?k j] k by (simp_all add: kafka_common_spec_block)
  have "set_kafka q ?k = set_kafka q j" for q by (simp add: set_kafka_def fun_eq_iff o)
  then have "settle_kafka ?k = ?k\<lparr>j_Meta := (j_Meta ?k)\<lparr>om_Annotations := Some (AList.update AnnotationProvisionedKafkaKey AnnotationProvisionedKafkaValue (entries (j_Annotations ?k)))\<rparr>,
       j_Spec := (j_Spec ?k)\<lparr>js_Collector := (js_Collector (j_Spec ?k))\<lparr>col_Options := set_kafka ''kafka.producer'' j (col_Options (js_Collector (j_Spec ?k)))\<rparr>,
         js_Ingester := (js_Ingester (j_Spec ?k))\<lparr>igr_Options := set_kafka ''kafka.consumer'' j (igr_Options (js_Ingester (j_Spec ?k)))\<rparr>,
         js_Common := Merge [kafka_block j, js_Common (j_Spec ?k)]\<rparr>\<rparr>"
    by (subst settle_kafka_eq) (simp only: k(3) p o simp_thms if_True)
  also have "\<dots> = ?k"
  proof -
    have m: "AList.update AnnotationProvisionedKafkaKey AnnotationProvisionedKafkaValue (AList.update AnnotationProvisionedKafkaKey AnnotationProvisionedKafkaValue al)
        = AList.update AnnotationProvisionedKafkaKey AnnotationProvisionedKafkaValue al" for al :: "string amap"
      by (rule AList_update_same) (simp add: AList.update_conv')
    have c: "Merge [kafka_block j, Merge [kafka_block j, b]] = Merge [kafka_block j, b]" for b
      unfolding kafka_block_def by (rule Merge_volumes_block_idem)
    have "set_kafka ''kafka.producer'' j (set_kafka ''kafka.producer'' j (col_Options (js_Collector (j_Spec j)))) = set_kafka ''kafka.producer'' j (col_Options (js_Collector (j_Spec j)))"
      "set_kafka ''kafka.consumer'' j (set_kafka ''kafka.consumer'' j (igr_Options (js_Ingester (j_Spec j)))) = set_kafka ''kafka.consumer'' j (igr_Options (js_Ingester (j_Spec j)))"
      using assms by (simp_all add: set_kafka_stable wf_brokers_def)
    then show ?thesis using True by (simp add: settle_kafka_eq m c)
  qed
  finally show ?thesis .
next
  case False
  then have "settle_kafka j = j" by (subst settle_kafka_eq) (rule if_not_P)
  then show ?thesis by simp
qed

lemma provisions_kafka_cong:
  "col_Options (js_Collector (j_Spec j)) = col_Options (js_Collector (j_Spec k)) \<Longrightarrow>
   igr_Options (js_Ingester (j_Spec j)) = igr_Options (js_Ingester (j_Spec k)) \<Longrightarrow> j_Annotations j = j_Annotations k \<Longrightarrow>
   provisions_kafka j = provisions_kafka k"
  by (simp add: provisions_kafka_def)

lemma kafka_same_names:
  "j_Name j = j_Name k \<Longrightarrow> j_Namespace j = j_Namespace k \<Longrightarrow> set_kafka p j = set_kafka p k"
  "j_Name j = j_Name k \<Longrightarrow> j_Namespace j = j_Namespace k \<Longrightarrow> kafka_block j = kafka_block k"
  using same_names [of j k] by (simp_all add: set_kafka_def kafka_common_spec_block [symmetric] fun_eq_iff)

text \<open>A change of the instance that the provisioning of Kafka does not look at.\<close>

lemma settle_kafka_commute:
  assumes "\<And>sp. js_Strategy (f sp) = js_Strategy sp" "\<And>sp. js_Collector (f sp) = js_Collector sp" "\<And>sp. js_Ingester (f sp) = js_Ingester sp"
    "\<And>sp. js_Common (f sp) = js_Common sp"
    "\<And>sp c i m. f (sp\<lparr>js_Collector := c, js_Ingester := i, js_Common := m\<rparr>) = (f sp)\<lparr>js_Collector := c, js_Ingester := i, js_Common := m\<rparr>"
  shows "settle_kafka (j_Spec_update f j) = j_Spec_update f (settle_kafka j)"
proof -
  let ?k = "j_Spec_update f j"
  have "provisions_kafka ?k = provisions_kafka j" by (rule provisions_kafka_cong) (simp_all add: assms)
  moreover have "set_kafka p ?k = set_kafka p j" "kafka_block ?k = kafka_block j" for p
    using kafka_same_names [of ?k j] by simp_all
  ultimately show ?thesis by (simp add: settle_kafka_eq assms)
qed

lemma query_annotations_cong:
  assumes "js_Query (j_Spec j) = js_Query (j_Spec k)" "js_Ingress (j_Spec j) = js_Ingress (j_Spec k)" "j_Name j = j_Name k"
  shows "query_annotations j = query_annotations k"
  unfolding query_annotations_def GetTLSSecretNameForQueryService_def GetNameForQueryService_def assms ..

lemma settle_kafka_query:
  "settle_kafka (settle_query j) = settle_query (settle_kafka j)"
proof -
  let ?f = "js_Query_update (q_Common_update (jc_Annotations_update (\<lambda>_. Some (query_annotations j))))"
  have k: "js_Query (j_Spec (settle_kafka j)) = js_Query (j_Spec j)" "js_Ingress (j_Spec (settle_kafka j)) = js_Ingress (j_Spec j)"
    "j_Name (settle_kafka j) = j_Name j"
    by (simp_all add: settle_kafka_eq)
  then have "query_annotations (settle_kafka j) = query_annotations j" by (rule query_annotations_cong)
  moreover have "settle_kafka (j_Spec_update ?f j) = j_Spec_update ?f (settle_kafka j)" by (rule settle_kafka_commute) simp_all
  ultimately show ?thesis using k by (simp add: settle_query_def)
qed

lemma settle_kafka_cassandra: "settle_kafka (settle_cassandra j) = settle_cassandra (settle_kafka j)"
proof -
  have "settle_kafka (upd_Storage (st_CassandraCreateSchema_update cassandra_defaults) j) =
      upd_Storage (st_CassandraCreateSchema_update cassandra_defaults) (settle_kafka j)" by (rule settle_kafka_commute) simp_all
  moreover have "j_Storage (settle_kafka j) = j_Storage j" by (simp add: settle_kafka_eq)
  ultimately show ?thesis by (simp add: settle_cassandra_def)
qed

lemma settle_query_cassandra: "settle_query (settle_cassandra j) = settle_cassandra (settle_query j)"
proof -
  let ?k = "settle_cassandra j"
  have k: "js_Query (j_Spec ?k) = js_Query (j_Spec j)" "js_Ingress (j_Spec ?k) = js_Ingress (j_Spec j)" "j_Name ?k = j_Name j"
    by (simp_all add: settle_cassandra_def)
  show ?thesis using k(1) query_annotations_cong [OF k] by (simp add: settle_query_def) (simp add: settle_cassandra_def)
qed

lemma settle_settles: "wf_brokers j \<Longrightarrow> settle (settle j) = settle j"
  by (simp only: settle_def settle_kafka_query settle_kafka_cassandra settle_kafka_settles settle_query_cassandra
      settle_query_settles settle_cassandra_settles)

abbreviation with_ui :: "FreeForm \<Rightarrow> Jaeger \<Rightarrow> Jaeger" where
  "with_ui u j \<equiv> j_Spec_update (js_UIOptions_update (\<lambda>_. u)) j"

lemma settle_ui: "settle (with_ui u j) = with_ui u (settle j)"
proof -
  have "settle_kafka (with_ui u k) = with_ui u (settle_kafka k)" for k by (rule settle_kafka_commute) simp_all
  moreover have "settle_query (with_ui u k) = with_ui u (settle_query k)" for k
    using query_annotations_cong [of "with_ui u k" k] by (simp add: settle_query_def)
  moreover have "settle_cassandra (with_ui u k) = with_ui u (settle_cassandra k)" for k by (simp add: settle_cassandra_def)
  ultimately show ?thesis by (simp add: settle_def)
qed

lemma label_update_fix:
  "f (jc_Labels c) = jc_Labels c \<Longrightarrow> jc_Labels_update f c = c"
  "g (aio_Common a) = aio_Common a \<Longrightarrow> aio_Common_update g a = a"
  "h (q_Common q) = q_Common q \<Longrightarrow> q_Common_update h q = q"
  "x (js_Common sp) = js_Common sp \<Longrightarrow> js_Common_update x sp = sp"
  "y (js_AllInOne sp) = js_AllInOne sp \<Longrightarrow> js_AllInOne_update y sp = sp"
  "z (js_Query sp) = js_Query sp \<Longrightarrow> js_Query_update z sp = sp"
  by (cases c, simp, cases a, simp, cases q, simp, (cases sp, simp)+)

lemma normalize_labels_fix_iff:
  "normalize_labels sp = sp \<longleftrightarrow> drop_reserved (jc_Labels (js_Common sp)) = jc_Labels (js_Common sp) \<and>
     drop_reserved (jc_Labels (aio_Common (js_AllInOne sp))) = jc_Labels (aio_Common (js_AllInOne sp)) \<and>
     drop_reserved (jc_Labels (q_Common (js_Query sp))) = jc_Labels (q_Common (js_Query sp))" (is "?l \<longleftrightarrow> ?r")
proof
  assume l: ?l
  have "jc_Labels (js_Common (normalize_labels sp)) = drop_reserved (jc_Labels (js_Common sp))"
    "jc_Labels (aio_Common (js_AllInOne (normalize_labels sp))) = drop_reserved (jc_Labels (aio_Common (js_AllInOne sp)))"
    "jc_Labels (q_Common (js_Query (normalize_labels sp))) = drop_reserved (jc_Labels (q_Common (js_Query sp)))"
    by (simp_all add: normalize_labels_def)
  then show ?r by (simp only: l)
qed (simp add: normalize_labels_def label_update_fix)

lemma drop_reserved_fix:
  "drop_reserved m = m \<longleftrightarrow> mget m ''app.kubernetes.io/instance'' = None \<and> mget m ''app.kubernetes.io/managed-by'' = None"
proof
  assume "drop_reserved m = m"
  then show "mget m ''app.kubernetes.io/instance'' = None \<and> mget m ''app.kubernetes.io/managed-by'' = None"
    using mget_drop_reserved(1,2) [of m] by simp
next
  assume "mget m ''app.kubernetes.io/instance'' = None \<and> mget m ''app.kubernetes.io/managed-by'' = None"
  then show "drop_reserved m = m"
    by (cases m) (simp_all add: drop_reserved_def mget_def map_of_eq_None_iff)
qed

lemma settle_kafka_frame:
  "j_Name (settle_kafka j) = j_Name j" "j_Namespace (settle_kafka j) = j_Namespace j" "js_Ingress (j_Spec (settle_kafka j)) = js_Ingress (j_Spec j)"
  "js_Strategy (j_Spec (settle_kafka j)) = js_Strategy (j_Spec j)" "js_AllInOne (j_Spec (settle_kafka j)) = js_AllInOne (j_Spec j)"
  "jc_Labels (q_Common (js_Query (j_Spec (settle_kafka j)))) = jc_Labels (q_Common (js_Query (j_Spec j)))"
  "j_Storage (settle_kafka j) = j_Storage j"
  by (simp_all add: settle_kafka_eq)

lemma settle_query_frame:
  "j_Name (settle_query j) = j_Name j" "j_Namespace (settle_query j) = j_Namespace j" "js_Ingress (j_Spec (settle_query j)) = js_Ingress (j_Spec j)"
  "js_Strategy (j_Spec (settle_query j)) = js_Strategy (j_Spec j)" "js_AllInOne (j_Spec (settle_query j)) = js_AllInOne (j_Spec j)"
  "jc_Labels (q_Common (js_Query (j_Spec (settle_query j)))) = jc_Labels (q_Common (js_Query (j_Spec j)))"
  "js_Common (j_Spec (settle_query j)) = js_Common (j_Spec j)"
  "j_Storage (settle_query j) = j_Storage j"
  by (simp_all add: settle_query_def)

lemma settle_cassandra_frame:
  "j_Name (settle_cassandra j) = j_Name j" "j_Namespace (settle_cassandra j) = j_Namespace j" "js_Ingress (j_Spec (settle_cassandra j)) = js_Ingress (j_Spec j)"
  "js_Strategy (j_Spec (settle_cassandra j)) = js_Strategy (j_Spec j)" "js_AllInOne (j_Spec (settle_cassandra j)) = js_AllInOne (j_Spec j)"
  "jc_Labels (q_Common (js_Query (j_Spec (settle_cassandra j)))) = jc_Labels (q_Common (js_Query (j_Spec j)))"
  "js_Common (j_Spec (settle_cassandra j)) = js_Common (j_Spec j)"
  "j_Storage (settle_cassandra j) = (if st_Type (j_Storage j) = JaegerCassandraStorage then st_CassandraCreateSchema_update cassandra_defaults (j_Storage j) else j_Storage j)"
  by (simp_all add: settle_cassandra_def)

lemma settle_frame:
  "j_Name (settle j) = j_Name j" "j_Namespace (settle j) = j_Namespace j" "js_Ingress (j_Spec (settle j)) = js_Ingress (j_Spec j)"
  "js_Strategy (j_Spec (settle j)) = js_Strategy (j_Spec j)" "js_AllInOne (j_Spec (settle j)) = js_AllInOne (j_Spec j)"
  "jc_Labels (q_Common (js_Query (j_Spec (settle j)))) = jc_Labels (q_Common (js_Query (j_Spec j)))"
  "js_Common (j_Spec (settle j)) = js_Common (j_Spec (settle_kafka j))"
  "j_Storage (settle j) = (if st_Type (j_Storage j) = JaegerCassandraStorage then st_CassandraCreateSchema_update cassandra_defaults (j_Storage j) else j_Storage j)"
  by (simp_all only: settle_def settle_cassandra_frame settle_query_frame settle_kafka_frame)

lemma settle_core_fixed:
  assumes "core_fixed e j"
  shows "core_fixed e (settle j)"
proof -
  have st: "st_Type (j_Storage (settle j)) = st_Type (j_Storage j)" "st_Options (j_Storage (settle j)) = st_Options (j_Storage j)"
    "st_Dependencies (j_Storage (settle j)) = st_Dependencies (j_Storage j)" "st_EsIndexCleaner (j_Storage (settle j)) = st_EsIndexCleaner (j_Storage j)"
    "st_Elasticsearch (j_Storage (settle j)) = st_Elasticsearch (j_Storage j)" "st_EsRollover (j_Storage (settle j)) = st_EsRollover (j_Storage j)"
    by (simp_all add: settle_frame)
  have "normalizeSparkDependencies (j_Storage (settle j)) = j_Storage (settle j)"
    by (rule normalizeSparkDependencies_fix [of _ "j_Storage j"]) (use assms in \<open>simp_all add: st core_fixed_def\<close>)
  moreover have "mget (jc_Labels (js_Common (j_Spec (settle j)))) k = mget (jc_Labels (js_Common (j_Spec j))) k" for k
    by (simp add: settle_frame settle_kafka_eq kafka_block_def Merge_volumes_block mget_def map_of_put_missing)
  then have "normalize_labels (j_Spec (settle j)) = j_Spec (settle j)"
    using assms by (simp add: core_fixed_def normalize_labels_fix_iff drop_reserved_fix settle_frame)
  moreover have "normalize_strategy (j_Spec (settle j)) = j_Spec (settle j)"
  proof -
    have "normalize_strategy (j_Spec j) = j_Spec j" using assms by (simp add: core_fixed_def)
    then show ?thesis using normalize_strategy_result [of "j_Spec j"] by (intro normalize_strategy_fix) (simp_all add: settle_frame(4) st(1))
  qed
  ultimately show ?thesis using assms by (simp add: core_fixed_def settle_frame(1-3) st)
qed

lemma normalize_again:
  assumes "core_fixed e j" "normalize e j = Inr k"
  shows "k = with_ui (js_UIOptions (j_Spec k)) j"
proof -
  obtain sp where sp: "normalizeUI e (j_Spec j) = Inr sp"
      "k = (let i = j\<lparr>j_Spec := sp\<rparr> in if ess_Name (st_Elasticsearch (j_Storage i)) = []
         then upd_Storage (st_Elasticsearch_update (\<lambda>es. es\<lparr>ess_Name := ''elasticsearch''\<rparr>)) i else i)"
    using assms(2) unfolding Normalize.normalize_def Let_def core_fixed_normalize_core [OF assms(1)] res_bind_Inr_iff by auto
  obtain u where u: "sp = (j_Spec j)\<lparr>js_UIOptions := u\<rparr>" using normalizeUI_fields [OF sp(1)] by metis
  have "ess_Name (st_Elasticsearch (j_Storage j)) \<noteq> []" using assms(1) by (simp add: core_fixed_def)
  then show ?thesis by (simp add: sp(2) u Let_def)
qed

lemma normalize_keeps:
  assumes "normalize e j = Inr k"
  shows "js_Collector (j_Spec k) = js_Collector (j_Spec j)" "js_Ingester (j_Spec k) = js_Ingester (j_Spec j)"
proof -
  have s: "js_Collector (normalize_strategy sp) = js_Collector sp" "js_Ingester (normalize_strategy sp) = js_Ingester sp" for sp
    by (simp_all add: normalize_strategy_def Let_def)
  have "js_Collector (j_Spec (normalize_core e j)) = js_Collector (j_Spec j)" "js_Ingester (j_Spec (normalize_core e j)) = js_Ingester (j_Spec j)"
    by (simp_all add: normalize_core_def Let_def s normalize_labels_def normalize_name_def)
  then show "js_Collector (j_Spec k) = js_Collector (j_Spec j)" "js_Ingester (j_Spec k) = js_Ingester (j_Spec j)"
    by (subst normalize_result [OF assms], simp)+
qed

end
