(* ===== verification/Isolation.thy ===== *)
theory Isolation
  imports Controller Strategy_Stability ES_Certificates
begin

text \<open>
  What a reconciliation leaves alone.  The laws of \<open>api_server\<close> are extended by frame laws: whatever
  the outcome of a request, objects that it does not name stay as they are, and working on
  files does not touch the cluster.  From these laws it follows, for every outcome of \<open>Reconcile\<close>, errors
  and panics included, that the objects which do not belong to the instance are still there,
  unchanged.
\<close>

section \<open>Operations that leave an object alone\<close>

definition stays :: "('s \<Rightarrow> kobj set) \<Rightarrow> kobj \<Rightarrow> ('s \<Rightarrow> 'r \<times> 's) \<Rightarrow> bool" where
  "stays objs x f \<longleftrightarrow> (\<forall>s. x \<in> objs s \<longrightarrow> x \<in> objs (snd (f s)))"

named_theorems stays "operations that leave an object alone"

lemma staysI: "(\<And>s. x \<in> objs s \<Longrightarrow> x \<in> objs (snd (f s))) \<Longrightarrow> stays objs x f"
  by (simp add: stays_def)

lemma staysD: "stays objs x f \<Longrightarrow> x \<in> objs s \<Longrightarrow> x \<in> objs (snd (f s))"
  by (simp add: stays_def)

lemma staysE: "stays objs x f \<Longrightarrow> f s = (r, s') \<Longrightarrow> x \<in> objs s \<Longrightarrow> x \<in> objs s'"
  by (drule staysD) auto

lemma stays_return [stays]: "stays objs x (\<lambda>s. (r, s))"
  by (simp add: stays_def)

lemma stays_skip [stays]: "stays objs x skip"
  by (simp add: stays_def)

lemma stays_bind:
  assumes "stays objs x f" and "\<And>r. stays objs x (g r)"
  shows "stays objs x (\<lambda>s. case f s of (r, s') \<Rightarrow> g r s')"
proof (rule staysI)
  fix s assume "x \<in> objs s"
  moreover obtain r s' where "f s = (r, s')" by (rule prod.exhaust)
  ultimately show "x \<in> objs (snd (case f s of (r, s') \<Rightarrow> g r s'))"
    using staysE [OF assms(1)] staysD [OF assms(2)] by simp
qed

lemma stays_andthen [stays]: "stays objs x f \<Longrightarrow> stays objs x g \<Longrightarrow> stays objs x (andthen f g)"
  using stays_bind [of objs x f "\<lambda>r. case r of Some e \<Rightarrow> (\<lambda>s. (Some e, s)) | None \<Rightarrow> g"]
  by (force simp: andthen_def [abs_def] stays_def split: option.splits prod.splits)

lemma stays_for_each: "(\<And>y. y \<in> set ys \<Longrightarrow> stays objs x (f y)) \<Longrightarrow> stays objs x (for_each f ys)"
proof (induction ys)
  case (Cons y ys)
  have "for_each f (y # ys) = andthen (f y) (for_each f ys)" by (simp add: andthen_def fun_eq_iff)
  then show ?case using Cons by (simp add: stays_andthen del: for_each.simps)
qed (simp add: stays_def)

lemma stays_poll:
  assumes "\<And>seen s. x \<in> objs s \<Longrightarrow> x \<in> objs (snd (snd (cond seen s)))"
  shows "stays objs x (poll n cond seen)"
proof (induction n arbitrary: seen)
  case (Suc n)
  show ?case
  proof (rule staysI)
    fix s assume s: "x \<in> objs s"
    obtain v seen' s' where c: "cond seen s = (v, seen', s')" by (rule prod_cases3)
    then have "x \<in> objs s'" using assms [OF s, of seen] by simp
    then show "x \<in> objs (snd (poll (Suc n) cond seen s))" using c Suc [of seen'] by (cases v) (simp_all add: stays_def)
  qed
qed (simp add: stays_def)

lemma stays_watch_object:
  assumes "stays objs x get" and "x \<in> objs s"
  shows "x \<in> objs (snd (snd (watch_object get removed ready seen s)))"
proof -
  obtain r s' where g: "get s = (r, s')" by (rule prod.exhaust)
  then have "x \<in> objs s'" using staysE [OF assms(1) g assms(2)] by simp
  then show ?thesis using g by (cases r; cases "projl r") (simp_all add: watch_object_def)
qed

lemma stays_logged [stays]: "stays objs x f \<Longrightarrow> stays objs x (logged f)"
  by (rule staysI) (auto simp: logged_def split: prod.split option.split intro: staysE)

section \<open>The frame of a request\<close>

text \<open>Requests that only read, that concern the instances or other objects, and work on files: they do not change whether
  an object is in \<open>objs\<close>, which may be the objects of the cluster or those that are absent from it.\<close>

locale observed_server =
  fixes C :: "'s Client" and objs :: "'s \<Rightarrow> kobj set" and sys :: "'s System"
  assumes list_frame: "stays objs x (cl_List C k sel ls)"
    and get_frame: "stays objs x (cl_Get C k ns n)"
    and stateful_sets_frame: "stays objs x (cl_ListStatefulSets C sel ls)"
    and namespace_frame: "stays objs x (cl_GetNamespace C n)"
    and get_jaeger_frame: "stays objs x (cl_GetJaeger C ns n)"
    and update_jaeger_frame: "stays objs x (cl_UpdateJaeger C j)"
    and status_frame: "stays objs x (cl_StatusUpdate C j)"
    and files_frame: "stays objs x (sys_MkdirAll sys d)" "stays objs x (sys_OpenFile sys p)" "stays objs x (sys_Write sys p v)"
      "stays objs x (sys_RemoveAll sys p)" "stays objs x (sys_Bash sys script env)"
    and update_frame: "ident y \<noteq> ident x \<Longrightarrow> stays objs x (cl_Update C y)"
    and delete_frame: "ident y \<noteq> ident x \<Longrightarrow> stays objs x (cl_Delete C y)"
begin

lemmas reading_frames [stays] = list_frame get_frame stateful_sets_frame namespace_frame get_jaeger_frame
  update_jaeger_frame status_frame files_frame

lemma stays_get_typed [stays]: "stays objs x (get_typed C k un m)"
  by (rule staysI) (use staysE [OF get_frame] in \<open>auto simp: get_typed_def split: prod.split sum.split option.split\<close>)

lemma stays_waits [stays]:
  "stays objs x (waitForStability C d)" "stays objs x (waitForKafkaStability C k)" "stays objs x (waitForKafkaUserStability C u)"
  unfolding waitForStability_def waitForKafkaStability_def waitForKafkaUserStability_def
  by (rule stays_poll, rule stays_watch_object [OF stays_get_typed], assumption)+

lemma stays_waitForAvailableElastic [stays]: "stays objs x (waitForAvailableElastic C es)"
  unfolding waitForAvailableElastic_def
proof (rule stays_poll)
  fix seen s assume s: "x \<in> objs s"
  let ?ns = "Some (om_Namespace (es_Meta es))" and ?ls = "[(''cluster-name'', om_Name (es_Meta es)), (''component'', ''elasticsearch'')]"
  obtain r1 s1 where l: "cl_List C KDeployment ?ns ?ls s = (r1, s1)" by (rule prod.exhaust)
  obtain r2 s2 where ss: "cl_ListStatefulSets C ?ns ?ls s1 = (r2, s2)" by (rule prod.exhaust)
  have 1: "x \<in> objs s1" using staysE [OF list_frame l s] .
  then have 2: "x \<in> objs s2" using staysE [OF stateful_sets_frame ss] by simp
  show "x \<in> objs (snd (snd (elastic_condition C es seen s)))"
    using 1 2 by (auto simp: elastic_condition_def Let_def l ss split: sum.split goerr.split)
qed

lemma stays_CreateCerts [stays]: "stays objs x (CreateCerts sys script secrets j)"
proof -
  have w: "stays objs x (writeToFile sys dir f v)" for dir f v
  proof -
    have "stays objs x (\<lambda>s1. case sys_Write sys p v s1 of
        (Some err, s2) \<Rightarrow> (Some err, snd (sys_RemoveAll sys p s2)) | (None, s2) \<Rightarrow> (None, s2))" for p
      by (rule staysI) (auto split: prod.split option.split intro: staysD [OF files_frame(4)] staysE [OF files_frame(3)])
    then show ?thesis
      unfolding writeToFile_def [abs_def] Let_def
      by (intro staysI) (auto intro!: staysD [OF stays_andthen [OF files_frame(1) stays_andthen [OF files_frame(2)]]])
  qed
  then show ?thesis
    unfolding CreateCerts_def createESCerts_def extractSecretsToFile_def [abs_def] extractSecretToFile_def Let_def
    by (auto intro!: stays_andthen stays_for_each files_frame stays_skip stays_return split: option.split prod.split)
qed

lemma stays_es_certificates: "stays objs x (es_certificates C sys j)"
proof (rule staysI)
  fix s assume s: "x \<in> objs s"
  obtain r s1 where l: "cl_List C KSecret None (instance_labels j) s = (r, s1)" by (rule prod.exhaust)
  have s1: "x \<in> objs s1" by (rule staysE [OF list_frame l s])
  obtain r2 s2 where c: "CreateCerts sys certGenerationScript
      (getSecretsForNamespace (List.map_filter un_Secret (projr r)) (j_Namespace j)) j s1 = (r2, s2)" by (rule prod.exhaust)
  have "x \<in> objs s2" by (rule staysE [OF stays_CreateCerts c s1])
  then show "x \<in> objs (snd (es_certificates C sys j s))"
    using s s1 c staysD [OF status_frame s1] by (cases r) (auto simp: es_certificates_def l Let_def split: option.split)
qed

lemma stays_store_back: "stays objs x (store_back C original updated)"
proof (rule staysI)
  fix s assume s: "x \<in> objs s"
  obtain r s1 where u: "(if DeepEqual (seen_through_copy original updated) updated then (Inr updated, s) else cl_UpdateJaeger C updated s) = (r, s1)"
    by (rule prod.exhaust)
  have s1: "x \<in> objs s1"
    using s u staysE [OF update_jaeger_frame [of x updated]] by (auto split: if_splits)
  note st = staysD [OF status_frame s1]
  show "x \<in> objs (snd (store_back C original updated s))"
  proof (cases r)
    case (Inr inst)
    obtain r2 s2 where "cl_StatusUpdate C (inst\<lparr>j_Phase := JaegerPhaseRunning, j_Version := j_Version updated\<rparr>) s1 = (r2, s2)"
      by (rule prod.exhaust)
    then show ?thesis using Inr s1 st [of "inst\<lparr>j_Phase := JaegerPhaseRunning, j_Version := j_Version updated\<rparr>"]
      unfolding store_back_def u by (cases r2) simp_all
  qed (unfold store_back_def u, simp add: s1)
qed

end

locale isolated_server = api_server C objs + observed_server C objs sys
  for C :: "'s Client" and objs :: "'s \<Rightarrow> kobj set" and sys :: "'s System" +
  assumes create_frame: "stays objs x (cl_Create C y)"
    and get_jaeger_named: "cl_GetJaeger C ns n s = (Inr j, s') \<Longrightarrow> j_Namespace j = ns \<and> j_Name j = n"
begin

lemmas creating_frame [stays] = create_frame

lemma stays_handleDependencies [stays]: "stays objs x (handleDependencies C deps)"
  unfolding handleDependencies_def
proof (rule stays_for_each)
  fix dep :: Job
  have w: "stays objs x (poll n (watch_object (get_typed C k un m) removed ready) seen)"
    for n removed seen and k and un :: "kobj \<Rightarrow> Job option" and ready m
    by (rule stays_poll) (rule stays_watch_object [OF stays_get_typed])
  show "stays objs x (handleDependency C dep)"
    unfolding handleDependency_def [abs_def] Let_def
    by (rule stays_bind [OF create_frame], rule staysI) (auto intro: staysD [OF w])
qed

lemma stays_updates: "(\<And>y. y \<in> set ys \<Longrightarrow> ident y \<noteq> ident x) \<Longrightarrow> stays objs x (for_each (cl_Update C) ys)"
  by (rule stays_for_each) (simp add: update_frame)

lemma stays_deletes: "(\<And>y. y \<in> set ys \<Longrightarrow> ident y \<noteq> ident x) \<Longrightarrow> stays objs x (for_each (cl_Delete C) ys)"
  by (rule stays_for_each) (simp add: delete_frame)

lemma stays_with_list:
  assumes "\<And>items s. x \<in> objs s \<Longrightarrow> set items = {y \<in> objs s. selects k ns ls y} \<Longrightarrow> stays objs x (rest (List.map_filter un items))"
  shows "stays objs x (with_list C k ns ls un rest)"
proof (rule staysI)
  fix s assume s: "x \<in> objs s"
  obtain r s1 where l: "cl_List C k ns ls s = (r, s1)" by (rule prod.exhaust)
  show "x \<in> objs (snd (with_list C k ns ls un rest s))"
  proof (cases r)
    case (Inl e)
    then show ?thesis using staysE [OF list_frame l s] l by (simp add: with_list_def)
  next
    case (Inr items)
    then have "s1 = s" "set items = {y \<in> objs s. selects k ns ls y}" using list_ok l by blast+
    then show ?thesis using assms [OF s, of items] s l Inr by (simp add: with_list_def staysD)
  qed
qed

end

section \<open>The objects of an instance\<close>

text \<open>
  The objects that the lists of the apply functions select for the instance \<open>name\<close> in the namespace
  \<open>ns\<close>.  Cluster role bindings are selected by the name of the instance alone.
\<close>

definition label_of :: "kobj \<Rightarrow> string \<Rightarrow> string option" where
  "label_of x k = mget (om_Labels (meta_of x)) k"

definition belongs :: "string \<Rightarrow> string \<Rightarrow> kobj \<Rightarrow> bool" where
  "belongs ns name x \<longleftrightarrow>
     label_of x ''app.kubernetes.io/instance'' = Some name \<and>
     (if kind_of x = KElasticsearch then label_of x ''app.kubernetes.io/part-of'' = Some ''jaeger''
      else label_of x ''app.kubernetes.io/managed-by'' = Some ''jaeger-operator'') \<and>
     (if kind_of x = KClusterRoleBinding then True
      else if kind_of x = KConsoleLink then label_of x ''app.kubernetes.io/namespace'' = Some ns
      else om_Namespace (meta_of x) = ns)"

lemma selects_belongs:
  "selects k (Some ns) [(''app.kubernetes.io/instance'', name), (''app.kubernetes.io/managed-by'', ''jaeger-operator'')] x \<Longrightarrow>
     k \<noteq> KElasticsearch \<Longrightarrow> k \<noteq> KConsoleLink \<Longrightarrow> belongs ns name x"
  "selects KElasticsearch (Some ns) [(''app.kubernetes.io/instance'', name), (''app.kubernetes.io/part-of'', ''jaeger'')] x \<Longrightarrow> belongs ns name x"
  "selects KClusterRoleBinding None [(''app.kubernetes.io/instance'', name), (''app.kubernetes.io/managed-by'', ''jaeger-operator'')] x \<Longrightarrow>
     belongs ns name x"
  "selects KConsoleLink None [(''app.kubernetes.io/instance'', name), (''app.kubernetes.io/namespace'', ns),
     (''app.kubernetes.io/managed-by'', ''jaeger-operator'')] x \<Longrightarrow> belongs ns name x"
  by (auto simp: belongs_def selects_def has_labels_def label_of_def)

lemma update_idents [simp]:
  "ident (OAccount (update_ServiceAccount a1 b1)) = ident (OAccount a1)"
  "ident (OClusterRoleBinding (update_ClusterRoleBinding a2 b2)) = ident (OClusterRoleBinding a2)"
  "ident (OConfigMap (update_ConfigMap a3 b3)) = ident (OConfigMap a3)"
  "ident (OConsoleLink (update_ConsoleLink a4 b4)) = ident (OConsoleLink a4)"
  "ident (OCronJob (update_CronJob a5 b5)) = ident (OCronJob a5)"
  "ident (ODaemonSet (update_DaemonSet a6 b6)) = ident (ODaemonSet a6)"
  "ident (ODeployment (update_Deployment a7 b7)) = ident (ODeployment a7)"
  "ident (OElasticsearch (update_Elasticsearch a8 b8)) = ident (OElasticsearch a8)"
  "ident (OHPA (update_HPA a9 b9)) = ident (OHPA a9)"
  "ident (OIngress (update_Ingress a10 b10)) = ident (OIngress a10)"
  "ident (OKafka (update_Kafka a11 b11)) = ident (OKafka a11)"
  "ident (OKafkaUser (update_KafkaUser a12 b12)) = ident (OKafkaUser a12)"
  "ident (ORoute (update_Route a13 b13)) = ident (ORoute a13)"
  "ident (OSecret (update_Secret a14 b14)) = ident (OSecret a14)"
  "ident (OService (update_Service a15 b15)) = ident (OService a15)"
  by (simp_all add: ident_def update_ServiceAccount_def update_ClusterRoleBinding_def update_ConfigMap_def
      update_ConsoleLink_def update_CronJob_def update_DaemonSet_def update_Deployment_def update_Elasticsearch_def
      update_HPA_def update_Ingress_def update_Kafka_def update_KafkaUser_def update_Route_def update_Secret_def
      update_Service_def Let_def)

lemma un_Some:
  "un_Account y = Some a1 \<Longrightarrow> y = OAccount a1" "un_ClusterRoleBinding y = Some a2 \<Longrightarrow> y = OClusterRoleBinding a2"
  "un_ConfigMap y = Some a3 \<Longrightarrow> y = OConfigMap a3" "un_ConsoleLink y = Some a4 \<Longrightarrow> y = OConsoleLink a4"
  "un_CronJob y = Some a5 \<Longrightarrow> y = OCronJob a5" "un_DaemonSet y = Some a6 \<Longrightarrow> y = ODaemonSet a6"
  "un_Deployment y = Some a7 \<Longrightarrow> y = ODeployment a7" "un_Elasticsearch y = Some a8 \<Longrightarrow> y = OElasticsearch a8"
  "un_HPA y = Some a9 \<Longrightarrow> y = OHPA a9" "un_Ingress y = Some a10 \<Longrightarrow> y = OIngress a10"
  "un_Kafka y = Some a11 \<Longrightarrow> y = OKafka a11" "un_KafkaUser y = Some a12 \<Longrightarrow> y = OKafkaUser a12"
  "un_Route y = Some a13 \<Longrightarrow> y = ORoute a13" "un_Secret y = Some a14 \<Longrightarrow> y = OSecret a14"
  "un_Service y = Some a15 \<Longrightarrow> y = OService a15"
  by (auto simp: un_defs split: kobj.splits)

lemma map_filter_un_mem: "(\<And>y d. un y = Some d \<Longrightarrow> y = wrap d) \<Longrightarrow> d \<in> set (List.map_filter un items) \<Longrightarrow> wrap d \<in> set items"
  by (force simp: List.map_filter_def)

text \<open>The objects that an inventory updates or deletes are existing ones.\<close>

context inventory_kind
begin

lemma updated_existing: "u \<in> set (inv_Update (builder ex de)) \<Longrightarrow> \<exists>t v. t \<in> set ex \<and> u = upd t v"
  unfolding in_Update_iff by (blast dest: last_with_key)

lemma deleted_existing: "u \<in> set (inv_Delete (builder ex de)) \<Longrightarrow> u \<in> set ex"
  unfolding builder_lists by (auto simp: object_map_key dest: last_with_key)

end

context isolated_server
begin

text \<open>An object that a list does not select has another identity than those it selects.\<close>

lemma unselected_ident:
  assumes "x \<in> objs s" "set items = {y \<in> objs s. selects k ns ls y}" "\<not> selects k ns ls x" "y \<in> set items"
  shows "ident y \<noteq> ident x"
proof
  assume "ident y = ident x"
  moreover have "y \<in> objs s" "selects k ns ls y" using assms(2,4) by blast+
  ultimately show False using one_each [of y s x] assms(1,3) by blast
qed

lemma stays_inventory:
  assumes kind: "inventory_kind key upd builder" and upd: "\<And>t v. ident (wrap (upd t v)) = ident (wrap t)"
    and other: "\<And>t. t \<in> set ex \<Longrightarrow> ident (wrap t) \<noteq> ident x"
  shows "stays objs x (for_each (cl_Update C) (map wrap (inv_Update (builder ex de))))"
    and "stays objs x (for_each (cl_Delete C) (map wrap (inv_Delete (builder ex de))))"
    and "stays objs x (run_inventory C wrap (builder ex de))"
    and "(\<And>d. stays objs x (wait d)) \<Longrightarrow> stays objs x (run_inventory_waiting C wrap wait (builder ex de))"
proof -
  show u: "stays objs x (for_each (cl_Update C) (map wrap (inv_Update (builder ex de))))"
  proof (rule stays_updates)
    fix y assume "y \<in> set (map wrap (inv_Update (builder ex de)))"
    then obtain u where u: "u \<in> set (inv_Update (builder ex de))" "y = wrap u" by auto
    then show "ident y \<noteq> ident x" using inventory_kind.updated_existing [OF kind u(1)] upd other by auto
  qed
  show d: "stays objs x (for_each (cl_Delete C) (map wrap (inv_Delete (builder ex de))))"
  proof (rule stays_deletes)
    fix y assume "y \<in> set (map wrap (inv_Delete (builder ex de)))"
    then show "ident y \<noteq> ident x" using inventory_kind.deleted_existing [OF kind] other by auto
  qed
  have c: "stays objs x (for_each (cl_Create C) ys)" for ys by (rule stays_for_each) (rule create_frame)
  show "stays objs x (run_inventory C wrap (builder ex de))"
    unfolding run_inventory_def by (intro stays_andthen c u d)
  show "stays objs x (run_inventory_waiting C wrap wait (builder ex de))" if "\<And>d. stays objs x (wait d)"
    unfolding run_inventory_waiting_def by (intro stays_andthen c u d stays_for_each that)
qed

lemma listed_other:
  assumes "\<And>y d. un y = Some d \<Longrightarrow> y = wrap d" and "\<not> selects k ns ls x"
    and "x \<in> objs s" "set items = {y \<in> objs s. selects k ns ls y}" "t \<in> set (List.map_filter un items)"
  shows "ident (wrap t) \<noteq> ident x"
  using unselected_ident [OF assms(3,4,2)] map_filter_un_mem [of un wrap t items] assms(1,5) by simp

lemma stays_list_inventory:
  assumes kind: "inventory_kind key upd builder" and upd: "\<And>t v. ident (wrap (upd t v)) = ident (wrap t)"
    and un: "\<And>y d. un y = Some d \<Longrightarrow> y = wrap d" and x: "\<not> selects k ns ls x"
  shows "stays objs x (with_list C k ns ls un (\<lambda>ex. run_inventory C wrap (builder ex de)))"
    and "(\<And>d. stays objs x (wait d)) \<Longrightarrow>
      stays objs x (with_list C k ns ls un (\<lambda>ex. run_inventory_waiting C wrap wait (builder ex de)))"
proof -
  note other = listed_other [of un wrap, OF un x]
  show "stays objs x (with_list C k ns ls un (\<lambda>ex. run_inventory C wrap (builder ex de)))"
    by (rule stays_with_list, rule stays_inventory(3) [where wrap = wrap, OF kind]) (use upd other in blast)+
  show "stays objs x (with_list C k ns ls un (\<lambda>ex. run_inventory_waiting C wrap wait (builder ex de)))" if "\<And>d. stays objs x (wait d)"
    by (rule stays_with_list, rule stays_inventory(4) [where wrap = wrap, OF kind]) (use upd other that in blast)+
qed

lemma stays_applies [stays]:
  assumes "\<not> belongs (j_Namespace j) (j_Name j) x"
  shows "stays objs x (applyAccounts C j d1)" "stays objs x (applyConfigMaps C j d2)" "stays objs x (applyDaemonSets C j d3)"
    "stays objs x (applyIngresses C j d4)" "stays objs x (applyRoutes C j d5)" "stays objs x (applySecrets C j d6)"
    "stays objs x (applyServices C j d7)" "stays objs x (applyDeployments C j d8)" "stays objs x (applyKafkas C j d9)"
    "stays objs x (applyKafkaUsers C j d10)"
proof -
  have x: "\<not> selects k (Some (j_Namespace j)) (instance_labels j) x" if "k \<noteq> KElasticsearch" "k \<noteq> KConsoleLink" for k
    using assms that unfolding instance_labels_def by (auto dest: selects_belongs(1))
  show "stays objs x (applyAccounts C j d1)" unfolding applyAccounts_def
    by (rule stays_list_inventory(1) [where wrap = OAccount, OF accounts.inventory_kind_axioms]) (auto simp: x stays dest: un_Some)
  show "stays objs x (applyConfigMaps C j d2)" unfolding applyConfigMaps_def
    by (rule stays_list_inventory(1) [where wrap = OConfigMap, OF configmaps.inventory_kind_axioms]) (auto simp: x stays dest: un_Some)
  show "stays objs x (applyDaemonSets C j d3)" unfolding applyDaemonSets_def
    by (rule stays_list_inventory(1) [where wrap = ODaemonSet, OF daemonsets.inventory_kind_axioms]) (auto simp: x stays dest: un_Some)
  show "stays objs x (applyIngresses C j d4)" unfolding applyIngresses_def
    by (rule stays_list_inventory(1) [where wrap = OIngress, OF ingresses.inventory_kind_axioms]) (auto simp: x stays dest: un_Some)
  show "stays objs x (applyRoutes C j d5)" unfolding applyRoutes_def
    by (rule stays_list_inventory(1) [where wrap = ORoute, OF routes.inventory_kind_axioms]) (auto simp: x stays dest: un_Some)
  show "stays objs x (applySecrets C j d6)" unfolding applySecrets_def
    by (rule stays_list_inventory(1) [where wrap = OSecret, OF secrets.inventory_kind_axioms]) (auto simp: x stays dest: un_Some)
  show "stays objs x (applyServices C j d7)" unfolding applyServices_def
    by (rule stays_list_inventory(1) [where wrap = OService, OF services.inventory_kind_axioms]) (auto simp: x stays dest: un_Some)
  show "stays objs x (applyDeployments C j d8)" unfolding applyDeployments_def
    by (rule stays_list_inventory(2) [where wrap = ODeployment, OF deployments.inventory_kind_axioms]) (auto simp: x stays dest: un_Some)
  show "stays objs x (applyKafkas C j d9)" unfolding applyKafkas_def
    by (rule stays_list_inventory(2) [where wrap = OKafka, OF kafkas.inventory_kind_axioms]) (auto simp: x stays dest: un_Some)
  show "stays objs x (applyKafkaUsers C j d10)" unfolding applyKafkaUsers_def
    by (rule stays_list_inventory(2) [where wrap = OKafkaUser, OF kafkausers.inventory_kind_axioms]) (auto simp: x stays dest: un_Some)
qed

lemma stays_cluster_applies [stays]:
  assumes "\<not> belongs (j_Namespace j) (j_Name j) x"
  shows "stays objs x (applyClusterRoleBindingBindings e C j d1)" "stays objs x (applyConsoleLinks e C j d2)"
proof -
  have x: "\<not> selects KClusterRoleBinding None (instance_labels j) x"
    "\<not> selects KConsoleLink None [(''app.kubernetes.io/instance'', j_Name j), (''app.kubernetes.io/namespace'', j_Namespace j),
        (''app.kubernetes.io/managed-by'', ''jaeger-operator'')] x"
    using assms unfolding instance_labels_def by (auto dest: selects_belongs(3,4))
  show "stays objs x (applyClusterRoleBindingBindings e C j d1)" unfolding applyClusterRoleBindingBindings_def
    using stays_list_inventory(1) [where wrap = OClusterRoleBinding and un = un_ClusterRoleBinding,
        OF bindings.inventory_kind_axioms update_idents(2) un_Some(2) x(1)] by (simp add: stays_skip)
  show "stays objs x (applyConsoleLinks e C j d2)" unfolding applyConsoleLinks_def
    using stays_list_inventory(1) [where wrap = OConsoleLink and un = un_ConsoleLink,
        OF consolelinks.inventory_kind_axioms update_idents(4) un_Some(4) x(2)] by (simp add: stays_skip)
qed

lemma stays_versioned_applies [stays]:
  assumes "\<not> belongs (j_Namespace j) (j_Name j) x"
  shows "stays objs x (applyCronJobs e C j d1)" "stays objs x (applyHorizontalPodAutoscalers e C j d2)"
proof -
  have x: "\<not> selects k (Some (j_Namespace j)) (instance_labels j) x" if "k \<noteq> KElasticsearch" "k \<noteq> KConsoleLink" for k
    using assms that unfolding instance_labels_def by (auto dest: selects_belongs(1))
  show "stays objs x (applyCronJobs e C j d1)" unfolding applyCronJobs_def
  proof (rule stays_with_list)
    fix items s
    assume "x \<in> objs s" "set items = {y \<in> objs s. selects (KCronJob (cronjob_version_of e)) (Some (j_Namespace j)) (instance_labels j) y}"
    then have "stays objs x (run_inventory C OCronJob (build_inventory (\<lambda>d. objkey (cj_Meta d)) update_CronJob (List.map_filter un_CronJob items) d1))"
      by (intro stays_inventory(3) [where wrap = OCronJob, OF cronjobs.inventory_kind_axioms] listed_other [of un_CronJob OCronJob])
        (auto simp: x dest: un_Some)
    then show "stays objs x (\<lambda>s. case ForCronJobs e (List.map_filter un_CronJob items) d1 of
        Inl err \<Rightarrow> (Some err, s) | Inr i \<Rightarrow> run_inventory C OCronJob i s)"
      by (simp add: ForCronJobs_def stays_return)
  qed
  show "stays objs x (applyHorizontalPodAutoscalers e C j d2)" unfolding applyHorizontalPodAutoscalers_def
  proof (rule stays_with_list)
    fix items s
    assume "x \<in> objs s" "set items = {y \<in> objs s. selects (KHPA (hpa_version_of e)) (Some (j_Namespace j)) (instance_labels j) y}"
    then have "stays objs x (run_inventory C OHPA (build_inventory (\<lambda>d. objkey (hpa_Meta d)) update_HPA (List.map_filter un_HPA items) d2))"
      by (intro stays_inventory(3) [where wrap = OHPA, OF autoscalers.inventory_kind_axioms] listed_other [of un_HPA OHPA])
        (auto simp: x dest: un_Some)
    then show "stays objs x (\<lambda>s. case ForHorizontalPodAutoscalers e (List.map_filter un_HPA items) d2 of
        Inl err \<Rightarrow> (Some err, s) | Inr i \<Rightarrow> run_inventory C OHPA i s)"
      by (simp add: ForHorizontalPodAutoscalers_def stays_return)
  qed
qed

lemma stays_applyElasticsearches [stays]:
  assumes "\<not> belongs (j_Namespace j) (j_Name j) x"
  shows "stays objs x (applyElasticsearches C j d)"
  unfolding applyElasticsearches_def Let_def
proof (rule stays_with_list)
  let ?ls = "[(''app.kubernetes.io/instance'', j_Name j), (''app.kubernetes.io/part-of'', ''jaeger'')]"
  fix items s
  assume s: "x \<in> objs s" "set items = {y \<in> objs s. selects KElasticsearch (Some (j_Namespace j)) ?ls y}"
  have "\<not> selects KElasticsearch (Some (j_Namespace j)) ?ls x" using assms by (auto dest: selects_belongs(2))
  then have other: "ident (OElasticsearch t) \<noteq> ident x" if "t \<in> set (List.map_filter un_Elasticsearch items)" for t
    using listed_other [of un_Elasticsearch OElasticsearch, OF un_Some(8) _ s that] by simp
  note i = stays_inventory [where wrap = OElasticsearch, OF elasticsearches.inventory_kind_axioms update_idents(8) other]
  show "stays objs x (andthen (for_each (\<lambda>d. andthen (cl_Create C (OElasticsearch d)) (waitForAvailableElastic C d))
         (inv_Create (ForElasticsearches (List.map_filter un_Elasticsearch items) d)))
       (andthen (for_each (cl_Update C) (map OElasticsearch (inv_Update (ForElasticsearches (List.map_filter un_Elasticsearch items) d))))
         (for_each (cl_Delete C) (map OElasticsearch (inv_Delete (ForElasticsearches (List.map_filter un_Elasticsearch items) d))))))"
    by (intro stays_andthen stays_for_each [of _ _ _ "\<lambda>d. andthen (cl_Create C (OElasticsearch d)) (waitForAvailableElastic C d)"]
        create_frame stays_waitForAvailableElastic i(1,2))
qed

end

section \<open>Upgrades\<close>

lemma upgrade_steps_meta:
  assumes "f \<in> {upgrade1_15_0, upgrade1_17_0, upgrade1_18_0, upgrade1_20_0, upgrade1_22_0, upgrade1_28_0}"
  shows "snd (f c j s) = s \<and> (\<forall>j'. fst (f c j s) = Inr j' \<longrightarrow> j_Meta j' = j_Meta j)"
  using assms
  by (auto simp: upgrade1_15_0_def upgrade1_17_0_def upgrade1_18_0_def upgrade1_20_0_def upgrade1_22_0_def upgrade1_28_0_def
      migrateAllDeprecatedOptions_def migrateCassandraVerifyFlagv1_22_0_def res_bind_Inr_iff Let_def)

lemma upgrades_cases:
  assumes "map_of upgrades k = Some f"
  shows "f \<in> {upgrade1_15_0, upgrade1_17_0, upgrade1_18_0, upgrade1_20_0, upgrade1_22_0, upgrade1_28_0} \<or> f = upgrade1_31_0"
  using map_of_SomeD [OF assms] unfolding upgrades_def by auto

lemma upgrade_meta: "map_of upgrades k = Some f \<Longrightarrow> f c j s = (Inr j', s') \<Longrightarrow> j_Meta j' = j_Meta j"
  using upgrades_cases [of k f] upgrade_steps_meta [of f c j s]
  by (auto simp: upgrade1_31_0_def split: if_splits prod.splits option.splits)

lemma upgrade_loop_meta:
  fixes c :: "'s Client"
  shows "upgrade_loop V c cur latest vs j s = ((j', r), s') \<Longrightarrow> j_Meta j' = j_Meta j"
proof (induction V c cur latest vs j s rule: upgrade_loop.induct)
  case (2 V c cur latest v vs j s)
  show ?case
  proof (cases "GreaterThan V v cur \<and> (LessThan V v latest \<or> sv_Compare V v latest = 0)")
    case True
    show ?thesis
    proof (cases "map_of (upgrades :: (string \<times> 's upgradeFunction) list) (sv_String V v)")
      case None
      then show ?thesis using True 2(3) by auto
    next
      case (Some f)
      obtain q t where f: "f c j s = (q, t)" by (rule prod.exhaust)
      show ?thesis
      proof (cases q)
        case (Inl e)
        then show ?thesis using True Some f 2(3) by auto
      next
        case (Inr u)
        then have "j_Meta u = j_Meta j" using upgrade_meta [OF Some] f by blast
        then show ?thesis using True Some f Inr 2(1) [OF True Some f [symmetric] Inr] 2(3) by simp
      qed
    qed
  next
    case False
    then show ?thesis using 2(2) [OF False] 2(3) by (simp only: upgrade_loop.simps if_False)
  qed
qed simp

lemma ManagedInstance_meta: "ManagedInstance V c j v s = ((j', r), s') \<Longrightarrow> j_Meta j' = j_Meta j"
  unfolding ManagedInstance_def
  by (auto dest!: upgrade_loop_meta split: option.splits if_splits prod.splits)

lemma applyUpgrades_meta: "applyUpgrades V e c j s = ((j', r), s') \<Longrightarrow> j_Meta j' = j_Meta j"
  unfolding applyUpgrades_def Let_def
  by (auto dest!: ManagedInstance_meta split: option.splits if_splits prod.splits)

context observed_server
begin

lemma stays_upgrade:
  assumes "map_of upgrades k = Some f" and "ident x \<noteq> (KElasticsearch, j_Namespace j, ''elasticsearch'')"
  shows "stays objs x (f C j)"
proof -
  have es: "stays objs x (cl_Delete C (es_to_delete j))"
    by (rule delete_frame) (use assms(2) in \<open>auto simp: es_to_delete_def ident_def\<close>)
  show ?thesis
  proof (cases "f = upgrade1_31_0")
    case True
    show ?thesis unfolding True
      by (rule staysI) (use staysE [OF es] in \<open>auto simp: upgrade1_31_0_def split: prod.splits option.splits\<close>)
  next
    case False
    then show ?thesis using upgrades_cases [OF assms(1)] upgrade_steps_meta [of f C j] by (simp add: stays_def)
  qed
qed

lemma stays_upgrade_loop:
  "ident x \<noteq> (KElasticsearch, j_Namespace j, ''elasticsearch'') \<Longrightarrow> stays objs x (upgrade_loop V C cur latest vs j)"
proof (induction vs arbitrary: j)
  case (Cons v vs)
  show ?case
  proof (rule staysI)
    fix s assume s: "x \<in> objs s"
    show "x \<in> objs (snd (upgrade_loop V C cur latest (v # vs) j s))"
    proof (cases "GreaterThan V v cur \<and> (LessThan V v latest \<or> sv_Compare V v latest = 0)")
      case True
      show ?thesis
      proof (cases "map_of (upgrades :: (string \<times> 's upgradeFunction) list) (sv_String V v)")
        case (Some f)
        obtain q t where f: "f C j s = (q, t)" by (rule prod.exhaust)
        have t: "x \<in> objs t" by (rule staysE [OF stays_upgrade [OF Some Cons.prems] f s])
        show ?thesis
        proof (cases q)
          case (Inr u)
          then have "j_Meta u = j_Meta j" using upgrade_meta [OF Some] f by blast
          then show ?thesis using True Some f Inr t Cons.IH [of "u\<lparr>j_Version := sv_String V v\<rparr>"] Cons.prems by (simp add: staysD)
        qed (use True Some f t in simp)
      qed (use True s in simp)
    qed (use s Cons in \<open>simp only: upgrade_loop.simps if_False staysD not_False_eq_True\<close>)
  qed
qed (simp add: stays_def)

lemma stays_ManagedInstance:
  assumes "ident x \<noteq> (KElasticsearch, j_Namespace j, ''elasticsearch'')"
  shows "stays objs x (ManagedInstance V C j v)"
  by (rule staysI) (auto simp: ManagedInstance_def intro: staysE [OF stays_upgrade_loop [OF assms]] split: option.split prod.split)

lemma stays_applyUpgrades:
  assumes "ident x \<noteq> (KElasticsearch, j_Namespace j, ''elasticsearch'')"
  shows "stays objs x (applyUpgrades V e C j)"
  by (rule staysI) (auto simp: applyUpgrades_def Let_def intro: staysE [OF stays_ManagedInstance [OF assms]] split: option.split prod.split)

end

context isolated_server
begin

lemma stays_apply_objects:
  assumes "\<not> belongs (j_Namespace j) (j_Name j) x"
  shows "stays objs x (apply_objects e C j str)"
proof -
  have links: "stays objs x (apply_console_links e C j str)"
    unfolding apply_console_links_def by (intro stays_logged stays_with_list stays_cluster_applies assms)
  have access: "stays objs x (apply_access e C j str)"
    unfolding apply_access_def by (simp add: stays_andthen stays_applies assms links)
  have last: "stays objs x (apply_last e C j str)"
  proof (rule staysI)
    fix s assume s: "x \<in> objs s"
    obtain r s1 where h: "applyHorizontalPodAutoscalers e C j (S_horizontalPodAutoscalers str) s = (r, s1)" by (rule prod.exhaust)
    have "x \<in> objs s1" by (rule staysE [OF stays_versioned_applies(2) [OF assms] h s])
    then show "x \<in> objs (snd (apply_last e C j str s))"
      using staysD [OF stays_applies(3) [OF assms]] by (simp add: apply_last_def h split: option.split)
  qed
  show ?thesis
    unfolding apply_objects_def
    by (simp add: stays_andthen stays_skip stays_applies stays_cluster_applies stays_versioned_applies stays_applyElasticsearches
        stays_handleDependencies assms access last)
qed

lemma es_certificates_meta: "es_certificates C sys j s = ((j', r), s') \<Longrightarrow> j_Meta j' = j_Meta j"
  by (auto simp: es_certificates_def Let_def split: if_splits prod.splits sum.splits option.splits)

lemma stays_apply_strategy:
  assumes "\<not> belongs (j_Namespace j) (j_Name j) x" and "ident x \<noteq> (KElasticsearch, j_Namespace j, ''elasticsearch'')"
  shows "stays objs x (apply_strategy V e C sys j str)"
proof (rule staysI)
  fix s assume s: "x \<in> objs s"
  obtain j1 r1 s1 where u: "applyUpgrades V e C j s = ((j1, r1), s1)" by (metis prod.exhaust)
  have s1: "x \<in> objs s1" by (rule staysE [OF stays_applyUpgrades [OF assms(2)] u s])
  obtain j2 r2 s2 where c: "es_certificates C sys j1 s1 = ((j2, r2), s2)" by (metis prod.exhaust)
  have s2: "x \<in> objs s2" by (rule staysE [OF stays_es_certificates c s1])
  have "\<not> belongs (j_Namespace j2) (j_Name j2) x"
    using assms(1) applyUpgrades_meta [OF u] es_certificates_meta [OF c] by simp
  then have "x \<in> objs t" if "apply_objects e C j2 str' s2 = (r, t)" for str' r t using staysE [OF stays_apply_objects that s2] by blast
  then show "x \<in> objs (snd (apply_strategy V e C sys j str s))"
    using s1 s2 by (auto simp: apply_strategy_def u c split: option.split sum.split prod.split)
qed

end

lemma normalize_meta:
  assumes "normalize e j = Inr k" "j_Name j \<noteq> []"
  shows "j_Meta k = j_Meta j"
proof -
  have "j_Meta k = j_Meta (normalize_core e j)" by (subst normalize_result [OF assms(1)]) simp
  then show ?thesis using assms(2) by (simp add: normalize_core_def Let_def normalize_name_def)
qed

lemma For_meta:
  assumes "For e Intn j = Inr (str, j')" "j_Name j \<noteq> []"
  shows "j_Name j' = j_Name j" "j_Namespace j' = j_Namespace j"
proof -
  obtain j0 k where k: "normalize e j0 = Inr k" "j' = settle k"
    "j0 = (if js_Strategy (j_Spec j) = DeploymentStrategyDeprecatedAllInOne then j\<lparr>j_Spec := (j_Spec j)\<lparr>js_Strategy := DeploymentStrategyAllInOne\<rparr>\<rparr> else j)"
    by (rule For_instance [OF assms(1)])
  then have "j_Meta j0 = j_Meta j" by simp
  then have "j_Meta k = j_Meta j" using normalize_meta [OF k(1)] assms(2) by simp
  then show "j_Name j' = j_Name j" "j_Namespace j' = j_Namespace j" by (simp_all add: k(2) settle_frame)
qed

section \<open>Objects that a reconciliation leaves alone\<close>

text \<open>
  Foreign objects do not belong to the instance.  Three more are not counted as foreign: the
  Elasticsearch with the fixed name that the upgrade to 1.31 deletes, the deployments whose revision is
  increased when the instance changes, and the config maps that are deleted with an instance.
\<close>

definition cleaned_config_map :: "string \<Rightarrow> kobj \<Rightarrow> bool" where
  "cleaned_config_map name x \<longleftrightarrow> kind_of x = KConfigMap \<and>
     label_of x ''app.kubernetes.io/name'' = Some (Truncate name 63 []) \<and> label_of x ''app.kubernetes.io/managed-by'' = Some ''jaeger-operator''"

definition foreign :: "string \<Rightarrow> string \<Rightarrow> kobj \<Rightarrow> bool" where
  "foreign ns name x \<longleftrightarrow>
     \<not> belongs ns name x \<and>
     ident x \<noteq> (KElasticsearch, ns, ''elasticsearch'') \<and>
     (if kind_of x = KDeployment then label_of x Label \<noteq> None \<and> label_of x Label \<noteq> Some name else True) \<and>
     \<not> cleaned_config_map name x"

lemma ident_bump_revision [simp]: "ident (ODeployment (bump_revision d)) = ident (ODeployment d)"
  by (simp add: bump_revision_def ident_def)

context isolated_server
begin

lemma stays_reconcile_owned:
  assumes "\<not> belongs (j_Namespace j) (j_Name j) x" "ident x \<noteq> (KElasticsearch, j_Namespace j, ''elasticsearch'')" "j_Name j \<noteq> []"
  shows "stays objs x (reconcile_owned V e C sys Intn j)"
proof (rule staysI)
  fix s assume s: "x \<in> objs s"
  let ?o = "j\<lparr>j_TypeMeta := \<lparr>tm_APIVersion = ''jaegertracing.io/v1'', tm_Kind = ''Jaeger''\<rparr>\<rparr>"
  show "x \<in> objs (snd (reconcile_owned V e C sys Intn j s))"
  proof (cases "For e Intn ?o")
    case (Inr p)
    then obtain str j1 where f: "For e Intn ?o = Inr (str, j1)" by (cases p) simp
    have j1: "j_Name j1 = j_Name j" "j_Namespace j1 = j_Namespace j" using For_meta [OF f] assms(3) by simp_all
    obtain j2 r s1 where a: "apply_strategy V e C sys j1 str s = ((j2, r), s1)" by (metis prod.exhaust)
    have s1: "x \<in> objs s1" by (rule staysE [OF stays_apply_strategy a s]) (use assms j1 in simp_all)
    show ?thesis
      using s1 staysD [OF status_frame s1] staysD [OF stays_store_back s1]
      by (cases r) (simp_all add: reconcile_owned_def Let_def runStrategyChooser_def f a)
  qed (simp add: reconcile_owned_def Let_def runStrategyChooser_def s)
qed

lemma stays_claim_instance: "stays objs x (claim_instance e C j)"
  unfolding claim_instance_def [abs_def] Let_def
  by (rule staysI) (auto split: prod.split sum.split intro: staysE [OF update_jaeger_frame] staysD [OF status_frame staysE [OF update_jaeger_frame]])

lemma stays_reconcile_instance:
  assumes "foreign (j_Namespace j) (j_Name j) x" "j_Name j \<noteq> []"
  shows "stays objs x (reconcile_instance V e C sys Intn j)"
proof (rule staysI)
  fix s assume s: "x \<in> objs s"
  have f: "\<not> belongs (j_Namespace j) (j_Name j) x" "ident x \<noteq> (KElasticsearch, j_Namespace j, ''elasticsearch'')"
    using assms(1) by (simp_all add: foreign_def)
  show "x \<in> objs (snd (reconcile_instance V e C sys Intn j s))"
    using s staysD [OF stays_claim_instance s] staysD [OF stays_reconcile_owned [OF f assms(2), of V e Intn] s]
    by (simp add: reconcile_instance_def split: option.split)
qed

lemma stays_cleanConfigMaps:
  assumes "\<not> cleaned_config_map name x"
  shows "stays objs x (cleanConfigMaps C name)"
proof (rule staysI)
  fix s assume s: "x \<in> objs s"
  let ?ls = "[(''app.kubernetes.io/name'', Truncate name 63 []), (''app.kubernetes.io/managed-by'', ''jaeger-operator'')]"
  have x: "\<not> selects KConfigMap None ?ls x"
    using assms by (auto simp: cleaned_config_map_def selects_def has_labels_def label_of_def)
  have folds: "x \<in> objs t \<Longrightarrow> list_all (\<lambda>y. ident y \<noteq> ident x) ys \<Longrightarrow> x \<in> objs (fold (\<lambda>cm s. snd (cl_Delete C cm s)) ys t)" for ys t
    by (induction ys arbitrary: t) (auto intro: staysD [OF delete_frame])
  obtain r s1 where l: "cl_List C KConfigMap None ?ls s = (r, s1)" by (rule prod.exhaust)
  show "x \<in> objs (snd (cleanConfigMaps C name s))"
  proof (cases r)
    case (Inl e)
    then show ?thesis using staysE [OF list_frame l s] by (simp add: cleanConfigMaps_def getSelectorsForConfigMaps_def l)
  next
    case (Inr items)
    then have items: "s1 = s" "set items = {y \<in> objs s. selects KConfigMap None ?ls y}" using list_ok l by blast+
    then have "list_all (\<lambda>y. ident y \<noteq> ident x) items" using unselected_ident [OF s items(2) x] by (simp add: list_all_iff)
    then have "list_all (\<lambda>y. ident y \<noteq> ident x) (filter P items)" for P by (simp add: list_all_iff)
    then show ?thesis using folds [OF s] Inr items(1) by (simp add: cleanConfigMaps_def getSelectorsForConfigMaps_def l)
  qed
qed

text \<open>The deployments that are watched, and those among them whose revision is increased.\<close>

lemma list_deployments_ok:
  "list_deployments C nss acc s = (Inr deps, s') \<Longrightarrow> s' = s \<and> ODeployment ` set deps \<subseteq> objs s \<union> ODeployment ` set acc"
proof (induction nss arbitrary: acc)
  case (Cons ns nss)
  obtain r s1 where l: "cl_List C KDeployment (Some ns) [] s = (r, s1)" by (rule prod.exhaust)
  then obtain items where r: "r = Inr items" using Cons.prems by (cases r) simp_all
  have items: "s1 = s" "set items \<subseteq> objs s" using list_ok l r by blast+
  have "ODeployment ` set (List.map_filter un_Deployment items) \<subseteq> set items" using map_filter_un_mem [of un_Deployment ODeployment] un_Some(7) by blast
  moreover have "s' = s \<and> ODeployment ` set deps \<subseteq> objs s \<union> ODeployment ` set (acc @ List.map_filter un_Deployment items)"
    by (rule Cons.IH) (use Cons.prems l r items(1) in simp)
  ultimately show ?case using items(2) by (simp add: image_Un) blast
qed auto

lemma watched_deployments_ok:
  "watched_deployments e C s = (Inr deps, s') \<Longrightarrow> s' = s \<and> ODeployment ` set deps \<subseteq> objs s"
proof (cases "viper_GetString e ConfigWatchNamespace \<noteq> WatchAllNamespaces")
  case True
  then show "watched_deployments e C s = (Inr deps, s') \<Longrightarrow> ?thesis"
    using list_deployments_ok [of _ "[]" s deps s'] by (simp add: watched_deployments_def Let_def)
next
  case False
  assume w: "watched_deployments e C s = (Inr deps, s')"
  obtain r s1 where l: "cl_List C KDeployment None [] s = (r, s1)" by (rule prod.exhaust)
  then obtain items where r: "r = Inr items" using w False by (cases r) (simp_all add: watched_deployments_def Let_def)
  have "s1 = s" "set items \<subseteq> objs s" using list_ok l r by blast+
  moreover have "deps = List.map_filter un_Deployment items" "s' = s1" using w False l r by (simp_all add: watched_deployments_def Let_def)
  ultimately show ?thesis using map_filter_un_mem [of un_Deployment ODeployment _ items] un_Some(7) by blast
qed

lemma stays_list_deployments: "stays objs x (list_deployments C nss acc)"
proof (induction nss arbitrary: acc)
  case (Cons ns nss)
  show ?case
    by (rule staysI) (auto split: prod.split sum.split intro: staysE [OF list_frame] staysD [OF Cons staysE [OF list_frame]])
qed (simp add: stays_def)

lemma stays_watched_deployments: "stays objs x (watched_deployments e C)"
  by (rule staysI) (auto simp: watched_deployments_def Let_def split: prod.split sum.split
      intro: staysD [OF stays_list_deployments] staysE [OF list_frame])

lemma stays_to_sync: "stays objs x (to_sync C name nss deps)"
proof (induction deps arbitrary: nss)
  case (Cons dep deps)
  note ih = staysE [OF Cons] and ihd = staysD [OF Cons]
  show ?case
  proof (rule staysI)
    fix s assume s: "x \<in> objs s"
    obtain r s1 where g: "(case map_of nss (dep_Namespace dep) of Some ns \<Rightarrow> (Inr ns, s) | None \<Rightarrow> cl_GetNamespace C (dep_Namespace dep) s) = (r, s1)"
      by (rule prod.exhaust)
    have "x \<in> objs s1" using s g staysE [OF namespace_frame] by (auto split: option.splits)
    then show "x \<in> objs (snd (to_sync C name nss (dep # deps) s))"
      using s by (auto simp: g Let_def split: option.split sum.split prod.split intro: ih ihd)
  qed
qed (simp add: stays_def)

lemma to_sync_mem:
  "d' \<in> set (fst (to_sync C name nss deps s)) \<Longrightarrow>
     \<exists>d. d \<in> set deps \<and> d' = bump_revision d \<and> (mget (dep_Labels d) Label = None \<or> mget (dep_Labels d) Label = Some name)"
proof (induction deps arbitrary: nss s)
  case (Cons dep deps)
  show ?case
  proof (cases "case mget (dep_Labels dep) Label of Some val \<Rightarrow> val \<noteq> name | None \<Rightarrow> False")
    case True
    then show ?thesis using Cons by fastforce
  next
    case False
    then have lab: "mget (dep_Labels dep) Label = None \<or> mget (dep_Labels dep) Label = Some name" by (auto split: option.splits)
    obtain r s1 where g: "(case map_of nss (dep_Namespace dep) of Some ns \<Rightarrow> (Inr ns, s) | None \<Rightarrow> cl_GetNamespace C (dep_Namespace dep) s) = (r, s1)"
      by (rule prod.exhaust)
    have "\<exists>nss' t. d' = bump_revision dep \<or> d' \<in> set (fst (to_sync C name nss' deps t))"
    proof -
      have "d' \<in> set (fst (to_sync C name nss' deps t)) \<Longrightarrow> ?thesis" for nss' t by blast
      moreover have "fst (case p of (ds, s') \<Rightarrow> (f ds, s')) = f (fst p)" for p :: "Deployment list \<times> 's" and f :: "Deployment list \<Rightarrow> Deployment list"
        by (cases p) simp
      ultimately show ?thesis
        using Cons.prems False by (cases r) (auto simp: g Let_def split: if_splits)
    qed
    then show ?thesis using Cons.IH lab by (metis list.set_intros(1) list.set_intros(2))
  qed
qed simp

lemma stays_syncOnJaegerChanges:
  assumes "foreign ns name x"
  shows "stays objs x (syncOnJaegerChanges e C name)"
proof (rule staysI)
  fix s assume s: "x \<in> objs s"
  obtain r s1 where w: "watched_deployments e C s = (r, s1)" by (rule prod.exhaust)
  show "x \<in> objs (snd (syncOnJaegerChanges e C name s))"
  proof (cases r)
    case (Inl err)
    then show ?thesis using staysE [OF stays_watched_deployments w s] by (simp add: syncOnJaegerChanges_def w)
  next
    case (Inr deps)
    then have deps: "s1 = s" "ODeployment ` set deps \<subseteq> objs s" using watched_deployments_ok w by blast+
    obtain ds s2 where t: "to_sync C name [] deps s = (ds, s2)" by (rule prod.exhaust)
    have s2: "x \<in> objs s2" by (rule staysE [OF stays_to_sync t s])
    have "ident y \<noteq> ident x" if y: "y \<in> set (map ODeployment ds)" for y
    proof
      assume i: "ident y = ident x"
      obtain d' where "d' \<in> set (fst (to_sync C name [] deps s))" "y = ODeployment d'" using y by (auto simp: t)
      then obtain d where d: "d \<in> set deps" "y = ODeployment (bump_revision d)"
          "mget (dep_Labels d) Label = None \<or> mget (dep_Labels d) Label = Some name" using to_sync_mem by blast
      then have "ident (ODeployment d) = ident x" using i by simp
      then have "x = ODeployment d" using one_each [OF _ s] deps(2) d(1) by blast
      then show False using assms d(3) by (auto simp: foreign_def label_of_def)
    qed
    then have "x \<in> objs (snd (for_each (cl_Update C) (map ODeployment ds) s2))" by (intro staysD [OF stays_updates s2])
    then show ?thesis using Inr deps(1) by (simp add: syncOnJaegerChanges_def w t)
  qed
qed

lemma stays_Reconcile:
  assumes "foreign ns name x" "name \<noteq> []"
  shows "stays objs x (Reconcile V e C sys Intn ns name)"
proof (rule staysI)
  fix s assume s: "x \<in> objs s"
  obtain r s1 where g: "cl_GetJaeger C ns name s = (r, s1)" by (rule prod.exhaust)
  have s1: "x \<in> objs s1" by (rule staysE [OF get_jaeger_frame g s])
  show "x \<in> objs (snd (Reconcile V e C sys Intn ns name s))"
  proof (cases r)
    case (Inl err)
    have "stays objs x (cleanConfigMaps C name)" using assms(1) by (intro stays_cleanConfigMaps) (simp add: foreign_def)
    from staysD [OF this s1] show ?thesis using Inl s1 by (cases err) (simp_all add: Reconcile_def g)
  next
    case (Inr j)
    then have j: "j_Namespace j = ns" "j_Name j = name" using get_jaeger_named g by blast+
    have "stays objs x (andthen (syncOnJaegerChanges e C (j_Name j)) (reconcile_instance V e C sys Intn j))"
      by (intro stays_andthen stays_reconcile_instance) (use assms j stays_syncOnJaegerChanges in simp_all)
    from staysD [OF this s1] show ?thesis using Inr by (simp add: Reconcile_def g)
  qed
qed

end

section \<open>A cluster and a file system in memory\<close>

record World =
  w_objs :: "kobj list"
  w_jaegers :: "Jaeger list"
  w_files :: "string \<rightharpoonup> string"

definition on_objs :: "(kobj list \<Rightarrow> 'r \<times> kobj list) \<Rightarrow> World \<Rightarrow> 'r \<times> World" where
  "on_objs f w = (case f (w_objs w) of (r, s) \<Rightarrow> (r, w\<lparr>w_objs := s\<rparr>))"

definition on_files :: "((string \<rightharpoonup> string) \<Rightarrow> 'r \<times> (string \<rightharpoonup> string)) \<Rightarrow> World \<Rightarrow> 'r \<times> World" where
  "on_files f w = (case f (w_files w) of (r, s) \<Rightarrow> (r, w\<lparr>w_files := s\<rparr>))"

definition same_jaeger :: "Jaeger \<Rightarrow> Jaeger \<Rightarrow> bool" where
  "same_jaeger a b \<longleftrightarrow> j_Namespace a = j_Namespace b \<and> j_Name a = j_Name b"

definition put_jaeger :: "Jaeger \<Rightarrow> (Jaeger, World) query" where
  "put_jaeger j w = (if list_ex (same_jaeger j) (w_jaegers w)
     then (Inr j, w\<lparr>w_jaegers := map (\<lambda>i. if same_jaeger j i then j else i) (w_jaegers w)\<rparr>) else (Inl NotFound, w))"

definition world_client :: "World Client" where
  "world_client = \<lparr>
     cl_List = (\<lambda>k ns ls. on_objs (cl_List mem_client k ns ls)),
     cl_Get = (\<lambda>k ns n. on_objs (cl_Get mem_client k ns n)),
     cl_Create = (\<lambda>x. on_objs (cl_Create mem_client x)),
     cl_Update = (\<lambda>x. on_objs (cl_Update mem_client x)),
     cl_Delete = (\<lambda>x. on_objs (cl_Delete mem_client x)),
     cl_ListJaegers = (\<lambda>ns ls w. (Inr (filter (\<lambda>j. (case ns of None \<Rightarrow> True | Some n \<Rightarrow> j_Namespace j = n) \<and>
        (\<forall>(k, v) \<in> set ls. mget (om_Labels (j_Meta j)) k = Some v)) (w_jaegers w)), w)),
     cl_GetJaeger = (\<lambda>ns n w. (case find (\<lambda>j. j_Namespace j = ns \<and> j_Name j = n) (w_jaegers w) of
        None \<Rightarrow> Inl NotFound | Some j \<Rightarrow> Inr j, w)),
     cl_UpdateJaeger = put_jaeger,
     cl_StatusUpdate = put_jaeger,
     cl_PatchJaeger = (\<lambda>b. put_jaeger),
     cl_StatusPatch = (\<lambda>b. put_jaeger),
     cl_GetNamespace = (\<lambda>n. on_objs (cl_GetNamespace mem_client n)),
     cl_ListStatefulSets = (\<lambda>ns ls. on_objs (cl_ListStatefulSets mem_client ns ls)),
     cl_Attempts = cl_Attempts mem_client\<rparr>"

definition world_system :: "World System" where
  "world_system = \<lparr>sys_Stat = (\<lambda>p w. sys_Stat mem_system p (w_files w)), sys_MkdirAll = (\<lambda>d. on_files (sys_MkdirAll mem_system d)),
     sys_OpenFile = (\<lambda>p. on_files (sys_OpenFile mem_system p)), sys_Write = (\<lambda>p v. on_files (sys_Write mem_system p v)),
     sys_RemoveAll = (\<lambda>p. on_files (sys_RemoveAll mem_system p)), sys_ReadFile = (\<lambda>p w. sys_ReadFile mem_system p (w_files w)),
     sys_Bash = (\<lambda>script env. on_files (sys_Bash mem_system script env))\<rparr>"

definition world_objs :: "World \<Rightarrow> kobj set" where
  "world_objs w = set (mem_objs (w_objs w))"

lemma on_objs_eq: "on_objs f w = (r, w') \<Longrightarrow> f (w_objs w) = (r, w_objs w')"
  by (auto simp: on_objs_def split: prod.splits)

lemma mem_objs_iff: "x \<in> set (mem_objs s) \<longleftrightarrow> find (\<lambda>y. ident y = ident x) s = Some x"
  by (auto simp: mem_objs_def find_Some_iff)

lemma find_update:
  "ident y \<noteq> ident x \<Longrightarrow> find (\<lambda>z. ident z = ident x) (map (\<lambda>z. if ident z = ident y then y else z) s) = find (\<lambda>z. ident z = ident x) s"
  by (induction s) auto

lemma find_delete:
  "ident y \<noteq> ident x \<Longrightarrow> find (\<lambda>z. ident z = ident x) (filter (\<lambda>z. ident z \<noteq> ident y) s) = find (\<lambda>z. ident z = ident x) s"
  by (induction s) auto

lemma stays_mem:
  "stays (\<lambda>s. set (mem_objs s)) x (cl_Create mem_client y)"
  "ident y \<noteq> ident x \<Longrightarrow> stays (\<lambda>s. set (mem_objs s)) x (cl_Update mem_client y)"
  "ident y \<noteq> ident x \<Longrightarrow> stays (\<lambda>s. set (mem_objs s)) x (cl_Delete mem_client y)"
  "stays (\<lambda>s. set (mem_objs s)) x (cl_List mem_client k ns ls)" "stays (\<lambda>s. set (mem_objs s)) x (cl_Get mem_client k n n')"
  "stays (\<lambda>s. set (mem_objs s)) x (cl_GetNamespace mem_client n)" "stays (\<lambda>s. set (mem_objs s)) x (cl_ListStatefulSets mem_client ns ls)"
  unfolding stays_def mem_objs_iff
  by (auto simp: mem_client_def mem_find_def find_update find_delete dest: find_SomeD)

lemma stays_on_objs: "stays (\<lambda>s. set (mem_objs s)) x f \<Longrightarrow> stays world_objs x (on_objs f)"
  by (auto simp: stays_def world_objs_def on_objs_def split: prod.split)

lemma stays_on_files: "stays world_objs x (on_files f)"
  by (auto simp: stays_def world_objs_def on_files_def split: prod.split)

lemma stays_put_jaeger: "stays world_objs x (put_jaeger j)"
  by (simp add: stays_def world_objs_def put_jaeger_def)

lemmas world_defs = world_client_def world_system_def world_objs_def

interpretation world: isolated_server world_client world_objs world_system
proof
  show "cl_List world_client k ns ls s = (Inr xs, s') \<Longrightarrow> s' = s \<and> set xs = {x \<in> world_objs s. selects k ns ls x}" for k ns ls s xs s'
    by (auto simp: world_defs on_objs_def mem_client_def)
  show "cl_Create world_client x s = (None, s') \<Longrightarrow>
      ident x \<notin> ident ` world_objs s \<and> ident ` world_objs s' = insert (ident x) (ident ` world_objs s)" for x s s'
    using mem.create_ok [of x "w_objs s" "w_objs s'"] by (auto simp: world_defs dest!: on_objs_eq)
  show "cl_Update world_client x s = (None, s') \<Longrightarrow> ident x \<in> ident ` world_objs s \<and> ident ` world_objs s' = ident ` world_objs s" for x s s'
    using mem.update_ok [of x "w_objs s" "w_objs s'"] by (auto simp: world_defs dest!: on_objs_eq)
  show "cl_Delete world_client x s = (None, s') \<Longrightarrow>
      ident x \<in> ident ` world_objs s \<and> ident ` world_objs s' = ident ` world_objs s - {ident x}" for x s s'
    using mem.delete_ok [of x "w_objs s" "w_objs s'"] by (auto simp: world_defs dest!: on_objs_eq)
  show "ident x \<notin> ident ` world_objs s \<Longrightarrow> fst (cl_Create world_client x s) \<noteq> Some AlreadyExists" for x s
    using mem.create_new [of x "w_objs s"] by (auto simp: world_defs on_objs_def split: prod.splits)
  show "ident x \<in> ident ` world_objs s \<Longrightarrow> cl_Create world_client x s = (Some AlreadyExists, s)" for x s
    using mem.create_exists [of x "w_objs s"] by (simp add: world_defs on_objs_def)
  show "cl_Delete world_client x s = (Some NotFound, s') \<Longrightarrow> s' = s \<and> ident x \<notin> ident ` world_objs s" for x s s'
    by (auto simp: world_defs on_objs_def mem_client_def mem_find_def ident_mem_objs split: if_splits)
  show "x \<in> world_objs s \<Longrightarrow> y \<in> world_objs s \<Longrightarrow> ident x = ident y \<Longrightarrow> x = y" for x y s
    unfolding world_objs_def by (rule mem.one_each)
  show "cl_GetJaeger world_client ns n s = (Inr j, s') \<Longrightarrow> j_Namespace j = ns \<and> j_Name j = n" for ns n s j s'
    by (auto simp: world_client_def split: option.splits dest: find_SomeD)
qed (simp_all add: world_client_def world_system_def stays_on_objs stays_on_files stays_put_jaeger stays_mem, simp add: stays_def)


definition sample_neighbour :: kobj where
  "sample_neighbour = OService ((sample_service ''q'' [])\<lparr>svc_Meta := (svc_Meta (sample_service ''q'' []))\<lparr>om_Labels :=
     Some [(''app.kubernetes.io/instance'', ''other''), (''app.kubernetes.io/managed-by'', ''jaeger-operator'')]\<rparr>\<rparr>)"

definition sample_world :: World where
  "sample_world = \<lparr>w_objs = [sample_neighbour], w_jaegers = [sample_jaeger], w_files = Map.empty\<rparr>"


end
