(* ===== verification/Controller_Properties.thy ===== *)
theory Controller_Properties
  imports Isolation
begin

text \<open>
  Properties of the parts that react to changes in the cluster: the webhook of the deployments, the
  removal of sidecars, the controller of the Elasticsearch resources and the deletion of an
  instance.
\<close>

section \<open>The webhook is stable\<close>

lemma c_EnvFrom_decoration [simp]: "c_EnvFrom (decoration dep opt c) = c_EnvFrom c"
  by (simp add: decoration_def add_env_def Let_def split: option.split)

lemma c_EnvFrom_agent [simp]: "c_EnvFrom (agent_container e j dep args) = []"
  by (simp add: agent_container_def Let_def Container0_def)

lemma mget_decorate_annotations:
  "decorate_annotations m = Inr m' \<Longrightarrow> k \<notin> fst ` set PrometheusDefaultAnnotations \<Longrightarrow> mget m' k = mget m k"
  by (cases m) (auto simp: decorate_annotations_def PrometheusDefaultAnnotations_def put_default_def mget_def update_conv' split: if_splits)

text \<open>What the first injection of an agent gives.\<close>

lemma injected_parts:
  assumes "mget (dep_Labels dep) Label = None" "agent_index (dep_Containers dep) = None" "Sidecar e j dep opt = Inr d"
  shows "\<exists>al args d0. decorate_annotations (dep_Annotations dep) = Inr al \<and>
     dep_Meta d = (dep_Meta dep)\<lparr>om_Annotations := al, om_Labels := put_label Label (Truncate (j_Name j) 63 []) (dep_Labels dep)\<rparr> \<and>
     dep_Containers d = map (decoration dep opt) (dep_Containers dep) @ [agent_container e j d0 args]"
proof -
  have own: "own_or_free j (dep_Labels dep)" using assms(1) by (simp add: own_or_free_def)
  obtain al where al: "decorate_annotations (dep_Annotations dep) = Inr al" using Sidecar_Inr_parts [OF own assms(3)] by blast
  let ?d1 = "with_parts dep ((dep_Meta dep)\<lparr>om_Annotations := al\<rparr>) (map (decoration dep opt) (dep_Containers dep)) (ps_Volumes (dep_Pod dep)) (ps_ImagePullSecrets (dep_Pod dep))"
  obtain args where "d = with_parts dep
      ((dep_Meta dep)\<lparr>om_Annotations := al, om_Labels := put_label Label (Truncate (j_Name j) 63 []) (dep_Labels dep)\<rparr>)
      (map (decoration dep opt) (dep_Containers dep) @ [agent_container e j ?d1 args])
      (RemoveDuplicatedVolumes (ps_Volumes (dep_Pod dep) @ jc_Volumes (agent_volumes_spec e j)))
      (RemoveDuplicatedImagePullSecrets (ps_ImagePullSecrets (dep_Pod dep) @ jc_ImagePullSecrets (ag_Common (js_Agent (j_Spec j)))))"
    using assms(3) unfolding Sidecar_parts [OF own al] assms(2) place_def by auto
  then show ?thesis using al by (intro exI [of _ al] exI [of _ args] exI [of _ ?d1] conjI) simp_all
qed

lemma injected_choice:
  assumes "mget (dep_Labels dep) Label = None" "agent_index (dep_Containers dep) = None" "Sidecar e j dep opt = Inr d"
  shows "Needed dep ns \<Longrightarrow> Needed d ns" "Select d ns js = Select dep ns js"
    "GetConfigMapsMatchedEnvFromInDeployment d cms = GetConfigMapsMatchedEnvFromInDeployment dep cms"
    "dep_Namespace d = dep_Namespace dep" "fst (HasJaegerAgent d)"
    "mstr (dep_Labels d) ''app'' = mstr (dep_Labels dep) ''app''"
    "mstr (dep_Labels d) ''app.kubernetes.io/component'' = mstr (dep_Labels dep) ''app.kubernetes.io/component''"
proof -
  obtain al args d0 where d: "decorate_annotations (dep_Annotations dep) = Inr al"
    "dep_Meta d = (dep_Meta dep)\<lparr>om_Annotations := al, om_Labels := put_label Label (Truncate (j_Name j) 63 []) (dep_Labels dep)\<rparr>"
    "dep_Containers d = map (decoration dep opt) (dep_Containers dep) @ [agent_container e j d0 args]"
    using injected_parts [OF assms] by blast
  have ann: "mget (dep_Annotations d) Annotation = mget (dep_Annotations dep) Annotation"
    using mget_decorate_annotations [OF d(1), of Annotation] by (simp add: d(2) PrometheusDefaultAnnotations_def)
  have lab: "mget (dep_Labels d) k = mget (dep_Labels dep) k" if "k \<noteq> Label" for k
    using that by (simp add: d(2) put_label_def mget_def update_conv')
  have some: "mget (dep_Labels d) Label \<noteq> None" by (simp add: d(2) put_label_def mget_def update_conv')
  show ns: "dep_Namespace d = dep_Namespace dep" by (simp add: d(2))
  show app: "mstr (dep_Labels d) ''app'' = mstr (dep_Labels dep) ''app''"
    "mstr (dep_Labels d) ''app.kubernetes.io/component'' = mstr (dep_Labels dep) ''app.kubernetes.io/component''"
    by (simp_all add: mstr_def lab)
  show "Needed d ns" if "Needed dep ns" using that some unfolding Needed_def desired_def ann app by (auto split: if_splits)
  show "Select d ns js = Select dep ns js" unfolding Select_def mstr_def ann ns ..
  show "GetConfigMapsMatchedEnvFromInDeployment d cms = GetConfigMapsMatchedEnvFromInDeployment dep cms"
    by (simp add: GetConfigMapsMatchedEnvFromInDeployment_def d(3) comp_def List.map_filter_simps)
  show "fst (HasJaegerAgent d)"
    using agent_index_place [of "agent_container e j d0 args" "map (decoration dep opt) (dep_Containers dep)"] assms(2)
    by (simp add: HasJaegerAgent_def d(3) place_def agent_index_map)
qed

text \<open>C12: the webhook of the deployments settles at once.  A deployment without an agent for which an
  instance of its namespace is selected is patched: the patch is an injected agent.  When the
  patched deployment comes back (the operator itself updates it whenever the instance changes), the
  webhook selects the same instance and answers with the same deployment, so that the pods are not
  restarted.\<close>

theorem Handle_stable:
  assumes "shouldHandleDeployment e req" "rq_Object req = Inr dep"
    and cluster: "fetch_namespace C (rq_Namespace req) s = (ns, s)" "webhook_jaegers e C s = (Inr jaegers, s)"
      "list_config_maps C (dep_Namespace dep) s = (cms, s)"
    and choice: "Needed dep ns" "Select dep ns jaegers = Some j" "om_DeletionTimestamp (j_Meta j) = None" "j_Namespace j = dep_Namespace dep"
    and fresh: "mget (dep_Labels dep) Label = None" "agent_index (dep_Containers dep) = None" "dep_Annotations dep \<noteq> None"
    and names: "label_value (j_Name j)" "no_comma dep"
  shows "\<exists>d'. Handle e C req s = (Inr (Patched d'), s) \<and> fst (HasJaegerAgent d') \<and> mget (dep_Labels d') Label = Some (j_Name j) \<and>
     Handle e C (req\<lparr>rq_Object := Inr d'\<rparr>) s = (Inr (Patched d'), s)"
proof -
  let ?opt = "[WithEnvFromConfigMaps (GetConfigMapsMatchedEnvFromInDeployment dep cms)]"
  obtain d' where d': "Sidecar e j dep ?opt = Inr d'" using Sidecar_fresh_total [OF fresh] by blast
  note same = injected_choice [OF fresh(1,2) d']
  have own: "own_or_free j (dep_Labels dep)" using fresh(1) by (simp add: own_or_free_def)
  have again: "Sidecar e j d' ?opt = Inr d'" using Sidecar_idempotent_aux [OF own names d'] .
  have should: "shouldHandleDeployment e (req\<lparr>rq_Object := x\<rparr>) = shouldHandleDeployment e req" for x by (simp add: shouldHandleDeployment_def)
  have app: "\<not> (mstr (dep_Labels dep) ''app'' = ''jaeger'' \<and> mstr (dep_Labels dep) ''app.kubernetes.io/component'' \<noteq> ''query'')"
    using choice(1) by (auto simp: Needed_def split: if_splits)
  have one: "inject_response e C j dep s = (Inr (Patched d'), s)" by (simp add: inject_response_def choice(4) cluster(3) d')
  have two: "inject_response e C j d' s = (Inr (Patched d'), s)" unfolding inject_response_def same(3,4) by (simp add: choice(4) cluster(3) again)
  have label: "mget (dep_Labels d') Label = Some (j_Name j)"
    using Sidecar_meta [OF own d'] Truncate_label_value [OF names(1)] by (auto simp: put_label_def mget_def update_conv')
  have "Handle e C req s = (Inr (Patched d'), s)"
    unfolding Handle_def using assms(1,2) app by (simp add: cluster choice one)
  moreover have "Handle e C (req\<lparr>rq_Object := Inr d'\<rparr>) s = (Inr (Patched d'), s)"
    unfolding Handle_def should using assms(1) app same(1) [OF choice(1)] by (simp add: same(2,6,7) cluster choice two)
  ultimately show ?thesis using same(5) label by blast
qed

definition sample_request :: Request where
  "sample_request = \<lparr>rq_Namespace = ''ns'', rq_Object = Inr (sample_app (Some [(Annotation, ''true'')]))\<rparr>"

lemma sample_jaeger_label_value: "label_value (j_Name sample_jaeger)"
  by (simp add: label_value_def sample_jaeger_def NewJaeger_def alnum_char_def lower_char_def)

theorem Handle_stable_witness:
  "\<exists>d'. Handle sample_env world_client sample_request sample_world = (Inr (Patched d'), sample_world) \<and> fst (HasJaegerAgent d') \<and>
     mget (dep_Labels d') Label = Some ''my'' \<and>
     Handle sample_env world_client (sample_request\<lparr>rq_Object := Inr d'\<rparr>) sample_world = (Inr (Patched d'), sample_world)"
proof -
  let ?dep = "sample_app (Some [(Annotation, ''true'')])"
  have dep: "dep_Namespace ?dep = ''ns''" "dep_Annotations ?dep = Some [(Annotation, ''true'')]" "dep_Labels ?dep = None"
    by (simp_all add: sample_app_def ObjectMeta0_def)
  have j: "j_Namespace sample_jaeger = ''ns''" "om_DeletionTimestamp (j_Meta sample_jaeger) = None" "j_Name sample_jaeger = ''my''"
    by (simp_all add: sample_jaeger_def NewJaeger_def ObjectMeta0_def)
  have list: "webhook_jaegers sample_env world_client sample_world = (Inr [sample_jaeger], sample_world)"
    by (simp add: webhook_jaegers_def world_client_def sample_world_def sample_env_def)
  have ns: "fetch_namespace world_client ''ns'' sample_world = (\<lparr>ns_Meta = ObjectMeta0\<rparr>, sample_world)"
    by (simp add: fetch_namespace_def world_client_def on_objs_def mem_client_def)
  have cms: "list_config_maps world_client ''ns'' sample_world = ([], sample_world)"
    by (simp add: list_config_maps_def world_client_def on_objs_def mem_client_def sample_world_def mem_objs_def selects_def
        sample_neighbour_def ident_def List.map_filter_simps)
  have need: "Needed ?dep \<lparr>ns_Meta = ObjectMeta0\<rparr>"
    using sample_app_fields(2) [of "Some [(Annotation, ''true'')]"] unfolding Needed_def desired_def HasJaegerAgent_def dep
    by (simp add: EqualFold_def ToLower_def mstr_def mget_def)
  have sel: "Select ?dep \<lparr>ns_Meta = ObjectMeta0\<rparr> [sample_jaeger] = Some sample_jaeger"
    unfolding Select_def dep by (simp add: mstr_def mget_def EqualFold_def ToLower_def getJaeger_def j ObjectMeta0_def)
  have "\<exists>d'. Handle sample_env world_client sample_request sample_world = (Inr (Patched d'), sample_world) \<and> fst (HasJaegerAgent d') \<and>
     mget (dep_Labels d') Label = Some (j_Name sample_jaeger) \<and>
     Handle sample_env world_client (sample_request\<lparr>rq_Object := Inr d'\<rparr>) sample_world = (Inr (Patched d'), sample_world)"
  proof (rule Handle_stable [where dep = ?dep and ns = "\<lparr>ns_Meta = ObjectMeta0\<rparr>" and jaegers = "[sample_jaeger]" and cms = "[]"])
    show "shouldHandleDeployment sample_env sample_request" by (simp add: shouldHandleDeployment_def sample_env_def)
  qed (simp_all only: need sel list ns cms dep j sample_app_fields sample_jaeger_label_value [unfolded j] sample_request_def Request.simps option.simps not_False_eq_True mget_def entries_def map_of.simps)
  then show ?thesis by (simp only: j)
qed

section \<open>Removing sidecars\<close>

lemma fold_if_filter: "fold (\<lambda>x s. if P x then f x s else s) xs s = fold f (filter P xs) s"
  by (induction xs arbitrary: s) simp_all


text \<open>A deployment with the agent of an instance that exists.\<close>

definition sample_carrier :: Deployment where
  "sample_carrier = dep_Meta_update (om_Labels_update (\<lambda>_. Some [(Label, ''my'')])) (sample_app None)"

definition failing_client :: "World Client" where
  "failing_client = world_client\<lparr>cl_ListJaegers := \<lambda>ns ls w. (Inl (Failed ''timeout''), w)\<rparr>"


section \<open>The size of an Elasticsearch\<close>

lemma node_count_getNodes: "foldl (\<lambda>nodes n. nodes + en_NodeCount n) 0 (getNodes uuid es) = ess_NodeCount es"
  by (simp add: getNodes_def Let_def)

text \<open>The two writers of the node count agree, for all 32-bit values.  The controller of the
  Elasticsearch resources leaves alone the instance for which the resource was made; after it has
  taken over the size of a resource it does not take it over again; and the resource that is made
  of the instance then has the size that was taken over, so that the operator does not undo the
  change of the size.\<close>

theorem elasticsearch_controller_agrees:
  "pred_option (\<lambda>es. \<not> follows_node_count es j) (Elasticsearch_Get j) \<and>
   \<not> follows_node_count es' (with_node_count es' j) \<and>
   pred_option (\<lambda>es. OpenShiftElasticsearchNodeCount (es_Spec es) = OpenShiftElasticsearchNodeCount (es_Spec es'))
     (Elasticsearch_Get (with_node_count es' j))"
  by (simp add: Elasticsearch_Get_def Let_def follows_node_count_def with_node_count_def OpenShiftElasticsearchNodeCount_def node_count_getNodes)

section \<open>What a deleted instance leaves behind\<close>

lemma Truncate_longer:
  assumes "label_value n" "length n < 63" "CHR ''%'' \<notin> set x" "x \<noteq> []" "alnum_char (last x)"
  shows "Truncate (n @ x) 63 [] \<noteq> n"
proof (cases "length (n @ x) \<le> 63")
  case True
  then have "Truncate (n @ x) 63 [] = n @ x" using assms by (intro Truncate_short) (auto simp: label_value_def)
  then show ?thesis using assms(4) by simp
next
  case False
  then have "Truncate (n @ x) 63 [] = take 63 (n @ x)" using assms by (simp add: Truncate_def Sprintf_plain label_value_def)
  then have "length (Truncate (n @ x) 63 []) = 63" using False by simp
  then show ?thesis using assms(2) by auto
qed

lemma ca_config_map_labels:
  assumes "label_value (j_Name j)" "length (j_Name j) < 63" "cm \<in> set (ca_config_maps e j)"
  shows "label_of (OConfigMap cm) ''app.kubernetes.io/name'' \<noteq> Some (Truncate (j_Name j) 63 [])" "om_OwnerReferences (cm_Meta cm) = []"
  using assms Truncate_longer [OF assms(1,2), of "''-trusted-ca''"] Truncate_longer [OF assms(1,2), of "''-service-ca''"]
  by (auto simp: ca_config_maps_def GetTrustedCABundle_def GetServiceCABundle_def config_map_object_def Let_def label_of_def Labels_def
      TrustedCAName_def ServiceCAName_def TrustedCANameFromString_def ServiceCANameFromString_def Truncate_label_value alnum_char_def
      lower_char_def mget_def update_conv' ObjectMeta0_def split: option.splits if_splits)

text \<open>C35: the config maps with the certificate authorities outlive their instance.  They have no owner, so
  that the cluster does not collect them, and the cleaning that the controller does for a deleted
  instance selects by the name of the instance in a label that holds the name of the config map:
  after the reconciliation of the deleted instance they are all still there.\<close>

theorem ca_config_maps_leak:
  assumes "isolated_server C objs sys" "label_value (j_Name j)" "length (j_Name j) < 63"
    and "cm \<in> set (ca_config_maps e j)" "OConfigMap cm \<in> objs s" "cl_GetJaeger C ns (j_Name j) s = (Inl NotFound, s)"
  shows "OConfigMap cm \<in> objs (snd (Reconcile V e C sys Intn ns (j_Name j) s)) \<and> om_OwnerReferences (cm_Meta cm) = []"
proof -
  have "stays objs (OConfigMap cm) (cleanConfigMaps C (j_Name j))"
    using ca_config_map_labels [OF assms(2-4)] by (intro isolated_server.stays_cleanConfigMaps [OF assms(1)]) (simp add: cleaned_config_map_def)
  from staysD [OF this assms(5)] show ?thesis using ca_config_map_labels [OF assms(2-4)] by (simp add: Reconcile_def assms(6))
qed

definition sample_openshift_env :: Env where
  "sample_openshift_env = sample_env\<lparr>viper_GetString := (\<lambda>k. if k = FlagPlatform then ''openshift'' else [])\<rparr>"

lemma sample_openshift_env_platform: "GetPlatform sample_openshift_env = OpenShiftPlatform"
  by (simp add: GetPlatform_def sample_openshift_env_def ToLower_def lower_byte_def upper_char_def)

theorem ca_config_maps_leak_witness:
  "let cms = ca_config_maps sample_openshift_env sample_jaeger; w = \<lparr>w_objs = map OConfigMap cms, w_jaegers = [], w_files = Map.empty\<rparr>
   in length cms = 2 \<and> OConfigMap (cms ! 0) \<in> world_objs (snd (Reconcile triple_semver sample_openshift_env world_client world_system id ''ns'' ''my'' w)) \<and>
      om_OwnerReferences (cm_Meta (cms ! 0)) = []"
proof -
  let ?cms = "ca_config_maps sample_openshift_env sample_jaeger"
  let ?w = "\<lparr>w_objs = map OConfigMap ?cms, w_jaegers = [], w_files = Map.empty\<rparr>"
  have j: "j_Name sample_jaeger = ''my''" "jc_VolumeMounts (js_Common (j_Spec sample_jaeger)) = []"
    by (simp_all add: sample_jaeger_def NewJaeger_def JaegerSpec0_def JaegerCommonSpec0_def)
  have two: "length ?cms = 2"
    by (simp add: ca_config_maps_def GetTrustedCABundle_def GetServiceCABundle_def sample_openshift_env_platform deployTrustedCA_def deployServiceCA_def j Let_def)
  then have first: "?cms ! 0 \<in> set ?cms" "?cms \<noteq> []" by auto
  have "OConfigMap (?cms ! 0) \<in> world_objs ?w"
    using first by (cases ?cms) (simp_all add: world_objs_def mem_objs_def)
  from ca_config_maps_leak [OF world.isolated_server_axioms sample_jaeger_label_value _ first(1) this, of "''ns''" triple_semver id]
  show ?thesis using two by (simp add: j world_client_def Let_def)
qed

end
