(* ===== verification/Instance_Metrics.thy ===== *)
theory Instance_Metrics
  imports Upgrade
begin

text \<open>
  Package \<open>pkg/metrics\<close>, file \<open>instances.go\<close>: the gauges that count the instances by agent strategy, storage,
  strategy, provisioning and managing tool.  The meter of OpenTelemetry, which can refuse a gauge or the
  callback, and the API client are parameters; what the callback observes is a list of values.
  The main result compares the counters, which are kept between the callbacks, with a count from scratch.
\<close>

section \<open>One view\<close>

record instancesView =
  iv_Name :: string
  iv_Label :: string
  iv_Count :: "int amap"
  iv_KeyFn :: "Jaeger \<Rightarrow> string"

definition reset_view :: "instancesView \<Rightarrow> instancesView" where
  "reset_view i = i\<lparr>iv_Count := map (\<lambda>(k, n). (k, 0)) (iv_Count i)\<rparr>"

definition Record :: "Jaeger \<Rightarrow> instancesView \<Rightarrow> instancesView" where
  "Record jaeger i =
     (let label = iv_KeyFn i jaeger
      in if label = [] then i
         else i\<lparr>iv_Count := AList.update label ((case map_of (iv_Count i) label of None \<Rightarrow> 0 | Some n \<Rightarrow> n) + 1) (iv_Count i)\<rparr>)"

text \<open>An observed value: the name of the gauge, the attribute with its value, and the number.\<close>

type_synonym observation = "string \<times> (string \<times> string) \<times> int"

definition instanceMetricName :: "string \<Rightarrow> string" where
  "instanceMetricName name = ''jaeger_operator_instances_'' @ name"

definition Report :: "instancesView \<Rightarrow> observation list" where
  "Report i = map (\<lambda>(key, count). (instanceMetricName (iv_Name i), (iv_Label i, key), count)) (iv_Count i)"

section \<open>The views of the operator\<close>

definition newObservation :: "string \<Rightarrow> string \<Rightarrow> (Jaeger \<Rightarrow> string) \<Rightarrow> instancesView" where
  "newObservation name label keyFn = \<lparr>iv_Name = name, iv_Label = label, iv_Count = [], iv_KeyFn = keyFn\<rparr>"

definition instance_views :: "instancesView list" where
  "instance_views =
     [newObservation ''agent_strategies'' ''type'' (\<lambda>j. ToLower (ag_Strategy (js_Agent (j_Spec j)))),
      newObservation ''storage_types'' ''type'' (\<lambda>j. ToLower (st_Type (j_Storage j))),
      newObservation ''strategies'' ''type'' (\<lambda>j. ToLower (js_Strategy (j_Spec j))),
      newObservation ''autoprovisioning'' ''type''
        (\<lambda>j. if ShouldInjectOpenShiftElasticsearchConfiguration (j_Storage j) then ''elasticsearch'' else []),
      newObservation ''managed'' ''tool''
        (\<lambda>j. case mget (om_Labels (j_Meta j)) ''app.kubernetes.io/managed-by'' of None \<Rightarrow> ''none'' | Some managed \<Rightarrow> managed)]"

text \<open>The views are added one by one until the meter refuses a gauge.\<close>

fun add_observations :: "(string \<Rightarrow> goerr option) \<Rightarrow> instancesView list \<Rightarrow> instancesView list \<Rightarrow> instancesView list \<times> goerr option" where
  "add_observations gauge obs [] = (obs, None)"
| "add_observations gauge obs (v # vs) = (case gauge (instanceMetricName (iv_Name v)) of
     Some err \<Rightarrow> (obs, Some err) | None \<Rightarrow> add_observations gauge (obs @ [v]) vs)"

definition Setup :: "(string \<Rightarrow> goerr option) \<Rightarrow> goerr option \<Rightarrow> instancesView list \<times> goerr option" where
  "Setup gauge registered = (case add_observations gauge [] instance_views of
     (obs, Some err) \<Rightarrow> (obs, Some err) | (obs, None) \<Rightarrow> (obs, registered))"

section \<open>The callback\<close>

definition isInstanceNormalized :: "Jaeger \<Rightarrow> bool" where
  "isInstanceNormalized jaeger \<longleftrightarrow> \<not> (st_Type (j_Storage jaeger) = [] \<or> js_Strategy (j_Spec jaeger) = [])"

definition normalizeAgentStrategy :: "Jaeger \<Rightarrow> Jaeger" where
  "normalizeAgentStrategy jaeger =
     (if ag_Strategy (js_Agent (j_Spec jaeger)) = []
      then j_Spec_update (js_Agent_update (ag_Strategy_update (\<lambda>_. ''Sidecar''))) jaeger else jaeger)"

definition count_instance :: "Jaeger \<Rightarrow> instancesView list \<Rightarrow> instancesView list" where
  "count_instance jaeger vs = (if isInstanceNormalized jaeger then map (Record (normalizeAgentStrategy jaeger)) vs else vs)"

definition callback :: "'s Client \<Rightarrow> instancesView list \<Rightarrow> 's \<Rightarrow> (instancesView list \<times> observation list) \<times> 's" where
  "callback C views s = (case cl_ListJaegers C None [] s of
     (Inl err, s') \<Rightarrow> ((views, []), s')
   | (Inr items, s') \<Rightarrow>
       (let vs = fold count_instance items (map reset_view views) in ((vs, concat (map Report vs)), s')))"

section \<open>The counters are exact\<close>

definition counted :: "instancesView \<Rightarrow> Jaeger list \<Rightarrow> string \<Rightarrow> int" where
  "counted v js k = int (length (filter (\<lambda>j. isInstanceNormalized j \<and> iv_KeyFn v (normalizeAgentStrategy j) = k \<and> k \<noteq> []) js))"

definition tally :: "Jaeger \<Rightarrow> instancesView \<Rightarrow> instancesView" where
  "tally j v = (if isInstanceNormalized j then Record (normalizeAgentStrategy j) v else v)"

lemma count_instances: "fold count_instance js vs = map (\<lambda>v. fold tally js v) vs"
proof (induction js arbitrary: vs)
  case (Cons j js)
  have "count_instance j vs = map (tally j) vs" by (cases "isInstanceNormalized j") (simp_all add: count_instance_def tally_def map_idI)
  then show ?case by (simp add: Cons comp_def)
qed simp

lemma tally_KeyFn [simp]: "iv_KeyFn (tally j v) = iv_KeyFn v" "iv_Label (tally j v) = iv_Label v" "iv_Name (tally j v) = iv_Name v"
  by (simp_all add: tally_def Record_def Let_def)

lemma fold_tally_fields [simp]:
  "iv_KeyFn (fold tally js v) = iv_KeyFn v" "iv_Label (fold tally js v) = iv_Label v" "iv_Name (fold tally js v) = iv_Name v"
  by (induction js arbitrary: v) simp_all

text \<open>A counter of which nothing is known counts from zero.\<close>

definition count_of :: "instancesView \<Rightarrow> string \<Rightarrow> int" where
  "count_of v k = (case map_of (iv_Count v) k of None \<Rightarrow> 0 | Some n \<Rightarrow> n)"

lemma tally_count: "count_of (tally j v) k = count_of v k + counted v [j] k"
  by (auto simp: tally_def Record_def count_of_def counted_def Let_def update_conv' split: option.split)

lemma tally_keys: "k \<in> fst ` set (iv_Count (tally j v)) \<longleftrightarrow> k \<in> fst ` set (iv_Count v) \<or> counted v [j] k \<noteq> 0"
  by (auto simp: tally_def Record_def counted_def Let_def dom_update)

lemma counted_Cons: "counted v (j # js) k = counted v [j] k + counted v js k"
  by (simp add: counted_def)

lemma counted_cong: "iv_KeyFn v = iv_KeyFn v' \<Longrightarrow> counted v js k = counted v' js k"
  by (simp add: counted_def)

lemma counted_nonneg: "0 \<le> counted v js k"
  by (simp add: counted_def)

lemma fold_tally_count: "count_of (fold tally js v) k = count_of v k + counted v js k"
proof (induction js arbitrary: v)
  case (Cons j js)
  then show ?case using counted_cong [of "tally j v" v, OF tally_KeyFn(1)] by (simp add: tally_count counted_Cons [of v j js])
qed (simp add: counted_def)

lemma fold_tally_keys: "k \<in> fst ` set (iv_Count (fold tally js v)) \<longleftrightarrow> k \<in> fst ` set (iv_Count v) \<or> counted v js k \<noteq> 0"
proof (induction js arbitrary: v)
  case (Cons j js)
  then show ?case
    using counted_cong [of "tally j v" v, OF tally_KeyFn(1)] counted_nonneg [of v "[j]" k] counted_nonneg [of v js k]
    by (auto simp only: fold_simps comp_apply tally_keys counted_Cons [of v j js])
qed (simp add: counted_def)

lemma reset_view_count:
  "iv_KeyFn (reset_view v) = iv_KeyFn v" "count_of (reset_view v) k = 0" "fst ` set (iv_Count (reset_view v)) = fst ` set (iv_Count v)"
  by (auto simp: reset_view_def count_of_def image_image case_prod_beta split: option.split dest: map_of_SomeD)

text \<open>C40: the gauges agree with a count from scratch.  After a callback whose list of instances succeeds, the
  counter of every view for every value is the number of the normalised instances with that value, where an
  instance without a strategy for its agent counts as one with sidecars and the empty value is not
  counted; and the values that are reported are those that have been seen in this callback or before, the
  latter with zero once they are gone.  When the list fails nothing is reported and nothing changes.\<close>

theorem gauges_exact:
  "case callback C views s of ((vs, obs), s') \<Rightarrow>
     (case fst (cl_ListJaegers C None [] s) of
        Inl err \<Rightarrow> vs = views \<and> obs = []
      | Inr js \<Rightarrow> length vs = length views \<and> obs = concat (map Report vs) \<and>
          list_all2 (\<lambda>v v'. \<forall>k. count_of v' k = counted v js k \<and>
            (k \<in> fst ` set (iv_Count v') \<longleftrightarrow> k \<in> fst ` set (iv_Count v) \<or> 0 < counted v js k)) views vs)"
proof -
  obtain r s' where l: "cl_ListJaegers C None [] s = (r, s')" by (rule prod.exhaust)
  show ?thesis
  proof (cases r)
    case (Inr js)
    have "count_of (fold tally js (reset_view v)) k = counted v js k \<and>
        (k \<in> fst ` set (iv_Count (fold tally js (reset_view v))) \<longleftrightarrow> k \<in> fst ` set (iv_Count v) \<or> 0 < counted v js k)" for v k
      using counted_nonneg [of v js k] fold_tally_count [of js "reset_view v" k] fold_tally_keys [of k js "reset_view v"] counted_cong [of "reset_view v" v, OF reset_view_count(1)] by (auto simp: reset_view_count)
    then show ?thesis using Inr l by (simp add: callback_def Let_def count_instances list_all2_map2 list.rel_refl comp_def)
  qed (simp add: callback_def l)
qed

end
