(* ===== verification/Strategy_Properties.thy ===== *)
theory Strategy_Properties
  imports Strategy_Stability
begin

text \<open>
  The strategies as a whole: that building one succeeds for every normalised instance, that the
  instance is settled by one round, and what the objects of a strategy have in common.
\<close>

section \<open>Building a strategy does not fail\<close>

lemma Sidecar_total:
  assumes "agent_index (dep_Containers dep) = None" "dep_Annotations dep \<noteq> None"
  shows "\<exists>d'. Sidecar e j dep opt = Inr d'"
proof (cases "own_or_free j (dep_Labels dep)")
  case True
  obtain al where al: "decorate_annotations (dep_Annotations dep) = Inr al"
    using assms(2) decorate_annotations_total by (metis not_Some_eq)
  show ?thesis unfolding Sidecar_parts [OF True al] assms(1) by (simp add: idx_of_def agent_args_def agent_tags_arg_def Let_def)
next
  case False
  then show ?thesis by (auto simp: Sidecar_def own_or_free_def split: option.splits)
qed

lemma query_has_no_agent:
  "agent_index (dep_Containers (OAuthProxy e Intn j (Query_Get e j))) = None" "dep_Annotations (OAuthProxy e Intn j (Query_Get e j)) \<noteq> None"
  by (simp_all add: OAuthProxy_def Query_Get_def component_deployment_def component_pod_def component_container_def getOAuthProxyContainer_def
      Let_def)

definition two_args :: "PodSpec \<Rightarrow> bool" where
  "two_args p \<longleftrightarrow> list_all (\<lambda>c. length (c_Args c) = 2) (ps_Containers p)"

lemma InjectSecretsConfiguration_total: "two_args p \<Longrightarrow> \<exists>p'. InjectSecretsConfiguration j p = Inr p'"
  by (cases "ps_Containers p") (auto simp: InjectSecretsConfiguration_def two_args_def Let_def)

lemma map_res_total: "list_all (\<lambda>x. \<exists>y. f x = Inr y) xs \<Longrightarrow> \<exists>ys. map_res f xs = Inr ys"
  by (induction xs) auto

definition job_pod :: "Job \<Rightarrow> PodSpec" where
  "job_pod x = pt_Spec (js_Template (job_Spec x))"

definition cron_pod :: "CronJob \<Rightarrow> PodSpec" where
  "cron_pod x = pt_Spec (js_Template (cj_Job (cj_Spec x)))"

lemma autoProvision_total:
  assumes "list_all (\<lambda>x. two_args (job_pod x)) jobs" "list_all (\<lambda>x. two_args (cron_pod x)) crons"
  shows "\<exists>r. autoProvisionElasticsearch j jobs crons ds = Inr r"
proof -
  have "list_all (\<lambda>x. \<exists>y. upd_dependency (InjectSecretsConfiguration j) x = Inr y) jobs"
    "list_all (\<lambda>x. \<exists>y. upd_cron_job (InjectSecretsConfiguration j) x = Inr y) crons"
    using assms InjectSecretsConfiguration_total [of _ j]
    by (fastforce simp: list_all_iff upd_dependency_def upd_cron_job_def upd_job_pod_def job_pod_def cron_pod_def)+
  from this [THEN map_res_total] show ?thesis by (auto simp: autoProvisionElasticsearch_def Let_def)
qed

lemma jobs_two_args:
  "st_Type (j_Storage j) = JaegerESStorage \<Longrightarrow> list_all (\<lambda>x. two_args (job_pod x)) (fst (Dependencies e j))"
  "index_cleaner e j = Inr crons \<Longrightarrow> list_all (\<lambda>x. two_args (cron_pod x)) crons"
  "list_all (\<lambda>x. two_args (cron_pod x)) (es_rollover e j)"
proof -
  show "st_Type (j_Storage j) = JaegerESStorage \<Longrightarrow> list_all (\<lambda>x. two_args (job_pod x)) (fst (Dependencies e j))"
    by (simp add: Dependencies_def elasticsearchDependencies_def two_args_def job_pod_def Let_def)
  show "index_cleaner e j = Inr crons \<Longrightarrow> list_all (\<lambda>x. two_args (cron_pod x)) crons"
    by (auto simp: index_cleaner_def CreateEsIndexCleaner_def two_args_def cron_pod_def cron_job_def Let_def split: if_splits option.splits)
  show "list_all (\<lambda>x. two_args (cron_pod x)) (es_rollover e j)"
    by (simp add: es_rollover_def CreateRollover_def rollover_def lookback_def createTemplate_def two_args_def cron_pod_def cron_job_def Let_def)
qed

lemma provision_total:
  assumes "index_cleaner e j = Inr cleaner" "Dependencies e j = (deps, j')" "j' = settle_cassandra j"
  shows "\<exists>ds' deps' crons es. provision_if_needed j' deps (cleaner @ es_rollover e j) ds = Inr (ds', deps', crons, es)"
proof (cases "ShouldInjectOpenShiftElasticsearchConfiguration (j_Storage j')")
  case True
  then have "st_Type (j_Storage j) = JaegerESStorage"
    using assms(3) by (auto simp: ShouldInjectOpenShiftElasticsearchConfiguration_def settle_cassandra_def split: if_splits)
  then have "\<exists>r. autoProvisionElasticsearch j' deps (cleaner @ es_rollover e j) ds = Inr r"
    using jobs_two_args(1) [of j e] jobs_two_args(2) [OF assms(1)] jobs_two_args(3) [of e j] assms(2) by (intro autoProvision_total) auto
  then show ?thesis by (auto simp: provision_if_needed_def)
qed (simp add: provision_if_needed_def)

lemma index_cleaner_total:
  "ic_NumberOfDays (st_EsIndexCleaner (j_Storage j)) \<noteq> None \<Longrightarrow> \<exists>c. index_cleaner e j = Inr c"
  by (auto simp: index_cleaner_def CreateEsIndexCleaner_def Let_def)

lemma settle_query_keeps: "j_Storage (settle_query j) = j_Storage j" "j_Storage (settle_kafka j) = j_Storage j"
  by (simp_all add: settle_query_def settle_kafka_eq)

lemma newAllInOneStrategy_total:
  assumes "ic_NumberOfDays (st_EsIndexCleaner (j_Storage j)) \<noteq> None"
  shows "\<not> isl (newAllInOneStrategy e Intn j)"
proof (rule instance_pairs [of e j])
  fix ss qs ds
  assume p: "AllInOne_Services e j = (ss, settle_query j)" "Query_Services j = (qs, settle_query j)"
    "Dependencies e (settle_query j) = (ds, settle_cassandra (settle_query j))"
  obtain c where "index_cleaner e (settle_query j) = Inr c" using index_cleaner_total assms by (metis settle_query_keeps(1))
  then show ?thesis by (simp add: newAllInOneStrategy_def p Let_def)
qed

lemma newProductionStrategy_total:
  assumes "ic_NumberOfDays (st_EsIndexCleaner (j_Storage j)) \<noteq> None"
  shows "\<not> isl (newProductionStrategy e Intn j)"
proof (rule instance_pairs [of e j])
  fix ss qs ds
  assume p: "AllInOne_Services e j = (ss, settle_query j)" "Query_Services j = (qs, settle_query j)"
    "Dependencies e (settle_query j) = (ds, settle_cassandra (settle_query j))"
  obtain c where c: "index_cleaner e (settle_query j) = Inr c" using index_cleaner_total assms by (metis settle_query_keeps(1))
  let ?d = "[OAuthProxy e Intn (settle_query j) (Query_Get e (settle_query j)), Collector_Get e (settle_query j)]"
  obtain a b x y where "provision_if_needed (settle_cassandra (settle_query j)) ds (c @ es_rollover e (settle_query j)) ?d = Inr (a, b, x, y)"
    using provision_total [OF c p(3) refl, of ?d] by blast
  then show ?thesis by (simp add: newProductionStrategy_def p c Let_def)
qed

lemma newStreamingStrategy_total:
  assumes "ic_NumberOfDays (st_EsIndexCleaner (j_Storage j)) \<noteq> None" "js_Strategy (j_Spec j) = DeploymentStrategyStreaming"
  shows "\<not> isl (newStreamingStrategy e Intn j)"
proof -
  obtain m1 j1 where k: "(if provisions_kafka j then autoProvisionKafka e j (base_strategy e DeploymentStrategyStreaming j)
      else (base_strategy e DeploymentStrategyStreaming j, j)) = (m1, j1)" by (rule prod.exhaust)
  then have j1: "j1 = settle_kafka j"
    using snd_autoProvisionKafka [OF assms(2), of e] by (auto simp: settle_kafka_def split: if_splits dest: arg_cong [of _ _ snd])
  show ?thesis
  proof (rule instance_pairs [of e j1])
    fix ss qs ds
    assume p: "AllInOne_Services e j1 = (ss, settle_query j1)" "Query_Services j1 = (qs, settle_query j1)"
      "Dependencies e (settle_query j1) = (ds, settle_cassandra (settle_query j1))"
    let ?j = "settle_query j1"
    obtain c where c: "index_cleaner e ?j = Inr c" using index_cleaner_total assms(1) j1 by (metis settle_query_keeps)
    obtain d where d: "Sidecar e ?j (OAuthProxy e Intn ?j (Query_Get e ?j)) [] = Inr d" using Sidecar_total [OF query_has_no_agent] by blast
    have "\<exists>q. (if q_TracingEnabled (js_Query (j_Spec ?j)) = Some False then Inr (OAuthProxy e Intn ?j (Query_Get e ?j))
        else res_bind (Sidecar e ?j (OAuthProxy e Intn ?j (Query_Get e ?j)) []) (\<lambda>d. Inr (share_labels d))) = Inr q" by (simp add: d)
    then obtain q where q: "(if q_TracingEnabled (js_Query (j_Spec ?j)) = Some False then Inr (OAuthProxy e Intn ?j (Query_Get e ?j))
        else res_bind (Sidecar e ?j (OAuthProxy e Intn ?j (Query_Get e ?j)) []) (\<lambda>d. Inr (share_labels d))) = Inr q" ..
    obtain a b x y where r: "provision_if_needed (settle_cassandra ?j) ds (c @ es_rollover e ?j) (q # opt_list (Ingester_Get e ?j)) = Inr (a, b, x, y)"
      using provision_total [OF c p(3) refl] by blast
    show ?thesis unfolding newStreamingStrategy_def k Let_def prod.case p(2) c res_bind.simps q p(3) r by simp
  qed
qed

text \<open>The deprecated name of the strategy is replaced before anything else.\<close>

definition renamed :: "Jaeger \<Rightarrow> Jaeger" where
  "renamed j = (if js_Strategy (j_Spec j) = DeploymentStrategyDeprecatedAllInOne
     then j\<lparr>j_Spec := (j_Spec j)\<lparr>js_Strategy := DeploymentStrategyAllInOne\<rparr>\<rparr> else j)"

lemma builders_total:
  assumes "normalize e j = Inr k"
  shows "\<not> isl (if js_Strategy (j_Spec k) = DeploymentStrategyAllInOne then newAllInOneStrategy e Intn k
       else if js_Strategy (j_Spec k) = DeploymentStrategyStreaming then newStreamingStrategy e Intn k else newProductionStrategy e Intn k)"
proof -
  have "ic_NumberOfDays (st_EsIndexCleaner (j_Storage k)) \<noteq> None"
    using normalize_establishes_aux [OF assms] by (simp add: normal_spec_def normal_storage_def)
  then show ?thesis using newAllInOneStrategy_total newStreamingStrategy_total newProductionStrategy_total by simp
qed

lemma For_fails_iff: "For e Intn j = Inl err \<longleftrightarrow> normalize e (renamed j) = Inl err"
proof (cases "normalize e (renamed j)")
  case (Inl x)
  then show ?thesis by (simp add: For_def renamed_def)
next
  case (Inr k)
  then show ?thesis using builders_total [OF Inr, of Intn] by (auto simp: For_def renamed_def isl_def)
qed

text \<open>The options of the UI from which normalising starts, and the ones it can work on: a map whose menu,
  when it has one, is a list.\<close>

definition ui_map :: "FreeForm \<Rightarrow> iface gomap" where
  "ui_map f = (if IsEmpty f then Some [] else (case GetMap f of Inr m \<Rightarrow> m | Inl err \<Rightarrow> Some []))"

definition is_arr :: "iface \<Rightarrow> bool" where
  "is_arr v = (case v of IArr vs \<Rightarrow> True | _ \<Rightarrow> False)"

definition ui_usable :: "iface gomap \<Rightarrow> bool" where
  "ui_usable m = (m \<noteq> None \<and> pred_option is_arr (mget m ''menu''))"

definition succeeds_usable :: "iface gomap res \<Rightarrow> bool" where
  "succeeds_usable r = (case r of Inl err \<Rightarrow> False | Inr m \<Rightarrow> ui_usable m)"

lemma is_arr_simps [simp]: "is_arr (IArr vs)"
  by (simp add: is_arr_def)

lemma succeeds_usable_simps [simp]:
  "succeeds_usable (Inr m) = ui_usable m" "\<not> succeeds_usable (Inl err)"
  by (simp_all add: succeeds_usable_def)

lemma succeeds_usable_mput:
  assumes "ui_usable m" and "if k = ''menu'' then is_arr v else True"
  shows "succeeds_usable (mput k v m)"
  using assms by (cases m) (auto simp: ui_usable_def mget_def update_conv' split: if_splits)

lemma enableArchiveButton_usable: "ui_usable m \<Longrightarrow> succeeds_usable (enableArchiveButton so m)"
  by (simp add: enableArchiveButton_def succeeds_usable_mput)

lemma disableDependenciesTab_usable: "ui_usable m \<Longrightarrow> succeeds_usable (disableDependenciesTab t d m)"
  by (auto simp: disableDependenciesTab_def succeeds_usable_mput split: option.split iface.split)

lemma enableDocumentationLink_usable: "ui_usable m \<Longrightarrow> succeeds_usable (enableDocumentationLink e m)"
  by (auto simp: enableDocumentationLink_def succeeds_usable_mput ui_usable_def is_arr_def
      split: option.split iface.split bool.split prod.split)

lemma enableLogOut_usable: "ui_usable m \<Longrightarrow> succeeds_usable (enableLogOut sp m)"
  by (auto simp: enableLogOut_def succeeds_usable_mput ui_usable_def is_arr_def split: option.split iface.split)

lemma normalizeUI_usable:
  assumes "ui_usable (ui_map (js_UIOptions sp))"
  shows "\<not> isl (normalizeUI e sp)"
proof -
  have step: "\<exists>u. r = Inr u \<and> ui_usable u" if "succeeds_usable r" for r
    using that by (cases r) auto
  obtain u1 where 1: "enableArchiveButton (StringMap (st_Options (js_Storage sp))) (ui_map (js_UIOptions sp)) = Inr u1" "ui_usable u1"
    using step [OF enableArchiveButton_usable [OF assms]] by blast
  obtain u2 where 2: "disableDependenciesTab (st_Type (js_Storage sp)) (jd_Enabled (st_Dependencies (js_Storage sp))) u1 = Inr u2" "ui_usable u2"
    using step [OF disableDependenciesTab_usable [OF 1(2)]] by blast
  obtain u3 where 3: "enableDocumentationLink e u2 = Inr u3" "ui_usable u3"
    using step [OF enableDocumentationLink_usable [OF 2(2)]] by blast
  obtain u4 where 4: "enableLogOut sp u3 = Inr u4" using step [OF enableLogOut_usable [OF 3(2)]] by blast
  show ?thesis unfolding normalizeUI_def Let_def ui_map_def [symmetric] 1(1) 2(1) 3(1) 4 res_bind.simps by simp
qed

section \<open>The type of the strategy\<close>

lemma S_typ_add_access [simp]: "S_typ (add_access e j c) = S_typ c"
  by (auto simp: add_access_def split: option.split)

lemma S_typ_base [simp]: "S_typ (base_strategy e t j) = t"
  by (simp add: base_strategy_def)

lemma S_typ_autoProvisionKafka: "S_typ (fst (autoProvisionKafka e j m)) = S_typ m"
  by (simp add: autoProvisionKafka_def Let_def)

lemma newAllInOneStrategy_typ: "newAllInOneStrategy e Intn j = Inr (str, j') \<Longrightarrow> S_typ str = DeploymentStrategyAllInOne"
  by (auto simp: newAllInOneStrategy_def Let_def res_bind_Inr_iff case_prod_beta)

lemma newProductionStrategy_typ: "newProductionStrategy e Intn j = Inr (str, j') \<Longrightarrow> S_typ str = DeploymentStrategyProduction"
  by (auto simp: newProductionStrategy_def Let_def res_bind_Inr_iff case_prod_beta)

lemma newStreamingStrategy_typ:
  assumes "newStreamingStrategy e Intn j = Inr (str, j')"
  shows "S_typ str = DeploymentStrategyStreaming"
proof -
  obtain m1 j1 where k: "(if provisions_kafka j then autoProvisionKafka e j (base_strategy e DeploymentStrategyStreaming j)
      else (base_strategy e DeploymentStrategyStreaming j, j)) = (m1, j1)" by (rule prod.exhaust)
  then have "S_typ m1 = DeploymentStrategyStreaming"
    using S_typ_autoProvisionKafka [of e j "base_strategy e DeploymentStrategyStreaming j"] by (auto split: if_splits)
  then show ?thesis using assms
    unfolding newStreamingStrategy_def Let_def k prod.case by (auto simp: res_bind_Inr_iff case_prod_beta split: if_splits)
qed

lemma normalize_core_ui: "js_UIOptions (j_Spec (normalize_core e j)) = js_UIOptions (j_Spec j)"
proof -
  have "js_UIOptions (normalize_strategy sp) = js_UIOptions sp" for sp
    by (simp add: normalize_strategy_def Let_def)
  then show ?thesis by (simp add: normalize_core_def Let_def normalize_labels_def normalize_name_def)
qed

lemma normalize_usable:
  assumes "ui_usable (ui_map (js_UIOptions (j_Spec j)))"
  obtains k where "normalize e (renamed j) = Inr k"
proof -
  have "js_UIOptions (j_Spec (renamed j)) = js_UIOptions (j_Spec j)" by (simp add: renamed_def)
  then have "\<not> isl (normalizeUI e (j_Spec (normalize_core e (renamed j))))"
    using assms by (intro normalizeUI_usable) (simp add: normalize_core_ui)
  then obtain sp where "normalizeUI e (j_Spec (normalize_core e (renamed j))) = Inr sp"
    by (cases "normalizeUI e (j_Spec (normalize_core e (renamed j)))") auto
  then show thesis using that by (simp add: Normalize.normalize_def Let_def)
qed

lemma For_typ:
  assumes "For e Intn j = Inr (str, j')"
  shows "S_typ str = js_Strategy (j_Spec j')" (is ?same)
    and "S_typ str \<in> {DeploymentStrategyAllInOne, DeploymentStrategyProduction, DeploymentStrategyStreaming}" (is ?known)
proof -
  obtain k where k: "normalize e (renamed j) = Inr k"
    "(if js_Strategy (j_Spec k) = DeploymentStrategyAllInOne then newAllInOneStrategy e Intn k
       else if js_Strategy (j_Spec k) = DeploymentStrategyStreaming then newStreamingStrategy e Intn k else newProductionStrategy e Intn k)
     = Inr (str, j')"
    using assms by (auto simp: For_def renamed_def res_bind_Inr_iff)
  have known: "js_Strategy (j_Spec k) \<in> {DeploymentStrategyAllInOne, DeploymentStrategyProduction, DeploymentStrategyStreaming}"
    using normalize_establishes_aux [OF k(1)] by (simp add: normal_spec_def)
  then have ty: "S_typ str = js_Strategy (j_Spec k)"
    using k(2) newAllInOneStrategy_typ newStreamingStrategy_typ newProductionStrategy_typ by (auto split: if_splits)
  have "j' = settle k"
    using k(2) newAllInOneStrategy_instance newStreamingStrategy_instance newProductionStrategy_instance
    by (auto split: if_splits)
  then show ?same using ty by (simp add: settle_frame)
  show ?known using ty known by simp
qed

lemma For_returns:
  assumes "ui_usable (ui_map (js_UIOptions (j_Spec j)))"
  shows "\<exists>str j'. For e Intn j = Inr (str, j')"
proof -
  obtain k where "normalize e (renamed j) = Inr k" by (rule normalize_usable [OF assms])
  then have "For e Intn j \<noteq> Inl err" for err by (simp add: For_fails_iff)
  then show ?thesis by (cases "For e Intn j") auto
qed

text \<open>C10: choosing a strategy never fails on an instance whose options of the UI are usable, that is, absent, empty,
  unreadable, or a JSON object whose menu, if any, is a list: every instance gets a strategy of one of the three types, the one
  that the instance which is stored then names.  (For other options normalising panics: \<open>null\<close> is read as a nil
  map and a menu that is no list fails a type assertion.)\<close>

theorem For_total:
  assumes "ui_usable (ui_map (js_UIOptions (j_Spec j)))"
  shows "\<exists>str j'. For e Intn j = Inr (str, j') \<and> S_typ str = js_Strategy (j_Spec j') \<and>
    S_typ str \<in> {DeploymentStrategyAllInOne, DeploymentStrategyProduction, DeploymentStrategyStreaming}"
  using For_returns [OF assms, of e Intn] For_typ by blast

theorem For_total_witness:
  "\<exists>str j'. For sample_env id sample_misconfigured = Inr (str, j') \<and> S_typ str = js_Strategy (j_Spec j')"
proof -
  have "ui_usable (ui_map (js_UIOptions (j_Spec sample_misconfigured)))"
    by (simp add: sample_misconfigured_def NewJaeger_def JaegerSpec0_def FreeForm0_def ui_map_def IsEmpty_def ui_usable_def)
  from For_total [OF this] show ?thesis by blast
qed


lemma For_ui:
  assumes "For e Intn j = Inr (str, j')" and "normalize e (renamed j) = Inr k"
  shows "js_UIOptions (j_Spec j') = js_UIOptions (j_Spec k)"
proof -
  have "with_ui (js_UIOptions (j_Spec k)) k = k" by simp
  then have "settle k = with_ui (js_UIOptions (j_Spec k)) (settle k)" using settle_ui by metis
  then have "js_UIOptions (j_Spec (settle k)) = js_UIOptions (j_Spec (with_ui (js_UIOptions (j_Spec k)) (settle k)))" by metis
  moreover have "j' = settle k" using For_instance [OF assms(1)] assms(2) by (metis renamed_def sum.inject(2))
  ultimately show ?thesis by simp
qed


end
