(* ===== verification/Deployment_Wiring.thy ===== *)
theory Deployment_Wiring
  imports Deployments
begin

text \<open>
  How the objects of \<open>pkg/deployment\<close> fit together: the volumes behind the mounts of a pod, the pods
  that the services select, the container ports that the services reach, and the autoscalers of the
  deployments.
\<close>

section \<open>Mounts and volumes\<close>

text \<open>The mounts of a pod that none of its volumes backs; the API server refuses such a pod.\<close>

definition dangling_mounts :: "PodSpec \<Rightarrow> string set" where
  "dangling_mounts pod = vm_Name ` set (concat (map c_VolumeMounts (ps_Containers pod @ ps_InitContainers pod)))
     - vol_Name ` set (ps_Volumes pod)"

definition pod_config_maps :: "PodSpec \<Rightarrow> string set" where
  "pod_config_maps pod = set (config_maps_of (ps_Volumes pod))"

abbreviation (input) "pod_of d \<equiv> pt_Spec (ds_Template (dep_Spec d))"

lemma Merge_volumes:
  "vol_Name ` set (jc_Volumes (Merge cs)) = (\<Union>c \<in> set cs. vol_Name ` set (jc_Volumes c))"
  "vm_Name ` set (jc_VolumeMounts (Merge cs)) = (\<Union>c \<in> set cs. vm_Name ` set (jc_VolumeMounts c))"
  "set (jc_Volumes (Merge cs)) \<subseteq> (\<Union>c \<in> set cs. set (jc_Volumes c))"
  by (auto simp: Merge_def Let_def fold_merge_lists JaegerCommonSpec0_def names_dedup_volumes names_dedup_mounts dest!: subsetD [OF volumes.dedup_subset])

lemma with_istio_other [simp]:
  "jc_Volumes (with_istio c) = jc_Volumes c" "jc_VolumeMounts (with_istio c) = jc_VolumeMounts c"
  "jc_Labels (with_istio c) = jc_Labels c"
  by (simp_all add: with_istio_def)

lemma unresolved_component_common:
  "unresolved (component_common j c a l) \<subseteq> unresolved c \<union> unresolved (js_Common (j_Spec j))"
  by (auto simp: unresolved_def component_common_def Merge_volumes base_common_spec_def JaegerCommonSpec0_def)

lemma config_maps_component_common:
  "set (config_maps_of (jc_Volumes (component_common j c a l)))
     \<subseteq> set (config_maps_of (jc_Volumes c)) \<union> set (config_maps_of (jc_Volumes (js_Common (j_Spec j))))"
proof -
  have "set (jc_Volumes (component_common j c a l)) \<subseteq> set (jc_Volumes c @ jc_Volumes (js_Common (j_Spec j)))"
    using Merge_volumes(3) [of "[c, js_Common (j_Spec j), base_common_spec a l]"]
    by (auto simp: component_common_def base_common_spec_def JaegerCommonSpec0_def)
  from config_maps_of_mono [OF this] show ?thesis by simp
qed

text \<open>The config maps that the operator creates for an instance.\<close>

definition created_config_maps :: "Env \<Rightarrow> Jaeger \<Rightarrow> string list" where
  "created_config_maps e j = names_of (ui_Get j) @ names_of (sampling_Get j) @ names_of (GetTrustedCABundle e j) @ names_of (GetServiceCABundle e j)"

lemma pod_patch_mono: "pod_patch p xs \<Longrightarrow> set xs \<subseteq> set ys \<Longrightarrow> pod_patch p ys"
  unfolding pod_patch_def by blast

lemma patch_comp: "pod_patch p xs \<Longrightarrow> pod_patch q xs \<Longrightarrow> pod_patch (\<lambda>c. q (p c)) xs"
  using pod_patch_comp by (rule pod_patch_mono) auto

text \<open>The arguments that an update adds do not depend on the specification it changes.\<close>

lemma update_pair:
  "ui_Update j (c, options) = (fst (ui_Update j (c, options)), snd (ui_Update j (JaegerCommonSpec0, options)))"
  "sampling_Update j (c, options) = (fst (sampling_Update j (c, options)), snd (sampling_Update j (JaegerCommonSpec0, options)))"
  by (simp_all add: ui_Update_def sampling_Update_def)

lemma config_patches:
  "pod_patch (ca_Update e j) (created_config_maps e j)" "pod_patch (AddServiceCA e j) (created_config_maps e j)"
  "pod_patch (\<lambda>c. fst (tls_Update e j (c, options))) (created_config_maps e j)"
  "pod_patch (\<lambda>c. fst (sampling_Update j (c, options))) (created_config_maps e j)"
  "pod_patch (\<lambda>c. fst (ui_Update j (c, options))) (created_config_maps e j)"
  "pod_patch (UpdateGRPCPlugin j) (created_config_maps e j)"
  by (rule pod_patch_mono, rule ca_patch.pod_patch_axioms service_ca_patch.pod_patch_axioms tls_patch.pod_patch_axioms
      sampling_patch.pod_patch_axioms ui_patch.pod_patch_axioms plugin_patch.pod_patch_axioms, auto simp: created_config_maps_def)+

lemma AllInOne_config_patch: "pod_patch (\<lambda>c. fst (AllInOne_config e j (c, options))) (created_config_maps e j)"
proof -
  define o1 where "o1 = snd (ui_Update j (JaegerCommonSpec0, options))"
  define o2 where "o2 = snd (sampling_Update j (JaegerCommonSpec0, o1))"
  define c2 where "c2 = (\<lambda>c. fst (sampling_Update j (fst (ui_Update j (c, options)), o1)))"
  have c2: "pod_patch c2 (created_config_maps e j)"
    unfolding c2_def by (rule patch_comp [OF config_patches(5) config_patches(4)])
  have p1: "sampling_Update j (ui_Update j (c, options)) = (c2 c, o2)" for c
    unfolding c2_def o1_def o2_def by (subst update_pair, subst update_pair(2)) (rule refl)
  have "pod_patch (\<lambda>c. if length (FindItem ''--collector.grpc.tls.enabled='' o2) = 0 then fst (tls_Update e j (c2 c, o2)) else c2 c)
      (created_config_maps e j)"
    by (rule pod_patch_if, rule patch_comp [OF c2 config_patches(3)], rule c2)
  from patch_comp [OF patch_comp [OF patch_comp [OF this config_patches(1)] config_patches(2)] config_patches(6)]
  show ?thesis unfolding AllInOne_config_def Let_def fst_conv snd_conv p1 if_distrib [of fst] .
qed

lemma Collector_config_patch: "pod_patch (\<lambda>c. fst (Collector_config e j args (c, options))) (created_config_maps e j)"
proof -
  define o2 where "o2 = snd (sampling_Update j (JaegerCommonSpec0, options))"
  define c2 where "c2 = (\<lambda>c. fst (sampling_Update j (c, options)))"
  have c2: "pod_patch c2 (created_config_maps e j)" unfolding c2_def by (rule config_patches(4))
  have p1: "sampling_Update j (c, options) = (c2 c, o2)" for c
    unfolding c2_def o2_def by (rule update_pair)
  have "pod_patch (\<lambda>c. if length (FindItem ''--collector.grpc.tls.enabled='' args) = 0 then fst (tls_Update e j (c2 c, o2)) else c2 c)
      (created_config_maps e j)"
    by (rule pod_patch_if, rule patch_comp [OF c2 config_patches(3)], rule c2)
  from patch_comp [OF patch_comp [OF this config_patches(1)] config_patches(6)]
  show ?thesis unfolding Collector_config_def Let_def fst_conv snd_conv p1 if_distrib [of fst] .
qed

lemma Query_config_patch: "pod_patch (\<lambda>c. fst (Query_config e j (c, options))) (created_config_maps e j)"
  unfolding Query_config_def Let_def fst_conv 
  by (rule patch_comp [OF patch_comp [OF config_patches(5) config_patches(1)] config_patches(6)])

text \<open>What a pod built from a patched specification inherits from the blocks of the instance.\<close>

definition wired :: "Env \<Rightarrow> Jaeger \<Rightarrow> JaegerCommonSpec \<Rightarrow> PodSpec \<Rightarrow> bool" where
  "wired e j own pod \<longleftrightarrow>
     dangling_mounts pod \<subseteq> unresolved own \<union> unresolved (js_Common (j_Spec j)) \<and>
     pod_config_maps pod \<subseteq> set (config_maps_of (jc_Volumes own)) \<union> set (config_maps_of (jc_Volumes (js_Common (j_Spec j))))
       \<union> set (created_config_maps e j)"

lemma wired_patch:
  assumes "pod_patch patch (created_config_maps e j)"
    and "ps_Volumes pod = jc_Volumes (patch (component_common j own a l))"
    and "vm_Name ` set (concat (map c_VolumeMounts (ps_Containers pod @ ps_InitContainers pod)))
      \<subseteq> vm_Name ` set (jc_VolumeMounts (patch (component_common j own a l)))"
  shows "wired e j own pod"
proof -
  let ?c = "component_common j own a l"
  have "dangling_mounts pod \<subseteq> unresolved (patch ?c)"
    using assms(3) unfolding dangling_mounts_def unresolved_def assms(2) by (rule Diff_mono) (rule subset_refl)
  also have "\<dots> \<subseteq> unresolved ?c" by (rule pod_patch.resolves [OF assms(1)])
  also have "\<dots> \<subseteq> unresolved own \<union> unresolved (js_Common (j_Spec j))" by (rule unresolved_component_common)
  finally show ?thesis
    using pod_patch.sources [OF assms(1), of ?c] config_maps_component_common [of j own a l]
    unfolding wired_def pod_config_maps_def assms(2) by (meson Un_mono subset_refl subset_trans)
qed

lemma wired_component_pod:
  assumes "pod_patch patch (created_config_maps e j)"
    and "ps_Volumes pod = jc_Volumes (patch (component_common j own a l))"
    and "map c_VolumeMounts (ps_Containers pod) = [jc_VolumeMounts (patch (component_common j own a l))]"
    and "ps_InitContainers pod = GetGRPCPluginInitContainers j (patch (component_common j own a l))"
  shows "wired e j own pod"
  by (rule wired_patch [OF assms(1,2)]) (simp add: assms(3,4) GetGRPCPluginInitContainers_def)

lemma component_pod_parts [simp]:
  "ps_Volumes (component_pod j c s ctr acc) = jc_Volumes c" "ps_Containers (component_pod j c s ctr acc) = [ctr]"
  "ps_InitContainers (component_pod j c s ctr acc) = GetGRPCPluginInitContainers j c"
  by (simp_all add: component_pod_def)

lemma component_container_mounts [simp]: "c_VolumeMounts (component_container own c p i n as env ef ps) = jc_VolumeMounts c"
  by (simp add: component_container_def)

lemma pod_of_component_deployment [simp]: "pod_of (component_deployment j n c a r s pod) = pod"
  by (simp add: component_deployment_def)

lemma AllInOne_wired: "wired e j (aio_Common (js_AllInOne (j_Spec j))) (pod_of (AllInOne_Get e j))"
  unfolding AllInOne_Get_def Let_def pod_of_component_deployment
  by (rule wired_component_pod [OF AllInOne_config_patch]) simp_all

lemma Collector_wired: "wired e j (col_Common (js_Collector (j_Spec j))) (pod_of (Collector_Get e j))"
  unfolding Collector_Get_def Let_def pod_of_component_deployment
  by (rule wired_component_pod [OF Collector_config_patch]) simp_all

lemma Query_wired: "wired e j (q_Common (js_Query (j_Spec j))) (pod_of (Query_Get e j))"
  unfolding Query_Get_def Let_def pod_of_component_deployment
  by (rule wired_component_pod [OF Query_config_patch]) simp_all

lemma Ingester_wired: "Ingester_Get e j = Some d \<Longrightarrow> wired e j (igr_Common (js_Ingester (j_Spec j))) (pod_of d)"
  unfolding Ingester_Get_def Let_def
  by (clarsimp split: if_split_asm, rule wired_component_pod [OF patch_comp [OF config_patches(1) config_patches(6)]]) simp_all

lemma Agent_wired:
  assumes "Agent_Get e j = Some d"
  shows "wired e j (ag_Common (js_Agent (j_Spec j))) (pt_Spec (dae_Template d))"
proof -
  have s: "EqualFold (ag_Strategy (js_Agent (j_Spec j))) ''daemonset''"
    using assms by (rule_tac ccontr) (simp add: Agent_Get_def)
  show ?thesis
    using assms unfolding Agent_Get_def Let_def
    by (simp only: s not_True_eq_False if_False option.inject, hypsubst,
        rule_tac wired_patch [OF patch_comp [OF config_patches(1) config_patches(2)]],
        simp add: PodSpec0_def, simp add: PodSpec0_def)
qed


section \<open>Selectors\<close>

text \<open>A selector matches the pods that carry all its labels.\<close>

definition selects :: "string gomap \<Rightarrow> string gomap \<Rightarrow> bool" where
  "selects sel labels \<longleftrightarrow> list_all (\<lambda>(k, v). mget labels k = Some v) (entries sel)"

definition template_labels :: "Deployment \<Rightarrow> string gomap" where
  "template_labels d = om_Labels (pt_Meta (ds_Template (dep_Spec d)))"

text \<open>Some block gives a default label another value.\<close>

definition relabelled :: "string gomap \<Rightarrow> JaegerCommonSpec list \<Rightarrow> bool" where
  "relabelled labels cs \<longleftrightarrow>
     list_ex (\<lambda>(k, v). case first_some (\<lambda>c. mget (jc_Labels c) k) cs of None \<Rightarrow> False | Some w \<Rightarrow> w \<noteq> v) (entries labels)"

lemma component_common_labels:
  "jc_Labels (component_common j c a l) = jc_Labels (Merge [c, js_Common (j_Spec j), base_common_spec a l])"
  by (simp add: component_common_def)

lemma deployment_labels [simp]:
  "template_labels (component_deployment j n c a r s pod) = jc_Labels c"
  "ds_Selector (dep_Spec (component_deployment j n c a r s pod)) = Some (jc_Labels c)"
  by (simp_all add: template_labels_def component_deployment_def)

lemma template_labels_of:
  "template_labels (AllInOne_Get e j) = jc_Labels (Merge [aio_Common (js_AllInOne (j_Spec j)), js_Common (j_Spec j),
     base_common_spec (base_annotations (GetAdminPort (ToArgs (aio_Options (js_AllInOne (j_Spec j)))) 14269)) (AllInOne_labels j)])"
  "template_labels (Collector_Get e j) = jc_Labels (Merge [col_Common (js_Collector (j_Spec j)), js_Common (j_Spec j),
     base_common_spec (base_annotations (GetAdminPort (ToArgs (col_Options (js_Collector (j_Spec j)))) 14269)) (Collector_labels j)])"
  "template_labels (Query_Get e j) = jc_Labels (Merge [q_Common (js_Query (j_Spec j)), js_Common (j_Spec j),
     base_common_spec (Query_annotations j (GetAdminPort (ToArgs (q_Options (js_Query (j_Spec j)))) 16687)) (Query_labels j)])"
  by (simp_all only: AllInOne_Get_def Collector_Get_def Query_Get_def Let_def deployment_labels component_common_labels
      pod_patch.patch_other_fields(1) [OF AllInOne_config_patch] pod_patch.patch_other_fields(1) [OF Collector_config_patch]
      pod_patch.patch_other_fields(1) [OF Query_config_patch])

lemma merged_labels:
  "mget (jc_Labels (Merge [c, d, base_common_spec a l])) k = or_else (mget (jc_Labels c) k) (or_else (mget (jc_Labels d) k) (mget l k))"
  by (simp add: Merge_fields base_common_spec_def or_else_def split: option.split)

lemma distinct_Labels: "distinct (map fst (entries (Labels n c j)))"
  by (simp add: Labels_def entries_def)

lemma selects_merged:
  assumes "distinct (map fst (entries l))"
  shows "selects l (jc_Labels (Merge [c, d, base_common_spec a l])) \<longleftrightarrow> \<not> relabelled l [c, d]"
proof -
  have "mget l k = Some v" if "(k, v) \<in> set (entries l)" for k v using assms that by (simp add: mget_def)
  then have "mget (jc_Labels (Merge [c, d, base_common_spec a l])) k = Some v \<longleftrightarrow>
      \<not> (case first_some (\<lambda>c. mget (jc_Labels c) k) [c, d] of None \<Rightarrow> False | Some w \<Rightarrow> w \<noteq> v)"
    if "(k, v) \<in> set (entries l)" for k v
    using that by (simp add: merged_labels or_else_def split: option.split)
  then show ?thesis by (auto simp: selects_def relabelled_def list_all_iff list_ex_iff)
qed

lemma Merge_labels_only:
  "jc_Labels (Merge [c, d, JaegerCommonSpec0\<lparr>jc_Labels := l\<rparr>]) = jc_Labels (Merge [c, d, base_common_spec a l])"
  by (simp add: Merge_def merge_step_def base_common_spec_def Let_def)

lemma service_selectors:
  "ss_Selector (svc_Spec (headlessCollectorService e j l)) = l" "ss_Selector (svc_Spec (clusteripCollectorService e j l)) = l"
  "ss_Selector (svc_Spec (fst (NewQueryService j l))) = l" "ss_Selector (svc_Spec (NewAgentService j l)) = l"
  by (simp_all add: headlessCollectorService_def clusteripCollectorService_def collectorService_def NewQueryService_def
      NewAgentService_def service_object_def Let_def)

text \<open>C15: which pods the services reach.  The services of the all-in-one strategy select by exactly the
  labels of its pods, whatever labels the instance sets.  The services of the collector and of the
  query component select by the default labels, and reach their pods if and only if neither the
  component's block nor the common block gives one of the default labels another value; otherwise the
  service has no endpoints.\<close>

theorem services_select_pods:
  "list_all (\<lambda>s. ss_Selector (svc_Spec s) = template_labels (AllInOne_Get e j)) (fst (AllInOne_Services e j)) \<and>
   (list_all (\<lambda>s. selects (ss_Selector (svc_Spec s)) (template_labels (Collector_Get e j))) (Collector_Services e j) \<longleftrightarrow>
      \<not> relabelled (Collector_labels j) [col_Common (js_Collector (j_Spec j)), js_Common (j_Spec j)]) \<and>
   (list_all (\<lambda>s. selects (ss_Selector (svc_Spec s)) (template_labels (Query_Get e j))) (fst (Query_Services j)) \<longleftrightarrow>
      \<not> relabelled (Query_labels j) [q_Common (js_Query (j_Spec j)), js_Common (j_Spec j)])"
  unfolding template_labels_of AllInOne_Services_def Collector_Services_def Query_Services_def NewCollectorServices_def Let_def
    Merge_labels_only Collector_labels_def Query_labels_def
  by (simp add: service_selectors selects_merged distinct_Labels) (simp only: Merge_labels_only)

section \<open>Ports\<close>

text \<open>A service port is served when some container of the pod declares its target port.\<close>

definition target_port :: "ServicePort \<Rightarrow> int" where
  "target_port p = (case sp_TargetPort p of None \<Rightarrow> sint (sp_Port p) | Some t \<Rightarrow> t)"

definition pod_ports :: "Deployment \<Rightarrow> int set" where
  "pod_ports d = set (map (\<lambda>c. sint (cp_ContainerPort c)) (concat (map c_Ports (ps_Containers (pod_of d)))))"

definition served :: "Deployment \<Rightarrow> ServicePort \<Rightarrow> bool" where
  "served d p \<longleftrightarrow> target_port p \<in> pod_ports d"

lemma FindItem_exists: "p \<noteq> [] \<Longrightarrow> length (FindItem p args) \<noteq> 0 \<longleftrightarrow> list_ex (\<lambda>a. HasPrefix a p) args"
  by (induction args) (auto simp: HasPrefix_iff)

lemma IsOTLPEnable_iff:
  "IsOTLPEnable args \<longleftrightarrow> \<not> list_ex (\<lambda>a. HasPrefix a ''--collector.otlp.enabled='') args \<or>
     list_ex (\<lambda>a. HasPrefix a ''--collector.otlp.enabled=true'') args"
  unfolding IsOTLPEnable_def IsOTLPExplcitSet_def by (subst (1 2) FindItem_exists) simp_all

text \<open>Arguments that do not speak of the OTLP receiver.\<close>

definition no_otlp :: "string list \<Rightarrow> bool" where
  "no_otlp args \<longleftrightarrow> \<not> list_ex (\<lambda>a. HasPrefix a ''--collector.otlp.enabled='') args"

lemma prefix_clash: "HasPrefix a q \<Longrightarrow> HasPrefix a r \<Longrightarrow> take (length r) q = take (length q) r"
  unfolding HasPrefix_iff by (metis min.commute take_take)

lemma IsOTLPEnable_cong:
  assumes "set args' = set args \<union> set extra" "no_otlp extra"
  shows "IsOTLPEnable args' = IsOTLPEnable args"
proof -
  have "list_ex P args' \<longleftrightarrow> list_ex P args \<or> list_ex P extra" for P using assms(1) by (auto simp: list_ex_iff)
  moreover have "HasPrefix a ''--collector.otlp.enabled=''" if "HasPrefix a ''--collector.otlp.enabled=true''" for a
    using that by (rule HasPrefix_trans) (simp add: HasPrefix_iff)
  ultimately show ?thesis using assms(2) by (auto simp: IsOTLPEnable_iff no_otlp_def list_ex_iff)
qed

lemma arg_of_prefix: "a \<in> set (arg_of (k, v)) \<Longrightarrow> HasPrefix k p \<Longrightarrow> HasPrefix a (''--'' @ p)"
  by (cases v) (auto simp: HasPrefix_iff, metis length_take min.cobounded1, metis length_take min.cobounded1)

lemma storage_args_no_otlp:
  assumes "t \<in> set ValidStorageTypes"
  shows "no_otlp (ToArgs (Filter options (OptionsPrefix t)))"
proof -
  have "\<not> HasPrefix a ''--collector.otlp.enabled=''"
    if "a \<in> set (arg_of (k, v))" "HasPrefix k (OptionsPrefix t @ ''.'') \<or> HasPrefix k (OptionsPrefix t @ ''-archive.'')" for a k v
    using that(2) assms
    by (auto simp: ValidStorageTypes_def OptionsPrefix_def dest!: arg_of_prefix [OF that(1)] dest: prefix_clash)
  then show ?thesis by (auto simp: no_otlp_def ToArgs_def Filter_def Let_def list_ex_iff entries_def split: option.splits)
qed

lemma update_args_no_otlp:
  "\<exists>extra. snd (ui_Update j (c, options)) = options @ extra \<and> no_otlp extra"
  "\<exists>extra. snd (sampling_Update j (c, options)) = options @ extra \<and> no_otlp extra"
  "\<exists>extra. snd (tls_Update e j (c, options)) = options @ extra \<and> no_otlp extra"
  by (auto simp: ui_Update_def sampling_Update_def tls_Update_def no_otlp_def)

lemma no_otlp_append [simp]: "no_otlp (xs @ ys) \<longleftrightarrow> no_otlp xs \<and> no_otlp ys"
  by (auto simp: no_otlp_def)

lemma config_args_no_otlp:
  "\<exists>extra. snd (Collector_config e j args p) = snd p @ extra \<and> no_otlp extra"
  "\<exists>extra. snd (AllInOne_config e j p) = snd p @ extra \<and> no_otlp extra"
proof -
  obtain c options where p: "p = (c, options)" by (cases p)
  have nil: "no_otlp []" by (simp add: no_otlp_def)
  have tls: "\<exists>extra. snd (if b then tls_Update e j q else q) = snd q @ extra \<and> no_otlp extra" for b q
    using update_args_no_otlp(3) [of e j "fst q" "snd q"] nil by (cases b) auto
  have sampling: "\<exists>extra. snd (sampling_Update j q) = snd q @ extra \<and> no_otlp extra" for q
    using update_args_no_otlp(2) [of j "fst q" "snd q"] by simp
  obtain s where s: "snd (sampling_Update j p) = snd p @ s" "no_otlp s" using sampling by blast
  obtain u where u: "snd (ui_Update j p) = snd p @ u" "no_otlp u" using update_args_no_otlp(1) [of j c options] p by auto
  obtain s' where s': "snd (sampling_Update j (ui_Update j p)) = snd (ui_Update j p) @ s'" "no_otlp s'" using sampling by blast
  show "\<exists>extra. snd (Collector_config e j args p) = snd p @ extra \<and> no_otlp extra"
    using tls [of "length (FindItem ''--collector.grpc.tls.enabled='' args) = 0" "sampling_Update j p"] s
    unfolding Collector_config_def Let_def snd_conv by (auto simp: s)
  show "\<exists>extra. snd (AllInOne_config e j p) = snd p @ extra \<and> no_otlp extra"
    using tls [of "length (FindItem ''--collector.grpc.tls.enabled='' (snd (sampling_Update j (ui_Update j p)))) = 0" "sampling_Update j (ui_Update j p)"] u s'
    unfolding AllInOne_config_def Let_def snd_conv by (auto simp: u s')
qed

lemma sorted_args_otlp:
  assumes "\<exists>extra. args = storage_args j own t @ extra \<and> no_otlp extra" "t \<in> set ValidStorageTypes"
  shows "IsOTLPEnable (SortStrings args) = IsOTLPEnable (AllArgs [own])"
proof -
  obtain extra where a: "args = storage_args j own t @ extra" "no_otlp extra" using assms(1) by blast
  have "no_otlp (ToArgs (Filter (st_Options (j_Storage j)) (OptionsPrefix t)) @ extra)"
    using storage_args_no_otlp [OF assms(2)] a(2) by simp
  then show ?thesis
    by (rule IsOTLPEnable_cong [rotated]) (auto simp: SortStrings_def a(1) storage_args_def AllArgs_def)
qed

lemma component_container_ports [simp]: "c_Ports (component_container own c p i n as env ef ps) = ps"
  by (simp add: component_container_def)

lemma sint_port:
  "sint (9411 :: int32) = 9411" "sint (14250 :: int32) = 14250" "sint (14267 :: int32) = 14267" "sint (14268 :: int32) = 14268"
  "sint (4317 :: int32) = 4317" "sint (4318 :: int32) = 4318" "sint (16685 :: int32) = 16685" "sint (16686 :: int32) = 16686"
  "sint (5775 :: int32) = 5775" "sint (5778 :: int32) = 5778" "sint (6831 :: int32) = 6831" "sint (6832 :: int32) = 6832"
  "sint (8443 :: int32) = 8443" "sint (16687 :: int32) = 16687" "sint (14269 :: int32) = 14269"
  by simp_all

lemma container_port_number [simp]: "cp_ContainerPort (container_port p n pr) = p"
  by (simp add: container_port_def)

definition port_numbers :: "ContainerPort list \<Rightarrow> int set" where
  "port_numbers ps = (\<lambda>c. sint (cp_ContainerPort c)) ` set ps"

lemma port_numbers_simps [simp]:
  "port_numbers [] = {}" "port_numbers (p # ps) = insert (sint (cp_ContainerPort p)) (port_numbers ps)"
  "port_numbers (ps @ qs) = port_numbers ps \<union> port_numbers qs"
  by (auto simp: port_numbers_def)

lemma otlp_port_numbers: "port_numbers (getOTLPContainePorts args) = (if IsOTLPEnable args then {4317, 4318} else {})"
  by (simp add: getOTLPContainePorts_def)

lemma pod_ports_eq: "pod_ports d = port_numbers (concat (map c_Ports (ps_Containers (pod_of d))))"
  by (simp add: pod_ports_def port_numbers_def)

lemma Collector_pod_ports:
  assumes "st_Type (j_Storage j) \<in> set ValidStorageTypes"
  shows "pod_ports (Collector_Get e j) = {9411, 14267, 14268, sint (GetAdminPort (ToArgs (col_Options (js_Collector (j_Spec j)))) 14269), 14250} \<union>
    (if IsOTLPEnable (AllArgs [col_Options (js_Collector (j_Spec j))]) then {4317, 4318} else {})"
proof -
  let ?t = "if js_Strategy (j_Spec j) = DeploymentStrategyStreaming then JaegerKafkaStorage else st_Type (j_Storage j)"
  have t: "?t \<in> set ValidStorageTypes" using assms by (simp add: ValidStorageTypes_def)
  have "IsOTLPEnable (SortStrings (snd (Collector_config e j args (c, storage_args j (col_Options (js_Collector (j_Spec j))) ?t))))
      = IsOTLPEnable (AllArgs [col_Options (js_Collector (j_Spec j))])" for args c
    using config_args_no_otlp(1) [of e j args "(c, storage_args j (col_Options (js_Collector (j_Spec j))) ?t)"] t
    by (intro sorted_args_otlp) simp_all
  then show ?thesis
    unfolding Collector_Get_def Let_def pod_ports_eq pod_of_component_deployment by (simp add: otlp_port_numbers sint_port)
qed

lemma AllInOne_pod_ports:
  assumes "st_Type (j_Storage j) \<in> set ValidStorageTypes"
  shows "pod_ports (AllInOne_Get e j) = {5775, 5778, 6831, 6832, 9411, 14267, 14268, 16685, 16686,
      sint (GetAdminPort (ToArgs (aio_Options (js_AllInOne (j_Spec j)))) 14269), 14250} \<union>
    (if IsOTLPEnable (AllArgs [aio_Options (js_AllInOne (j_Spec j))]) then {4317, 4318} else {})"
proof -
  let ?a = "storage_args j (aio_Options (js_AllInOne (j_Spec j))) (st_Type (j_Storage j))"
  have "IsOTLPEnable (SortStrings (snd (AllInOne_config e j (c, ?a)))) = IsOTLPEnable (AllArgs [aio_Options (js_AllInOne (j_Spec j))])" for c
    using config_args_no_otlp(2) [of e j "(c, ?a)"] assms by (intro sorted_args_otlp) simp_all
  then show ?thesis
    unfolding AllInOne_Get_def Let_def pod_ports_eq pod_of_component_deployment by (simp add: otlp_port_numbers sint_port)
qed

lemma Query_pod_ports:
  "pod_ports (OAuthProxy e Intn j (Query_Get e j)) =
     {16685, 16686, sint (GetAdminPort (ToArgs (q_Options (js_Query (j_Spec j)))) 16687)} \<union> (if uses_oauth_proxy j then {8443} else {})"
  unfolding Query_Get_def Let_def pod_ports_eq
  by (simp add: OAuthProxy_def sint_port component_deployment_def getOAuthProxyContainer_def Let_def)

lemma service_port_target [simp]:
  "target_port (service_port n p) = sint p" "target_port (service_port n p\<lparr>sp_Protocol := pr\<rparr>) = sint p"
  "target_port (service_port n p\<lparr>sp_TargetPort := Some t\<rparr>) = t"
  "target_port (service_port n p\<lparr>sp_TargetPort := Some t, sp_NodePort := np\<rparr>) = t"
  "sp_Name (service_port n p) = n" "sp_Name (service_port n p\<lparr>sp_Protocol := pr\<rparr>) = n"
  by (simp_all add: target_port_def service_port_def ServicePort0_def)

lemma collector_service_ports:
  "ss_Ports (svc_Spec (headlessCollectorService e j l)) = ss_Ports (svc_Spec (collectorService e j l))"
  "ss_Ports (svc_Spec (clusteripCollectorService e j l)) = ss_Ports (svc_Spec (collectorService e j l))"
  by (simp_all add: headlessCollectorService_def clusteripCollectorService_def Let_def)

text \<open>An instance with nothing but a strategy and the memory storage.\<close>

definition sample_instance :: "string \<Rightarrow> Jaeger" where
  "sample_instance strategy =
     sample_jaeger\<lparr>j_Spec := (j_Spec sample_jaeger)\<lparr>js_Strategy := strategy, js_Storage := (js_Storage (j_Spec sample_jaeger))\<lparr>st_Type := JaegerMemoryStorage\<rparr>\<rparr>\<rparr>"

lemma sample_instance_parts:
  "js_Strategy (j_Spec (sample_instance s)) = s" "st_Type (j_Storage (sample_instance s)) \<in> set ValidStorageTypes"
  "ToArgs (aio_Options (js_AllInOne (j_Spec (sample_instance s)))) = []"
  "ToArgs (col_Options (js_Collector (j_Spec (sample_instance s)))) = []"
  "ToArgs (q_Options (js_Query (j_Spec (sample_instance s)))) = []"
  "ToArgs (ag_Options (js_Agent (j_Spec (sample_instance s)))) = []"
  by code_simp+

text \<open>C16: every port of the collector's services is a port of the collector's container, the OTLP ports
  included, which both sides derive from their own list of arguments; and every port of the query
  service is a port of the query pod once \<open>OAuthProxy\<close> has been applied to it, with the proxy as the
  target exactly when the instance asks for it.\<close>

theorem service_ports_served:
  assumes "js_Strategy (j_Spec j) \<noteq> DeploymentStrategyAllInOne" "st_Type (j_Storage j) \<in> set ValidStorageTypes"
  shows "list_all (\<lambda>s. list_all (served (Collector_Get e j)) (ss_Ports (svc_Spec s))) (Collector_Services e j) \<and>
    list_all (\<lambda>s. list_all (served (OAuthProxy e Intn j (Query_Get e j))) (ss_Ports (svc_Spec s))) (fst (Query_Services j))"
proof
  show "list_all (\<lambda>s. list_all (served (Collector_Get e j)) (ss_Ports (svc_Spec s))) (Collector_Services e j)"
    using assms(1) by (simp add: Collector_Services_def NewCollectorServices_def collector_service_ports served_def Collector_pod_ports [OF assms(2)]
        collectorService_def service_object_def Let_def getOTLPServicePorts_def)
  show "list_all (\<lambda>s. list_all (served (OAuthProxy e Intn j (Query_Get e j))) (ss_Ports (svc_Spec s))) (fst (Query_Services j))"
    by (simp add: Query_Services_def NewQueryService_def served_def Query_pod_ports service_object_def Let_def getTargetPortForQueryService_def)
qed

theorem service_ports_served_witness:
  "js_Strategy (j_Spec (sample_instance ''production'')) \<noteq> DeploymentStrategyAllInOne \<and>
   st_Type (j_Storage (sample_instance ''production'')) \<in> set ValidStorageTypes \<and>
   list_all (\<lambda>s. list_all (served (Collector_Get sample_cluster_env (sample_instance ''production''))) (ss_Ports (svc_Spec s)))
     (Collector_Services sample_cluster_env (sample_instance ''production''))"
  using service_ports_served [of "sample_instance ''production''" sample_cluster_env "\<lambda>_. 0"] by (simp add: sample_instance_parts)

lemma OAuthProxy_ports: "pod_ports (OAuthProxy e Intn j d) = pod_ports d \<union> (if uses_oauth_proxy j then {8443} else {})"
  by (simp add: pod_ports_eq OAuthProxy_def sint_port getOAuthProxyContainer_def Let_def)

lemma NewQueryService_agent [simp]: "js_Agent (j_Spec (snd (NewQueryService j l))) = js_Agent (j_Spec j)"
  by (simp add: NewQueryService_def Let_def)

lemma NewAgentService_ports:
  "map target_port (ss_Ports (svc_Spec (NewAgentService j l))) =
     [5775, 5778, 6831, 6832, sint (GetAdminPort (ToArgs (ag_Options (js_Agent (j_Spec j)))) 14271)]"
  by (simp add: NewAgentService_def service_object_def Let_def sint_port)

lemma NewQueryService_ports:
  "map target_port (ss_Ports (svc_Spec (fst (NewQueryService j l)))) =
     [if uses_oauth_proxy j then 8443 else 16686, 16685, sint (GetAdminPort (ToArgs (q_Options (js_Query (j_Spec j)))) 16687)]"
  by (simp add: NewQueryService_def service_object_def Let_def sint_port getTargetPortForQueryService_def)

lemma collectorService_ports:
  "map target_port (ss_Ports (svc_Spec (collectorService e j l))) =
     [9411, 14250, 14267, 14268, sint (GetAdminPort (ToArgs (col_Options (js_Collector (j_Spec j)))) 14269)] @
     (if IsOTLPEnable (AllArgs [if js_Strategy (j_Spec j) \<noteq> DeploymentStrategyAllInOne then col_Options (js_Collector (j_Spec j))
        else aio_Options (js_AllInOne (j_Spec j))]) then [4317, 4318] else [])"
  by (simp add: collectorService_def service_object_def Let_def sint_port getOTLPServicePorts_def)

lemma unserved_targets:
  "map target_port (filter (\<lambda>p. \<not> served d p) ps) = filter (\<lambda>t. t \<notin> pod_ports d) (map target_port ps)"
  by (simp add: filter_map o_def served_def)

text \<open>C28: what the services of the all-in-one strategy do not reach.  When no block changes an
  administrative port, every service port is served by the pod, behind the OAuth proxy or not,
  except for two: the services of the query component and of the agent announce the administrative
  ports 16687 and 14271 of the separate binaries, on which the single all-in-one process does not
  listen.\<close>

theorem all_in_one_unserved_ports:
  assumes "js_Strategy (j_Spec j) = DeploymentStrategyAllInOne" "st_Type (j_Storage j) \<in> set ValidStorageTypes"
    and "GetAdminPort (ToArgs (aio_Options (js_AllInOne (j_Spec j)))) 14269 = 14269"
    and "GetAdminPort (ToArgs (col_Options (js_Collector (j_Spec j)))) 14269 = 14269"
    and "GetAdminPort (ToArgs (q_Options (js_Query (j_Spec j)))) 16687 = 16687"
    and "GetAdminPort (ToArgs (ag_Options (js_Agent (j_Spec j)))) 14271 = 14271"
  shows "map target_port (filter (\<lambda>p. \<not> served (OAuthProxy e Intn j (AllInOne_Get e j)) p)
      (concat (map (\<lambda>s. ss_Ports (svc_Spec s)) (fst (AllInOne_Services e j))))) = [16687, 14271]"
  unfolding unserved_targets OAuthProxy_ports AllInOne_pod_ports [OF assms(2)] AllInOne_Services_def NewCollectorServices_def Let_def
  by (simp add: collector_service_ports collectorService_ports NewQueryService_ports NewAgentService_ports assms(1,3-6) sint_port)

theorem all_in_one_unserved_ports_witness:
  "js_Strategy (j_Spec (sample_instance ''allinone'')) = DeploymentStrategyAllInOne \<and>
   st_Type (j_Storage (sample_instance ''allinone'')) \<in> set ValidStorageTypes \<and>
   map target_port (filter (\<lambda>p. \<not> served (OAuthProxy sample_cluster_env (\<lambda>_. 0) (sample_instance ''allinone'') (AllInOne_Get sample_cluster_env (sample_instance ''allinone''))) p)
      (concat (map (\<lambda>s. ss_Ports (svc_Spec s)) (fst (AllInOne_Services sample_cluster_env (sample_instance ''allinone'')))))) = [16687, 14271]"
  using all_in_one_unserved_ports [of "sample_instance ''allinone''" sample_cluster_env "\<lambda>_. 0"]
  by (simp add: sample_instance_parts GetAdminPort_def GetPort_def)

section \<open>Autoscalers\<close>

text \<open>An autoscaler exists exactly when the number of replicas is left open and scaling is not
  switched off; it then targets the deployment of its own component by name and namespace, its upper
  bound is never negative, it is the configured one whenever that is not negative, and at most one
  autoscaler exists per deployment.\<close>

theorem autoscalers_target_their_deployment:
  "(case Collector_Autoscalers e j of
      [] \<Rightarrow> \<not> (ds_Replicas (dep_Spec (Collector_Get e j)) = None \<and> as_Autoscale (col_AutoScale (js_Collector (j_Spec j))) \<noteq> Some False)
    | [h] \<Rightarrow> ds_Replicas (dep_Spec (Collector_Get e j)) = None \<and> as_Autoscale (col_AutoScale (js_Collector (j_Spec j))) \<noteq> Some False \<and>
        hs_TargetKind (hpa_Spec h) = tm_Kind (dep_TypeMeta (Collector_Get e j)) \<and>
        hs_TargetAPIVersion (hpa_Spec h) = tm_APIVersion (dep_TypeMeta (Collector_Get e j)) \<and>
        hs_TargetName (hpa_Spec h) = om_Name (dep_Meta (Collector_Get e j)) \<and>
        om_Namespace (hpa_Meta h) = om_Namespace (dep_Meta (Collector_Get e j)) \<and>
        0 \<le> sint (hs_MaxReplicas (hpa_Spec h)) \<and>
        hs_MaxReplicas (hpa_Spec h) = (case as_MaxReplicas (col_AutoScale (js_Collector (j_Spec j))) of
            None \<Rightarrow> 100 | Some m \<Rightarrow> if 0 \<le> sint m then m else 100)
    | _ \<Rightarrow> False)"
proof -
  let ?col = "js_Collector (j_Spec j)"
  have dep: "ds_Replicas (dep_Spec (Collector_Get e j)) = col_Replicas ?col" "om_Name (dep_Meta (Collector_Get e j)) = Collector_name j"
    "dep_TypeMeta (Collector_Get e j) = \<lparr>tm_APIVersion = ''apps/v1'', tm_Kind = ''Deployment''\<rparr>"
    "om_Namespace (dep_Meta (Collector_Get e j)) = j_Namespace j"
    by (simp_all add: Collector_Get_def Let_def component_deployment_def)
  show ?thesis
  proof (cases "col_Replicas ?col \<noteq> None \<or> as_Autoscale (col_AutoScale ?col) = Some False")
    case True
    then show ?thesis by (auto simp: Collector_Autoscalers_def autoscalers_def Let_def dep)
  next
    case False
    have "sint (100 :: int32) = 100" "sint (-1 :: int32) < 0" by simp_all
    with False show ?thesis
      by (simp add: Collector_Autoscalers_def autoscalers_def Let_def dep split: option.split)
  qed
qed

end
