(* ===== verification/Strategy_Ownership.thy ===== *)
theory Strategy_Ownership
  imports Strategy_Properties Isolation Deployment_Wiring
begin

text \<open>
  The objects of a strategy are found again.  Every object that a strategy asks for carries the
  labels by which the apply functions list the objects of the instance, lies in the namespace of the
  instance, and names the instance as its owner, so that it is updated, replaced and garbage
  collected with it.
\<close>

section \<open>Objects of an instance\<close>

text \<open>Metadata that make an object part of the instance.\<close>

definition child :: "Jaeger \<Rightarrow> ObjectMeta \<Rightarrow> bool" where
  "child j m \<longleftrightarrow>
     om_Namespace m = j_Namespace j \<and> om_OwnerReferences m = [AsOwner j] \<and>
     mget (om_Labels m) ''app.kubernetes.io/instance'' = Some (j_Name j) \<and>
     mget (om_Labels m) ''app.kubernetes.io/managed-by'' = Some ''jaeger-operator''"

text \<open>The config maps with the certificates of the cluster have no owner, since the webhook also creates them in
  other namespaces; console links are not namespaced.\<close>

definition ownerless :: "kobj \<Rightarrow> bool" where
  "ownerless x \<longleftrightarrow> kind_of x = KConsoleLink \<or>
     kind_of x = KConfigMap \<and> (label_of x ''app.kubernetes.io/component'' = Some ''ca-configmap'' \<or>
       label_of x ''app.kubernetes.io/component'' = Some ''service-ca-configmap'')"

definition in_charge :: "Jaeger \<Rightarrow> kobj \<Rightarrow> bool" where
  "in_charge j x \<longleftrightarrow>
     belongs (j_Namespace j) (j_Name j) x \<and> om_OwnerReferences (meta_of x) = (if ownerless x then [] else [AsOwner j])"

text \<open>The user's labels of a block do not replace the two labels that the lists ask for.\<close>

definition unreserved :: "JaegerCommonSpec \<Rightarrow> bool" where
  "unreserved c \<longleftrightarrow> mget (jc_Labels c) ''app.kubernetes.io/instance'' = None \<and> mget (jc_Labels c) ''app.kubernetes.io/managed-by'' = None"

definition component_blocks :: "JaegerSpec \<Rightarrow> JaegerCommonSpec list" where
  "component_blocks sp = [col_Common (js_Collector sp), igr_Common (js_Ingester sp), ag_Common (js_Agent sp), ji_Common (js_Ingress sp),
     ic_Common (st_EsIndexCleaner (js_Storage sp)), jd_Common (st_Dependencies (js_Storage sp)), ro_Common (st_EsRollover (js_Storage sp))]"

definition blocks :: "JaegerSpec \<Rightarrow> JaegerCommonSpec list" where
  "blocks sp = [js_Common sp, aio_Common (js_AllInOne sp), q_Common (js_Query sp)] @ component_blocks sp"

definition clean :: "Jaeger \<Rightarrow> bool" where
  "clean j \<longleftrightarrow> list_all unreserved (blocks (j_Spec j)) \<and> Truncate (j_Name j) 63 [] = j_Name j"

lemma cleanD:
  assumes "clean j"
  shows "unreserved (js_Common (j_Spec j))" "unreserved (aio_Common (js_AllInOne (j_Spec j)))" "unreserved (q_Common (js_Query (j_Spec j)))"
    "unreserved (col_Common (js_Collector (j_Spec j)))" "unreserved (igr_Common (js_Ingester (j_Spec j)))"
    "unreserved (ag_Common (js_Agent (j_Spec j)))" "unreserved (ji_Common (js_Ingress (j_Spec j)))"
    "unreserved (ic_Common (st_EsIndexCleaner (j_Storage j)))" "unreserved (jd_Common (st_Dependencies (j_Storage j)))"
    "unreserved (ro_Common (st_EsRollover (j_Storage j)))" "Truncate (j_Name j) 63 [] = j_Name j"
  using assms by (simp_all add: clean_def blocks_def component_blocks_def)

lemma Labels_reserved:
  assumes "Truncate (j_Name j) 63 [] = j_Name j"
  shows "mget (Labels n c j) ''app.kubernetes.io/instance'' = Some (j_Name j)"
    "mget (Labels n c j) ''app.kubernetes.io/managed-by'' = Some ''jaeger-operator''"
  by (simp_all add: Labels_def assms)

lemma merged_reserved:
  assumes "unreserved c" "unreserved d"
  shows "mget (jc_Labels (Merge [c, d, base_common_spec a l])) ''app.kubernetes.io/instance'' = mget l ''app.kubernetes.io/instance''"
    "mget (jc_Labels (Merge [c, d, base_common_spec a l])) ''app.kubernetes.io/managed-by'' = mget l ''app.kubernetes.io/managed-by''"
    "mget (jc_Labels (Merge [c, d, JaegerCommonSpec0\<lparr>jc_Labels := l\<rparr>])) ''app.kubernetes.io/instance'' = mget l ''app.kubernetes.io/instance''"
    "mget (jc_Labels (Merge [c, d, JaegerCommonSpec0\<lparr>jc_Labels := l\<rparr>])) ''app.kubernetes.io/managed-by'' = mget l ''app.kubernetes.io/managed-by''"
  using assms by (simp_all add: merged_labels Merge_labels_only [of c d l a] unreserved_def or_else_def)

lemma updates_keep_labels [simp]:
  "jc_Labels (ca_Update e j c) = jc_Labels c" "jc_Labels (AddServiceCA e j c) = jc_Labels c" "jc_Labels (UpdateGRPCPlugin j c) = jc_Labels c"
  by (simp_all add: ca_Update_def AddServiceCA_def UpdateGRPCPlugin_def append_volume_once_def append_volume_def Let_def)

text \<open>Instances that have the same children.\<close>

definition same_owner :: "Jaeger \<Rightarrow> Jaeger \<Rightarrow> bool" where
  "same_owner j k \<longleftrightarrow> j_Name j = j_Name k \<and> j_Namespace j = j_Namespace k \<and> om_UID (j_Meta j) = om_UID (j_Meta k) \<and> j_TypeMeta j = j_TypeMeta k"

lemma same_owner_child: "same_owner j k \<Longrightarrow> child j = child k"
  by (simp add: same_owner_def child_def AsOwner_def fun_eq_iff)

lemma child_in_charge:
  assumes "child j (meta_of x)" "kind_of x \<noteq> KElasticsearch" "kind_of x \<noteq> KConsoleLink" "\<not> ownerless x"
  shows "in_charge j x"
  using assms by (simp add: child_def in_charge_def belongs_def label_of_def)

section \<open>The builders\<close>

lemma child_services:
  assumes "Truncate (j_Name j) 63 [] = j_Name j"
  shows "child j (svc_Meta (service_object j n c a sp))"
    "list_all (\<lambda>s. child j (svc_Meta s)) (NewCollectorServices e j l)"
    "child j (svc_Meta (fst (NewQueryService j l)))" "child j (svc_Meta (NewAgentService j l))"
  by (simp_all add: child_def service_object_def NewCollectorServices_def headlessCollectorService_def clusteripCollectorService_def
      collectorService_def NewQueryService_def NewAgentService_def Labels_reserved [OF assms] Let_def)

lemma child_accounts:
  assumes "Truncate (j_Name j) 63 [] = j_Name j"
  shows "list_all (\<lambda>a. child j (sa_Meta a)) (account_Get j)"
  by (simp add: account_Get_def getMain_def OAuthProxyAccount_def child_def Labels_reserved [OF assms])

lemma component_deployment_meta [simp]:
  "dep_Meta (component_deployment j n c a r s pod) =
     ObjectMeta0\<lparr>om_Name := n, om_Namespace := j_Namespace j, om_Labels := jc_Labels c, om_Annotations := a, om_OwnerReferences := [AsOwner j]\<rparr>"
  by (simp add: component_deployment_def)

lemma child_deployments:
  assumes "clean j"
  shows "child j (dep_Meta (AllInOne_Get e j))" "child j (dep_Meta (Collector_Get e j))" "child j (dep_Meta (Query_Get e j))"
    "list_all (\<lambda>d. child j (dep_Meta d)) (opt_list (Ingester_Get e j))" "list_all (\<lambda>d. child j (dae_Meta d)) (opt_list (Agent_Get e j))"
proof -
  note l = component_common_labels merged_reserved [OF _ cleanD(1) [OF assms]] Labels_reserved [OF cleanD(11) [OF assms]]
  show "child j (dep_Meta (AllInOne_Get e j))"
    by (simp add: AllInOne_Get_def Let_def child_def l cleanD(2) [OF assms] AllInOne_labels_def
        pod_patch.patch_other_fields(1) [OF AllInOne_config_patch])
  show "child j (dep_Meta (Collector_Get e j))"
    by (simp add: Collector_Get_def Let_def child_def l cleanD(4) [OF assms] Collector_labels_def
        pod_patch.patch_other_fields(1) [OF Collector_config_patch])
  show "child j (dep_Meta (Query_Get e j))"
    by (simp add: Query_Get_def Let_def child_def l cleanD(3) [OF assms] Query_labels_def
        pod_patch.patch_other_fields(1) [OF Query_config_patch])
  show "list_all (\<lambda>d. child j (dep_Meta d)) (opt_list (Ingester_Get e j))"
    by (simp add: Ingester_Get_def Let_def child_def l cleanD(5) [OF assms] Ingester_labels_def opt_list_def)
  show "list_all (\<lambda>d. child j (dae_Meta d)) (opt_list (Agent_Get e j))"
    by (simp add: Agent_Get_def Let_def child_def l cleanD(6) [OF assms] opt_list_def)
qed

lemma child_autoscalers:
  assumes "clean j"
  shows "list_all (\<lambda>h. child j (hpa_Meta h)) (Collector_Autoscalers e j)" "list_all (\<lambda>h. child j (hpa_Meta h)) (Ingester_Autoscalers e j)"
proof -
  note l = merged_reserved [OF _ cleanD(1) [OF assms]] Labels_reserved [OF cleanD(11) [OF assms]]
  have hpa: "mget (hpa_labels c (Labels n d j)) k = mget (Labels n d j) k" if "k \<noteq> ''app.kubernetes.io/component''" for c n d k
    using that by (simp add: hpa_labels_def Labels_def mget_def entries_def)
  show "list_all (\<lambda>h. child j (hpa_Meta h)) (Collector_Autoscalers e j)"
    by (simp add: Collector_Autoscalers_def autoscalers_def Let_def child_def l cleanD(4) [OF assms] Collector_labels_def hpa)
  show "list_all (\<lambda>h. child j (hpa_Meta h)) (Ingester_Autoscalers e j)"
    by (simp add: Ingester_Autoscalers_def autoscalers_def Let_def child_def l cleanD(5) [OF assms] Ingester_labels_def hpa)
qed

lemma child_access:
  assumes "clean j"
  shows "list_all (\<lambda>i. child j (ing_Meta i)) (opt_list (ingress_Get e j))" "list_all (\<lambda>r. child j (rt_Meta r)) (opt_list (route_Get j))"
  by (simp_all add: ingress_Get_def route_Get_def Let_def opt_list_def child_def merged_reserved [OF _ cleanD(1) [OF assms]]
      Labels_reserved [OF cleanD(11) [OF assms]] cleanD(7) [OF assms])

lemma child_jobs:
  assumes "clean j"
  shows "list_all (\<lambda>c. child j (cj_Meta c)) (spark_jobs e j)" "list_all (\<lambda>c. child j (cj_Meta c)) (es_rollover e j)"
    "index_cleaner e j = Inr cs \<Longrightarrow> list_all (\<lambda>c. child j (cj_Meta c)) cs"
    "list_all (\<lambda>x. child j (job_Meta x)) (fst (Dependencies e j))"
proof -
  note l = merged_reserved [OF _ cleanD(1) [OF assms]] Labels_reserved [OF cleanD(11) [OF assms]] cleanD(4,8,9,10) [OF assms]
  show "list_all (\<lambda>c. child j (cj_Meta c)) (spark_jobs e j)"
    by (simp add: spark_jobs_def CreateSparkDependencies_def cron_job_def child_def l Let_def)
  show "list_all (\<lambda>c. child j (cj_Meta c)) (es_rollover e j)"
    by (simp add: es_rollover_def CreateRollover_def rollover_def lookback_def rollover_meta_def cron_job_def child_def l Let_def)
  show "list_all (\<lambda>c. child j (cj_Meta c)) cs" if "index_cleaner e j = Inr cs"
  proof -
    have "child j (cj_Meta c)" if "CreateEsIndexCleaner e j = Inr c" for c
      using that by (auto simp: CreateEsIndexCleaner_def cron_job_def child_def l Let_def split: option.splits)
    then show ?thesis using that by (auto simp: index_cleaner_def res_bind_Inr_iff split: if_splits)
  qed
  have owner: "AsOwner (upd_Storage f j) = AsOwner j" for f by (simp add: AsOwner_def)
  have lab: "Labels n c (upd_Storage f j) = Labels n c j" for n c f by (simp add: Labels_def)
  have "list_all (\<lambda>x. child j (job_Meta x)) (elasticsearchDependencies e j)"
    by (simp add: elasticsearchDependencies_def child_def l Let_def)
  moreover have "list_all (\<lambda>x. child j (job_Meta x)) (fst (cassandraDeps e j))"
    by (simp add: cassandraDeps_def child_def l Let_def owner lab)
  ultimately show "list_all (\<lambda>x. child j (job_Meta x)) (fst (Dependencies e j))" by (simp add: Dependencies_def)
qed

lemma child_kafka:
  assumes "Truncate (j_Name j) 63 [] = j_Name j"
  shows "child j (kf_Meta (Kafka_Persistent e j))" "child j (ku_Meta (Kafka_User j))"
proof -
  have "mget (Some (AList.update ''strimzi.io/cluster'' v (entries (Labels n c j)))) k = mget (Labels n c j) k"
    if "k \<noteq> ''strimzi.io/cluster''" for v n c k using that by (simp add: Labels_def mget_def entries_def)
  then show "child j (kf_Meta (Kafka_Persistent e j))" "child j (ku_Meta (Kafka_User j))"
    by (simp_all add: Kafka_Persistent_def Kafka_User_def Let_def child_def Labels_reserved [OF assms])
qed

lemma in_charge_elasticsearch:
  assumes "Truncate (j_Name j) 63 [] = j_Name j"
  shows "list_all (\<lambda>x. in_charge j (OElasticsearch x)) (opt_list (Elasticsearch_Get j))"
  by (simp add: Elasticsearch_Get_def opt_list_def Let_def in_charge_def belongs_def ownerless_def label_of_def assms)

lemma in_charge_bindings:
  assumes "Truncate (j_Name j) 63 [] = j_Name j"
  shows "list_all (\<lambda>x. in_charge j (OClusterRoleBinding x)) (clusterrolebinding_Get e j)"
  by (simp add: clusterrolebinding_Get_def oauthProxyAuthDelegator_def Let_def in_charge_def belongs_def ownerless_def label_of_def
      Labels_reserved [OF assms])

lemma in_charge_links: "list_all (\<lambda>x. in_charge j (OConsoleLink x)) (opt_list (consolelink_Get j r))"
  by (simp add: consolelink_Get_def opt_list_def in_charge_def belongs_def ownerless_def label_of_def ObjectMeta0_def)

lemma in_charge_config_maps:
  assumes "Truncate (j_Name j) 63 [] = j_Name j"
  shows "list_all (\<lambda>x. in_charge j (OConfigMap x)) (opt_list (ui_Get j))" "list_all (\<lambda>x. in_charge j (OConfigMap x)) (opt_list (sampling_Get j))"
    "list_all (\<lambda>x. in_charge j (OConfigMap x)) (opt_list (GetTrustedCABundle e j))"
    "list_all (\<lambda>x. in_charge j (OConfigMap x)) (opt_list (GetServiceCABundle e j))"
proof -
  have c: "Truncate ''ui-configuration'' 63 [] = ''ui-configuration''" "Truncate ''sampling-configuration'' 63 [] = ''sampling-configuration''"
    "Truncate ''ca-configmap'' 63 [] = ''ca-configmap''" "Truncate ''service-ca-configmap'' 63 [] = ''service-ca-configmap''" by code_simp+
  note d = in_charge_def belongs_def ownerless_def label_of_def Labels_def assms c config_map_object_def opt_list_def mget_def
  show "list_all (\<lambda>x. in_charge j (OConfigMap x)) (opt_list (ui_Get j))" by (simp add: ui_Get_def Let_def d)
  show "list_all (\<lambda>x. in_charge j (OConfigMap x)) (opt_list (sampling_Get j))" by (simp add: sampling_Get_def Let_def d)
  show "list_all (\<lambda>x. in_charge j (OConfigMap x)) (opt_list (GetTrustedCABundle e j))" by (simp add: GetTrustedCABundle_def Let_def d)
  show "list_all (\<lambda>x. in_charge j (OConfigMap x)) (opt_list (GetServiceCABundle e j))" by (simp add: GetServiceCABundle_def Let_def d)
qed

section \<open>The strategies\<close>

lemma settled_owner: "same_owner (settle_query j) j" "same_owner (settle_cassandra j) j" "same_owner (settle_kafka j) j"
  by (simp_all add: same_owner_def settle_query_def settle_cassandra_def settle_kafka_def Let_def)

lemma unreserved_kafka: "unreserved c \<Longrightarrow> unreserved (Merge [kafka_common_spec j, c])"
  by (simp add: unreserved_def Merge_fields kafka_common_spec_def Let_def JaegerCommonSpec0_def)

lemma settled_clean:
  assumes "clean j"
  shows "clean (settle_query j)" "clean (settle_cassandra j)" "clean (settle_kafka j)"
  using assms
  by (simp_all add: clean_def blocks_def component_blocks_def settle_query_def settle_cassandra_def settle_kafka_def Let_def unreserved_kafka)
    (simp_all add: unreserved_def)

lemma same_owner_in_charge: "same_owner j k \<Longrightarrow> in_charge j = in_charge k"
  by (simp add: same_owner_def in_charge_def AsOwner_def fun_eq_iff)

lemma children_wrapped:
  "list_all (\<lambda>x. child j (sa_Meta x)) a1 \<Longrightarrow> list_all (\<lambda>x. in_charge j (OAccount x)) a1"
  "list_all (\<lambda>x. child j (cj_Meta x)) a2 \<Longrightarrow> list_all (\<lambda>x. in_charge j (OCronJob x)) a2"
  "list_all (\<lambda>x. child j (ing_Meta x)) a3 \<Longrightarrow> list_all (\<lambda>x. in_charge j (OIngress x)) a3"
  "list_all (\<lambda>x. child j (hpa_Meta x)) a4 \<Longrightarrow> list_all (\<lambda>x. in_charge j (OHPA x)) a4"
  "list_all (\<lambda>x. child j (kf_Meta x)) a5 \<Longrightarrow> list_all (\<lambda>x. in_charge j (OKafka x)) a5"
  "list_all (\<lambda>x. child j (ku_Meta x)) a6 \<Longrightarrow> list_all (\<lambda>x. in_charge j (OKafkaUser x)) a6"
  "list_all (\<lambda>x. child j (rt_Meta x)) a7 \<Longrightarrow> list_all (\<lambda>x. in_charge j (ORoute x)) a7"
  "list_all (\<lambda>x. child j (svc_Meta x)) a8 \<Longrightarrow> list_all (\<lambda>x. in_charge j (OService x)) a8"
  "list_all (\<lambda>x. child j (job_Meta x)) a9 \<Longrightarrow> list_all (\<lambda>x. in_charge j (OJob x)) a9"
  "list_all (\<lambda>x. child j (dae_Meta x)) a10 \<Longrightarrow> list_all (\<lambda>x. in_charge j (ODaemonSet x)) a10"
  "list_all (\<lambda>x. child j (dep_Meta x)) a11 \<Longrightarrow> list_all (\<lambda>x. in_charge j (ODeployment x)) a11"
  by (auto simp: list_all_iff ownerless_def intro!: child_in_charge)

lemma All_in_charge:
  assumes "list_all (\<lambda>x. child j (sa_Meta x)) (S_accounts s)" "list_all (\<lambda>x. in_charge j (OClusterRoleBinding x)) (S_clusterRoleBindings s)"
    "list_all (\<lambda>x. in_charge j (OConsoleLink x)) (S_consoleLinks s)" "list_all (\<lambda>x. in_charge j (OConfigMap x)) (S_configMaps s)"
    "list_all (\<lambda>x. child j (cj_Meta x)) (S_cronJobs s)" "list_all (\<lambda>x. in_charge j (OElasticsearch x)) (S_elasticsearches s)"
    "list_all (\<lambda>x. child j (ing_Meta x)) (S_ingresses s)" "list_all (\<lambda>x. child j (hpa_Meta x)) (S_horizontalPodAutoscalers s)"
    "list_all (\<lambda>x. child j (kf_Meta x)) (S_kafkas s)" "list_all (\<lambda>x. child j (ku_Meta x)) (S_kafkaUsers s)"
    "list_all (\<lambda>x. child j (rt_Meta x)) (S_routes s)" "list_all (\<lambda>x. child j (svc_Meta x)) (S_services s)" "S_secrets s = []"
    "list_all (\<lambda>x. child j (job_Meta x)) (S_dependencies s)" "list_all (\<lambda>x. child j (dae_Meta x)) (S_daemonSets s)"
    "list_all (\<lambda>x. child j (dep_Meta x)) (S_deployments s)"
  shows "list_all (in_charge j) (All s)"
  using assms by (simp add: All_def list.pred_map comp_def children_wrapped)

lemma add_access_fields [simp]:
  "S_accounts (add_access e j c) = S_accounts c" "S_clusterRoleBindings (add_access e j c) = S_clusterRoleBindings c"
  "S_configMaps (add_access e j c) = S_configMaps c" "S_kafkas (add_access e j c) = S_kafkas c" "S_kafkaUsers (add_access e j c) = S_kafkaUsers c"
  "S_services (add_access e j c) = S_services c" "S_secrets (add_access e j c) = S_secrets c" "S_daemonSets (add_access e j c) = S_daemonSets c"
  "S_deployments (add_access e j c) = S_deployments c" "S_elasticsearches (add_access e j c) = S_elasticsearches c"
  "S_horizontalPodAutoscalers (add_access e j c) = S_horizontalPodAutoscalers c"
  by (simp_all add: add_access_def split: option.split)

lemma add_access_objects:
  assumes "clean j" "S_routes c = []" "S_consoleLinks c = []" "S_ingresses c = []"
  shows "list_all (\<lambda>x. child j (rt_Meta x)) (S_routes (add_access e j c))"
    "list_all (\<lambda>x. in_charge j (OConsoleLink x)) (S_consoleLinks (add_access e j c))"
    "list_all (\<lambda>x. child j (ing_Meta x)) (S_ingresses (add_access e j c))"
  using assms child_access(1) [OF assms(1), of e] child_access(2) [OF assms(1)] in_charge_links [of j]
  by (auto simp: add_access_def opt_list_def split: option.split)

lemma base_strategy_objects:
  assumes "clean j"
  shows "list_all (\<lambda>x. child j (sa_Meta x)) (S_accounts (base_strategy e t j))"
    "list_all (\<lambda>x. in_charge j (OClusterRoleBinding x)) (S_clusterRoleBindings (base_strategy e t j))"
    "list_all (\<lambda>x. in_charge j (OConfigMap x)) (S_configMaps (base_strategy e t j))"
    "S_routes (base_strategy e t j) = []" "S_consoleLinks (base_strategy e t j) = []" "S_ingresses (base_strategy e t j) = []"
    "S_kafkas (base_strategy e t j) = []" "S_kafkaUsers (base_strategy e t j) = []" "S_secrets (base_strategy e t j) = []"
    "S_elasticsearches (base_strategy e t j) = []" "S_horizontalPodAutoscalers (base_strategy e t j) = []"
  using child_accounts [OF cleanD(11) [OF assms]] in_charge_bindings [OF cleanD(11) [OF assms]] in_charge_config_maps [OF cleanD(11) [OF assms]]
  by (simp_all add: base_strategy_def S_New_def)

lemma dep_Meta_OAuthProxy [simp]: "dep_Meta (OAuthProxy e Intn j d) = dep_Meta d"
  by (simp add: OAuthProxy_def)

text \<open>The agent in the pod of the query component adds a label of its own.\<close>

lemma child_Sidecar:
  assumes "Sidecar e j' dep opt = Inr d" "child j (dep_Meta dep)"
  shows "child j (dep_Meta d)"
proof (cases "own_or_free j' (dep_Labels dep)")
  case True
  have lab: "mget (put_label Label v m) k = mget m k" if "k \<noteq> Label" for v m k
    using that by (simp add: put_label_def mget_def update_conv')
  obtain al where "dep_Meta d = (dep_Meta dep)\<lparr>om_Annotations := al, om_Labels := put_label Label (Truncate (j_Name j') 63 []) (dep_Labels dep)\<rparr>"
    using Sidecar_meta [OF True assms(1)] by blast
  then show ?thesis using assms(2) by (simp add: child_def lab)
next
  case False
  then show ?thesis using assms by (auto simp: Sidecar_def own_or_free_def split: option.splits)
qed

lemma share_labels_meta [simp]: "dep_Meta (share_labels d) = dep_Meta d"
  by (simp add: share_labels_def Let_def)

lemma map_res_map: "map_res f xs = Inr ys \<Longrightarrow> (\<And>x y. f x = Inr y \<Longrightarrow> g y = g x) \<Longrightarrow> map g ys = map g xs"
  by (induction xs arbitrary: ys) (auto simp: res_bind_Inr_iff)

lemma list_all_meta: "map g ys = map g xs \<Longrightarrow> list_all (\<lambda>x. P (g x)) ys = list_all (\<lambda>x. P (g x)) xs"
  by (metis list.pred_map comp_def list.pred_cong)

lemma provision_metas:
  assumes "provision_if_needed j deps crons ds = Inr (ds', deps', crons', es)"
  shows "map dep_Meta ds' = map dep_Meta ds" "map job_Meta deps' = map job_Meta deps" "map cj_Meta crons' = map cj_Meta crons"
    "es = [] \<or> es = opt_list (Elasticsearch_Get j)"
proof -
  have job: "upd_dependency f x = Inr y \<Longrightarrow> job_Meta y = job_Meta x" for f x y by (auto simp: upd_dependency_def res_bind_Inr_iff)
  have cron: "upd_cron_job f x = Inr y \<Longrightarrow> cj_Meta y = cj_Meta x" for f x y by (auto simp: upd_cron_job_def res_bind_Inr_iff)
  show "map dep_Meta ds' = map dep_Meta ds" "map job_Meta deps' = map job_Meta deps" "map cj_Meta crons' = map cj_Meta crons"
    "es = [] \<or> es = opt_list (Elasticsearch_Get j)"
    using assms by (auto simp: provision_if_needed_def autoProvisionElasticsearch_def res_bind_Inr_iff Let_def
        split: if_splits intro: map_res_map job cron)
qed

lemma provision_objects:
  assumes "provision_if_needed j' deps crons ds = Inr (ds', deps', crons', es)" "same_owner j' j" "clean j"
    "list_all (\<lambda>d. child j (dep_Meta d)) ds" "list_all (\<lambda>d. child j (job_Meta d)) deps" "list_all (\<lambda>d. child j (cj_Meta d)) crons"
  shows "list_all (\<lambda>d. child j (dep_Meta d)) ds'" "list_all (\<lambda>d. child j (job_Meta d)) deps'" "list_all (\<lambda>d. child j (cj_Meta d)) crons'"
    "list_all (\<lambda>x. in_charge j (OElasticsearch x)) es"
proof -
  note m = provision_metas [OF assms(1)]
  show "list_all (\<lambda>d. child j (dep_Meta d)) ds'" using list_all_meta [OF m(1)] assms(4) by blast
  show "list_all (\<lambda>d. child j (job_Meta d)) deps'" using list_all_meta [OF m(2)] assms(5) by blast
  show "list_all (\<lambda>d. child j (cj_Meta d)) crons'" using list_all_meta [OF m(3)] assms(6) by blast
  have "Truncate (j_Name j') 63 [] = j_Name j'" using assms(2) cleanD(11) [OF assms(3)] by (simp add: same_owner_def)
  then show "list_all (\<lambda>x. in_charge j (OElasticsearch x)) es"
    using m(4) in_charge_elasticsearch [of j'] same_owner_in_charge [OF assms(2)] by auto
qed

lemma child_services_of:
  assumes "clean j"
  shows "list_all (\<lambda>s. child j (svc_Meta s)) (fst (AllInOne_Services e j))" "list_all (\<lambda>s. child j (svc_Meta s)) (Collector_Services e j)"
    "list_all (\<lambda>s. child j (svc_Meta s)) (fst (Query_Services j))"
proof -
  note t = cleanD(11) [OF assms] and t' = cleanD(11) [OF settled_clean(1) [OF assms]]
  show "list_all (\<lambda>s. child j (svc_Meta s)) (fst (AllInOne_Services e j))"
    using child_services(2,3) [OF t] child_services(4) [OF t']
    by (simp add: AllInOne_Services_def Let_def snd_NewQueryService same_owner_child [OF settled_owner(1)])
  show "list_all (\<lambda>s. child j (svc_Meta s)) (Collector_Services e j)" using child_services(2) [OF t] by (simp add: Collector_Services_def)
  show "list_all (\<lambda>s. child j (svc_Meta s)) (fst (Query_Services j))" using child_services(3) [OF t] by (simp add: Query_Services_def Let_def)
qed

lemma newAllInOneStrategy_in_charge:
  assumes "newAllInOneStrategy e Intn j = Inr (str, j')" "clean j"
  shows "list_all (in_charge j) (All str)"
proof (rule instance_pairs [of e j])
  let ?j = "settle_query j"
  fix ss qs ds
  assume p: "AllInOne_Services e j = (ss, ?j)" "Query_Services j = (qs, ?j)" "Dependencies e ?j = (ds, settle_cassandra ?j)"
  obtain cl where c: "index_cleaner e ?j = Inr cl" and str: "str = (add_access e ?j ((base_strategy e DeploymentStrategyAllInOne j)
      \<lparr>S_deployments := [OAuthProxy e Intn j (AllInOne_Get e j)], S_daemonSets := opt_list (Agent_Get e j), S_services := ss\<rparr>))
      \<lparr>S_cronJobs := spark_jobs e ?j @ cl @ es_rollover e ?j, S_dependencies := ds\<rparr>"
    using assms(1) p(1,3) by (auto simp: newAllInOneStrategy_def Let_def res_bind_Inr_iff)
  note clean' = settled_clean(1) [OF assms(2)]
  note same = same_owner_child [OF settled_owner(1)] same_owner_in_charge [OF settled_owner(1)]
  note base = base_strategy_objects [OF assms(2)]
  have "list_all (\<lambda>x. child j (svc_Meta x)) ss" using child_services_of(1) [OF assms(2), of e] p(1) by simp
  moreover have "list_all (\<lambda>x. child j (job_Meta x)) ds" using child_jobs(4) [OF clean', of e] p(3) by (simp add: same)
  moreover have "list_all (\<lambda>x. child j (cj_Meta x)) (spark_jobs e ?j @ cl @ es_rollover e ?j)"
    using child_jobs(1,2) [OF clean', of e] child_jobs(3) [OF clean' c] by (simp add: same)
  moreover note add_access_objects [OF clean', of "(base_strategy e DeploymentStrategyAllInOne j)
      \<lparr>S_deployments := [OAuthProxy e Intn j (AllInOne_Get e j)], S_daemonSets := opt_list (Agent_Get e j), S_services := ss\<rparr>" e]
  ultimately show ?thesis unfolding str
    by (intro All_in_charge) (simp_all add: base same child_deployments [OF assms(2)])
qed

lemma newProductionStrategy_in_charge:
  assumes "newProductionStrategy e Intn j = Inr (str, j')" "clean j"
  shows "list_all (in_charge j) (All str)"
proof (rule instance_pairs [of e j])
  let ?j = "settle_query j"
  let ?base = "(base_strategy e DeploymentStrategyProduction j)\<lparr>S_daemonSets := opt_list (Agent_Get e j)\<rparr>"
  fix ss qs ds
  assume p: "AllInOne_Services e j = (ss, ?j)" "Query_Services j = (qs, ?j)" "Dependencies e ?j = (ds, settle_cassandra ?j)"
  obtain cl deps' deployments crons es where c: "index_cleaner e ?j = Inr cl"
    and r: "provision_if_needed (settle_cassandra ?j) ds (cl @ es_rollover e ?j) [OAuthProxy e Intn ?j (Query_Get e ?j), Collector_Get e ?j]
      = Inr (deployments, deps', crons, es)"
    and str: "str = (add_access e ?j (?base\<lparr>S_services := Collector_Services e j @ qs\<rparr>))\<lparr>S_horizontalPodAutoscalers := Collector_Autoscalers e ?j,
      S_cronJobs := spark_jobs e ?j @ crons, S_dependencies := deps', S_elasticsearches := es, S_deployments := rev deployments\<rparr>"
    using assms(1) p(2,3) by (auto simp: newProductionStrategy_def Let_def res_bind_Inr_iff)
  note clean' = settled_clean(1) [OF assms(2)]
  note same = same_owner_child [OF settled_owner(1)] same_owner_in_charge [OF settled_owner(1)]
  note base = base_strategy_objects [OF assms(2)]
  have deps: "list_all (\<lambda>x. child ?j (job_Meta x)) ds" using child_jobs(4) [OF clean', of e] p(3) by simp
  have crons: "list_all (\<lambda>x. child ?j (cj_Meta x)) (cl @ es_rollover e ?j)" using child_jobs(2) [OF clean', of e] child_jobs(3) [OF clean' c] by simp
  have pods: "list_all (\<lambda>x. child ?j (dep_Meta x)) [OAuthProxy e Intn ?j (Query_Get e ?j), Collector_Get e ?j]"
    using child_deployments [OF clean', of e] by simp
  note objs = provision_objects [OF r settled_owner(2) clean' pods deps crons, unfolded same]
  have "list_all (\<lambda>x. child j (svc_Meta x)) (Collector_Services e j @ qs)"
    using child_services_of(2) [OF assms(2), of e] child_services_of(3) [OF assms(2)] p(2) by simp
  moreover have "list_all (\<lambda>x. child j (cj_Meta x)) (spark_jobs e ?j @ crons)" using child_jobs(1) [OF clean', of e] objs(3) by (simp add: same)
  moreover have "list_all (\<lambda>x. child j (hpa_Meta x)) (Collector_Autoscalers e ?j)" using child_autoscalers(1) [OF clean', of e] by (simp add: same)
  moreover note add_access_objects [OF clean', of "?base\<lparr>S_services := Collector_Services e j @ qs\<rparr>" e]
  ultimately show ?thesis unfolding str
    by (intro All_in_charge) (use objs in \<open>simp_all add: base same child_deployments(5) [OF assms(2)]\<close>)
qed

text \<open>The manifest that the streaming strategy starts with.\<close>

lemma provisioned_manifest:
  assumes "clean j" "js_Strategy (j_Spec j) = DeploymentStrategyStreaming"
    and "(if provisions_kafka j then autoProvisionKafka e j (base_strategy e DeploymentStrategyStreaming j)
      else (base_strategy e DeploymentStrategyStreaming j, j)) = (m, k)"
  shows "k = settle_kafka j" "S_accounts m = account_Get j" "S_clusterRoleBindings m = clusterrolebinding_Get e j"
    "S_configMaps m = S_configMaps (base_strategy e DeploymentStrategyStreaming j)"
    "S_routes m = []" "S_consoleLinks m = []" "S_ingresses m = []" "S_secrets m = []"
    "list_all (\<lambda>x. child j (kf_Meta x)) (S_kafkas m)" "list_all (\<lambda>x. child j (ku_Meta x)) (S_kafkaUsers m)"
proof -
  let ?j = "j\<lparr>j_Meta := (j_Meta j)\<lparr>om_Annotations :=
      Some (AList.update AnnotationProvisionedKafkaKey AnnotationProvisionedKafkaValue (entries (j_Annotations j)))\<rparr>\<rparr>"
  have "same_owner ?j j" by (simp add: same_owner_def)
  then have c: "child j = child ?j" by (simp add: same_owner_child)
  have t: "Truncate (j_Name ?j) 63 [] = j_Name ?j" using cleanD(11) [OF assms(1)] by simp
  show "k = settle_kafka j"
    using assms(3) snd_autoProvisionKafka [OF assms(2), of e] by (auto simp: settle_kafka_def split: if_splits dest: arg_cong [of _ _ snd])
  show "S_accounts m = account_Get j" "S_clusterRoleBindings m = clusterrolebinding_Get e j"
    "S_configMaps m = S_configMaps (base_strategy e DeploymentStrategyStreaming j)"
    "S_routes m = []" "S_consoleLinks m = []" "S_ingresses m = []" "S_secrets m = []"
    using assms(3) by (auto simp: autoProvisionKafka_def base_strategy_def S_New_def Let_def split: if_splits)
  show "list_all (\<lambda>x. child j (kf_Meta x)) (S_kafkas m)" "list_all (\<lambda>x. child j (ku_Meta x)) (S_kafkaUsers m)"
    using assms(3) child_kafka [OF t] unfolding c
    by (auto simp: autoProvisionKafka_def base_strategy_def S_New_def Let_def split: if_splits)
qed

lemma newStreamingStrategy_in_charge:
  assumes "newStreamingStrategy e Intn j = Inr (str, j')" "clean j" "js_Strategy (j_Spec j) = DeploymentStrategyStreaming"
  shows "list_all (in_charge j) (All str)"
proof -
  obtain m k where k: "(if provisions_kafka j then autoProvisionKafka e j (base_strategy e DeploymentStrategyStreaming j)
      else (base_strategy e DeploymentStrategyStreaming j, j)) = (m, k)" by (rule prod.exhaust)
  note m = provisioned_manifest [OF assms(2,3) k]
  have clean_k: "clean k" unfolding m(1) by (rule settled_clean(3) [OF assms(2)])
  show ?thesis
  proof (rule instance_pairs [of e k])
    let ?j = "settle_query k"
    fix ss qs ds
    assume p: "AllInOne_Services e k = (ss, ?j)" "Query_Services k = (qs, ?j)" "Dependencies e ?j = (ds, settle_cassandra ?j)"
    let ?base = "m\<lparr>S_daemonSets := opt_list (Agent_Get e k), S_services := Collector_Services e k @ qs\<rparr>"
    obtain cl q deps' deployments crons es where c: "index_cleaner e ?j = Inr cl"
      and q: "(if q_TracingEnabled (js_Query (j_Spec ?j)) = Some False then Inr (OAuthProxy e Intn ?j (Query_Get e ?j))
          else res_bind (Sidecar e ?j (OAuthProxy e Intn ?j (Query_Get e ?j)) []) (\<lambda>d. Inr (share_labels d))) = Inr q"
      and r: "provision_if_needed (settle_cassandra ?j) ds (cl @ es_rollover e ?j) (q # opt_list (Ingester_Get e ?j)) = Inr (deployments, deps', crons, es)"
      and str: "str = (add_access e ?j ?base)\<lparr>S_horizontalPodAutoscalers := Collector_Autoscalers e ?j @ Ingester_Autoscalers e ?j,
        S_cronJobs := spark_jobs e ?j @ crons, S_dependencies := deps', S_elasticsearches := es, S_deployments := Collector_Get e ?j # deployments\<rparr>"
      using assms(1) p(2,3) unfolding newStreamingStrategy_def k Let_def by (auto simp: res_bind_Inr_iff)
    note clean' = settled_clean(1) [OF clean_k]
    have same: "child k = child j" "child ?j = child j" "in_charge ?j = in_charge j"
      using same_owner_child [OF settled_owner(1), of k] same_owner_child [OF settled_owner(3), of j]
        same_owner_in_charge [OF settled_owner(1), of k] same_owner_in_charge [OF settled_owner(3), of j] m(1) by simp_all
    have deps: "list_all (\<lambda>x. child ?j (job_Meta x)) ds" using child_jobs(4) [OF clean', of e] p(3) by simp
    have crons: "list_all (\<lambda>x. child ?j (cj_Meta x)) (cl @ es_rollover e ?j)" using child_jobs(2) [OF clean', of e] child_jobs(3) [OF clean' c] by simp
    have "child ?j (dep_Meta q)"
      using q child_deployments(3) [OF clean', of e] child_Sidecar [of e ?j "OAuthProxy e Intn ?j (Query_Get e ?j)" "[]" _ ?j]
      by (auto simp: res_bind_Inr_iff split: if_splits)
    then have pods: "list_all (\<lambda>x. child ?j (dep_Meta x)) (q # opt_list (Ingester_Get e ?j))" using child_deployments(4) [OF clean', of e] by simp
    note objs = provision_objects [OF r settled_owner(2) clean' pods deps crons, unfolded same]
    have "list_all (\<lambda>x. child j (svc_Meta x)) (Collector_Services e k @ qs)"
      using child_services_of(2) [OF clean_k, of e] child_services_of(3) [OF clean_k] p(2) by (simp add: same)
    moreover have "list_all (\<lambda>x. child j (cj_Meta x)) (spark_jobs e ?j @ crons)" using child_jobs(1) [OF clean', of e] objs(3) by (simp add: same)
    moreover have "list_all (\<lambda>x. child j (hpa_Meta x)) (Collector_Autoscalers e ?j @ Ingester_Autoscalers e ?j)"
      using child_autoscalers [OF clean', of e] by (simp add: same)
    moreover note add_access_objects [OF clean', of ?base e]
    ultimately show ?thesis unfolding str
      by (intro All_in_charge)
        (use objs m(2-10) base_strategy_objects [OF assms(2), of e] child_deployments(2) [OF clean', of e] child_deployments(5) [OF clean_k, of e] child_accounts [OF cleanD(11) [OF assms(2)]]
          in_charge_bindings [OF cleanD(11) [OF assms(2)], of e] in \<open>simp_all add: same\<close>)
  qed
qed

section \<open>Every object of a strategy\<close>

lemma normalize_core_blocks: "component_blocks (j_Spec (normalize_core e j)) = component_blocks (j_Spec j)"
proof -
  have "jd_Common (spark_defaults a d) = jd_Common d" for a d by (simp add: spark_defaults_def Let_def)
  then have d: "jd_Common (st_Dependencies (normalizeSparkDependencies st)) = jd_Common (st_Dependencies st)" for st
    by (simp add: normalizeSparkDependencies_def)
  have i: "ic_Common (normalizeIndexCleaner t c) = ic_Common c" for t c by (simp add: normalizeIndexCleaner_def Let_def)
  have r: "ro_Common (normalizeRollover c) = ro_Common c" for c by (simp add: normalizeRollover_def)
  have y: "ji_Common (normalize_security e n g) = ji_Common g" for n g by (simp add: normalize_security_def Let_def)
  have s: "component_blocks (normalize_strategy sp) = component_blocks sp" for sp
    by (simp add: normalize_strategy_def component_blocks_def Let_def)
  have l: "component_blocks (normalize_labels sp) = component_blocks sp" for sp by (simp add: normalize_labels_def component_blocks_def)
  have u: "component_blocks (js_Storage_update f sp) = component_blocks sp"
    if "\<And>st. ic_Common (st_EsIndexCleaner (f st)) = ic_Common (st_EsIndexCleaner st)" "\<And>st. jd_Common (st_Dependencies (f st)) = jd_Common (st_Dependencies st)"
      "\<And>st. ro_Common (st_EsRollover (f st)) = ro_Common (st_EsRollover st)" for f sp
    using that by (simp add: component_blocks_def)
  have v: "component_blocks (js_Ingress_update f sp) = component_blocks sp" if "\<And>g. ji_Common (f g) = ji_Common g" for f sp
    using that by (simp add: component_blocks_def)
  have k: "st_EsIndexCleaner (normalizeSparkDependencies st) = st_EsIndexCleaner st" "st_EsRollover (normalizeSparkDependencies st) = st_EsRollover st" for st
    by (simp_all add: normalizeSparkDependencies_def)
  show ?thesis by (simp add: normalize_core_def Let_def u v l s d i r y k normalize_name_def)
qed

lemma normalize_clean:
  assumes "normalize e j = Inr k" "j_Name j \<noteq> []" "list_all unreserved (component_blocks (j_Spec j))" "Truncate (j_Name j) 63 [] = j_Name j"
  shows "clean k" "same_owner k j"
proof -
  have "component_blocks (j_Spec k) = component_blocks (j_Spec (normalize_core e j))"
    by (subst normalize_result [OF assms(1)]) (simp add: component_blocks_def)
  then have "list_all unreserved (component_blocks (j_Spec k))" using assms(3) by (simp add: normalize_core_blocks)
  moreover have "unreserved (js_Common (j_Spec k))" "unreserved (aio_Common (js_AllInOne (j_Spec k)))" "unreserved (q_Common (js_Query (j_Spec k)))"
    using normalize_establishes_aux [OF assms(1)] by (auto simp: normal_spec_def unreserved_def)
  ultimately show "clean k" using assms(4) normalize_meta [OF assms(1,2)] by (simp add: clean_def blocks_def)
  have "j_TypeMeta k = j_TypeMeta (normalize_core e j)" by (subst normalize_result [OF assms(1)]) simp
  then show "same_owner k j" using normalize_meta [OF assms(1,2)] by (simp add: same_owner_def normalize_core_def Let_def normalize_name_def)
qed

lemma strategy_in_charge:
  assumes "For e Intn j = Inr (str, j')" and "j_Name j \<noteq> []" and "Truncate (j_Name j) 63 [] = j_Name j"
    and "list_all unreserved (component_blocks (j_Spec j))"
  shows "list_all (in_charge j) (All str)"
proof -
  obtain k where k: "normalize e (renamed j) = Inr k"
    "(if js_Strategy (j_Spec k) = DeploymentStrategyAllInOne then newAllInOneStrategy e Intn k
       else if js_Strategy (j_Spec k) = DeploymentStrategyStreaming then newStreamingStrategy e Intn k else newProductionStrategy e Intn k)
     = Inr (str, j')"
    using assms(1) by (auto simp: For_def renamed_def res_bind_Inr_iff)
  have r: "j_Name (renamed j) = j_Name j" "component_blocks (j_Spec (renamed j)) = component_blocks (j_Spec j)" "same_owner (renamed j) j"
    by (simp_all add: renamed_def component_blocks_def same_owner_def)
  have c: "clean k" "same_owner k (renamed j)" using normalize_clean [OF k(1)] assms(2-4) r by simp_all
  have "list_all (in_charge k) (All str)"
    using k(2) newAllInOneStrategy_in_charge [OF _ c(1)] newStreamingStrategy_in_charge [OF _ c(1)] newProductionStrategy_in_charge [OF _ c(1)]
    by (simp split: if_splits)
  then show ?thesis using same_owner_in_charge [OF c(2)] same_owner_in_charge [OF r(3)] by simp
qed



end
