(* ===== verification/First_Reconciliation.thy ===== *)
theory First_Reconciliation
  imports Strategy_Ownership
begin

text \<open>
  The first reconciliation of an instance: on a cluster that holds no object yet, nothing can go wrong.  The apply
  functions find nothing, so that their inventories only create; the keys of an inventory are distinct, so that no
  object exists already; and the deployments that were created are stable.
\<close>

section \<open>Operations that only create\<close>

text \<open>The operation succeeds on a cluster without objects of the kinds \<open>ks\<close>, and creates objects of these kinds only.\<close>

definition only_creates :: "kind set \<Rightarrow> World op \<Rightarrow> bool" where
  "only_creates ks f \<longleftrightarrow> (\<forall>w. kind_of ` set (w_objs w) \<inter> ks = {} \<longrightarrow>
     (\<exists>xs. f w = (None, w\<lparr>w_objs := xs @ w_objs w\<rparr>) \<and> kind_of ` set xs \<subseteq> ks))"

lemma only_createsE:
  assumes "only_creates ks f" "kind_of ` set (w_objs w) \<inter> ks = {}"
  obtains xs where "f w = (None, w\<lparr>w_objs := xs @ w_objs w\<rparr>)" "kind_of ` set xs \<subseteq> ks"
  using assms unfolding only_creates_def by blast

lemma only_creates_skip: "only_creates ks skip"
  unfolding only_creates_def skip_def by (auto intro!: exI [of _ "[]"])

lemma only_creates_mono:
  assumes "only_creates ks f" "ks \<subseteq> ks'"
  shows "only_creates ks' f"
  unfolding only_creates_def
proof (intro allI impI)
  fix w :: World assume "kind_of ` set (w_objs w) \<inter> ks' = {}"
  with assms(2) have "kind_of ` set (w_objs w) \<inter> ks = {}" by blast
  then obtain xs where "f w = (None, w\<lparr>w_objs := xs @ w_objs w\<rparr>)" "kind_of ` set xs \<subseteq> ks" by (rule only_createsE [OF assms(1)])
  with assms(2) show "\<exists>xs. f w = (None, w\<lparr>w_objs := xs @ w_objs w\<rparr>) \<and> kind_of ` set xs \<subseteq> ks'" by blast
qed

lemma only_creates_andthen:
  assumes "only_creates ks f" "only_creates ks' g" "ks \<inter> ks' = {}"
  shows "only_creates (ks \<union> ks') (andthen f g)"
  unfolding only_creates_def
proof (intro allI impI)
  fix w :: World assume w: "kind_of ` set (w_objs w) \<inter> (ks \<union> ks') = {}"
  obtain xs where 1: "f w = (None, w\<lparr>w_objs := xs @ w_objs w\<rparr>)" "kind_of ` set xs \<subseteq> ks"
    by (rule only_createsE [OF assms(1), of w]) (use w in blast)+
  have "kind_of ` set (w_objs (w\<lparr>w_objs := xs @ w_objs w\<rparr>)) \<inter> ks' = {}" using w 1(2) assms(3) by auto
  then obtain ys where 2: "g (w\<lparr>w_objs := xs @ w_objs w\<rparr>) = (None, w\<lparr>w_objs := ys @ xs @ w_objs w\<rparr>)" "kind_of ` set ys \<subseteq> ks'"
    by (rule only_createsE [OF assms(2)]) simp
  have "andthen f g w = (None, w\<lparr>w_objs := (ys @ xs) @ w_objs w\<rparr>)" by (simp add: andthen_def 1(1) 2(1))
  then show "\<exists>zs. andthen f g w = (None, w\<lparr>w_objs := zs @ w_objs w\<rparr>) \<and> kind_of ` set zs \<subseteq> ks \<union> ks'"
    using 1(2) 2(2) by (intro exI [of _ "ys @ xs"]) auto
qed

lemma only_creates_logged: "only_creates ks f \<Longrightarrow> only_creates ks (logged f)"
  unfolding only_creates_def logged_def by fastforce

section \<open>The first inventory\<close>

lemma creates_absent:
  assumes "distinct (map ident xs)" "ident ` set xs \<inter> ident ` set (w_objs w) = {}"
  shows "for_each (cl_Create world_client) xs w = (None, w\<lparr>w_objs := rev xs @ w_objs w\<rparr>)"
  using assms
proof (induction xs arbitrary: w)
  case (Cons x xs)
  have "cl_Create world_client x w = (None, w\<lparr>w_objs := x # w_objs w\<rparr>)"
    using Cons.prems(2) by (simp add: world_client_def on_objs_def mem_client_def mem_find_def)
  moreover have "for_each (cl_Create world_client) xs (w\<lparr>w_objs := x # w_objs w\<rparr>) = (None, w\<lparr>w_objs := rev xs @ x # w_objs w\<rparr>)"
    using Cons.prems Cons.IH [of "w\<lparr>w_objs := x # w_objs w\<rparr>"] by auto
  ultimately show ?case by simp
qed simp

lemma lists_nothing:
  assumes "k \<notin> kind_of ` set (w_objs w)"
  shows "with_list world_client k ns ls un rest w = rest [] w"
proof -
  have "filter (Cluster.selects k ns ls) (mem_objs (w_objs w)) = []"
    using assms by (auto simp: filter_empty_conv mem_objs_def Cluster.selects_def)
  then show ?thesis by (simp add: with_list_def world_client_def on_objs_def mem_client_def map_filter_def)
qed

lemma listed:
  assumes "\<And>items. only_creates ks (rest items)"
  shows "only_creates ks (with_list world_client k ns ls un rest)"
proof -
  have "\<exists>items. with_list world_client k ns ls un rest w = rest items w" for w
    by (simp add: with_list_def world_client_def on_objs_def mem_client_def) (rule exI, rule refl)
  then show ?thesis using assms unfolding only_creates_def by metis
qed

lemma first_list:
  assumes "only_creates {k} (rest [])"
  shows "only_creates {k} (with_list world_client k ns ls un rest)"
  unfolding only_creates_def
proof (intro allI impI)
  fix w :: World assume w: "kind_of ` set (w_objs w) \<inter> {k} = {}"
  then have l: "with_list world_client k ns ls un rest w = rest [] w" by (intro lists_nothing) blast
  show "\<exists>xs. with_list world_client k ns ls un rest w = (None, w\<lparr>w_objs := xs @ w_objs w\<rparr>) \<and> kind_of ` set xs \<subseteq> {k}"
    unfolding l by (rule only_createsE [OF assms w]) blast
qed

context inventory_kind
begin

lemma builder_first: "inv_Update (builder [] ds) = []" "inv_Delete (builder [] ds) = []" "distinct (map key (inv_Create (builder [] ds)))"
proof -
  have l: "last_with key k [] = None" for k by (simp add: last_with_def)
  show "inv_Update (builder [] ds) = []" "inv_Delete (builder [] ds) = []"
    by (simp_all add: builder_lists l map_filter_def object_map_def case_prod_beta)
  show "distinct (map key (inv_Create (builder [] ds)))"
    using wf_object_map [of key ds] unfolding builder_lists map_key_object_map by simp
qed

lemma first_idents:
  assumes "\<And>d. key d = h (ident (wrap d))"
  shows "distinct (map ident (map wrap (inv_Create (builder [] ds))))"
proof -
  have k: "key = (\<lambda>d. h (ident (wrap d)))" using assms by blast
  have "distinct (map (\<lambda>d. h (ident (wrap d))) (inv_Create (builder [] ds)))" by (rule builder_first(3) [of ds, unfolded k])
  then have "distinct (map h (map ident (map wrap (inv_Create (builder [] ds)))))" by (simp add: o_def)
  then show ?thesis unfolding distinct_map by blast
qed

lemma first_desired: "set (inv_Create (builder [] ds)) \<subseteq> set ds"
  using last_with_key by (fastforce simp: in_Create_iff)

lemma first_creates:
  assumes "\<And>d. key d = h (ident (wrap d))" "\<And>d. d \<in> set ds \<Longrightarrow> kind_of (wrap d) = k" "kind_of ` set (w_objs w) \<inter> {k} = {}"
  shows "for_each (cl_Create world_client) (map wrap (inv_Create (builder [] ds))) w =
    (None, w\<lparr>w_objs := rev (map wrap (inv_Create (builder [] ds))) @ w_objs w\<rparr>)"
proof (rule creates_absent [OF first_idents [OF assms(1)]])
  have "fst i = k" if "i \<in> ident ` set (map wrap (inv_Create (builder [] ds)))" for i
    using that assms(2) first_desired [of ds] by (auto simp: ident_def)
  moreover have "fst i \<noteq> k" if "i \<in> ident ` set (w_objs w)" for i using that assms(3) by (auto simp: ident_def)
  ultimately show "ident ` set (map wrap (inv_Create (builder [] ds))) \<inter> ident ` set (w_objs w) = {}" by blast
qed

lemma first_run:
  assumes "\<And>d. key d = h (ident (wrap d))" "\<And>d. d \<in> set ds \<Longrightarrow> kind_of (wrap d) = k"
  shows "only_creates {k} (run_inventory world_client wrap (builder [] ds))"
  unfolding only_creates_def
proof (intro allI impI)
  fix w :: World assume w: "kind_of ` set (w_objs w) \<inter> {k} = {}"
  let ?xs = "rev (map wrap (inv_Create (builder [] ds)))"
  have "run_inventory world_client wrap (builder [] ds) w = (None, w\<lparr>w_objs := ?xs @ w_objs w\<rparr>)"
    by (simp add: run_inventory_def builder_first(1,2) andthen_def first_creates [OF assms w])
  moreover have "kind_of ` set ?xs \<subseteq> {k}" using assms(2) first_desired [of ds] by auto
  ultimately show "\<exists>xs. run_inventory world_client wrap (builder [] ds) w = (None, w\<lparr>w_objs := xs @ w_objs w\<rparr>) \<and> kind_of ` set xs \<subseteq> {k}"
    by blast
qed

lemma first_inventory:
  assumes "\<And>d. key d = h (ident (wrap d))" "\<And>d. kind_of (wrap d) = k"
  shows "only_creates {k} (with_list world_client k ns ls un (\<lambda>existing. run_inventory world_client wrap (builder existing ds)))"
  by (rule first_list, rule first_run [OF assms(1)], rule assms(2))

end

section \<open>The apply functions\<close>

definition objkey_of :: "kind \<times> string \<times> string \<Rightarrow> string" where
  "objkey_of i = fst (snd i) @ ''.'' @ snd (snd i)"

lemma objkey_ident:
  "objkey (sa_Meta d1) = objkey_of (ident (OAccount d1))" "objkey (cm_Meta d2) = objkey_of (ident (OConfigMap d2))"
  "objkey (dae_Meta d3) = objkey_of (ident (ODaemonSet d3))" "objkey (ing_Meta d4) = objkey_of (ident (OIngress d4))"
  "objkey (rt_Meta d5) = objkey_of (ident (ORoute d5))" "objkey (sec_Meta d6) = objkey_of (ident (OSecret d6))"
  "objkey (svc_Meta d7) = objkey_of (ident (OService d7))" "objkey (dep_Meta d8) = objkey_of (ident (ODeployment d8))"
  "objkey (crb_Meta d9) = objkey_of (ident (OClusterRoleBinding d9))"
  by (simp_all add: objkey_of_def objkey_def ident_def)

lemma first_applies:
  "only_creates {KAccount} (applyAccounts world_client j d1)" "only_creates {KConfigMap} (applyConfigMaps world_client j d2)"
  "only_creates {KDaemonSet} (applyDaemonSets world_client j d3)" "only_creates {KIngress} (applyIngresses world_client j d4)"
  "only_creates {KRoute} (applyRoutes world_client j d5)" "only_creates {KSecret} (applySecrets world_client j d6)"
  "only_creates {KService} (applyServices world_client j d7)"
  unfolding applyAccounts_def applyConfigMaps_def applyDaemonSets_def applyIngresses_def applyRoutes_def applySecrets_def applyServices_def
  by (rule accounts.first_inventory configmaps.first_inventory daemonsets.first_inventory ingresses.first_inventory
      routes.first_inventory secrets.first_inventory services.first_inventory; rule objkey_ident kind_of.simps)+

lemma first_bindings: "only_creates {KClusterRoleBinding} (applyClusterRoleBindingBindings e world_client j ds)"
proof -
  have "only_creates {KClusterRoleBinding} (with_list world_client KClusterRoleBinding None (instance_labels j) un_ClusterRoleBinding
     (\<lambda>existing. run_inventory world_client OClusterRoleBinding (ForClusterRoleBindings existing ds)))"
    by (rule bindings.first_inventory; rule objkey_ident kind_of.simps)
  then show ?thesis unfolding applyClusterRoleBindingBindings_def by (simp add: only_creates_skip)
qed

lemma first_console_links: "only_creates {KConsoleLink} (applyConsoleLinks e world_client j ds)"
proof -
  have "only_creates {KConsoleLink} (with_list world_client KConsoleLink None ls un_ConsoleLink
     (\<lambda>existing. run_inventory world_client OConsoleLink (ForConsoleLinks existing ds)))" for ls
    by (rule consolelinks.first_inventory [where h = "\<lambda>i. snd (snd i)"]) (simp_all add: ident_def)
  then show ?thesis unfolding applyConsoleLinks_def by (simp add: only_creates_skip)
qed

lemma first_versioned:
  assumes "\<And>d. d \<in> set crons \<Longrightarrow> cj_Version d = cronjob_version_of e" "\<And>d. d \<in> set scalers \<Longrightarrow> hpa_Version d = hpa_version_of e"
  shows "only_creates {KCronJob (cronjob_version_of e)} (applyCronJobs e world_client j crons)"
    and "only_creates {KHPA (hpa_version_of e)} (applyHorizontalPodAutoscalers e world_client j scalers)"
proof -
  have k: "objkey (cj_Meta d1) = objkey_of (ident (OCronJob d1))" "objkey (hpa_Meta d2) = objkey_of (ident (OHPA d2))" for d1 d2
    by (simp_all add: objkey_of_def objkey_def ident_def)
  have "only_creates {KCronJob (cronjob_version_of e)} (run_inventory world_client OCronJob (build_inventory (\<lambda>d. objkey (cj_Meta d)) update_CronJob [] crons))"
    by (rule cronjobs.first_run [OF k(1)]) (simp add: assms(1))
  then show "only_creates {KCronJob (cronjob_version_of e)} (applyCronJobs e world_client j crons)"
    unfolding applyCronJobs_def using assms(1) by (intro first_list) (simp add: ForCronJobs_def)
  have "only_creates {KHPA (hpa_version_of e)} (run_inventory world_client OHPA (build_inventory (\<lambda>d. objkey (hpa_Meta d)) update_HPA [] scalers))"
    by (rule autoscalers.first_run [OF k(2)]) (simp add: assms(2))
  then show "only_creates {KHPA (hpa_version_of e)} (applyHorizontalPodAutoscalers e world_client j scalers)"
    unfolding applyHorizontalPodAutoscalers_def using assms(2) by (intro first_list) (simp add: ForHorizontalPodAutoscalers_def)
qed

lemma first_wait:
  assumes "ident (ODeployment d) \<in> ident ` set (w_objs w)" "\<And>d'. ODeployment d' \<in> set (w_objs w) \<Longrightarrow> deployment_stable d'"
  shows "waitForStability world_client d w = (None, w)"
proof -
  let ?i = "(KDeployment, om_Namespace (dep_Meta d), om_Name (dep_Meta d))"
  obtain x where x: "find (\<lambda>x. ident x = ?i) (w_objs w) = Some x"
    using assms(1) by (cases "find (\<lambda>x. ident x = ?i) (w_objs w)") (auto simp: find_None_iff ident_def)
  from find_SomeD [OF x] have "x \<in> set (w_objs w)" "kind_of x = KDeployment" by (simp_all add: ident_def)
  have "\<exists>d'. x = ODeployment d'" using \<open>kind_of x = KDeployment\<close> by (cases x) simp_all
  then obtain d' where d': "x = ODeployment d'" by blast
  with assms(2) \<open>x \<in> set (w_objs w)\<close> have st: "deployment_stable d'" by blast
  have "get_typed world_client KDeployment un_Deployment (dep_Meta d) w = (Inr d', w)"
    using x d' by (simp add: get_typed_def world_client_def on_objs_def mem_client_def un_Deployment_def)
  then have "watch_object (get_typed world_client KDeployment un_Deployment (dep_Meta d)) ErrDeploymentRemoved deployment_stable False w = (Done, True, w)"
    using st by (simp add: watch_object_def)
  then show ?thesis unfolding waitForStability_def by (rule poll_immediate [rotated]) (simp add: world_client_def mem_client_def)
qed

lemma for_each_idle: "(\<And>x. x \<in> set xs \<Longrightarrow> f x w = (None, w)) \<Longrightarrow> for_each f xs w = (None, w)"
  by (induction xs) simp_all

lemma first_deployments:
  assumes "\<And>d. d \<in> set ds \<Longrightarrow> deployment_stable d"
  shows "only_creates {KDeployment} (applyDeployments world_client j ds)"
  unfolding only_creates_def
proof (intro allI impI)
  fix w :: World assume w: "kind_of ` set (w_objs w) \<inter> {KDeployment} = {}"
  let ?new = "inv_Create (ForDeployments [] ds)"
  let ?w = "w\<lparr>w_objs := rev (map ODeployment ?new) @ w_objs w\<rparr>"
  have c: "for_each (cl_Create world_client) (map ODeployment ?new) w = (None, ?w)"
    by (rule deployments.first_creates [OF _ _ w]; rule objkey_ident kind_of.simps)
  note new = deployments.first_desired [of ds]
  have "waitForStability world_client d ?w = (None, ?w)" if "d \<in> set ?new" for d
  proof (rule first_wait)
    show "ident (ODeployment d) \<in> ident ` set (w_objs ?w)" using that by auto
    fix d' assume "ODeployment d' \<in> set (w_objs ?w)"
    then show "deployment_stable d'" using w new assms by force
  qed
  then have "for_each (waitForStability world_client) ?new ?w = (None, ?w)" by (rule for_each_idle)
  then have "applyDeployments world_client j ds w = (None, ?w)"
    using w by (simp add: applyDeployments_def lists_nothing run_inventory_waiting_def deployments.builder_first(1,2) andthen_def c)
  then show "\<exists>xs. applyDeployments world_client j ds w = (None, w\<lparr>w_objs := xs @ w_objs w\<rparr>) \<and> kind_of ` set xs \<subseteq> {KDeployment}"
    by (intro exI [of _ "rev (map ODeployment ?new)"]) auto
qed

section \<open>All objects of a strategy\<close>

lemma first_last:
  assumes "\<And>d. d \<in> set (S_horizontalPodAutoscalers str) \<Longrightarrow> hpa_Version d = hpa_version_of e"
  shows "only_creates {KHPA (hpa_version_of e), KDaemonSet} (apply_last e world_client j str)"
proof -
  have h: "only_creates {KHPA (hpa_version_of e)} (applyHorizontalPodAutoscalers e world_client j (S_horizontalPodAutoscalers str))"
    by (rule first_versioned(2) [of "[]"]) (use assms in auto)
  have "apply_last e world_client j str w = andthen (applyHorizontalPodAutoscalers e world_client j (S_horizontalPodAutoscalers str))
      (applyDaemonSets world_client j (S_daemonSets str)) w" if "kind_of ` set (w_objs w) \<inter> {KHPA (hpa_version_of e)} = {}" for w
    by (rule only_createsE [OF h that]) (simp_all add: apply_last_def andthen_def)
  moreover have "only_creates ({KHPA (hpa_version_of e)} \<union> {KDaemonSet})
      (andthen (applyHorizontalPodAutoscalers e world_client j (S_horizontalPodAutoscalers str)) (applyDaemonSets world_client j (S_daemonSets str)))"
    by (rule only_creates_andthen [OF h first_applies(3)]) simp_all
  ultimately show ?thesis unfolding only_creates_def by (auto simp: disjoint_iff insert_commute)
qed

lemma first_access: "only_creates {KRoute, KConsoleLink, KIngress} (apply_access e world_client j str)"
proof -
  have "only_creates {KConsoleLink} (apply_console_links e world_client j str)"
    unfolding apply_console_links_def by (intro only_creates_logged listed first_console_links)
  from only_creates_andthen [OF first_applies(5) this]
  have "only_creates {KRoute, KConsoleLink} (andthen (applyRoutes world_client j (S_routes str)) (apply_console_links e world_client j str))"
    by (simp add: insert_commute)
  from only_creates_mono [OF this] only_creates_mono [OF first_applies(4)] show ?thesis unfolding apply_access_def by simp
qed

text \<open>What a strategy must be like for its first reconciliation: no job to wait for, stable deployments and the configured versions.\<close>

definition at_once :: "Env \<Rightarrow> S \<Rightarrow> bool" where
  "at_once e str \<longleftrightarrow> S_dependencies str = [] \<and> list_all deployment_stable (S_deployments str) \<and>
     list_all (\<lambda>d. cj_Version d = cronjob_version_of e) (S_cronJobs str) \<and>
     list_all (\<lambda>d. hpa_Version d = hpa_version_of e) (S_horizontalPodAutoscalers str)"

lemma first_objects:
  assumes "at_once e str" "\<not> IsESOperatorIntegrationEnabled e" "\<not> IsKafkaOperatorIntegrationEnabled e"
  shows "only_creates UNIV (apply_objects e world_client j str)"
proof -
  note a = assms(1) [unfolded at_once_def list_all_iff]
  have d: "handleDependencies world_client (S_dependencies str) = skip" using a by (simp add: handleDependencies_def skip_def fun_eq_iff)
  have "only_creates ({KSecret} \<union> ({KAccount} \<union> ({KClusterRoleBinding} \<union> ({KConfigMap} \<union> ({KCronJob (cronjob_version_of e)} \<union>
      ({KService} \<union> ({KDeployment} \<union> ({KRoute, KConsoleLink, KIngress} \<union> {KHPA (hpa_version_of e), KDaemonSet}))))))))
      (apply_objects e world_client j str)"
    unfolding apply_objects_def d if_not_P [OF assms(2)] if_not_P [OF assms(3)] andthen_skip
    by (intro only_creates_andthen first_applies first_bindings first_versioned first_deployments first_access first_last) (use a in auto)
  then show ?thesis by (rule only_creates_mono) simp
qed

section \<open>Strategies without jobs to wait for\<close>

definition no_jobs :: "string \<Rightarrow> bool" where
  "no_jobs t \<longleftrightarrow> t \<noteq> JaegerESStorage \<and> t \<noteq> JaegerCassandraStorage"

lemma no_jobs_parts:
  assumes "no_jobs (st_Type (j_Storage j))"
  shows "spark_jobs e j = []" "index_cleaner e j = Inr []" "es_rollover e j = []" "fst (Dependencies e j) = []"
    "provision_if_needed j deps crons ds = Inr (ds, deps, crons, [])" "\<not> generates_certs j"
  using assms by (simp_all add: no_jobs_def spark_jobs_def SupportedStorage_def index_cleaner_def es_rollover_def EnableRollover_def
      Dependencies_def provision_if_needed_def ShouldInjectOpenShiftElasticsearchConfiguration_def generates_certs_def)

text \<open>Nothing that the builders do to a deployment touches its status.\<close>

lemma status_changes [simp]: "dep_Status (share_labels d) = dep_Status d" "dep_Status (OAuthProxy e Intn j d) = dep_Status d"
  by (simp_all add: share_labels_def Let_def OAuthProxy_def)

lemma status_Sidecar:
  assumes "Sidecar e j d opt = Inr d'"
  shows "dep_Status d' = dep_Status d"
proof -
  have 1: "dep_Status (decorate_containers d opt) = dep_Status d" by (simp add: decorate_containers_def Let_def split: option.split)
  have 2: "dep_Status d1 = dep_Status d" if "decorate d opt = Inr d1" for d1
    using that 1 by (auto simp: decorate_def res_bind_Inr_iff)
  have 3: "dep_Status d2 = dep_Status d1" if "container e j d1 i = Inr (c, d2)" for c d1 d2 i
    using that by (auto simp: container_def res_bind_Inr_iff agent_pod_def Let_def)
  show ?thesis
  proof (cases "case mget (dep_Labels d) Label of Some val \<Rightarrow> val \<noteq> j_Name j | None \<Rightarrow> False")
    case False
    obtain d1 where d1: "decorate d opt = Inr d1" using assms False by (auto simp: Sidecar_def res_bind_Inr_iff)
    obtain h i where h: "HasJaegerAgent d1 = (h, i)" by (rule prod.exhaust)
    obtain c d2 where "container e j d1 (if h then i else - 1) = Inr (c, d2)" "dep_Status d' = dep_Status d2"
      using assms False by (auto simp: Sidecar_def d1 h res_bind_Inr_iff Let_def)
    with 2 [OF d1] 3 show ?thesis by simp
  qed (use assms in \<open>simp add: Sidecar_def\<close>)
qed

lemma stable_status: "dep_Status d = dep_Status d' \<Longrightarrow> deployment_stable d = deployment_stable d'"
  by (simp add: deployment_stable_def)

lemma stable_Gets:
  "deployment_stable (AllInOne_Get e j)" "deployment_stable (Collector_Get e j)" "deployment_stable (Query_Get e j)"
  "Ingester_Get e j = Some d \<Longrightarrow> deployment_stable d"
  by (auto simp: AllInOne_Get_def Collector_Get_def Query_Get_def Ingester_Get_def component_deployment_def deployment_stable_def Let_def split: if_splits)

lemma autoscaler_versions:
  "d \<in> set (Collector_Autoscalers e j) \<Longrightarrow> hpa_Version d = hpa_version_of e"
  "d \<in> set (Ingester_Autoscalers e j) \<Longrightarrow> hpa_Version d = hpa_version_of e"
  by (auto simp: Collector_Autoscalers_def Ingester_Autoscalers_def autoscalers_def Let_def split: if_splits)

lemma add_access_keeps [simp]:
  "S_deployments (add_access e j c) = S_deployments c" "S_horizontalPodAutoscalers (add_access e j c) = S_horizontalPodAutoscalers c"
  by (simp_all add: add_access_def split: option.split)

lemma at_once_All_in_one:
  assumes "newAllInOneStrategy e Intn j = Inr (str, j')" "no_jobs (st_Type (j_Storage j))"
  shows "at_once e str"
proof -
  obtain ss qs ds where p: "AllInOne_Services e j = (ss, settle_query j)" "Dependencies e (settle_query j) = (ds, settle_cassandra (settle_query j))"
    by (rule instance_pairs)
  have q: "no_jobs (st_Type (j_Storage (settle_query j)))" using assms(2) by (simp add: settle_query_frame)
  have "ds = []" using no_jobs_parts(4) [OF q] p(2) by (metis fst_conv)
  then show ?thesis using assms(1) stable_Gets(1) [of e j]
    by (auto simp: newAllInOneStrategy_def p no_jobs_parts [OF q] at_once_def Let_def base_strategy_def S_New_def stable_status [OF status_changes(2)])
qed

lemma at_once_Production:
  assumes "newProductionStrategy e Intn j = Inr (str, j')" "no_jobs (st_Type (j_Storage j))"
  shows "at_once e str"
proof -
  obtain ss qs ds where p: "Query_Services j = (qs, settle_query j)" "Dependencies e (settle_query j) = (ds, settle_cassandra (settle_query j))"
    by (rule instance_pairs)
  have q: "no_jobs (st_Type (j_Storage (settle_query j)))" using assms(2) by (simp add: settle_query_frame)
  then have q': "no_jobs (st_Type (j_Storage (settle_cassandra (settle_query j))))" by (simp add: settle_cassandra_frame no_jobs_def)
  have "ds = []" using no_jobs_parts(4) [OF q] p(2) by (metis fst_conv)
  then show ?thesis using assms(1) stable_Gets(2,3) autoscaler_versions(1)
    by (auto simp: newProductionStrategy_def p no_jobs_parts [OF q] no_jobs_parts(5) [OF q'] at_once_def Let_def list_all_iff
        stable_status [OF status_changes(2)])
qed

lemma at_once_Streaming:
  assumes "newStreamingStrategy e Intn j = Inr (str, j')" "no_jobs (st_Type (j_Storage j))"
  shows "at_once e str"
proof -
  obtain m j1 where k: "(if provisions_kafka j then autoProvisionKafka e j (base_strategy e DeploymentStrategyStreaming j)
      else (base_strategy e DeploymentStrategyStreaming j, j)) = (m, j1)" by (rule prod.exhaust)
  have "j_Storage j1 = j_Storage j" using k by (auto simp: autoProvisionKafka_def Let_def split: if_splits)
  obtain ss qs ds where p: "Query_Services j1 = (qs, settle_query j1)" "Dependencies e (settle_query j1) = (ds, settle_cassandra (settle_query j1))"
    by (rule instance_pairs)
  let ?j = "settle_query j1"
  have q: "no_jobs (st_Type (j_Storage ?j))" using assms(2) \<open>j_Storage j1 = _\<close> by (simp add: settle_query_frame)
  then have q': "no_jobs (st_Type (j_Storage (settle_cassandra ?j)))" by (simp add: settle_cassandra_frame no_jobs_def)
  have ds: "ds = []" using no_jobs_parts(4) [OF q] p(2) by (metis fst_conv)
  obtain d where d: "(if q_TracingEnabled (js_Query (j_Spec ?j)) = Some False then Inr (OAuthProxy e Intn ?j (Query_Get e ?j))
      else res_bind (Sidecar e ?j (OAuthProxy e Intn ?j (Query_Get e ?j)) []) (\<lambda>d. Inr (share_labels d))) = Inr d"
    using assms(1) by (auto simp: newStreamingStrategy_def k Let_def p no_jobs_parts [OF q] res_bind_Inr_iff [of _ _ "(str, j')"])
  have "deployment_stable d"
    using d stable_Gets(3) [of e ?j] by (auto simp: res_bind_Inr_iff deployment_stable_def dest!: status_Sidecar split: if_splits)
  then show ?thesis
    using assms(1) stable_Gets(2,4) autoscaler_versions
    by (auto simp: newStreamingStrategy_def k Let_def p d no_jobs_parts [OF q] no_jobs_parts(5) [OF q'] ds at_once_def list_all_iff opt_list_def split: option.splits)
qed

lemma first_strategy:
  assumes "For e Intn j = Inr (str, j1)" "no_jobs (st_Type (j_Storage j))"
  shows "at_once e str" "no_jobs (st_Type (j_Storage j1))" "j_Version j1 = j_Version j"
proof -
  obtain k where k: "normalize e (renamed j) = Inr k"
    "(if js_Strategy (j_Spec k) = DeploymentStrategyAllInOne then newAllInOneStrategy e Intn k
      else if js_Strategy (j_Spec k) = DeploymentStrategyStreaming then newStreamingStrategy e Intn k else newProductionStrategy e Intn k) = Inr (str, j1)"
    using assms(1) by (auto simp: For_def renamed_def res_bind_Inr_iff)
  have t: "no_jobs (normalize_storage_type (st_Type (j_Storage j)))"
    using assms(2) by (simp add: normalize_storage_type_def no_jobs_def Let_def)
  have "j_Version (normalize_name i) = j_Version i" "j_Spec (normalize_name i) = j_Spec i" for i
    by (simp_all add: normalize_name_def Let_def)
  then have "st_Type (j_Storage (normalize_core e i)) = normalize_storage_type (st_Type (j_Storage i))" "j_Version (normalize_core e i) = j_Version i" for i
    by (simp_all add: normalize_core_def Let_def normalize_labels_fields)
  then have n: "no_jobs (st_Type (j_Storage k))" "j_Version k = j_Version j"
    using t by (subst normalize_result [OF k(1)], simp add: renamed_def)+
  show "at_once e str"
    using k(2) n at_once_All_in_one at_once_Streaming at_once_Production by (auto split: if_splits)
  have s: "j1 = settle k" using k(2) newAllInOneStrategy_instance newStreamingStrategy_instance newProductionStrategy_instance
    by (auto split: if_splits)
  show "no_jobs (st_Type (j_Storage j1))" "j_Version j1 = j_Version j"
    using n by (simp_all add: s settle_frame no_jobs_def settle_def settle_cassandra_def settle_query_def settle_kafka_eq)
qed

section \<open>The first reconciliation\<close>

definition known :: "Jaeger \<Rightarrow> World \<Rightarrow> bool" where
  "known j w \<longleftrightarrow> list_ex (same_jaeger j) (w_jaegers w)"

lemma put_known:
  assumes "known j w"
  obtains w' where "put_jaeger j w = (Inr j, w')" "known j w'"
proof -
  have "same_jaeger j j" by (simp add: same_jaeger_def)
  then have "list_ex (same_jaeger j) (map (\<lambda>i. if same_jaeger j i then j else i) is)" if "list_ex (same_jaeger j) is" for "is"
    using that by (induction "is") auto
  then show ?thesis using that assms by (simp add: put_jaeger_def known_def)
qed

lemma first_store_back:
  assumes "known j w"
  shows "fst (store_back world_client o' j w) = None"
proof -
  obtain w' where w': "put_jaeger j w = (Inr j, w')" "known j w'" by (rule put_known [OF assms])
  let ?k = "j\<lparr>j_Phase := JaegerPhaseRunning, j_Version := j_Version j\<rparr>"
  have "known ?k v" if "known j v" for v
    using that by (simp add: known_def same_jaeger_def [abs_def])
  then have s: "\<exists>u. put_jaeger ?k v = (Inr ?k, u)" if "known j v" for v using that put_known by metis
  obtain u u' where "put_jaeger ?k w = (Inr ?k, u)" "put_jaeger ?k w' = (Inr ?k, u')" using s [OF assms] s [OF w'(2)] by blast
  then show ?thesis using w'(1) by (simp add: store_back_def world_client_def)
qed

lemma first_reconciliation:
  assumes "w_objs w = []" "j \<in> set (w_jaegers w)" "j_Name j \<noteq> []" "j_Version j = []"
    and "mget (om_Labels (j_Meta j)) LabelOperatedBy = Some (viper_GetString e ConfigIdentity)" "validate j = None"
    and "\<not> IsESOperatorIntegrationEnabled e" "\<not> IsKafkaOperatorIntegrationEnabled e" "no_jobs (st_Type (j_Storage j))"
    and "ui_usable (ui_map (js_UIOptions (j_Spec j)))"
  shows "fst (reconcile_instance V e world_client sys Intn j w) = None"
proof -
  let ?o = "j\<lparr>j_TypeMeta := \<lparr>tm_APIVersion = ''jaegertracing.io/v1'', tm_Kind = ''Jaeger''\<rparr>\<rparr>"
  obtain str j1 where f: "For e Intn ?o = Inr (str, j1)" using For_returns [of ?o e Intn] assms(10) by auto
  have o: "at_once e str" "no_jobs (st_Type (j_Storage j1))" "j_Version j1 = []"
    using first_strategy [OF f] assms(4,9) by simp_all
  have m: "j_Name j1 = j_Name j" "j_Namespace j1 = j_Namespace j" using For_meta [OF f] assms(3) by simp_all
  let ?j = "j1\<lparr>j_Version := DefaultJaeger e\<rparr>"
  have u: "applyUpgrades V e world_client j1 w = ((?j, None), w)" by (simp add: applyUpgrades_def o(3))
  have c: "es_certificates world_client sys ?j w = ((?j, Inr []), w)" using no_jobs_parts(6) [of ?j] o(2) by (simp add: es_certificates_def)
  have "at_once e (WithSecrets (S_secrets str @ []) str)" using o(1) by (simp add: at_once_def WithSecrets_def)
  from first_objects [OF this assms(7,8)] obtain xs where
    x: "apply_objects e world_client ?j (WithSecrets (S_secrets str @ []) str) w = (None, w\<lparr>w_objs := xs @ w_objs w\<rparr>)"
    by (rule only_createsE [of UNIV _ w]) (use assms(1) in auto)
  have "apply_strategy V e world_client sys j1 str w = ((?j, None), w\<lparr>w_objs := xs @ w_objs w\<rparr>)"
    using x by (simp add: apply_strategy_def u c)
  moreover have "fst (store_back world_client ?o ?j (w\<lparr>w_objs := xs @ w_objs w\<rparr>)) = None"
    by (rule first_store_back) (use assms(2) m in \<open>auto simp: known_def same_jaeger_def list_ex_iff\<close>)
  ultimately have "fst (reconcile_owned V e world_client sys Intn j w) = None"
    by (simp add: reconcile_owned_def runStrategyChooser_def f)
  then show ?thesis using assms(5,6) by (simp add: reconcile_instance_def)
qed

definition sample_new :: Jaeger where
  "sample_new = NewJaeger [] ''ns'' ''my''"

definition sample_cluster :: World where
  "sample_cluster = \<lparr>w_objs = [], w_jaegers = [sample_new], w_files = Map.empty\<rparr>"

lemma sample_new_suitable:
  "w_objs sample_cluster = []" "sample_new \<in> set (w_jaegers sample_cluster)" "j_Name sample_new \<noteq> []" "j_Version sample_new = []"
  "mget (om_Labels (j_Meta sample_new)) LabelOperatedBy = Some (viper_GetString sample_env ConfigIdentity)" "validate sample_new = None"
  "\<not> IsESOperatorIntegrationEnabled sample_env" "\<not> IsKafkaOperatorIntegrationEnabled sample_env" "no_jobs (st_Type (j_Storage sample_new))"
  "ui_usable (ui_map (js_UIOptions (j_Spec sample_new)))" "list_all unreserved (component_blocks (j_Spec sample_new))"
  by (simp_all add: sample_cluster_def sample_new_def sample_env_def NewJaeger_def mget_def validate_def no_jobs_def ui_usable_def ui_map_def IsEmpty_def
      JaegerSpec0_def FreeForm0_def component_blocks_def unreserved_def JaegerCommonSpec0_def IsESOperatorIntegrationEnabled_def IsKafkaOperatorIntegrationEnabled_def
      GetESPIntegration_def GetKafkaIntegration_def ToLower_def)

end
