(* ===== verification/Convergence.thy ===== *)
theory Convergence
  imports First_Reconciliation
begin

text \<open>
  What a whole reconciliation achieves.  The frame laws of \<open>isolated_server\<close> are completed by those for the objects
  that are absent: no request makes an object appear that it does not name.  Then the apply functions of the
  different kinds do not interfere, and a reconciliation that reports no error leaves the cluster with
  exactly the objects of the strategy.
\<close>

section \<open>Kinds that an operation leaves alone\<close>

definition of_kind :: "('s \<Rightarrow> kobj set) \<Rightarrow> kind \<Rightarrow> 's \<Rightarrow> kobj set" where
  "of_kind objs k s = {x \<in> objs s. kind_of x = k}"

text \<open>The objects of the kind \<open>k\<close> are the same after the operation, whatever its outcome.\<close>

definition kept :: "('s \<Rightarrow> kobj set) \<Rightarrow> kind \<Rightarrow> ('s \<Rightarrow> 'r \<times> 's) \<Rightarrow> bool" where
  "kept objs k f \<longleftrightarrow> (\<forall>x. kind_of x = k \<longrightarrow> stays objs x f \<and> stays (\<lambda>s. - objs s) x f)"

locale exact_server = isolated_server C objs sys + absent: observed_server C "\<lambda>s. - objs s" sys
  for C :: "'s Client" and objs :: "'s \<Rightarrow> kobj set" and sys :: "'s System" +
  assumes absent_create: "ident y \<noteq> ident x \<Longrightarrow> stays (\<lambda>s. - objs s) x (cl_Create C y)"
begin

lemma kept_of_kind: "kept objs k f \<Longrightarrow> f s = (r, s') \<Longrightarrow> of_kind objs k s' = of_kind objs k s"
  using staysE [of objs _ f s r s'] staysE [of "\<lambda>s. - objs s" _ f s r s'] by (auto simp: kept_def of_kind_def)

lemma keptI: "(\<And>x. stays objs x f) \<Longrightarrow> (\<And>x. stays (\<lambda>s. - objs s) x f) \<Longrightarrow> kept objs k f"
  by (simp add: kept_def)

lemma kept_return: "kept objs k (\<lambda>s. (r, s))" and kept_skip: "kept objs k skip"
  by (simp_all add: kept_def stays_return stays_skip)

lemma kept_andthen: "kept objs k f \<Longrightarrow> kept objs k g \<Longrightarrow> kept objs k (andthen f g)"
  by (simp add: kept_def stays_andthen)

lemma kept_for_each: "(\<And>y. y \<in> set ys \<Longrightarrow> kept objs k (f y)) \<Longrightarrow> kept objs k (for_each f ys)"
  by (simp add: kept_def stays_for_each)

lemma kept_logged: "kept objs k f \<Longrightarrow> kept objs k (logged f)"
  by (simp add: kept_def stays_logged)

lemma kept_requests:
  assumes "kind_of y \<noteq> k"
  shows "kept objs k (cl_Create C y)" "kept objs k (cl_Update C y)" "kept objs k (cl_Delete C y)"
  using assms by (auto simp: kept_def ident_def intro: create_frame update_frame delete_frame absent_create absent.update_frame absent.delete_frame)

lemma kept_waits:
  "kept objs k (waitForStability C d)" "kept objs k (waitForKafkaStability C f)" "kept objs k (waitForKafkaUserStability C u)" "kept objs k (waitForAvailableElastic C es)"
  by (rule keptI; rule stays_waits stays_waitForAvailableElastic absent.stays_waits absent.stays_waitForAvailableElastic)+

lemma kept_with_list:
  assumes "\<And>items. kept objs k (rest items)"
  shows "kept objs k (with_list C k' ns ls un rest)"
proof -
  have "stays v x (with_list C k' ns ls un rest)"
    if "stays v x (cl_List C k' ns ls)" "\<And>items. stays v x (rest items)" for v x
    using that by (intro staysI) (auto simp: with_list_def intro: staysE staysD split: prod.split sum.split)
  then show ?thesis using assms by (simp add: kept_def list_frame absent.list_frame)
qed

lemma kept_run_inventory:
  assumes "\<And>d. kind_of (wrap d) \<noteq> k"
  shows "kept objs k (run_inventory C wrap i)" "(\<And>d. kept objs k (wait d)) \<Longrightarrow> kept objs k (run_inventory_waiting C wrap wait i)"
  unfolding run_inventory_def run_inventory_waiting_def
  by (intro kept_andthen kept_for_each; use assms in \<open>auto intro: kept_requests\<close>)+

lemma kept_applies:
  "k \<noteq> KAccount \<Longrightarrow> kept objs k (applyAccounts C j d1)" "k \<noteq> KConfigMap \<Longrightarrow> kept objs k (applyConfigMaps C j d2)"
  "k \<noteq> KDaemonSet \<Longrightarrow> kept objs k (applyDaemonSets C j d3)" "k \<noteq> KIngress \<Longrightarrow> kept objs k (applyIngresses C j d4)"
  "k \<noteq> KRoute \<Longrightarrow> kept objs k (applyRoutes C j d5)" "k \<noteq> KSecret \<Longrightarrow> kept objs k (applySecrets C j d6)"
  "k \<noteq> KService \<Longrightarrow> kept objs k (applyServices C j d7)" "k \<noteq> KDeployment \<Longrightarrow> kept objs k (applyDeployments C j d8)"
  "k \<noteq> KKafka \<Longrightarrow> kept objs k (applyKafkas C j d9)" "k \<noteq> KKafkaUser \<Longrightarrow> kept objs k (applyKafkaUsers C j d10)"
  "k \<noteq> KClusterRoleBinding \<Longrightarrow> kept objs k (applyClusterRoleBindingBindings e C j d11)"
  "k \<noteq> KConsoleLink \<Longrightarrow> kept objs k (applyConsoleLinks e C j d12)"
  unfolding applyAccounts_def applyConfigMaps_def applyDaemonSets_def applyIngresses_def applyRoutes_def applySecrets_def applyServices_def
    applyDeployments_def applyKafkas_def applyKafkaUsers_def applyClusterRoleBindingBindings_def applyConsoleLinks_def
  by (auto intro!: kept_with_list kept_run_inventory kept_waits kept_skip)

lemma kept_versioned_applies:
  "(\<And>v. k \<noteq> KCronJob v) \<Longrightarrow> kept objs k (applyCronJobs e C j d1)"
  "(\<And>v. k \<noteq> KHPA v) \<Longrightarrow> kept objs k (applyHorizontalPodAutoscalers e C j d2)"
proof -
  have "kept objs k (run_inventory C OCronJob i)" if "\<And>v. k \<noteq> KCronJob v" for i
    using that by (intro kept_run_inventory) (simp add: eq_commute)
  then show "(\<And>v. k \<noteq> KCronJob v) \<Longrightarrow> kept objs k (applyCronJobs e C j d1)"
    unfolding applyCronJobs_def by (intro kept_with_list) (simp add: ForCronJobs_def kept_return)
  have "kept objs k (run_inventory C OHPA i)" if "\<And>v. k \<noteq> KHPA v" for i
    using that by (intro kept_run_inventory) (simp add: eq_commute)
  then show "(\<And>v. k \<noteq> KHPA v) \<Longrightarrow> kept objs k (applyHorizontalPodAutoscalers e C j d2)"
    unfolding applyHorizontalPodAutoscalers_def by (intro kept_with_list) (simp add: ForHorizontalPodAutoscalers_def kept_return)
qed

lemma kept_applyElasticsearches:
  assumes "k \<noteq> KElasticsearch"
  shows "kept objs k (applyElasticsearches C j d)"
  unfolding applyElasticsearches_def Let_def
  by (intro kept_with_list kept_andthen kept_for_each kept_waits kept_requests) (use assms in \<open>auto intro: kept_requests\<close>)

lemma kept_handleDependencies:
  assumes "k \<noteq> KJob"
  shows "kept objs k (handleDependencies C deps)"
  unfolding handleDependencies_def
proof (rule kept_for_each)
  fix dep
  have w: "kept objs k (poll n (watch_object (get_typed C KJob un_Job m) removed ready) seen)" for n removed seen ready m
    by (rule keptI; rule stays_poll; rule stays_watch_object [OF stays_get_typed] stays_watch_object [OF absent.stays_get_typed])
  have c: "kept objs k (cl_Create C (OJob dep))" using assms by (intro kept_requests) simp
  have "stays v x (handleDependency C dep)"
    if "stays v x (cl_Create C (OJob dep))"
      "\<And>n removed seen ready m. stays v x (poll n (watch_object (get_typed C KJob un_Job m) removed ready) seen)" for v x
    unfolding handleDependency_def [abs_def] Let_def
    by (rule stays_bind [OF that(1)], rule staysI) (auto intro: staysD [OF that(2)])
  then show "kept objs k (handleDependency C dep)" using c w by (simp add: kept_def)
qed

lemma kept_apply_last:
  assumes "\<And>v. k \<noteq> KHPA v" "k \<noteq> KDaemonSet"
  shows "kept objs k (apply_last e C j str)"
proof -
  have "stays v x (apply_last e C j str)"
    if "stays v x (applyHorizontalPodAutoscalers e C j (S_horizontalPodAutoscalers str))" "stays v x (applyDaemonSets C j (S_daemonSets str))" for v x
    using that by (intro staysI) (auto simp: apply_last_def intro: staysE staysD split: prod.split option.split)
  then show ?thesis using kept_versioned_applies(2) [OF assms(1)] kept_applies(3) [OF assms(2)] by (simp add: kept_def)
qed

lemma kept_upgrades:
  assumes "k \<noteq> KElasticsearch"
  shows "kept objs k (applyUpgrades V e C j)"
proof -
  have "ident x \<noteq> (KElasticsearch, j_Namespace j, ''elasticsearch'')" if "kind_of x = k" for x using assms that by (auto simp: ident_def)
  then show ?thesis unfolding kept_def using stays_applyUpgrades absent.stays_applyUpgrades by blast
qed

lemma kept_certificates: "kept objs k (es_certificates C sys j)" "kept objs k (store_back C original updated)"
  by (rule keptI; rule stays_es_certificates absent.stays_es_certificates stays_store_back absent.stays_store_back)+

lemma kept_if: "kept objs k (if b then f else g) \<longleftrightarrow> (if b then kept objs k f else kept objs k g)"
  by simp

lemmas kept_steps = kept_if kept_skip kept_andthen kept_logged kept_with_list kept_applies kept_versioned_applies
  kept_applyElasticsearches kept_handleDependencies kept_apply_last

lemma kept_access: "k \<noteq> KRoute \<Longrightarrow> k \<noteq> KConsoleLink \<Longrightarrow> k \<noteq> KIngress \<Longrightarrow> kept objs k (apply_access e C j str)"
  "k \<noteq> KConsoleLink \<Longrightarrow> kept objs k (apply_console_links e C j str)"
  unfolding apply_access_def apply_console_links_def by (simp_all add: kept_steps)

end

section \<open>One kind after the other\<close>

text \<open>The identities of the objects of the kind \<open>k\<close>: those of the instance are replaced by the wanted ones.\<close>

definition converged :: "('s \<Rightarrow> kobj set) \<Rightarrow> Jaeger \<Rightarrow> kind \<Rightarrow> kobj set \<Rightarrow> 's \<Rightarrow> 's \<Rightarrow> bool" where
  "converged objs j k wanted s s' \<longleftrightarrow>
     ident ` of_kind objs k s' = ident ` {x \<in> of_kind objs k s. \<not> belongs (j_Namespace j) (j_Name j) x} \<union> ident ` wanted"

definition converges :: "('s \<Rightarrow> kobj set) \<Rightarrow> Jaeger \<Rightarrow> kind \<Rightarrow> kobj set \<Rightarrow> 's op \<Rightarrow> bool" where
  "converges objs j k wanted f \<longleftrightarrow> (\<forall>s s'. f s = (None, s') \<longrightarrow> converged objs j k wanted s s')"

lemma selects_iff_belongs:
  "k \<notin> {KElasticsearch, KConsoleLink, KClusterRoleBinding} \<Longrightarrow>
     Cluster.selects k (Some (j_Namespace j)) (instance_labels j) x \<longleftrightarrow> kind_of x = k \<and> belongs (j_Namespace j) (j_Name j) x"
  by (auto simp: Cluster.selects_def has_labels_def belongs_def label_of_def instance_labels_def)

lemma ident_of_kind: "ident ` {x \<in> A. kind_of x = k} = {i \<in> ident ` A. fst i = k}"
  by (auto simp: ident_def)

lemma replaced_converged:
  assumes "replaced objs s s' (Cluster.selects k (Some (j_Namespace j)) (instance_labels j)) (wrap ` set ds)" "\<And>d. kind_of (wrap d) = k"
    "k \<notin> {KElasticsearch, KConsoleLink, KClusterRoleBinding}"
  shows "converged objs j k (wrap ` set ds) s s'"
proof -
  have "ident ` of_kind objs k s' = {i \<in> ident ` objs s'. fst i = k}" unfolding of_kind_def by (rule ident_of_kind)
  also have "\<dots> = {i \<in> ident ` {x \<in> objs s. \<not> Cluster.selects k (Some (j_Namespace j)) (instance_labels j) x}. fst i = k} \<union>
      {i \<in> ident ` wrap ` set ds. fst i = k}"
    using assms(1) by (auto simp: replaced_def)
  also have "{i \<in> ident ` wrap ` set ds. fst i = k} = ident ` wrap ` set ds" using assms(2) by (auto simp: ident_def)
  also have "{i \<in> ident ` {x \<in> objs s. \<not> Cluster.selects k (Some (j_Namespace j)) (instance_labels j) x}. fst i = k} =
      ident ` {x \<in> of_kind objs k s. \<not> belongs (j_Namespace j) (j_Name j) x}"
    unfolding ident_of_kind [symmetric] by (rule arg_cong [where f = "image ident"])
      (auto simp: of_kind_def selects_iff_belongs [OF assms(3)])
  finally show ?thesis by (simp add: converged_def)
qed

definition in_namespace :: "Jaeger \<Rightarrow> kobj list \<Rightarrow> bool" where
  "in_namespace j xs \<longleftrightarrow> (\<forall>x \<in> set xs. om_Namespace (meta_of x) = j_Namespace j)"

context exact_server
begin

lemma converges_left:
  assumes "converges objs j k W f" "kept objs k g"
  shows "converges objs j k W (andthen f g)"
  unfolding converges_def
proof (intro allI impI)
  fix s s' assume "andthen f g s = (None, s')"
  then obtain s1 where 1: "f s = (None, s1)" "g s1 = (None, s')" by (auto simp: andthen_None)
  have "converged objs j k W s s1" using assms(1) 1(1) by (simp add: converges_def)
  then show "converged objs j k W s s'" by (simp add: converged_def kept_of_kind [OF assms(2) 1(2)])
qed

lemma converges_right:
  assumes "kept objs k f" "converges objs j k W g"
  shows "converges objs j k W (andthen f g)"
  unfolding converges_def
proof (intro allI impI)
  fix s s' assume "andthen f g s = (None, s')"
  then obtain s1 where 1: "f s = (None, s1)" "g s1 = (None, s')" by (auto simp: andthen_None)
  have "converged objs j k W s1 s'" using assms(2) 1(2) by (simp add: converges_def)
  then show "converged objs j k W s s'" by (simp add: converged_def kept_of_kind [OF assms(1) 1(1)])
qed

lemma kept_all: "(\<And>k. kept objs k f) \<Longrightarrow> f s = (r, s') \<Longrightarrow> objs s' = objs s"
  using kept_of_kind [of _ f s r s'] unfolding of_kind_def by blast

lemma run_inventory_waiting_ids:
  assumes "\<And>d k. kept objs k (wait d)" "run_inventory_waiting C wrap wait i s = (None, s')"
  shows "ids s' = (ids s \<union> ident ` wrap ` set (inv_Create i)) - ident ` wrap ` set (inv_Delete i)"
proof -
  obtain s1 s2 s3 s4 where "for_each (cl_Create C) (map wrap (inv_Create i)) s = (None, s1)"
      "for_each (cl_Update C) (map wrap (inv_Update i)) s1 = (None, s2)"
      and w: "for_each wait (inv_Create i) s2 = (None, s3)" "for_each wait (inv_Update i) s3 = (None, s4)"
      and d: "for_each (cl_Delete C) (map wrap (inv_Delete i)) s4 = (None, s')"
    using assms(2) by (auto simp: run_inventory_waiting_def andthen_None)
  have "objs s3 = objs s2" "objs s4 = objs s3"
    by (rule kept_all [OF kept_for_each [OF assms(1)] w(1)], rule kept_all [OF kept_for_each [OF assms(1)] w(2)])
  with creates_ids [OF \<open>for_each (cl_Create C) _ s = (None, s1)\<close>] updates_ids [OF \<open>for_each (cl_Update C) _ s1 = (None, s2)\<close>] deletes_ids [OF d]
  show ?thesis by (simp add: image_image)
qed

lemma converges_applies:
  assumes "CHR ''.'' \<notin> set (j_Namespace j)"
  shows "in_namespace j (map OAccount d1) \<Longrightarrow> converges objs j KAccount (OAccount ` set d1) (applyAccounts C j d1)"
    "in_namespace j (map OConfigMap d2) \<Longrightarrow> converges objs j KConfigMap (OConfigMap ` set d2) (applyConfigMaps C j d2)"
    "in_namespace j (map OIngress d3) \<Longrightarrow> converges objs j KIngress (OIngress ` set d3) (applyIngresses C j d3)"
    "in_namespace j (map ORoute d4) \<Longrightarrow> converges objs j KRoute (ORoute ` set d4) (applyRoutes C j d4)"
    "in_namespace j (map OService d5) \<Longrightarrow> converges objs j KService (OService ` set d5) (applyServices C j d5)"
    "in_namespace j (map ODeployment d6) \<Longrightarrow> converges objs j KDeployment (ODeployment ` set d6) (applyDeployments C j d6)"
proof -
  note r = apply_replaces_dotless [OF api_server_axioms]
  note dot = in_namespace_def dotless_def assms
  show "in_namespace j (map OAccount d1) \<Longrightarrow> converges objs j KAccount (OAccount ` set d1) (applyAccounts C j d1)"
    unfolding converges_def applyAccounts_def
    by (intro allI impI replaced_converged r [OF accounts.inventory_kind_axioms un_wrap(1) kind_of.simps(1) meta_of.simps(1)]) (auto simp: dot kind_wrap(1))
  show "in_namespace j (map OConfigMap d2) \<Longrightarrow> converges objs j KConfigMap (OConfigMap ` set d2) (applyConfigMaps C j d2)"
    unfolding converges_def applyConfigMaps_def
    by (intro allI impI replaced_converged r [OF configmaps.inventory_kind_axioms un_wrap(3) kind_of.simps(3) meta_of.simps(3)]) (auto simp: dot kind_wrap(3))
  show "in_namespace j (map OIngress d3) \<Longrightarrow> converges objs j KIngress (OIngress ` set d3) (applyIngresses C j d3)"
    unfolding converges_def applyIngresses_def
    by (intro allI impI replaced_converged r [OF ingresses.inventory_kind_axioms un_wrap(7) kind_of.simps(10) meta_of.simps(10)]) (auto simp: dot kind_wrap(6))
  show "in_namespace j (map ORoute d4) \<Longrightarrow> converges objs j KRoute (ORoute ` set d4) (applyRoutes C j d4)"
    unfolding converges_def applyRoutes_def
    by (intro allI impI replaced_converged r [OF routes.inventory_kind_axioms un_wrap(8) kind_of.simps(14) meta_of.simps(14)]) (auto simp: dot kind_wrap(7))
  show "in_namespace j (map OService d5) \<Longrightarrow> converges objs j KService (OService ` set d5) (applyServices C j d5)"
    unfolding converges_def applyServices_def
    by (intro allI impI replaced_converged r [OF services.inventory_kind_axioms un_wrap(10) kind_of.simps(16) meta_of.simps(16)]) (auto simp: dot kind_wrap(9))
  have dep: "kind_of x = KDeployment \<Longrightarrow> \<exists>d. x = ODeployment d" for x by (cases x) simp_all
  show "in_namespace j (map ODeployment d6) \<Longrightarrow> converges objs j KDeployment (ODeployment ` set d6) (applyDeployments C j d6)"
    unfolding converges_def applyDeployments_def
    by (intro allI impI replaced_converged apply_replaces_dotless_by [OF api_server_axioms deployments.inventory_kind_axioms un_wrap(6)
        kind_of.simps(7) meta_of.simps(7) assms run_inventory_waiting_ids [OF kept_waits(1)]]) (auto simp: dot dep)
qed

text \<open>The steps of \<open>apply_objects\<close> one after the other: those of other kinds keep the kind, its own makes it converge.\<close>

lemma converges_access:
  assumes "CHR ''.'' \<notin> set (j_Namespace j)"
  shows "GetPlatform e = OpenShiftPlatform \<Longrightarrow> in_namespace j (map ORoute (S_routes str)) \<Longrightarrow>
      converges objs j KRoute (ORoute ` set (S_routes str)) (apply_access e C j str)"
    "GetPlatform e \<noteq> OpenShiftPlatform \<Longrightarrow> in_namespace j (map OIngress (S_ingresses str)) \<Longrightarrow>
      converges objs j KIngress (OIngress ` set (S_ingresses str)) (apply_access e C j str)"
  unfolding apply_access_def using converges_applies(3,4) [OF assms]
  by (simp_all add: converges_left kept_access(2))

lemma converges_apply_objects:
  assumes "CHR ''.'' \<notin> set (j_Namespace j)"
  shows "in_namespace j (map OAccount (S_accounts str)) \<Longrightarrow> converges objs j KAccount (OAccount ` set (S_accounts str)) (apply_objects e C j str)"
    "in_namespace j (map OConfigMap (S_configMaps str)) \<Longrightarrow> converges objs j KConfigMap (OConfigMap ` set (S_configMaps str)) (apply_objects e C j str)"
    "in_namespace j (map OService (S_services str)) \<Longrightarrow> converges objs j KService (OService ` set (S_services str)) (apply_objects e C j str)"
    "in_namespace j (map ODeployment (S_deployments str)) \<Longrightarrow> converges objs j KDeployment (ODeployment ` set (S_deployments str)) (apply_objects e C j str)"
    "GetPlatform e = OpenShiftPlatform \<Longrightarrow> in_namespace j (map ORoute (S_routes str)) \<Longrightarrow>
      converges objs j KRoute (ORoute ` set (S_routes str)) (apply_objects e C j str)"
    "GetPlatform e \<noteq> OpenShiftPlatform \<Longrightarrow> in_namespace j (map OIngress (S_ingresses str)) \<Longrightarrow>
      converges objs j KIngress (OIngress ` set (S_ingresses str)) (apply_objects e C j str)"
proof -
  note c = converges_applies [OF assms] converges_access [OF assms]
  show "converges objs j KAccount (OAccount ` set (S_accounts str)) (apply_objects e C j str)" if "in_namespace j (map OAccount (S_accounts str))"
    unfolding apply_objects_def
    by ((rule converges_right, simp add: kept_steps)+, rule converges_left [OF c(1) [OF that]], simp add: kept_steps kept_access)
  show "converges objs j KConfigMap (OConfigMap ` set (S_configMaps str)) (apply_objects e C j str)" if "in_namespace j (map OConfigMap (S_configMaps str))"
    unfolding apply_objects_def
    by ((rule converges_right, simp add: kept_steps)+, rule converges_left [OF c(2) [OF that]], simp add: kept_steps kept_access)
  show "converges objs j KService (OService ` set (S_services str)) (apply_objects e C j str)" if "in_namespace j (map OService (S_services str))"
    unfolding apply_objects_def
    by ((rule converges_right, simp add: kept_steps)+, rule converges_left [OF c(5) [OF that]], simp add: kept_steps kept_access)
  show "converges objs j KDeployment (ODeployment ` set (S_deployments str)) (apply_objects e C j str)" if "in_namespace j (map ODeployment (S_deployments str))"
    unfolding apply_objects_def
    by ((rule converges_right, simp add: kept_steps)+, rule converges_left [OF c(6) [OF that]], simp add: kept_steps kept_access)
  show "converges objs j KRoute (ORoute ` set (S_routes str)) (apply_objects e C j str)"
    if "GetPlatform e = OpenShiftPlatform" "in_namespace j (map ORoute (S_routes str))"
    unfolding apply_objects_def
    by ((rule converges_right, simp add: kept_steps)+, rule converges_left [OF c(7) [OF that]], simp add: kept_steps)
  show "converges objs j KIngress (OIngress ` set (S_ingresses str)) (apply_objects e C j str)"
    if "GetPlatform e \<noteq> OpenShiftPlatform" "in_namespace j (map OIngress (S_ingresses str))"
    unfolding apply_objects_def
    by ((rule converges_right, simp add: kept_steps)+, rule converges_left [OF c(8) [OF that]], simp add: kept_steps)
qed

end

section \<open>A whole reconciliation\<close>

text \<open>The cluster agrees with the strategy on the kinds that every successful reconciliation applies.\<close>

definition agrees :: "('s \<Rightarrow> kobj set) \<Rightarrow> Env \<Rightarrow> Jaeger \<Rightarrow> S \<Rightarrow> 's \<Rightarrow> 's \<Rightarrow> bool" where
  "agrees objs e j str s s' \<longleftrightarrow>
     converged objs j KAccount (OAccount ` set (S_accounts str)) s s' \<and>
     converged objs j KConfigMap (OConfigMap ` set (S_configMaps str)) s s' \<and>
     converged objs j KService (OService ` set (S_services str)) s s' \<and>
     converged objs j KDeployment (ODeployment ` set (S_deployments str)) s s' \<and>
     (if GetPlatform e = OpenShiftPlatform then converged objs j KRoute (ORoute ` set (S_routes str)) s s'
      else converged objs j KIngress (OIngress ` set (S_ingresses str)) s s')"

definition plainly :: "Jaeger \<Rightarrow> S \<Rightarrow> bool" where
  "plainly j str \<longleftrightarrow> in_namespace j (map OAccount (S_accounts str) @ map OConfigMap (S_configMaps str) @ map OService (S_services str) @
     map ODeployment (S_deployments str) @ map ORoute (S_routes str) @ map OIngress (S_ingresses str))"

lemma in_charge_plainly: "list_all (in_charge j) (All str) \<Longrightarrow> plainly j str"
proof -
  assume a: "list_all (in_charge j) (All str)"
  have "om_Namespace (meta_of x) = j_Namespace j" if "in_charge j x" "kind_of x \<noteq> KClusterRoleBinding" "kind_of x \<noteq> KConsoleLink" for x
    using that by (simp add: in_charge_def belongs_def)
  moreover let ?xs = "map OAccount (S_accounts str) @ map OConfigMap (S_configMaps str) @ map OService (S_services str) @
     map ODeployment (S_deployments str) @ map ORoute (S_routes str) @ map OIngress (S_ingresses str)"
  have "in_charge j x" if "x \<in> set ?xs" for x
    using a that unfolding list_all_iff All_def set_append by blast
  moreover have "kind_of x \<noteq> KClusterRoleBinding" "kind_of x \<noteq> KConsoleLink" if "x \<in> set ?xs" for x
    using that by auto
  ultimately show ?thesis unfolding plainly_def in_namespace_def by blast
qed

lemma agrees_cong:
  assumes "j_Namespace j = j_Namespace j'" "j_Name j = j_Name j'"
    and "of_kind objs KAccount s1 = of_kind objs KAccount s" "of_kind objs KConfigMap s1 = of_kind objs KConfigMap s"
      "of_kind objs KService s1 = of_kind objs KService s" "of_kind objs KDeployment s1 = of_kind objs KDeployment s"
      "of_kind objs KRoute s1 = of_kind objs KRoute s" "of_kind objs KIngress s1 = of_kind objs KIngress s"
    and "\<And>k. of_kind objs k s2 = of_kind objs k s'"
  shows "agrees objs e j str s1 s2 \<longleftrightarrow> agrees objs e j' str s s'"
  unfolding agrees_def converged_def assms ..

context exact_server
begin

lemma agrees_apply_objects:
  assumes "CHR ''.'' \<notin> set (j_Namespace j)" "plainly j str" "apply_objects e C j str s = (None, s')"
  shows "agrees objs e j str s s'"
proof -
  have i: "in_namespace j (map OAccount (S_accounts str))" "in_namespace j (map OConfigMap (S_configMaps str))" "in_namespace j (map OService (S_services str))"
    "in_namespace j (map ODeployment (S_deployments str))" "in_namespace j (map ORoute (S_routes str))" "in_namespace j (map OIngress (S_ingresses str))"
    using assms(2) by (auto simp: plainly_def in_namespace_def)
  have c: "converged objs j k W s s'" if "converges objs j k W (apply_objects e C j str)" for k W
    using that assms(3) by (simp add: converges_def)
  show ?thesis using i c [OF converges_apply_objects(1) [OF assms(1)]] c [OF converges_apply_objects(2) [OF assms(1)]]
      c [OF converges_apply_objects(3) [OF assms(1)]] c [OF converges_apply_objects(4) [OF assms(1)]]
      c [OF converges_apply_objects(5) [OF assms(1)]] c [OF converges_apply_objects(6) [OF assms(1)]]
    by (simp add: agrees_def)
qed

lemma agrees_apply_strategy:
  assumes "CHR ''.'' \<notin> set (j_Namespace j)" "plainly j str" "apply_strategy V e C sys j str s = ((j', None), s')"
  shows "agrees objs e j str s s'"
proof -
  obtain j1 r1 s1 where u: "applyUpgrades V e C j s = ((j1, r1), s1)" by (metis prod.exhaust)
  obtain j2 r2 s2 where c: "es_certificates C sys j1 s1 = ((j2, r2), s2)" by (metis prod.exhaust)
  have m: "j_Meta j2 = j_Meta j" using applyUpgrades_meta [OF u] es_certificates_meta [OF c] by simp
  obtain secrets where a: "apply_objects e C j2 (WithSecrets (S_secrets str @ secrets) str) s2 = (None, s')"
    using assms(3) by (auto simp: apply_strategy_def u c split: option.splits sum.splits prod.splits)
  have w: "plainly j2 (WithSecrets x str)" "agrees objs e j3 (WithSecrets x str) t t' \<longleftrightarrow> agrees objs e j3 str t t'" for x t t' j3
    using assms(2) by (simp_all add: plainly_def in_namespace_def WithSecrets_def agrees_def m)
  have "agrees objs e j2 str s2 s'" using agrees_apply_objects [OF _ w(1) a] assms(1) by (simp add: m w(2))
  moreover have "of_kind objs k s2 = of_kind objs k s" if "k \<noteq> KElasticsearch" for k
    using kept_of_kind [OF kept_upgrades [OF that] u] kept_of_kind [OF kept_certificates(1) c] by simp
  ultimately show ?thesis using agrees_cong [of j2 j objs s2 s s' s' e str] m by simp
qed

lemma agrees_reconcile_owned:
  assumes "reconcile_owned V e C sys Intn j s = (None, s')" "CHR ''.'' \<notin> set (j_Namespace j)" "label_value (j_Name j)"
    "list_all unreserved (component_blocks (j_Spec j))"
  shows "\<exists>str j1. For e Intn (j\<lparr>j_TypeMeta := \<lparr>tm_APIVersion = ''jaegertracing.io/v1'', tm_Kind = ''Jaeger''\<rparr>\<rparr>) = Inr (str, j1) \<and> agrees objs e j str s s'"
proof -
  let ?o = "j\<lparr>j_TypeMeta := \<lparr>tm_APIVersion = ''jaegertracing.io/v1'', tm_Kind = ''Jaeger''\<rparr>\<rparr>"
  have n: "j_Name ?o \<noteq> []" "Truncate (j_Name ?o) 63 [] = j_Name ?o" using assms(3) Truncate_label_value by (auto simp: label_value_def)
  obtain str j1 where f: "For e Intn ?o = Inr (str, j1)"
    using assms(1) by (cases "For e Intn ?o") (auto simp: reconcile_owned_def runStrategyChooser_def)
  have m: "j_Name j1 = j_Name j" "j_Namespace j1 = j_Namespace j" using For_meta [OF f] n(1) by simp_all
  have "list_all (in_charge ?o) (All str)" by (rule strategy_in_charge [OF f n]) (use assms(4) in simp)
  from in_charge_plainly [OF this] have p: "plainly j1 str" by (simp add: plainly_def in_namespace_def m)
  obtain j2 r s1 where a: "apply_strategy V e C sys j1 str s = ((j2, r), s1)" by (metis prod.exhaust)
  have r: "r = None" "store_back C ?o j2 s1 = (None, s')"
    using assms(1) by (auto simp: reconcile_owned_def runStrategyChooser_def f a split: option.splits)
  have "agrees objs e j1 str s s1" using agrees_apply_strategy [OF _ p a [unfolded r(1)]] assms(2) m by simp
  moreover have "of_kind objs k s' = of_kind objs k s1" for k by (rule kept_of_kind [OF kept_certificates(2) r(2)])
  ultimately show ?thesis using f agrees_cong [of j1 j objs s s s1 s' e str] m by auto
qed

end

section \<open>The cluster in memory\<close>

text \<open>On an empty cluster only the objects of the strategy are there.\<close>

definition access_kind :: "Env \<Rightarrow> kind" where
  "access_kind e = (if GetPlatform e = OpenShiftPlatform then KRoute else KIngress)"

definition access_objects :: "Env \<Rightarrow> S \<Rightarrow> kobj list" where
  "access_objects e str = (if GetPlatform e = OpenShiftPlatform then map ORoute (S_routes str) else map OIngress (S_ingresses str))"

lemma agrees_empty:
  assumes "agrees objs e j str s s'" "objs s = {}"
  shows "ident ` {x \<in> objs s'. kind_of x \<in> {KAccount, KConfigMap, KService, KDeployment, access_kind e}} =
      ident ` set (map OAccount (S_accounts str) @ map OConfigMap (S_configMaps str) @ map OService (S_services str) @
        map ODeployment (S_deployments str) @ access_objects e str)"
proof -
  have split: "{x \<in> objs s'. kind_of x \<in> {k1, k2, k3, k4, k5}} =
      of_kind objs k1 s' \<union> of_kind objs k2 s' \<union> of_kind objs k3 s' \<union> of_kind objs k4 s' \<union> of_kind objs k5 s'" for k1 k2 k3 k4 k5
    by (auto simp: of_kind_def)
  have c: "ident ` of_kind objs k s' = ident ` W" if "converged objs j k W s s'" for k W
    using that assms(2) by (simp add: converged_def of_kind_def)
  have a: "ident ` of_kind objs (access_kind e) s' = ident ` set (access_objects e str)"
    using assms(1) c by (auto simp: agrees_def access_kind_def access_objects_def split: if_splits)
  note k = c [of KAccount "OAccount ` set (S_accounts str)"] c [of KConfigMap "OConfigMap ` set (S_configMaps str)"]
    c [of KService "OService ` set (S_services str)"] c [of KDeployment "ODeployment ` set (S_deployments str)"]
  show ?thesis unfolding split image_Un set_append a set_map using assms(1) by (simp add: agrees_def k Un_assoc)
qed

lemma absent_mem:
  "ident y \<noteq> ident x \<Longrightarrow> stays (\<lambda>s. - set (mem_objs s)) x (cl_Create mem_client y)"
  "ident y \<noteq> ident x \<Longrightarrow> stays (\<lambda>s. - set (mem_objs s)) x (cl_Update mem_client y)"
  "ident y \<noteq> ident x \<Longrightarrow> stays (\<lambda>s. - set (mem_objs s)) x (cl_Delete mem_client y)"
  "stays (\<lambda>s. - set (mem_objs s)) x (cl_List mem_client k ns ls)" "stays (\<lambda>s. - set (mem_objs s)) x (cl_Get mem_client k n n')"
  "stays (\<lambda>s. - set (mem_objs s)) x (cl_GetNamespace mem_client n)" "stays (\<lambda>s. - set (mem_objs s)) x (cl_ListStatefulSets mem_client ns ls)"
  unfolding stays_def Compl_iff mem_objs_iff by (simp_all add: mem_client_def find_update find_delete)

lemma absent_on_objs:
  assumes "stays (\<lambda>s. - set (mem_objs s)) x f"
  shows "stays (\<lambda>s. - world_objs s) x (on_objs f)"
proof (rule staysI)
  fix s assume "x \<in> - world_objs s"
  then have "x \<in> - set (mem_objs (snd (f (w_objs s))))" unfolding world_objs_def by (rule staysD [OF assms])
  then show "x \<in> - world_objs (snd (on_objs f s))" by (simp add: world_objs_def on_objs_def case_prod_beta)
qed

lemma absent_others: "stays (\<lambda>s. - world_objs s) x (on_files f')" "stays (\<lambda>s. - world_objs s) x (put_jaeger j)"
  "stays (\<lambda>s. - world_objs s) x (\<lambda>w. (r w, w))"
  by (simp_all add: stays_def world_objs_def on_files_def put_jaeger_def split: prod.split)

interpretation exact: exact_server world_client world_objs world_system
  by (unfold_locales, unfold world_client_def world_system_def Client.simps System.simps)
    (assumption | rule absent_others absent_on_objs absent_mem)+


lemma sample_new_named: "CHR ''.'' \<notin> set (j_Namespace sample_new)" "label_value (j_Name sample_new)"
  by (simp_all add: sample_new_def NewJaeger_def label_value_def alnum_char_def lower_char_def)


lemma first_deployment:
  assumes "w_objs w = []" "j \<in> set (w_jaegers w)" "j_Version j = []" "validate j = None"
    and "mget (om_Labels (j_Meta j)) LabelOperatedBy = Some (viper_GetString e ConfigIdentity)"
    and "\<not> IsESOperatorIntegrationEnabled e" "\<not> IsKafkaOperatorIntegrationEnabled e" "no_jobs (st_Type (j_Storage j))"
    and "ui_usable (ui_map (js_UIOptions (j_Spec j)))"
    and "CHR ''.'' \<notin> set (j_Namespace j)" "label_value (j_Name j)" "list_all unreserved (component_blocks (j_Spec j))"
  shows "\<exists>w' str j1. reconcile_instance V e world_client world_system Intn j w = (None, w') \<and>
    For e Intn (j\<lparr>j_TypeMeta := \<lparr>tm_APIVersion = ''jaegertracing.io/v1'', tm_Kind = ''Jaeger''\<rparr>\<rparr>) = Inr (str, j1) \<and>
    ident ` {x \<in> world_objs w'. kind_of x \<in> {KAccount, KConfigMap, KService, KDeployment, access_kind e}} =
      ident ` set (map OAccount (S_accounts str) @ map OConfigMap (S_configMaps str) @ map OService (S_services str) @
        map ODeployment (S_deployments str) @ access_objects e str)"
proof -
  let ?r = "reconcile_instance V e world_client world_system Intn j w"
  have "j_Name j \<noteq> []" using assms(11) by (auto simp: label_value_def)
  from first_reconciliation [OF assms(1,2) this assms(3,5,4,6-9)] have "fst ?r = None" .
  then have r: "?r = (None, snd ?r)" by (metis prod.collapse)
  then have "reconcile_owned V e world_client world_system Intn j w = (None, snd ?r)"
    using assms(4,5) by (simp add: reconcile_instance_def)
  from exact.agrees_reconcile_owned [OF this assms(10-12)] obtain str j1 where
    f: "For e Intn (j\<lparr>j_TypeMeta := \<lparr>tm_APIVersion = ''jaegertracing.io/v1'', tm_Kind = ''Jaeger''\<rparr>\<rparr>) = Inr (str, j1)"
      "agrees world_objs e j str w (snd ?r)" by blast
  show ?thesis using r f agrees_empty [OF f(2)] assms(1) by (auto simp: world_objs_def mem_objs_def)
qed



end
