(* ===== verification/Operator_Start.thy ===== *)
theory Operator_Start
  imports Controller Autodetect
begin

text \<open>
  The start of the process (\<open>pkg/cmd/start/bootstrap.go\<close>, \<open>pkg/util/k8s_utils.go\<close>) and the command that prints the objects of
  an instance (\<open>pkg/cmd/generate/main.go\<close>).  The environment variables and the files of the machine are the record
  \<open>Machine\<close>; the manager of controller-runtime, the log, the tracer and the printer of YAML are left out.
\<close>

section \<open>The namespace and the identity of the operator\<close>

record Machine =
  os_LookupEnv :: "string \<Rightarrow> string option"
  os_ReadFile :: "string \<Rightarrow> string res"        \<comment> \<open>\<open>NotFound\<close> stands for the errors that \<open>os.IsNotExist\<close> recognises\<close>

definition isRunModeLocal :: "Machine \<Rightarrow> bool" where
  "isRunModeLocal m \<longleftrightarrow> os_LookupEnv m ''OSDK_FORCE_RUN_MODE'' = Some ''local''"

definition GetOperatorNamespace :: "Machine \<Rightarrow> string res" where
  "GetOperatorNamespace m =
     (if isRunModeLocal m then Inl (Failed ''operator run mode forced to local'')
      else (case os_ReadFile m ''/var/run/secrets/kubernetes.io/serviceaccount/namespace'' of
          Inl err \<Rightarrow> Inl (if err = NotFound then Failed ''namespace not found for current environment'' else err)
        | Inr nsBytes \<Rightarrow> Inr (TrimSpace nsBytes)))"

definition getNamespace :: "Machine \<Rightarrow> string" where
  "getNamespace m = (case os_LookupEnv m ''POD_NAMESPACE'' of
     Some podNamespace \<Rightarrow> podNamespace
   | None \<Rightarrow> (case GetOperatorNamespace m of Inl err \<Rightarrow> [] | Inr ns \<Rightarrow> ns))"

definition operator_name :: "Machine \<Rightarrow> string" where
  "operator_name m = (case os_LookupEnv m ''OPERATOR_NAME'' of None \<Rightarrow> ''jaeger-operator'' | Some n \<Rightarrow> n)"

definition identity_of :: "Machine \<Rightarrow> string \<Rightarrow> string" where
  "identity_of m podNamespace = (if length podNamespace > 0 then podNamespace @ ''.'' @ operator_name m else operator_name m)"

definition buildIdentity :: "Machine \<Rightarrow> string \<Rightarrow> Env \<Rightarrow> Env" where
  "buildIdentity m podNamespace e = viper_Set ConfigIdentity (identity_of m podNamespace) e"

section \<open>What the operator watches\<close>

definition setOperatorScope :: "string \<Rightarrow> Env \<Rightarrow> Env" where
  "setOperatorScope namespace e =
     (let e1 = viper_Set ConfigWatchNamespace namespace e
      in viper_Set ConfigOperatorScope
           (if viper_GetString e1 ConfigWatchNamespace = WatchAllNamespaces then OperatorScopeCluster else OperatorScopeNamespace) e1)"

definition viper_SetBool :: "string \<Rightarrow> bool \<Rightarrow> Env \<Rightarrow> Env" where
  "viper_SetBool k v e = e\<lparr>viper_GetBool := (viper_GetBool e)(k := v), viper_IsSet := (viper_IsSet e)(k := True)\<rparr>"

text \<open>The list of the namespaces is only asked for to see whether it is permitted.\<close>

definition detectNamespacePermissions :: "'s op \<Rightarrow> Env \<Rightarrow> 's \<Rightarrow> Env \<times> 's" where
  "detectNamespacePermissions listNamespaces e s = (case listNamespaces s of (err, s') \<Rightarrow>
     (viper_SetBool ''enable-namespace-controller'' (err = None) e, s'))"

text \<open>The keys of the map of namespaces that the cache of the manager is restricted to.\<close>

definition cache_namespaces :: "Env \<Rightarrow> string list option" where
  "cache_namespaces e =
     (let namespace = viper_GetString e ConfigWatchNamespace
      in if namespace \<noteq> [] then Some (remdups (Split (CHR '','') namespace)) else None)"

text \<open>The controller of the Elasticsearch resources is only set up when their definition is installed.\<close>

datatype controller = JaegerController | NamespaceController | ElasticsearchController

definition setupControllers :: "Env \<Rightarrow> bool \<Rightarrow> controller list" where
  "setupControllers e esCRDInstalled =
     [JaegerController] @ (if viper_GetBool e ''enable-namespace-controller'' then [NamespaceController] else []) @
     (if esCRDInstalled then [ElasticsearchController] else [])"

definition performUpgrades :: "'v SemVer \<Rightarrow> Env \<Rightarrow> 's Client \<Rightarrow> 's \<Rightarrow> 's" where
  "performUpgrades V e C s = snd (ManagedInstances V e C (DefaultJaeger e) s)"

text \<open>
  The steps of the start that change the configuration or the cluster, in their order: the first poll of
  the cluster and the first cleaning of the deployments run before the instances are upgraded.
\<close>

definition bootstrap ::
  "'v SemVer \<Rightarrow> Machine \<Rightarrow> 's Client \<Rightarrow> 's Discovery \<Rightarrow> 's op \<Rightarrow> Env \<Rightarrow> 's \<Rightarrow> Background \<times> Env \<times> 's" where
  "bootstrap V m C D listNamespaces e s =
     (let e1 = setOperatorScope (case os_LookupEnv m ''WATCH_NAMESPACE'' of None \<Rightarrow> [] | Some ns \<Rightarrow> ns) (buildIdentity m (getNamespace m) e);
          (b, e2, s1) = autoDetectCapabilities D (WithClients e1) e1 s;
          s2 = cleanDeployments e2 C s1;
          (e3, s3) = detectNamespacePermissions listNamespaces e2 s2
      in (b, e3, performUpgrades V e3 C s3))"

section \<open>Printing the objects of an instance\<close>

text \<open>The end of the input is no error: what has been read is used.\<close>

definition createSpecFromYAML :: "string res \<Rightarrow> (string \<Rightarrow> Jaeger \<times> goerr option) \<Rightarrow> Jaeger res" where
  "createSpecFromYAML opened decode = res_bind opened (\<lambda>f. case decode f of
     (spec, None) \<Rightarrow> Inr spec
   | (spec, Some err) \<Rightarrow> if err = Failed ''EOF'' then Inr spec else Inl err)"

fun SetOwnerReferences :: "OwnerReference list \<Rightarrow> kobj \<Rightarrow> kobj" where
  "SetOwnerReferences r (OAccount x) = OAccount (sa_Meta_update (om_OwnerReferences_update (\<lambda>_. r)) x)"
| "SetOwnerReferences r (OClusterRoleBinding x) = OClusterRoleBinding (crb_Meta_update (om_OwnerReferences_update (\<lambda>_. r)) x)"
| "SetOwnerReferences r (OConfigMap x) = OConfigMap (cm_Meta_update (om_OwnerReferences_update (\<lambda>_. r)) x)"
| "SetOwnerReferences r (OConsoleLink x) = OConsoleLink (cl_Meta_update (om_OwnerReferences_update (\<lambda>_. r)) x)"
| "SetOwnerReferences r (OCronJob x) = OCronJob (cj_Meta_update (om_OwnerReferences_update (\<lambda>_. r)) x)"
| "SetOwnerReferences r (ODaemonSet x) = ODaemonSet (dae_Meta_update (om_OwnerReferences_update (\<lambda>_. r)) x)"
| "SetOwnerReferences r (ODeployment x) = ODeployment (dep_Meta_update (om_OwnerReferences_update (\<lambda>_. r)) x)"
| "SetOwnerReferences r (OElasticsearch x) = OElasticsearch (es_Meta_update (om_OwnerReferences_update (\<lambda>_. r)) x)"
| "SetOwnerReferences r (OHPA x) = OHPA (hpa_Meta_update (om_OwnerReferences_update (\<lambda>_. r)) x)"
| "SetOwnerReferences r (OIngress x) = OIngress (ing_Meta_update (om_OwnerReferences_update (\<lambda>_. r)) x)"
| "SetOwnerReferences r (OJob x) = OJob (job_Meta_update (om_OwnerReferences_update (\<lambda>_. r)) x)"
| "SetOwnerReferences r (OKafka x) = OKafka (kf_Meta_update (om_OwnerReferences_update (\<lambda>_. r)) x)"
| "SetOwnerReferences r (OKafkaUser x) = OKafkaUser (ku_Meta_update (om_OwnerReferences_update (\<lambda>_. r)) x)"
| "SetOwnerReferences r (ORoute x) = ORoute (rt_Meta_update (om_OwnerReferences_update (\<lambda>_. r)) x)"
| "SetOwnerReferences r (OSecret x) = OSecret (sec_Meta_update (om_OwnerReferences_update (\<lambda>_. r)) x)"
| "SetOwnerReferences r (OService x) = OService (svc_Meta_update (om_OwnerReferences_update (\<lambda>_. r)) x)"

text \<open>The objects that are printed, given the input as it was read and the outcome of opening the output.\<close>

definition generate :: "Env \<Rightarrow> (nat \<Rightarrow> nat) \<Rightarrow> Jaeger res \<Rightarrow> goerr option \<Rightarrow> kobj list res" where
  "generate e Intn input opened =
     res_bind input (\<lambda>spec. res_bind (For e Intn spec) (\<lambda>(s, _). case opened of
        Some err \<Rightarrow> Inl err
      | None \<Rightarrow> Inr (map (SetOwnerReferences []) (All s))))"

lemma SetOwnerReferences_meta [simp]:
  "meta_of (SetOwnerReferences r x) = (meta_of x)\<lparr>om_OwnerReferences := r\<rparr>" "kind_of (SetOwnerReferences r x) = kind_of x"
  "ident (SetOwnerReferences r x) = ident x"
  by (cases x; simp add: ident_def)+

section \<open>The configuration after the start\<close>

text \<open>What the operator is called and what it watches.\<close>

definition standing :: "Env \<Rightarrow> string \<times> string \<times> string" where
  "standing e = (viper_GetString e ConfigIdentity, viper_GetString e ConfigWatchNamespace, viper_GetString e ConfigOperatorScope)"

lemma standing_other [simp]:
  "k \<notin> {ConfigIdentity, ConfigWatchNamespace, ConfigOperatorScope} \<Longrightarrow> standing (viper_Set k v e) = standing e"
  "standing (viper_SetBool k' b e) = standing e"
  by (auto simp: standing_def viper_Set_def viper_SetBool_def)

lemma standing_steps [simp]:
  "standing (fst (detectCronjobsVersion D e s)) = standing e" "standing (fst (detectAutoscalingVersion D e s)) = standing e"
  "standing (fst (detectDefaultIngressClass D e s)) = standing e" "standing (fst (detectOAuthProxyImageStream D e s)) = standing e"
  "standing (fst (detectClusterRoles D e s)) = standing e" "standing (detectPlatform apis e) = standing e"
  "standing (detectElasticsearch b apis e) = standing e" "standing (detectKafka b apis e) = standing e"
  by (simp_all add: detectCronjobsVersion_def detectAutoscalingVersion_def detectDefaultIngressClass_def detectPlatform_def
      detectElasticsearch_def detectKafka_def detectOAuthProxyImageStream_def detectClusterRoles_def SetOautProxyImage_def
      SetPlatform_def SetESIngration_def SetKafkaIntegration_def SetAuthDelegatorAvailability_def Let_def
      split: prod.split sum.split option.split list.split bool.split)

lemma standing_first_run [simp]: "standing (fst (first_run D apis e s)) = standing e"
proof -
  obtain e1 s1 where 1: "detectCronjobsVersion D (detectPlatform apis e) s = (e1, s1)" by (rule prod.exhaust)
  obtain e2 s2 where 2: "detectAutoscalingVersion D e1 s1 = (e2, s2)" by (rule prod.exhaust)
  show ?thesis
    using standing_steps(1) [of D "detectPlatform apis e" s] standing_steps(2) [of D e1 s1] standing_steps(3) [of D e2 s2]
    by (simp add: first_run_def 1 2)
qed

lemma standing_poll: "autoDetectCapabilities D b e s = (b', e', s') \<Longrightarrow> standing e' = standing e"
proof -
  assume p: "autoDetectCapabilities D b e s = (b', e', s')"
  obtain r s1 where a: "AvailableAPIs D s = (r, s1)" by (rule prod.exhaust)
  show ?thesis
  proof (cases r)
    case (Inl err)
    then show ?thesis using p a standing_steps(5) [of D e s1] by (auto simp: autoDetectCapabilities_def)
  next
    case (Inr apis)
    obtain e2 s2 where 2: "(if ranOnce b then (e, s1) else first_run D apis e s1) = (e2, s2)" by (rule prod.exhaust)
    obtain e3 s3 where 3: "detectOAuthProxyImageStream D e2 s2 = (e3, s3)" by (rule prod.exhaust)
    let ?e4 = "detectKafka b apis (detectElasticsearch b apis e3)"
    have "standing e2 = standing e" using 2 standing_first_run [of D apis e s1] by (cases "ranOnce b") simp_all
    moreover have "standing e3 = standing e2" using 3 standing_steps(4) [of D e2 s2] by simp
    moreover have "standing e' = standing ?e4"
      using p a Inr 2 3 standing_steps(5) [of D ?e4 s3] by (auto simp: autoDetectCapabilities_def)
    ultimately show ?thesis by simp
  qed
qed

lemma standing_bootstrap:
  assumes "bootstrap V m C D L e s = (b', e', s')"
  shows "standing e' = (let watch = (case os_LookupEnv m ''WATCH_NAMESPACE'' of None \<Rightarrow> [] | Some ns \<Rightarrow> ns)
     in (identity_of m (getNamespace m), watch, if watch = [] then OperatorScopeCluster else OperatorScopeNamespace))"
proof -
  let ?e1 = "setOperatorScope (case os_LookupEnv m ''WATCH_NAMESPACE'' of None \<Rightarrow> [] | Some ns \<Rightarrow> ns) (buildIdentity m (getNamespace m) e)"
  obtain b e2 s1 where 1: "autoDetectCapabilities D (WithClients ?e1) ?e1 s = (b, e2, s1)" by (rule prod_cases3)
  have "standing e' = standing e2"
    using assms 1 by (auto simp: bootstrap_def Let_def detectNamespacePermissions_def split: prod.splits)
  also have "\<dots> = standing ?e1" using standing_poll [OF 1] .
  finally show ?thesis by (simp add: standing_def setOperatorScope_def buildIdentity_def viper_Set_def Let_def)
qed

text \<open>Identities of operators in namespaces, which have no dots in their names, tell the operators apart.\<close>

lemma dotted_inject: "CHR ''.'' \<notin> set a \<Longrightarrow> CHR ''.'' \<notin> set b \<Longrightarrow> a @ CHR ''.'' # x = b @ CHR ''.'' # y \<longleftrightarrow> a = b \<and> x = y"
  by (auto simp: append_eq_append_conv2 Cons_eq_append_conv append_eq_Cons_conv)

lemma identity_inject:
  assumes "a \<noteq> []" "b \<noteq> []" "CHR ''.'' \<notin> set a" "CHR ''.'' \<notin> set b"
  shows "identity_of m a = identity_of n b \<longleftrightarrow> a = b \<and> operator_name m = operator_name n"
  using assms by (simp add: identity_of_def dotted_inject)

end
