(* ===== verification/Operator_System.thy ===== *)
theory Operator_System
  imports Isolation Operator_Start
begin

text \<open>
  The operator as a transition system.  Its state is the configuration, the state of the detection and the cluster
  with the files; a step is one run of a controller, of a webhook or of a background process, with any input.
  The steps of a run are requests to the API server, and the properties below are kept by each request, so that they do
  not depend on the runs being in sequence.  The initial state is the one that \<open>bootstrap\<close> leaves.
\<close>

section \<open>The steps\<close>

record 's Operator =
  op_Background :: Background
  op_Env :: Env
  op_Cluster :: 's

inductive operates :: "'v SemVer \<Rightarrow> 's Client \<Rightarrow> 's System \<Rightarrow> 's Discovery \<Rightarrow> 's Operator \<Rightarrow> 's Operator \<Rightarrow> bool"
  for V :: "'v SemVer" and C :: "'s Client" and sys :: "'s System" and D :: "'s Discovery"
where
  reconciles: "name \<noteq> [] \<Longrightarrow>
    operates V C sys D op (op\<lparr>op_Cluster := snd (Reconcile V (op_Env op) C sys Intn ns name (op_Cluster op))\<rparr>)"
| reconciles_elasticsearch: "ElasticsearchController \<in> set (setupControllers (op_Env op) esCRDInstalled) \<Longrightarrow>
    operates V C sys D op (op\<lparr>op_Cluster := snd (Reconcile_Elasticsearch C ns name (op_Cluster op))\<rparr>)"
| reconciles_namespace: "NamespaceController \<in> set (setupControllers (op_Env op) esCRDInstalled) \<Longrightarrow>
    operates V C sys D op (op\<lparr>op_Cluster := snd (Reconcile_Namespace C name (op_Cluster op))\<rparr>)"
| admits_deployment: "operates V C sys D op (op\<lparr>op_Cluster := snd (Handle (op_Env op) C req (op_Cluster op))\<rparr>)"
| defaults: "operates V C sys D op (op\<lparr>op_Cluster := snd (Default C j (op_Cluster op))\<rparr>)"
| validates: "operates V C sys D op (op\<lparr>op_Cluster := snd (ValidateUpdate C j (op_Cluster op))\<rparr>)"
| cleans: "operates V C sys D op (op\<lparr>op_Cluster := cleanDeployments (op_Env op) C (op_Cluster op)\<rparr>)"
| detects: "autoDetectCapabilities D (op_Background op) (op_Env op) (op_Cluster op) = (b, e, s) \<Longrightarrow>
    operates V C sys D op \<lparr>op_Background = b, op_Env = e, op_Cluster = s\<rparr>"

definition started ::
  "'v SemVer \<Rightarrow> Machine \<Rightarrow> 's Client \<Rightarrow> 's Discovery \<Rightarrow> 's op \<Rightarrow> Env \<Rightarrow> 's \<Rightarrow> 's Operator" where
  "started V m C D listNamespaces e s = (case bootstrap V m C D listNamespaces e s of
     (b, e', s') \<Rightarrow> \<lparr>op_Background = b, op_Env = e', op_Cluster = s'\<rparr>)"

inductive reachable ::
  "'v SemVer \<Rightarrow> Machine \<Rightarrow> 's Client \<Rightarrow> 's System \<Rightarrow> 's Discovery \<Rightarrow> 's op \<Rightarrow> Env \<Rightarrow> 's \<Rightarrow> 's Operator \<Rightarrow> bool"
  for V m C sys D L e s
where
  at_start: "reachable V m C sys D L e s (started V m C D L e s)"
| later: "reachable V m C sys D L e s op \<Longrightarrow> operates V C sys D op op' \<Longrightarrow> reachable V m C sys D L e s op'"

inductive_cases operatesE: "operates V C sys D op op'"

section \<open>The configuration of a running operator\<close>

lemma operates_standing: "operates V C sys D op op' \<Longrightarrow> standing (op_Env op') = standing (op_Env op)"
  by (erule operatesE) (simp_all add: standing_poll)

text \<open>C38: an operator keeps its identity and its scope.  In every state that it reaches, by whatever sequence of
  reconciliations, webhook calls and background runs, the identity by which it claims instances is the one of
  its machine at the start, the namespaces that it watches are those of the variable WATCH_NAMESPACE, and its scope is the
  cluster exactly when no namespaces are given: the detection of capabilities, which rewrites the
  configuration every few seconds, touches none of them.\<close>

theorem identity_and_scope_fixed:
  assumes "reachable V m C sys D L e s op"
  shows "viper_GetString (op_Env op) ConfigIdentity = identity_of m (getNamespace m) \<and>
    viper_GetString (op_Env op) ConfigWatchNamespace = (case os_LookupEnv m ''WATCH_NAMESPACE'' of None \<Rightarrow> [] | Some ns \<Rightarrow> ns) \<and>
    viper_GetString (op_Env op) ConfigOperatorScope =
      (if viper_GetString (op_Env op) ConfigWatchNamespace = [] then OperatorScopeCluster else OperatorScopeNamespace) \<and>
    (viper_GetString (op_Env op) ConfigOperatorScope = OperatorScopeCluster \<longleftrightarrow> cache_namespaces (op_Env op) = None)"
proof -
  have "standing (op_Env op) = standing (op_Env (started V m C D L e s))"
    using assms by induction (simp_all add: operates_standing)
  also have "\<dots> = (let watch = (case os_LookupEnv m ''WATCH_NAMESPACE'' of None \<Rightarrow> [] | Some ns \<Rightarrow> ns)
     in (identity_of m (getNamespace m), watch, if watch = [] then OperatorScopeCluster else OperatorScopeNamespace))"
    using standing_bootstrap [of V m C D L e s] by (auto simp: started_def split: prod.split)
  finally show ?thesis by (simp add: standing_def cache_namespaces_def Let_def)
qed

section \<open>Objects that the operator has nothing to do with\<close>

text \<open>The frame laws for the requests that the other parts of the operator make.\<close>

locale operator_server = isolated_server C objs sys for C :: "'s Client" and objs :: "'s \<Rightarrow> kobj set" and sys :: "'s System" +
  fixes D :: "'s Discovery" and listNamespaces :: "'s op"
  assumes list_jaegers_frame: "stays objs x (cl_ListJaegers C sel ls)"
    and patch_frame: "stays objs x (cl_PatchJaeger C j j')"
    and status_patch_frame: "stays objs x (cl_StatusPatch C j j')"
    and discovery_frame: "stays objs x (d_ServerGroups D)" "stays objs x (d_Resources D v)" "stays objs x (d_IngressClasses D)"
      "stays objs x (d_ImageStream D n m)" "stays objs x (d_CreateTokenReview D)" "stays objs x (d_DeleteTokenReview D)"
    and namespaces_frame: "stays objs x listNamespaces"
begin

lemmas operator_frames = staysE [OF list_jaegers_frame] staysE [OF patch_frame] staysE [OF status_patch_frame]
  staysE [OF namespaces_frame] staysE [OF list_frame] staysE [OF get_frame] staysE [OF namespace_frame] staysE [OF update_jaeger_frame]
  staysE [OF stays_get_typed] staysE [OF discovery_frame(1)] staysE [OF discovery_frame(2)] staysE [OF discovery_frame(3)]
  staysE [OF discovery_frame(4)] staysE [OF discovery_frame(5)] staysE [OF discovery_frame(6)]

lemma stays_fold: "(\<And>y s. y \<in> set ys \<Longrightarrow> x \<in> objs s \<Longrightarrow> x \<in> objs (f y s)) \<Longrightarrow> x \<in> objs s \<Longrightarrow> x \<in> objs (fold f ys s)"
  by (induction ys arbitrary: s) simp_all

lemma stays_update_jaegers:
  "stays objs x (for_each (\<lambda>j s. if P j then (case cl_UpdateJaeger C (g j) s of (Inl err, s') \<Rightarrow> (Some err, s') | (Inr _, s') \<Rightarrow> (None, s'))
     else (None, s)) js)"
  by (rule stays_for_each, rule staysI) (auto intro: operator_frames split: prod.split sum.split)

lemma stays_Reconcile_Elasticsearch: "stays objs x (Reconcile_Elasticsearch C ns name)"
proof (rule staysI)
  fix s assume s: "x \<in> objs s"
  obtain r s1 where g: "get_typed C KElasticsearch un_Elasticsearch (ObjectMeta0\<lparr>om_Namespace := ns, om_Name := name\<rparr>) s = (r, s1)" by (rule prod.exhaust)
  obtain q s2 where l: "cl_ListJaegers C (Some ns) [] s1 = (q, s2)" by (rule prod.exhaust)
  have "x \<in> objs s1" by (rule staysE [OF stays_get_typed g s])
  moreover from this have "x \<in> objs s2" by (rule staysE [OF list_jaegers_frame l])
  ultimately show "x \<in> objs (snd (Reconcile_Elasticsearch C ns name s))"
    by (cases r; cases q) (simp_all add: Reconcile_Elasticsearch_def g l staysD [OF stays_update_jaegers])
qed

lemma stays_deployment_updates:
  "kind_of x \<noteq> KDeployment \<Longrightarrow> stays objs x (cl_Update C (ODeployment d))"
  by (rule update_frame) (auto simp: ident_def)

lemma stays_Reconcile_Namespace:
  assumes "kind_of x \<noteq> KDeployment"
  shows "stays objs x (Reconcile_Namespace C name)"
proof (rule staysI)
  fix s assume s: "x \<in> objs s"
  obtain r s1 where g: "cl_GetNamespace C name s = (r, s1)" by (rule prod.exhaust)
  obtain q s2 where l: "cl_List C KDeployment (Some name) [] s1 = (q, s2)" by (rule prod.exhaust)
  have "x \<in> objs s1" by (rule staysE [OF namespace_frame g s])
  moreover from this have "x \<in> objs s2" by (rule staysE [OF list_frame l])
  moreover have "stays objs x (for_each (\<lambda>dep. if P dep then cl_Update C (ODeployment (bump_revision dep)) else skip) ds)" for P ds
    by (rule stays_for_each) (simp add: stays_skip stays_deployment_updates [OF assms])
  ultimately show "x \<in> objs (snd (Reconcile_Namespace C name s))"
    by (cases r; cases q) (simp_all add: Reconcile_Namespace_def g l staysD)
qed

lemma stays_reconcileConfigMaps: "stays objs x (reconcileConfigMaps e C j dep)"
  unfolding reconcileConfigMaps_def reconcileConfigMap_def
  by (rule stays_for_each, rule staysI) (auto intro: staysE [OF create_frame] split: prod.split option.split goerr.split)

lemma stays_inject_response: "stays objs x (inject_response e C j dep)"
proof (rule staysI)
  fix s assume s: "x \<in> objs s"
  let ?s1 = "if j_Namespace j \<noteq> dep_Namespace dep then snd (reconcileConfigMaps e C j dep s) else s"
  obtain r s2 where l: "cl_List C KConfigMap (Some (dep_Namespace dep)) [] ?s1 = (r, s2)" by (rule prod.exhaust)
  have "x \<in> objs ?s1" using s staysD [OF stays_reconcileConfigMaps s] by simp
  then have "x \<in> objs s2" by (rule staysE [OF list_frame l])
  then show "x \<in> objs (snd (inject_response e C j dep s))"
    using l by (cases r) (simp_all add: inject_response_def list_config_maps_def Let_def)
qed

lemma stays_Handle: "stays objs x (Handle e C req)"
proof (rule staysI)
  fix s assume s: "x \<in> objs s"
  obtain r s1 where n: "cl_GetNamespace C (rq_Namespace req) s = (r, s1)" by (rule prod.exhaust)
  obtain ns where f: "fetch_namespace C (rq_Namespace req) s = (ns, s1)" using n by (cases r) (simp_all add: fetch_namespace_def)
  obtain q s2 where w: "webhook_jaegers e C s1 = (q, s2)" by (rule prod.exhaust)
  have s1: "x \<in> objs s1" by (rule staysE [OF namespace_frame n s])
  have s2: "x \<in> objs s2" by (rule staysE [OF list_jaegers_frame w [unfolded webhook_jaegers_def] s1])
  show "x \<in> objs (snd (Handle e C req s))"
    using s s1 s2 staysD [OF stays_inject_response s2]
    by (simp add: Handle_def f w split: sum.split option.split)
qed

lemma stays_Default: "stays objs x (Default C j)"
  by (rule staysI) (auto simp: Default_def get_elasticsearch_def Let_def intro: operator_frames split: prod.split sum.split goerr.split)

lemma stays_ValidateUpdate: "stays objs x (ValidateUpdate C j)"
  by (rule staysI) (auto simp: ValidateUpdate_def get_elasticsearch_def Let_def intro: operator_frames split: prod.split sum.split goerr.split)

lemma stays_collect_watched: "stays objs x (collect_watched C nss)"
proof (induction nss)
  case (Cons ns nss)
  show ?case
  proof (rule staysI)
    fix s assume s: "x \<in> objs s"
    obtain r s1 where l: "cl_List C KDeployment ns [] s = (r, s1)" by (rule prod.exhaust)
    obtain q s2 where j: "cl_ListJaegers C ns [] s1 = (q, s2)" by (rule prod.exhaust)
    obtain ds where ds: "deployments_in C ns s = (ds, s1)" using l by (cases r) (simp_all add: deployments_in_def)
    obtain js where js: "instances_in C ns s1 = (js, s2)" using j by (cases q) (simp_all add: instances_in_def)
    have "x \<in> objs s2" by (rule staysE [OF list_jaegers_frame j staysE [OF list_frame l s]])
    moreover obtain r' s3 where c: "collect_watched C nss s2 = (r', s3)" by (rule prod.exhaust)
    ultimately have "x \<in> objs s3" using staysE [OF Cons] by blast
    then show "x \<in> objs (snd (collect_watched C (ns # nss) s))" by (cases r') (simp add: ds js c)
  qed
qed (simp add: stays_def)

lemma stays_cleanDeployments:
  assumes "kind_of x \<noteq> KDeployment" "x \<in> objs s"
  shows "x \<in> objs (cleanDeployments e C s)"
proof -
  obtain deps names s1 where c: "collect_watched C (if viper_GetString e ConfigWatchNamespace \<noteq> WatchAllNamespaces
      then map Some (Split (CHR '','') (viper_GetString e ConfigWatchNamespace)) else [None]) s = ((deps, names), s1)"
    by (metis prod.exhaust)
  have "x \<in> objs s1" by (rule staysE [OF stays_collect_watched c assms(2)])
  then have "x \<in> objs (fold (\<lambda>dep s. if orphaned names dep then snd (cl_Update C (ODeployment (cleaned e dep)) s) else s) deps s1)"
    by (intro stays_fold) (simp_all add: staysD [OF stays_deployment_updates [OF assms(1)]])
  then show ?thesis using c by (simp add: cleanDeployments_def Let_def)
qed

lemma stays_available_apis: "stays objs x (available_apis D gs apis errs)"
proof (induction gs arbitrary: apis errs)
  case (Cons g gs)
  obtain name version where g: "g = (name, version)" by (rule prod.exhaust)
  show ?case
    by (rule staysI) (auto simp: g intro: staysD [OF Cons] operator_frames split: prod.split sum.split)
qed (simp add: stays_def)

lemma stays_AvailableAPIs: "stays objs x (AvailableAPIs D)"
  by (rule staysI) (auto simp: AvailableAPIs_def intro: staysD [OF stays_available_apis] operator_frames split: prod.split sum.split)

lemma stays_has_resource: "stays objs x (has_resource D version name)"
  by (rule staysI) (auto simp: has_resource_def intro: operator_frames split: prod.split sum.split)

lemma stays_detections:
  "stays objs x (detectCronjobsVersion D e)" "stays objs x (detectAutoscalingVersion D e)" "stays objs x (detectDefaultIngressClass D e)"
  "stays objs x (detectOAuthProxyImageStream D e)" "stays objs x (detectClusterRoles D e)"
proof -
  note h = staysE [OF stays_has_resource]
  show "stays objs x (detectCronjobsVersion D e)" "stays objs x (detectAutoscalingVersion D e)"
    by (rule staysI; auto simp: detectCronjobsVersion_def detectAutoscalingVersion_def Let_def intro: h split: prod.split bool.split)+
  show "stays objs x (detectDefaultIngressClass D e)"
    by (rule staysI) (auto simp: detectDefaultIngressClass_def intro: operator_frames split: prod.split sum.split option.split)
  show "stays objs x (detectOAuthProxyImageStream D e)"
    by (rule staysI) (auto simp: detectOAuthProxyImageStream_def Let_def intro: operator_frames split: prod.split sum.split list.split)
  show "stays objs x (detectClusterRoles D e)"
    by (rule staysI) (auto simp: detectClusterRoles_def Let_def intro: staysD [OF discovery_frame(6)] operator_frames split: prod.split)
qed

lemma stays_first_run: "stays objs x (first_run D apis e)"
proof (rule staysI)
  fix s assume s: "x \<in> objs s"
  obtain e1 s1 where 1: "detectCronjobsVersion D (detectPlatform apis e) s = (e1, s1)" by (rule prod.exhaust)
  obtain e2 s2 where 2: "detectAutoscalingVersion D e1 s1 = (e2, s2)" by (rule prod.exhaust)
  have "x \<in> objs s2" by (rule staysE [OF stays_detections(2) 2 staysE [OF stays_detections(1) 1 s]])
  then show "x \<in> objs (snd (first_run D apis e s))" using staysD [OF stays_detections(3)] by (simp add: first_run_def 1 2)
qed

lemma stays_poll_cluster:
  assumes "autoDetectCapabilities D b e s = (b', e', s')" "x \<in> objs s"
  shows "x \<in> objs s'"
proof -
  obtain r s1 where a: "AvailableAPIs D s = (r, s1)" by (rule prod.exhaust)
  have s1: "x \<in> objs s1" by (rule staysE [OF stays_AvailableAPIs a assms(2)])
  show ?thesis
  proof (cases r)
    case (Inl err)
    then show ?thesis using assms(1) a staysD [OF stays_detections(5) s1, of e] by (auto simp: autoDetectCapabilities_def)
  next
    case (Inr apis)
    obtain e2 s2 where 2: "(if ranOnce b then (e, s1) else first_run D apis e s1) = (e2, s2)" by (rule prod.exhaust)
    obtain e3 s3 where 3: "detectOAuthProxyImageStream D e2 s2 = (e3, s3)" by (rule prod.exhaust)
    have s2: "x \<in> objs s2" using 2 s1 staysD [OF stays_first_run s1, of apis e] by (cases "ranOnce b") simp_all
    have s3: "x \<in> objs s3" by (rule staysE [OF stays_detections(4) 3 s2])
    show ?thesis
      using assms(1) a Inr 2 3 staysD [OF stays_detections(5) s3, of "detectKafka b apis (detectElasticsearch b apis e3)"]
      by (auto simp: autoDetectCapabilities_def)
  qed
qed

lemma stays_list_namespaces: "stays objs x (list_namespaces C ls nss acc)"
proof (induction nss arbitrary: acc)
  case (Cons ns nss)
  show ?case
    by (rule staysI) (auto intro: staysD [OF Cons] operator_frames split: prod.split sum.split)
qed (simp add: stays_def)

lemma stays_upgrade_item:
  assumes "kind_of x \<noteq> KElasticsearch" "x \<in> objs s"
  shows "x \<in> objs (upgrade_item V C identity v j s)"
proof -
  have m: "stays objs x (ManagedInstance V C j v)" by (rule stays_ManagedInstance) (use assms(1) in \<open>auto simp: ident_def\<close>)
  obtain j' r s' where i: "ManagedInstance V C j v s = ((j', r), s')" by (metis prod.exhaust)
  have s': "x \<in> objs s'" by (rule staysE [OF m i assms(2)])
  obtain q s2 where p: "cl_PatchJaeger C j j' s' = (q, s2)" by (rule prod.exhaust)
  have "x \<in> objs s2" by (rule staysE [OF patch_frame p s'])
  then show ?thesis
    using assms(2) s' staysD [OF status_patch_frame] by (simp add: upgrade_item_def i p split: option.split sum.split)
qed

lemma stays_ManagedInstances:
  assumes "kind_of x \<noteq> KElasticsearch"
  shows "stays objs x (ManagedInstances V e C v)"
proof (rule staysI)
  fix s assume s: "x \<in> objs s"
  let ?ls = "[(LabelOperatedBy, viper_GetString e ConfigIdentity)]" and ?w = "viper_GetString e ConfigWatchNamespace"
  obtain r s1 where l: "(if ?w \<noteq> WatchAllNamespaces then list_namespaces C ?ls (Split (CHR '','') ?w) [] s else cl_ListJaegers C None ?ls s) = (r, s1)"
    by (rule prod.exhaust)
  have "x \<in> objs s1"
  proof (cases "?w = []")
    case True
    then show ?thesis using l by (intro staysE [OF list_jaegers_frame _ s]) simp
  next
    case False
    then show ?thesis using l by (intro staysE [OF stays_list_namespaces _ s]) simp
  qed
  then have "x \<in> objs (fold (upgrade_item V C i v) items s1)" for i items
    by (intro stays_fold stays_upgrade_item [OF assms])
  then show "x \<in> objs (snd (ManagedInstances V e C v s))"
    using l \<open>x \<in> objs s1\<close> by (cases r) (simp_all add: ManagedInstances_def Let_def)
qed

lemma stays_bootstrap:
  assumes "kind_of x \<noteq> KDeployment" "kind_of x \<noteq> KElasticsearch" "bootstrap V m C D listNamespaces e s = (b', e', s')" "x \<in> objs s"
  shows "x \<in> objs s'"
proof -
  let ?e1 = "setOperatorScope (case os_LookupEnv m ''WATCH_NAMESPACE'' of None \<Rightarrow> [] | Some ns \<Rightarrow> ns) (buildIdentity m (getNamespace m) e)"
  obtain b e2 s1 where 1: "autoDetectCapabilities D (WithClients ?e1) ?e1 s = (b, e2, s1)" by (rule prod_cases3)
  have 2: "x \<in> objs (cleanDeployments e2 C s1)" by (rule stays_cleanDeployments [OF assms(1) stays_poll_cluster [OF 1 assms(4)]])
  obtain err s3 where 3: "listNamespaces (cleanDeployments e2 C s1) = (err, s3)" by (rule prod.exhaust)
  have "x \<in> objs s3" by (rule staysE [OF namespaces_frame 3 2])
  then show ?thesis
    using assms(3) 1 3 staysD [OF stays_ManagedInstances [OF assms(2)]]
    by (auto simp: bootstrap_def Let_def detectNamespacePermissions_def performUpgrades_def)
qed

end

text \<open>A bystander is no deployment (those get agents) and no Elasticsearch (upgrades delete one by its
  name), and does not say that the operator manages it.\<close>

definition bystander :: "kobj \<Rightarrow> bool" where
  "bystander x \<longleftrightarrow> kind_of x \<noteq> KDeployment \<and> kind_of x \<noteq> KElasticsearch \<and>
     label_of x ''app.kubernetes.io/managed-by'' \<noteq> Some ''jaeger-operator''"

lemma bystander_foreign: "bystander x \<Longrightarrow> foreign ns name x"
  by (simp add: bystander_def foreign_def belongs_def cleaned_config_map_def ident_def)

context operator_server
begin

lemma operates_bystander:
  assumes "operates V C sys D op op'" "bystander x" "x \<in> objs (op_Cluster op)"
  shows "x \<in> objs (op_Cluster op')"
proof -
  have k: "kind_of x \<noteq> KDeployment" using assms(2) by (simp add: bystander_def)
  show ?thesis
    using assms(1)
  proof cases
    case (reconciles name Intn ns)
    then show ?thesis using staysD [OF stays_Reconcile [OF bystander_foreign [OF assms(2)]] assms(3)] by simp
  next
    case (detects b e s)
    then show ?thesis using stays_poll_cluster [OF detects(2) assms(3)] by simp
  qed (use assms(3) k in \<open>simp_all add: staysD [OF stays_Reconcile_Elasticsearch] staysD [OF stays_Reconcile_Namespace]
      staysD [OF stays_Handle] staysD [OF stays_Default] staysD [OF stays_ValidateUpdate] stays_cleanDeployments\<close>)
qed

lemma reachable_bystander:
  assumes "reachable V m C sys D listNamespaces e s op" "bystander x" "x \<in> objs s"
  shows "x \<in> objs (op_Cluster op)"
  using assms(1)
proof induction
  case at_start
  obtain b e' s' where b: "bootstrap V m C D listNamespaces e s = (b, e', s')" by (rule prod_cases3)
  have "x \<in> objs s'" by (rule stays_bootstrap [OF _ _ b assms(3)]) (use assms(2) in \<open>simp_all add: bystander_def\<close>)
  then show ?case by (simp add: started_def b)
next
  case (later op op')
  then show ?case using operates_bystander assms(2) by blast
qed

end

section \<open>The operator on the cluster in memory\<close>

text \<open>A cluster without the groups of OpenShift, Strimzi and Elasticsearch.\<close>

definition world_discovery :: "World Discovery" where
  "world_discovery = \<lparr>d_ServerGroups = (\<lambda>w. (Inr [(''batch'', ''batch/v1'')], w)),
     d_Resources = (\<lambda>v w. (if v = ''batch/v1'' then Inr \<lparr>al_GroupVersion = v, al_Resources = [(''cronjobs'', ''CronJob'')]\<rparr> else Inl NotFound, w)),
     d_IngressClasses = (\<lambda>w. (Inr [], w)), d_ImageStream = (\<lambda>n m w. (Inl NotFound, w)), d_CreateTokenReview = (\<lambda>w. (None, w)),
     d_DeleteTokenReview = (\<lambda>w. (None, w)), d_ImageID = (\<lambda>r. None)\<rparr>"

interpretation running: operator_server world_client world_objs world_system world_discovery skip
  by unfold_locales
    (simp_all add: world_discovery_def world_client_def stays_put_jaeger stays_skip stays_return, simp add: stays_def)

text \<open>C7: in every state that the operator reaches from its start, whatever its controllers, webhooks
  and background processes have done, and with whatever errors, an object that does not say that it is managed by the
  operator is still there and unchanged, unless it is a deployment or an Elasticsearch.\<close>

theorem bystanders_untouched:
  assumes "operator_server C objs sys D L" and "reachable V m C sys D L e s op" and "bystander x" and "x \<in> objs s"
  shows "x \<in> objs (op_Cluster op)"
  by (rule operator_server.reachable_bystander [OF assms])

definition sample_machine :: Machine where
  "sample_machine = \<lparr>os_LookupEnv = (\<lambda>k. if k = ''POD_NAMESPACE'' then Some ''op'' else None), os_ReadFile = (\<lambda>f. Inl NotFound)\<rparr>"

definition sample_bystander :: kobj where
  "sample_bystander = OService (sample_service ''mine'' [])"

definition shared_world :: World where
  "shared_world = \<lparr>w_objs = [sample_bystander], w_jaegers = [sample_jaeger], w_files = Map.empty\<rparr>"

definition sample_operator :: "World Operator" where
  "sample_operator = (let op = started triple_semver sample_machine world_client world_discovery skip sample_env shared_world
     in op\<lparr>op_Cluster := snd (Reconcile triple_semver (op_Env op) world_client world_system id ''ns'' ''my'' (op_Cluster op))\<rparr>)"

lemma sample_reachable: "reachable triple_semver sample_machine world_client world_system world_discovery skip sample_env shared_world sample_operator"
  unfolding sample_operator_def Let_def
  by (rule reachable.later [OF reachable.at_start operates.reconciles]) simp

theorem bystanders_untouched_witness: "sample_bystander \<in> world_objs (op_Cluster sample_operator)"
proof (rule bystanders_untouched [OF running.operator_server_axioms sample_reachable])
  show "bystander sample_bystander" by (simp add: bystander_def label_of_def sample_bystander_def sample_service_def ObjectMeta0_def)
  show "sample_bystander \<in> world_objs shared_world" by (simp add: world_objs_def mem_objs_def shared_world_def)
qed

theorem identity_and_scope_fixed_witness:
  "viper_GetString (op_Env sample_operator) ConfigIdentity = ''op.jaeger-operator'' \<and>
   viper_GetString (op_Env sample_operator) ConfigOperatorScope = OperatorScopeCluster"
  using identity_and_scope_fixed [OF sample_reachable] by (simp add: sample_machine_def identity_of_def operator_name_def getNamespace_def)

section \<open>Two operators\<close>

lemma reachable_identity: "reachable V m C sys D L e s op \<Longrightarrow> viper_GetString (op_Env op) ConfigIdentity = identity_of m (getNamespace m)"
proof (induction rule: reachable.induct)
  case at_start
  then show ?case using standing_bootstrap [of V m C D L e s] by (auto simp: started_def standing_def Let_def split: prod.split)
next
  case (later op op')
  then show ?case using operates_standing [OF later.hyps(2)] by (simp add: standing_def)
qed


definition other_machine :: Machine where
  "other_machine = sample_machine\<lparr>os_LookupEnv := (\<lambda>k. if k = ''POD_NAMESPACE'' then Some ''elsewhere'' else None)\<rparr>"


end
