(* ===== verification/Command_Flags.thy ===== *)
theory Command_Flags
  imports Operator_Start
begin

text \<open>
  The command line of the operator (\<open>pkg/cmd/start/main.go\<close>): the flags with their defaults and the environment variables that
  they are bound to, the level of the log, and the settings of the tracer (\<open>pkg/tracing/bootstrap.go\<close>).  The libraries cobra,
  viper and zap are left out; what viper answers when neither a flag nor a variable is given is
  written down as \<open>with_defaults\<close>, which only samples use.
\<close>

section \<open>The flags\<close>

datatype flag = FlagString string | FlagBool bool | FlagInt int | FlagStringSlice "string list"

definition AddFlags :: "Env \<Rightarrow> (string \<times> flag) list res" where
  "AddFlags e = res_bind (DefaultJaegerMajorMinor e) (\<lambda>majorMinor. Inr
     [(''log-level'', FlagString ''info''),
      (''jaeger-version'', FlagString (DefaultJaeger e)),
      (''jaeger-agent-image'', FlagString ''jaegertracing/jaeger-agent''),
      (''jaeger-query-image'', FlagString ''jaegertracing/jaeger-query''),
      (''jaeger-collector-image'', FlagString ''jaegertracing/jaeger-collector''),
      (''jaeger-ingester-image'', FlagString ''jaegertracing/jaeger-ingester''),
      (''jaeger-all-in-one-image'', FlagString ''jaegertracing/all-in-one''),
      (''jaeger-cassandra-schema-image'', FlagString ''jaegertracing/jaeger-cassandra-schema''),
      (''jaeger-spark-dependencies-image'', FlagString ''ghcr.io/jaegertracing/spark-dependencies/spark-dependencies''),
      (''jaeger-es-index-cleaner-image'', FlagString ''jaegertracing/jaeger-es-index-cleaner''),
      (''jaeger-es-rollover-image'', FlagString ''jaegertracing/jaeger-es-rollover''),
      (FlagOpenShiftOauthProxyImage, FlagString ''quay.io/openshift/origin-oauth-proxy:4.14''),
      (''openshift-oauth-proxy-imagestream-ns'', FlagString []),
      (''openshift-oauth-proxy-imagestream-name'', FlagString []),
      (FlagPlatform, FlagString ''auto-detect''),
      (FlagESProvision, FlagString ''auto''),
      (FlagKafkaProvision, FlagString ''auto''),
      (''kafka-provisioning-minimal'', FlagBool False),
      (''secure-listen-address'', FlagString []),
      (''health-probe-bind-address'', FlagString '':8081''),
      (''webhook-bind-port'', FlagInt 9443),
      (''tls-min-version'', FlagString ''VersionTLS12''),
      (''tls-cipher-suites'', FlagStringSlice []),
      (''leader-elect'', FlagBool False),
      (''documentation-url'', FlagString (''https://www.jaegertracing.io/docs/'' @ majorMinor))])"

definition bound_variables :: "(string \<times> string) list" where
  "bound_variables =
     [(''jaeger-agent-image'', ''RELATED_IMAGE_JAEGER_AGENT''),
      (''jaeger-query-image'', ''RELATED_IMAGE_JAEGER_QUERY''),
      (''jaeger-collector-image'', ''RELATED_IMAGE_JAEGER_COLLECTOR''),
      (''jaeger-ingester-image'', ''RELATED_IMAGE_JAEGER_INGESTER''),
      (''jaeger-all-in-one-image'', ''RELATED_IMAGE_JAEGER_ALL_IN_ONE''),
      (''jaeger-cassandra-schema-image'', ''RELATED_IMAGE_CASSANDRA_SCHEMA''),
      (''jaeger-spark-dependencies-image'', ''RELATED_IMAGE_SPARK_DEPENDENCIES''),
      (''jaeger-es-index-cleaner-image'', ''RELATED_IMAGE_JAEGER_ES_INDEX_CLEANER''),
      (''jaeger-es-rollover-image'', ''RELATED_IMAGE_JAEGER_ES_ROLLOVER''),
      (FlagOpenShiftOauthProxyImage, ''RELATED_IMAGE_OPENSHIFT_OAUTH_PROXY'')]"

definition NewStartCommand :: "Env \<Rightarrow> (string \<times> flag) list res" where
  "NewStartCommand e = res_bind (AddFlags e) (\<lambda>flags. Inr (flags @
     [(''metrics-host'', FlagString ''0.0.0.0''),
      (''metrics-port'', FlagInt 8383),
      (''jaeger-agent-hostport'', FlagString ''localhost:6831''),
      (''tracing-enabled'', FlagBool False)]))"

text \<open>The operator as it is configured by the defaults alone.\<close>

definition with_defaults :: "(string \<times> flag) list \<Rightarrow> Env \<Rightarrow> Env" where
  "with_defaults flags e = e\<lparr>
     viper_GetString := (\<lambda>k. case map_of flags k of
        Some (FlagString v) \<Rightarrow> v | Some (FlagBool b) \<Rightarrow> FormatBool b | Some (FlagInt n) \<Rightarrow> Itoa n | _ \<Rightarrow> []),
     viper_GetBool := (\<lambda>k. map_of flags k = Some (FlagBool True)), viper_IsSet := (\<lambda>k. False)\<rparr>"

section \<open>The log and the tracer\<close>

datatype Level = DebugLevel | InfoLevel | WarnLevel | ErrorLevel | PanicLevel | FatalLevel

text \<open>A level that the switch does not know, such as the documented \<open>trace\<close>, is the zero value, which is \<open>InfoLevel\<close>.\<close>

definition setLogLevel :: "Env \<Rightarrow> Level" where
  "setLogLevel e =
     (let l = ToLower (viper_GetString e ''log-level'')
      in if l = ''panic'' then PanicLevel else if l = ''fatal'' then FatalLevel else if l = ''error'' then ErrorLevel
         else if l = ''warn'' \<or> l = ''warning'' then WarnLevel else if l = ''info'' then InfoLevel
         else if l = ''debug'' then DebugLevel else InfoLevel)"

text \<open>The tracer: the endpoint of the processor of the spans, a package variable that stays nil until an exporter could be
  made, and what the current provider was made of.  The outcome of making the exporter is an argument.\<close>

type_synonym endpoint = "string \<times> string option"

record Tracer =
  processor :: "endpoint option"
  provider :: "(endpoint \<times> (string \<times> string) list) option"

definition buildSpanProcessor :: "goerr option \<Rightarrow> Env \<Rightarrow> endpoint res" where
  "buildSpanProcessor made e =
     (let hostPort = Split (CHR '':'') (viper_GetString e ''jaeger-agent-hostport'');
          endpoint = (if length hostPort \<ge> 2 then (hostPort ! 0, Some (hostPort ! 1)) else (hostPort ! 0, None))
      in case made of Some err \<Rightarrow> Inl err | None \<Rightarrow> Inr endpoint)"

definition buildJaegerExporter :: "Env \<Rightarrow> string \<Rightarrow> string \<Rightarrow> Tracer \<Rightarrow> Tracer" where
  "buildJaegerExporter e namespace instanceID t =
     (let attr = [(''service.name'', ''jaeger-operator''), (''service.version'', ldflag_version e), (''service.namespace'', namespace)] @
            (if instanceID \<noteq> [] then [(''service.instance.id'', instanceID)] else [])
      in case processor t of None \<Rightarrow> t | Some p \<Rightarrow> t\<lparr>provider := Some (p, attr)\<rparr>)"

definition tracing_Bootstrap :: "goerr option \<Rightarrow> Env \<Rightarrow> string \<Rightarrow> Tracer \<Rightarrow> Tracer" where
  "tracing_Bootstrap made e namespace t =
     (if viper_GetBool e ''tracing-enabled''
      then (case buildSpanProcessor made e of Inl err \<Rightarrow> t | Inr p \<Rightarrow> buildJaegerExporter e namespace [] (t\<lparr>processor := Some p\<rparr>))
      else t)"

definition SetInstanceID :: "Env \<Rightarrow> string \<Rightarrow> Tracer \<Rightarrow> Tracer" where
  "SetInstanceID e namespace t =
     (if viper_GetBool e ''tracing-enabled'' then buildJaegerExporter e namespace (viper_GetString e ConfigIdentity) t else t)"

section \<open>Properties\<close>

lemma NewStartCommand_flags:
  assumes "DefaultJaegerMajorMinor e = Inr majorMinor"
  obtains flags where "NewStartCommand e = Inr flags" "distinct (map fst flags)" "fst ` set bound_variables \<subseteq> fst ` set flags"
    "map_of flags FlagKafkaProvision = Some (FlagString ''auto'')"
  using assms by (simp add: NewStartCommand_def AddFlags_def bound_variables_def)

text \<open>Every image that can be replaced by a variable has a default, and all but the OAuth proxy, whose tag is part of it, get the
  version of Jaeger that the operator was built for.\<close>

lemma default_images:
  assumes "NewStartCommand e = Inr flags" "(param, var) \<in> set bound_variables"
  shows "viper_GetString (with_defaults flags e) param \<noteq> [] \<and> (param \<noteq> FlagOpenShiftOauthProxyImage \<longrightarrow>
    ImageName (with_defaults flags e) [] param = viper_GetString (with_defaults flags e) param @ '':'' @ DefaultJaeger e)"
proof -
  obtain mm where "DefaultJaegerMajorMinor e = Inr mm" using assms(1) by (auto simp: NewStartCommand_def AddFlags_def res_bind_Inr_iff)
  note flags = assms(1) [unfolded NewStartCommand_def AddFlags_def this res_bind.simps, simplified, symmetric]
  have d: "DefaultJaeger (with_defaults flags e) = DefaultJaeger e" by (simp add: with_defaults_def DefaultJaeger_def)
  have "list_all (\<lambda>(p, v). \<exists>i. map_of flags p = Some (FlagString i) \<and> i \<noteq> [] \<and> (p \<noteq> FlagOpenShiftOauthProxyImage \<longrightarrow> CHR '':'' \<notin> set i)) bound_variables"
    by (simp add: bound_variables_def flags)
  then obtain i where "map_of flags param = Some (FlagString i)" "i \<noteq> []" "param \<noteq> FlagOpenShiftOauthProxyImage \<longrightarrow> CHR '':'' \<notin> set i"
    using assms(2) by (auto simp: list_all_iff)
  moreover from this have "viper_GetString (with_defaults flags e) param = i" by (simp add: with_defaults_def)
  ultimately show ?thesis by (simp add: ImageName_def d)
qed

text \<open>The tracer of the start: with an endpoint of the usual form and an exporter, its spans carry the identity of the operator.\<close>

lemma traced_start:
  assumes "viper_GetBool e ''tracing-enabled''" "viper_GetString e ''jaeger-agent-hostport'' = host @ '':'' @ port"
    and "CHR '':'' \<notin> set host" "CHR '':'' \<notin> set port" "viper_GetString e ConfigIdentity = identity" "identity \<noteq> []"
  shows "provider (SetInstanceID e ns (tracing_Bootstrap None e ns t)) =
    Some ((host, Some port), [(''service.name'', ''jaeger-operator''), (''service.version'', ldflag_version e), (''service.namespace'', ns),
      (''service.instance.id'', identity)])"
proof -
  have "Split (CHR '':'') (host @ '':'' @ port) = [host, port]"
    using Split_append_sep [OF assms(3), of port] Split_single [OF assms(4)] by simp
  then have "buildSpanProcessor None e = Inr (host, Some port)" by (simp add: buildSpanProcessor_def assms(2))
  then show ?thesis using assms(1,5,6) by (simp add: SetInstanceID_def tracing_Bootstrap_def buildJaegerExporter_def)
qed

text \<open>Without an exporter there is no provider, and nothing is set up when tracing is off.\<close>

lemma untraced_start: "\<not> viper_GetBool e ''tracing-enabled'' \<or> made \<noteq> None \<Longrightarrow> processor t = None \<Longrightarrow>
    SetInstanceID e ns (tracing_Bootstrap made e ns t) = t"
  by (auto simp: SetInstanceID_def tracing_Bootstrap_def buildSpanProcessor_def buildJaegerExporter_def Let_def)

end
