(* ===== verification/Operator_Run.thy ===== *)
theory Operator_Run
  imports Convergence Operator_System Command_Flags
begin

text \<open>
  From the start of the operator to a running instance: the start leaves an empty cluster as it is and decides the
  configuration, the first reconciliation of an instance that a user creates claims it, and the second one deploys it.
\<close>

section \<open>The start on an empty cluster\<close>

lemma quiet_steps:
  "snd (detectCronjobsVersion world_discovery e w) = w" "snd (detectAutoscalingVersion world_discovery e w) = w"
  "snd (detectDefaultIngressClass world_discovery e w) = w" "snd (detectOAuthProxyImageStream world_discovery e w) = w"
  "snd (detectClusterRoles world_discovery e w) = w"
  by (simp_all add: detectCronjobsVersion_def detectAutoscalingVersion_def detectDefaultIngressClass_def detectOAuthProxyImageStream_def
      detectClusterRoles_def has_resource_def world_discovery_def Let_def split: list.split)

lemma quiet_answer: "AvailableAPIs world_discovery w = (Inr [], w)"
  by (simp add: AvailableAPIs_def world_discovery_def listenedGroups_def)

lemma quiet_poll: "snd (snd (autoDetectCapabilities world_discovery b e w)) = w"
proof -
  have f: "snd (first_run world_discovery apis e w) = w" for apis
  proof -
    obtain e1 where 1: "detectCronjobsVersion world_discovery (detectPlatform apis e) w = (e1, w)"
      using quiet_steps(1) by (metis prod.collapse)
    obtain e2 where 2: "detectAutoscalingVersion world_discovery e1 w = (e2, w)" using quiet_steps(2) by (metis prod.collapse)
    show ?thesis by (simp add: first_run_def 1 2 quiet_steps(3))
  qed
  obtain e2 where 2: "(if ranOnce b then (e, w) else first_run world_discovery [] e w) = (e2, w)"
    using f [of "[]"] by (metis prod.collapse snd_conv)
  obtain e3 where 3: "detectOAuthProxyImageStream world_discovery e2 w = (e3, w)" using quiet_steps(4) by (metis prod.collapse)
  show ?thesis by (simp add: autoDetectCapabilities_def quiet_answer 2 3 quiet_steps(5))
qed

lemma no_deployments:
  assumes "w_objs w = []"
  shows "deployments_in world_client ns w = ([], w)" "snd (instances_in world_client ns w) = w"
proof -
  show "deployments_in world_client ns w = ([], w)"
    using assms by (simp add: deployments_in_def world_client_def on_objs_def mem_client_def mem_objs_def map_filter_def)
  show "snd (instances_in world_client ns w) = w" by (simp add: instances_in_def world_client_def)
qed

lemma quiet_cleaning:
  assumes "w_objs w = []"
  shows "cleanDeployments e world_client w = w"
proof -
  have "\<exists>names. collect_watched world_client nss w = (([], names), w)" for nss
  proof (induction nss)
    case (Cons ns nss)
    then obtain names where "collect_watched world_client nss w = (([], names), w)" by blast
    moreover obtain js where "instances_in world_client ns w = (js, w)" using no_deployments(2) [OF assms] by (metis prod.collapse)
    ultimately show ?case by (simp add: no_deployments(1) [OF assms])
  qed simp
  then obtain names where "collect_watched world_client
      (if viper_GetString e ConfigWatchNamespace \<noteq> WatchAllNamespaces then map Some (Split (CHR '','') (viper_GetString e ConfigWatchNamespace)) else [None]) w
      = (([], names), w)" by blast
  then show ?thesis by (simp add: cleanDeployments_def)
qed

lemma quiet_upgrades:
  assumes "w_jaegers w = []"
  shows "performUpgrades V e world_client w = w"
proof -
  have "list_namespaces world_client ls nss [] w = (Inr [], w)" for ls nss
    by (induction nss) (simp_all add: world_client_def assms)
  moreover have "cl_ListJaegers world_client None ls w = (Inr [], w)" for ls by (simp add: world_client_def assms)
  ultimately show ?thesis by (simp add: performUpgrades_def ManagedInstances_def Let_def)
qed

lemma started_empty:
  assumes "w_objs w = []" "w_jaegers w = []" "viper_GetString e FlagKafkaProvision = ''auto''"
  shows "op_Cluster (started V m world_client world_discovery skip e w) = w" 
    and "\<not> IsESOperatorIntegrationEnabled (op_Env (started V m world_client world_discovery skip e w))"
    and "\<not> IsKafkaOperatorIntegrationEnabled (op_Env (started V m world_client world_discovery skip e w))"
proof -
  let ?op = "started V m world_client world_discovery skip e w"
  let ?e1 = "setOperatorScope (case os_LookupEnv m ''WATCH_NAMESPACE'' of None \<Rightarrow> [] | Some ns \<Rightarrow> ns) (buildIdentity m (getNamespace m) e)"
  obtain b e2 where 1: "autoDetectCapabilities world_discovery (WithClients ?e1) ?e1 w = (b, e2, w)"
    using quiet_poll [of "WithClients ?e1" ?e1 w] by (metis prod.collapse)
  have op: "?op = \<lparr>op_Background = b, op_Env = viper_SetBool ''enable-namespace-controller'' True e2, op_Cluster = w\<rparr>"
    using 1 by (simp add: started_def bootstrap_def quiet_cleaning assms quiet_upgrades detectNamespacePermissions_def Let_def)
  then show "op_Cluster ?op = w" by simp
  have "viper_GetString ?e1 FlagKafkaProvision = ''auto''"
    using assms(3) by (simp add: setOperatorScope_def buildIdentity_def viper_Set_def Let_def)
  then have "integrations e2 = (snd (0::nat, GetPlatform e2), ESOperatorIntegrationNo, KafkaOperatorIntegrationNo)"
    using poll_outcome [OF 1]
    by (auto simp: decided_def quiet_answer WithClients_def IsElasticsearchOperatorAvailable_def isKafkaOperatorAvailable_def integrations_def)
  then show "\<not> IsESOperatorIntegrationEnabled (op_Env ?op)" "\<not> IsKafkaOperatorIntegrationEnabled (op_Env ?op)"
    by (simp_all add: op integrations_def IsESOperatorIntegrationEnabled_def IsKafkaOperatorIntegrationEnabled_def viper_SetBool_def
        GetESPIntegration_def GetKafkaIntegration_def)
qed

section \<open>An instance that a user creates\<close>

text \<open>The instance with the label of the operator that claims it.\<close>

definition claimed_by :: "Env \<Rightarrow> Jaeger \<Rightarrow> Jaeger" where
  "claimed_by e j = j\<lparr>j_Meta := (j_Meta j)\<lparr>om_Labels :=
     Some (AList.update LabelOperatedBy (viper_GetString e ConfigIdentity) (entries (om_Labels (j_Meta j))))\<rparr>\<rparr>"

lemma quiet_sync:
  assumes "w_objs w = []"
  shows "syncOnJaegerChanges e world_client name w = (None, w)"
proof -
  have l: "cl_List world_client k ns ls w = (Inr [], w)" for k ns ls
    using assms by (simp add: world_client_def on_objs_def mem_client_def mem_objs_def)
  have "list_deployments world_client nss [] w = (Inr [], w)" for nss by (induction nss) (simp_all add: l map_filter_def)
  then have "watched_deployments e world_client w = (Inr [], w)" by (simp add: watched_deployments_def Let_def l map_filter_def)
  then show ?thesis by (simp add: syncOnJaegerChanges_def)
qed

lemma reconcile_known:
  assumes "w_objs w = []" "w_jaegers w = [j]"
  shows "Reconcile V e world_client sys Intn (j_Namespace j) (j_Name j) w = reconcile_instance V e world_client sys Intn j w"
proof -
  have "cl_GetJaeger world_client (j_Namespace j) (j_Name j) w = (Inr j, w)" using assms(2) by (simp add: world_client_def)
  then show ?thesis by (simp add: Reconcile_def andthen_def quiet_sync [OF assms(1)])
qed

lemma claiming:
  assumes "w_objs w = []" "w_jaegers w = [j]" "validate j = None" "mget (om_Labels (j_Meta j)) LabelOperatedBy = None"
  shows "Reconcile V e world_client sys Intn (j_Namespace j) (j_Name j) w = (None, w\<lparr>w_jaegers := [claimed_by e j]\<rparr>)"
proof -
  have "same_jaeger (claimed_by e j) j" by (simp add: same_jaeger_def claimed_by_def)
  then have "put_jaeger (claimed_by e j) w = (Inr (claimed_by e j), w\<lparr>w_jaegers := [claimed_by e j]\<rparr>)" by (simp add: put_jaeger_def assms(2))
  then have "claim_instance e world_client j w = (None, w\<lparr>w_jaegers := [claimed_by e j]\<rparr>)"
    by (simp add: claim_instance_def world_client_def claimed_by_def)
  then show ?thesis by (simp add: reconcile_known [OF assms(1,2)] reconcile_instance_def assms(3,4))
qed


text \<open>The operator with the defaults of its command line.\<close>

definition sample_flags :: Env where
  "sample_flags = with_defaults (projr (NewStartCommand sample_env)) sample_env"

lemma sample_flags_kafka: "viper_GetString sample_flags FlagKafkaProvision = ''auto''"
proof -
  have "DefaultJaegerMajorMinor sample_env = Inr ''1.30''" by (simp add: DefaultJaegerMajorMinor_def DefaultJaeger_def sample_env_def)
  then show ?thesis unfolding sample_flags_def
    by (rule NewStartCommand_flags) (simp add: with_defaults_def)
qed

definition sample_created :: Jaeger where
  "sample_created = sample_new\<lparr>j_Meta := (j_Meta sample_new)\<lparr>om_Labels := None\<rparr>\<rparr>"

lemma sample_created_suitable:
  "mget (om_Labels (j_Meta sample_created)) LabelOperatedBy = None" "j_Version sample_created = []" "validate sample_created = None"
  "no_jobs (st_Type (j_Storage sample_created))" "ui_usable (ui_map (js_UIOptions (j_Spec sample_created)))"
  "CHR ''.'' \<notin> set (j_Namespace sample_created)" "label_value (j_Name sample_created)" "list_all unreserved (component_blocks (j_Spec sample_created))"
  using sample_new_suitable sample_new_named by (simp_all add: sample_created_def validate_def)


end
