(* ===== verification/Spec2Isabelle.thy ===== *)
theory Spec2Isabelle
  imports ES_Certificates Autodetect Controller_Properties Instance_Metrics Operator_Run
begin

text \<open>
  A verification development for the Jaeger operator.

  The program.  The operator watches \<open>Jaeger\<close> custom resources and keeps the Kubernetes objects of
  each instance (deployments, services, config maps, jobs and so on) as its specification asks.  One
  reconciliation (\<open>pkg/controller/jaeger\<close>) reads the instance, normalises it and chooses a strategy
  (\<open>pkg/strategy\<close>), which builds the desired objects; it upgrades the instance (\<open>pkg/upgrade\<close>),
  compares the desired with the existing objects (\<open>pkg/inventory\<close>), applies the differences through the
  API client, and stores the instance.  Next to it work the webhooks of the instances and of the deployments, the
  controllers of the namespaces and of the Elasticsearch resources, the detection of the
  capabilities of the cluster and the cleaning of sidecars.

  Theories and sources.
  \<^item> The language: \<open>Go_Base\<close> (strings, nil maps, errors and panics as values of \<open>goerr\<close>, the library of generic lemmas on
    maps), \<open>Go_Strconv\<close>, \<open>Go_Json\<close> (values of type \<open>interface{}\<close>, encoding/json), \<open>Go_Time\<close> (durations of 64 bits and floating
    point rounding).
  \<^item> The data: \<open>K8s_Types\<close> (the Kubernetes objects), \<open>Jaeger_Types\<close> (\<open>apis/v1/jaeger_types.go\<close>), \<open>Jaeger_Options\<close>
    (\<open>options.go\<close>, \<open>freeform.go\<close>), \<open>Operator_Config\<close> (\<open>pkg/autodetect/operatorconfig.go\<close>, \<open>pkg/version\<close>; the viper settings are the record
    \<open>Env\<close>), \<open>Util\<close> (\<open>pkg/util\<close>).
  \<^item> The cluster: \<open>Cluster\<close> is the API client as a record of functions on a state, with the loops that
    wait for a condition; \<open>Inventory\<close> and \<open>Apply\<close> compare and apply; \<open>Upgrade\<close> has the upgrade steps.
  \<^item> The objects: \<open>Accounts\<close>, \<open>Services\<close>, \<open>Pod_Config\<close> (\<open>pkg/config\<close>), \<open>Inject\<close> (sidecar and OAuth proxy), \<open>Deployments\<close>,
    \<open>Query_Access\<close> (ingress and route), \<open>Cron_Jobs\<close>, \<open>Storage_Jobs\<close> and \<open>ES_Storage\<close> (\<open>pkg/storage\<close>), \<open>Normalize\<close> and \<open>Strategies\<close>
    (\<open>pkg/strategy\<close>, \<open>pkg/kafka\<close>).
  \<^item> The processes: \<open>Controller\<close> (\<open>jaeger_controller.go\<close>, \<open>configmap.go\<close>), \<open>Jaeger_Webhook\<close>, \<open>Sidecar_Control\<close> (the webhook of the
    deployments, the controllers of namespaces and of Elasticsearch, \<open>pkg/autoclean\<close>), \<open>Autodetect\<close>, \<open>Instance_Metrics\<close> (\<open>pkg/metrics\<close>)
    and \<open>Operator_Start\<close> and \<open>Command_Flags\<close> (\<open>pkg/cmd\<close>, \<open>pkg/tracing\<close>).
  \<^item> Properties that span these: \<open>Deployment_Wiring\<close>, \<open>Inject_Stability\<close>, \<open>ES_Certificates\<close>, \<open>Strategy_Stability\<close>,
    \<open>Strategy_Properties\<close>, \<open>Strategy_Ownership\<close>, \<open>Isolation\<close>, \<open>First_Reconciliation\<close>, \<open>Convergence\<close>, \<open>Controller_Properties\<close>,
    \<open>Operator_System\<close> and \<open>Operator_Run\<close>.

  How the code corresponds.  A function of the source is a definition of the same name; a method takes its
  receiver as an argument; an operation on the cluster is a function from the state to a result and the
  state after it.  Errors and panics are results; a function that fails keeps what it had changed before.  Values that
  Go shares through pointers and maps are passed explicitly, and where such sharing is
  visible (the copy of the instance in \<open>Reconcile\<close>, the labels of the query deployment in the streaming
  strategy, the annotations of the query service) it is written out.

  What the lemmas show.
  \<^item> Every object of a strategy lies in the namespace of its instance, carries the labels by which it is listed again and
    is owned by the instance (\<open>Strategy_Ownership\<close>); applying makes the cluster agree with the desired objects and
    nothing more (\<open>Apply\<close>, by the inventories of \<open>Inventory\<close>); a reconciliation
    leaves everything else alone whatever its outcome (\<open>Isolation\<close>); and so does the operator as a whole, in every state that its
    controllers, webhooks and background processes reach from its start (\<open>Operator_System\<close>).
  \<^item> These meet in whole reconciliations: one that reports no error leaves exactly the objects of the strategy and those of others,
    because the steps for the different kinds do not disturb each other (\<open>Convergence\<close>); and the first one of an instance on an
    empty cluster reports none (\<open>First_Reconciliation\<close>), so that an operator which is started there claims and deploys what a user
    creates (\<open>Operator_Run\<close>).
  \<^item> Choosing a strategy returns and settles the instance after one round (\<open>Strategy_Properties\<close>); injecting a sidecar settles
    the deployment (\<open>Inject_Stability\<close>, \<open>Controller_Properties\<close>); upgrades do not depend on the path and are
    idempotent (\<open>Upgrade\<close>); certificates survive a restart (\<open>ES_Certificates\<close>).
  \<^item> The pods find their volumes, config maps and accounts, the services find their pods and ports (\<open>Deployment_Wiring\<close>,
    \<open>Accounts\<close>, \<open>Query_Access\<close>); options, durations and resources are read back as they were written.
  \<^item> Some theorems state behaviour that the code hardly means to have: bindings of namesakes that are deleted, config maps that leak,
    sidecars that are all removed after one failed request, panics on deployments without annotations.

  Contracts.  The laws of the API server are the locale \<open>api_server\<close>, extended in \<open>isolated_server\<close> by the frame laws of \<open>observed_server\<close>, which
  \<open>exact_server\<close> states for the absent objects as well, and in \<open>operator_server\<close>; they are interpreted on a cluster in memory.  The locales \<open>inventory_kind\<close> and \<open>convergent_kind\<close> are
  interpreted for every kind of object of \<open>pkg/inventory\<close>; \<open>dedup\<close>, \<open>pod_patch\<close> and \<open>typed_setting\<close> for the functions
  that share these contracts; \<open>semver\<close> and \<open>file_system\<close> state what is used of the semantic versions and of the operating system.

  Bounds.  Integers of 32 and 64 bits are words.  A loop that waits for the cluster makes a number of attempts that the client
  gives (\<open>cl_Attempts\<close>, at least one), and ends with an error after the last; the theorems about waiting hold for every such
  number.  The tickers of the background processes are sequences of steps of any length.  All other functions are
  total by structural recursion or by a measure.

  Not modelled.  Logging, the spans and the exporters of traces and metrics, the set-up of the manager of controller-runtime, the
  TLS settings of its servers, the parsing of the command line and the reading of the configuration file are calls of
  libraries; of the flags there are the names, the defaults and the variables.  Generated deep copies are the identity on values.  The semantic version library, the API
  client, the operating system, the discovery client, the random numbers for cookie secrets and the generation script of the
  certificates are parameters.  Fields of Kubernetes objects that the operator only passes on are opaque.  The end-to-end
  test programs are not part of the operator.
\<close>

end
